(* ===== verification/Prelude.thy ===== *)
theory Prelude
  imports Main "HOL-Library.AList" "HOL-Library.Word" "HOL-Library.List_Lexorder" "HOL-Library.Char_ord" "HOL-Library.Multiset"
begin

text \<open>
  What every other theory shares: Go's fallible results (a value, an error value or a run-time
  panic) and their sequencing, slice indexing that panics out of range, Go maps as association
  lists with distinct keys, the fixed-width integer types, and the collections of rewrite rules
  the component proofs use.

  A Go map is an association list: its order stands for one order in which \<open>range\<close> may visit
  the entries, so a loop over a map is a loop over that list, and a result that does not depend
  on Go's random iteration order is proved equal for every permutation of it.
\<close>

named_theorems outcome_simps "sequencing of fallible Go calls"
named_theorems map_simps "Go maps as association lists"

type_synonym u8 = "8 word"
type_synonym u16 = "16 word"
type_synonym u64 = "64 word"

text \<open>Go's \<open>uint\<close> and \<open>int\<close> are 64 bits wide on the platforms the extension is built for.\<close>

type_synonym guint = "64 word"

section \<open>Errors, panics and results\<close>

text \<open>
  An error value is the call that made it: \<open>Errorf\<close> is \<open>fmt.Errorf\<close> with its format and
  arguments, \<open>NumError\<close> the error of package strconv, \<open>JSONError\<close> one of encoding/json.
\<close>

datatype panic = IndexOutOfRange nat nat | TypeAssertion | NilDereference | OtherPanic string

datatype num_kind = ErrSyntax | ErrRange

datatype json_kind = SyntaxError | UnmarshalTypeError | UnsupportedValue

datatype go_err =
    Errorf string "err_arg list"
  | NumError string string num_kind
  | JSONError json_kind
and err_arg = ArgStr string | ArgInt int | ArgErr go_err | ArgPanic panic

datatype 'a outcome = Ok 'a | Err go_err | Panic panic

fun and_then :: "'a outcome \<Rightarrow> ('a \<Rightarrow> 'b outcome) \<Rightarrow> 'b outcome" where
  "and_then (Ok x) f = f x"
| "and_then (Err e) f = Err e"
| "and_then (Panic p) f = Panic p"

text \<open>\<open>v, err := f(); if err != nil { return ..., fmt.Errorf(msg, err) }\<close>\<close>

fun wrap_err :: "string \<Rightarrow> 'a outcome \<Rightarrow> 'a outcome" where
  "wrap_err msg (Ok x) = Ok x"
| "wrap_err msg (Err e) = Err (Errorf msg [ArgErr e])"
| "wrap_err msg (Panic p) = Panic p"

text \<open>A Go pair \<open>(v, err)\<close> where the caller looks at the error first.\<close>

definition of_pair :: "'a \<times> go_err option \<Rightarrow> 'a outcome" where
  "of_pair r = (case snd r of None \<Rightarrow> Ok (fst r) | Some e \<Rightarrow> Err e)"

definition is_ok :: "'a outcome \<Rightarrow> bool" where
  "is_ok r = (case r of Ok _ \<Rightarrow> True | _ \<Rightarrow> False)"

definition panics :: "'a outcome \<Rightarrow> bool" where
  "panics r = (case r of Panic _ \<Rightarrow> True | _ \<Rightarrow> False)"

fun map_ok :: "('a \<Rightarrow> 'b) \<Rightarrow> 'a outcome \<Rightarrow> 'b outcome" where
  "map_ok f (Ok x) = Ok (f x)"
| "map_ok f (Err e) = Err e"
| "map_ok f (Panic p) = Panic p"

lemma and_then_Ok_iff [outcome_simps]:
  "and_then m f = Ok y \<longleftrightarrow> (\<exists>x. m = Ok x \<and> f x = Ok y)"
  by (cases m) auto

lemma and_then_Err_iff:
  "and_then m f = Err e \<longleftrightarrow> m = Err e \<or> (\<exists>x. m = Ok x \<and> f x = Err e)"
  by (cases m) auto

lemma and_then_Panic_iff:
  "and_then m f = Panic p \<longleftrightarrow> m = Panic p \<or> (\<exists>x. m = Ok x \<and> f x = Panic p)"
  by (cases m) auto

lemma wrap_err_Ok_iff [outcome_simps]: "wrap_err msg m = Ok x \<longleftrightarrow> m = Ok x"
  by (cases m) auto

lemma wrap_err_Panic_iff [simp]: "wrap_err msg m = Panic p \<longleftrightarrow> m = Panic p"
  by (cases m) auto

lemma map_ok_Ok_iff [outcome_simps]: "map_ok f m = Ok y \<longleftrightarrow> (\<exists>x. m = Ok x \<and> y = f x)"
  by (cases m) auto

lemma of_pair_Ok_iff [outcome_simps]: "of_pair r = Ok x \<longleftrightarrow> r = (x, None)"
  by (cases r) (auto simp: of_pair_def split: option.splits)

lemma of_pair_not_Panic [simp]: "of_pair r \<noteq> Panic p" "\<not> panics (of_pair r)"
  by (auto simp: of_pair_def panics_def split: option.splits)

lemma panics_simps [simp]:
  "\<not> panics (Ok x)" "\<not> panics (Err e)" "panics (Panic p)"
  by (simp_all add: panics_def)

lemma is_ok_simps [simp]:
  "is_ok (Ok x)" "\<not> is_ok (Err e)" "\<not> is_ok (Panic p)"
  by (simp_all add: is_ok_def)

lemma panics_and_then:
  "panics (and_then m f) \<longleftrightarrow> panics m \<or> (\<exists>x. m = Ok x \<and> panics (f x))"
  by (cases m) auto

lemma panics_wrap_err [simp]: "panics (wrap_err msg m) = panics m"
  by (cases m) auto

lemma not_panics_and_thenI:
  "\<not> panics m \<Longrightarrow> (\<And>x. m = Ok x \<Longrightarrow> \<not> panics (f x)) \<Longrightarrow> \<not> panics (and_then m f)"
  by (auto simp: panics_and_then)

section \<open>Slices\<close>

definition idx :: "'a list \<Rightarrow> nat \<Rightarrow> 'a outcome" where
  "idx xs i = (if i < length xs then Ok (xs ! i) else Panic (IndexOutOfRange i (length xs)))"

lemma idx_Ok_iff [outcome_simps]: "idx xs i = Ok x \<longleftrightarrow> i < length xs \<and> x = xs ! i"
  by (auto simp: idx_def)

lemma idx_in_range [simp]: "i < length xs \<Longrightarrow> idx xs i = Ok (xs ! i)"
  by (simp add: idx_def)

lemma panics_idx [simp]: "panics (idx xs i) \<longleftrightarrow> length xs \<le> i"
  by (simp add: idx_def)

section \<open>Maps\<close>

text \<open>
  \<open>m[k] = v\<close> is \<open>AList.update k v m\<close>, \<open>v, ok := m[k]\<close> is \<open>map_of m k\<close>. \<open>modify_at\<close> is the
  update through a pointer of Go's \<open>if r, ok := m[k]; ok { r.f = ... }\<close>.
\<close>

definition modify_at :: "'k \<Rightarrow> ('v \<Rightarrow> 'v) \<Rightarrow> ('k \<times> 'v) list \<Rightarrow> ('k \<times> 'v) list" where
  "modify_at k f m = (case map_of m k of None \<Rightarrow> m | Some v \<Rightarrow> AList.update k (f v) m)"

definition wf_map :: "('k \<times> 'v) list \<Rightarrow> bool" where
  "wf_map m = distinct (map fst m)"

lemma wf_map_simps [simp]: "wf_map []"
  by (simp add: wf_map_def)

lemma wf_map_update [simp, intro]: "wf_map m \<Longrightarrow> wf_map (AList.update k v m)"
  by (simp add: wf_map_def distinct_update)

lemma wf_map_modify_at [simp, intro]: "wf_map m \<Longrightarrow> wf_map (modify_at k f m)"
  by (simp add: modify_at_def split: option.splits)

lemma map_of_modify_at [map_simps]:
  "map_of (modify_at k f m) = (\<lambda>j. if j = k then map_option f (map_of m k) else map_of m j)"
  by (auto simp: modify_at_def update_conv fun_eq_iff split: option.splits)

lemma fst_modify_at [simp]: "fst ` set (modify_at k f m) = fst ` set m"
proof (cases "map_of m k")
  case (Some v)
  then have "k \<in> fst ` set m" by (force dest: map_of_SomeD)
  with Some show ?thesis by (auto simp: modify_at_def dom_update)
qed (simp add: modify_at_def)

declare update_conv [map_simps]

lemma wf_map_Some_iff: "wf_map m \<Longrightarrow> map_of m k = Some v \<longleftrightarrow> (k, v) \<in> set m"
  by (simp add: wf_map_def)

text \<open>
  Replacing the value of a present key, or adding a fresh one, on the level of the entries.
\<close>

lemma set_update_wf:
  "wf_map m \<Longrightarrow> set (AList.update k v m) = insert (k, v) {e \<in> set m. fst e \<noteq> k}"
proof -
  assume wf: "wf_map m"
  then have wf': "wf_map (AList.update k v m)" by simp
  show ?thesis
  proof (rule set_eqI)
    fix e :: "'a \<times> 'b"
    obtain j w where e: "e = (j, w)" by (cases e)
    have "e \<in> set (AList.update k v m) \<longleftrightarrow> map_of (AList.update k v m) j = Some w"
      using wf_map_Some_iff [OF wf'] e by simp
    also have "\<dots> \<longleftrightarrow> (if j = k then w = v else map_of m j = Some w)"
      by (auto simp: update_conv)
    also have "\<dots> \<longleftrightarrow> e \<in> insert (k, v) {e \<in> set m. fst e \<noteq> k}"
      using wf_map_Some_iff [OF wf] e by auto
    finally show "e \<in> set (AList.update k v m) \<longleftrightarrow> e \<in> insert (k, v) {e \<in> set m. fst e \<noteq> k}" .
  qed
qed

lemma set_modify_at_wf:
  "wf_map m \<Longrightarrow> set (modify_at k f m) = (\<lambda>(j, w). (j, if j = k then f w else w)) ` set m"
proof -
  assume wf: "wf_map m"
  then have wf': "wf_map (modify_at k f m)" by simp
  show ?thesis
  proof (rule set_eqI)
    fix e :: "'a \<times> 'b"
    obtain j w where e: "e = (j, w)" by (cases e)
    have "e \<in> set (modify_at k f m) \<longleftrightarrow> map_of (modify_at k f m) j = Some w"
      using wf_map_Some_iff [OF wf'] e by simp
    also have "\<dots> \<longleftrightarrow> (\<exists>w'. map_of m j = Some w' \<and> w = (if j = k then f w' else w'))"
      by (auto simp: map_simps)
    also have "\<dots> \<longleftrightarrow> e \<in> (\<lambda>(j, w). (j, if j = k then f w else w)) ` set m"
      using wf_map_Some_iff [OF wf] e by (force simp: image_iff)
    finally show "e \<in> set (modify_at k f m) \<longleftrightarrow>
        e \<in> (\<lambda>(j, w). (j, if j = k then f w else w)) ` set m" .
  qed
qed

section \<open>Sorting by key\<close>

lemma wf_map_sort_unique:
  fixes m m' :: "('k :: linorder \<times> 'v) list"
  assumes "wf_map m" "wf_map m'" "set m = set m'"
  shows "sort_key fst m = sort_key fst m'"
proof -
  have inj: "inj_on fst (set m)" and d: "distinct m" "distinct m'"
    using assms by (auto simp: wf_map_def distinct_map)
  have "mset m = mset m'"
    using d assms(3) set_eq_iff_mset_eq_distinct by blast
  then show ?thesis
    using inj by (intro sort_key_inj_key_eq) simp_all
qed

end
