(* ===== verification/GoStrings.thy ===== *)
theory GoStrings
  imports Prelude
begin

text \<open>
  What the program uses of Go's packages strings and strconv, on byte strings (a Go string is a
  sequence of bytes, a \<open>char\<close> is a byte): trimming, splitting, replacing, and the conversions
  between numerals and integers or booleans, with the value Go returns beside an error.
\<close>

abbreviation byte :: "char \<Rightarrow> nat" where
  "byte c \<equiv> of_char c"

abbreviation dquote :: char where
  "dquote \<equiv> CHR 0x22"

section \<open>Package strings\<close>

definition has_prefix :: "string \<Rightarrow> string \<Rightarrow> bool" where
  "has_prefix p s = (take (length p) s = p)"

definition has_suffix :: "string \<Rightarrow> string \<Rightarrow> bool" where
  "has_suffix p s = (length p \<le> length s \<and> drop (length s - length p) s = p)"

definition trim_prefix :: "string \<Rightarrow> string \<Rightarrow> string" where
  "trim_prefix p s = (if has_prefix p s then drop (length p) s else s)"

definition trim_suffix :: "string \<Rightarrow> string \<Rightarrow> string" where
  "trim_suffix p s = (if has_suffix p s then take (length s - length p) s else s)"

text \<open>\<open>strings.Trim(s, cutset)\<close> for a cutset of one ASCII character.\<close>

definition trim_char :: "char \<Rightarrow> string \<Rightarrow> string" where
  "trim_char c s = rev (dropWhile (\<lambda>x. x = c) (rev (dropWhile (\<lambda>x. x = c) s)))"

definition trim_right_char :: "char \<Rightarrow> string \<Rightarrow> string" where
  "trim_right_char c s = rev (dropWhile (\<lambda>x. x = c) (rev s))"

text \<open>The UTF-8 encodings of the runes for which \<open>unicode.IsSpace\<close> holds.\<close>

definition space_runes :: "string list" where
  "space_runes =
     [[CHR 0x09], [CHR 0x0A], [CHR 0x0B], [CHR 0x0C], [CHR 0x0D], [CHR 0x20],
      [CHR 0xC2, CHR 0x85], [CHR 0xC2, CHR 0xA0], [CHR 0xE1, CHR 0x9A, CHR 0x80]]
     @ map (\<lambda>b. [CHR 0xE2, CHR 0x80, b])
         [CHR 0x80, CHR 0x81, CHR 0x82, CHR 0x83, CHR 0x84, CHR 0x85, CHR 0x86, CHR 0x87,
          CHR 0x88, CHR 0x89, CHR 0x8A, CHR 0xA8, CHR 0xA9, CHR 0xAF]
     @ [[CHR 0xE2, CHR 0x81, CHR 0x9F], [CHR 0xE3, CHR 0x80, CHR 0x80]]"

definition head_len :: "string list \<Rightarrow> string \<Rightarrow> nat" where
  "head_len rs s = (case find (\<lambda>r. has_prefix r s) rs of None \<Rightarrow> 0 | Some r \<Rightarrow> length r)"

function trim_left_runes :: "string list \<Rightarrow> string \<Rightarrow> string" where
  "trim_left_runes rs s =
     (if s = [] \<or> head_len rs s = 0 then s else trim_left_runes rs (drop (head_len rs s) s))"
  by pat_completeness auto
termination
  by (relation "measure (\<lambda>(rs, s). length s)") auto

declare trim_left_runes.simps [simp del]

definition trim_space :: "string \<Rightarrow> string" where
  "trim_space s =
     rev (trim_left_runes (map rev space_runes) (rev (trim_left_runes space_runes s)))"

text \<open>\<open>strings.Split(s, sep)\<close> for a separator of one character; never empty.\<close>

fun split_char :: "char \<Rightarrow> string \<Rightarrow> string list" where
  "split_char c [] = [[]]"
| "split_char c (x # xs) =
     (if x = c then [] # split_char c xs
      else case split_char c xs of [] \<Rightarrow> [[x]] | w # ws \<Rightarrow> (x # w) # ws)"

text \<open>\<open>strings.Cut\<close>: the text before and after the first occurrence of a separator.\<close>

fun cut :: "string \<Rightarrow> string \<Rightarrow> (string \<times> string) option" where
  "cut sep s =
     (if has_prefix sep s then Some ([], drop (length sep) s)
      else case s of [] \<Rightarrow> None
        | x # xs \<Rightarrow> map_option (\<lambda>(a, b). (x # a, b)) (cut sep xs))"

declare cut.simps [simp del]

text \<open>\<open>strings.SplitN(s, sep, n)\<close> for a non-empty separator and \<open>n > 0\<close>.\<close>

fun split_n :: "string \<Rightarrow> nat \<Rightarrow> string \<Rightarrow> string list" where
  "split_n sep 0 s = []"
| "split_n sep (Suc 0) s = [s]"
| "split_n sep (Suc (Suc n)) s =
     (case cut sep s of None \<Rightarrow> [s] | Some (a, b) \<Rightarrow> a # split_n sep (Suc n) b)"

text \<open>\<open>strings.ReplaceAll(s, old, new)\<close> for a non-empty \<open>old\<close>: left to right, no overlaps.\<close>

function replace_all :: "string \<Rightarrow> string \<Rightarrow> string \<Rightarrow> string" where
  "replace_all old new s =
     (if s = [] then []
      else if old \<noteq> [] \<and> has_prefix old s then new @ replace_all old new (drop (length old) s)
      else hd s # replace_all old new (tl s))"
  by pat_completeness auto
termination
  by (relation "measure (\<lambda>(old, new, s). length s)") (auto simp: has_prefix_def)

declare replace_all.simps [simp del]

text \<open>
  \<open>strings.ToUpper\<close> as far as a comparison with an ASCII string sees it: ASCII letters, and the
  two other runes whose upper case is an ASCII letter (U+0131 and U+017F). Every other byte of
  a multi-byte rune stays outside ASCII.
\<close>

definition upper_byte :: "char \<Rightarrow> char" where
  "upper_byte c = (if 97 \<le> byte c \<and> byte c \<le> 122 then char_of (byte c - 32) else c)"

fun to_upper :: "string \<Rightarrow> string" where
  "to_upper [] = []"
| "to_upper (x # xs) =
     (if x = CHR 0xC4 \<and> xs \<noteq> [] \<and> hd xs = CHR 0xB1 then CHR ''I'' # to_upper (tl xs)
      else if x = CHR 0xC5 \<and> xs \<noteq> [] \<and> hd xs = CHR 0xBF then CHR ''S'' # to_upper (tl xs)
      else upper_byte x # to_upper xs)"

fun join :: "string \<Rightarrow> string list \<Rightarrow> string" where
  "join sep [] = []"
| "join sep [x] = x"
| "join sep (x # y # ys) = x @ sep @ join sep (y # ys)"

section \<open>Package strconv: integers and booleans\<close>

definition is_digit :: "char \<Rightarrow> bool" where
  "is_digit c = (48 \<le> byte c \<and> byte c \<le> 57)"

definition digit_val :: "char \<Rightarrow> int" where
  "digit_val c = int (byte c) - 48"

text \<open>
  \<open>ParseUint(s, 10, 64)\<close>: the digit loop stops at the first bad character or at the first
  overflow, whichever comes first. The value is kept as an integer below \<open>2 ^ 64\<close>.
\<close>

fun uint_loop :: "string \<Rightarrow> int \<Rightarrow> int \<times> num_kind option" where
  "uint_loop [] n = (n, None)"
| "uint_loop (c # cs) n =
     (if \<not> is_digit c then (0, Some ErrSyntax)
      else if 10 * n + digit_val c \<ge> 2 ^ 64 then (2 ^ 64 - 1, Some ErrRange)
      else uint_loop cs (10 * n + digit_val c))"

definition parse_uint_raw :: "string \<Rightarrow> int \<times> num_kind option" where
  "parse_uint_raw s = (if s = [] then (0, Some ErrSyntax) else uint_loop s 0)"

definition parse_uint :: "string \<Rightarrow> u64 \<times> go_err option" where
  "parse_uint s = (case parse_uint_raw s of
     (n, k) \<Rightarrow> (of_int n, map_option (NumError ''ParseUint'' s) k))"

text \<open>\<open>ParseInt(s, 10, 64)\<close>; the result is the mathematical value of the int64.\<close>

definition parse_int_raw :: "string \<Rightarrow> int \<times> num_kind option" where
  "parse_int_raw s =
     (if s = [] then (0, Some ErrSyntax)
      else let neg = (hd s = CHR ''-'');
               ds = (if hd s = CHR ''+'' \<or> hd s = CHR ''-'' then tl s else s)
           in case parse_uint_raw ds of
                (un, Some ErrSyntax) \<Rightarrow> (0, Some ErrSyntax)
              | (un, k) \<Rightarrow>
                  (if \<not> neg \<and> un \<ge> 2 ^ 63 then (2 ^ 63 - 1, Some ErrRange)
                   else if neg \<and> un > 2 ^ 63 then (- (2 ^ 63), Some ErrRange)
                   else (if neg then - un else un, k)))"

definition parse_int :: "string \<Rightarrow> int \<times> go_err option" where
  "parse_int s = (case parse_int_raw s of
     (n, k) \<Rightarrow> (n, map_option (NumError ''ParseInt'' s) k))"

text \<open>\<open>Atoi\<close>: the same value; its errors carry its own name.\<close>

definition atoi :: "string \<Rightarrow> int \<times> go_err option" where
  "atoi s = (case parse_int_raw s of (n, k) \<Rightarrow> (n, map_option (NumError ''Atoi'' s) k))"

definition parse_bool :: "string \<Rightarrow> bool \<times> go_err option" where
  "parse_bool s =
     (if s \<in> {''1'', ''t'', ''T'', ''true'', ''TRUE'', ''True''} then (True, None)
      else if s \<in> {''0'', ''f'', ''F'', ''false'', ''FALSE'', ''False''} then (False, None)
      else (False, Some (NumError ''ParseBool'' s ErrSyntax)))"

definition digit_char :: "int \<Rightarrow> char" where
  "digit_char d = char_of (48 + d)"

function format_nonneg :: "int \<Rightarrow> string" where
  "format_nonneg n =
     (if n < 10 then [digit_char n] else format_nonneg (n div 10) @ [digit_char (n mod 10)])"
  by pat_completeness auto
termination
  by (relation "measure nat") auto

declare format_nonneg.simps [simp del]

text \<open>\<open>FormatUint(n, 10)\<close> and \<open>FormatInt(n, 10)\<close>.\<close>

definition format_int :: "int \<Rightarrow> string" where
  "format_int i = (if i < 0 then CHR ''-'' # format_nonneg (- i) else format_nonneg i)"

section \<open>Facts\<close>

lemma split_char_not_Nil [simp]: "split_char c s \<noteq> []"
  by (induction s) (auto split: list.splits)

lemma split_char_no_sep: "c \<notin> set s \<Longrightarrow> split_char c s = [s]"
  by (induction s) auto

lemma join_split_char: "join [c] (split_char c s) = s"
proof (induction s)
  case (Cons x xs)
  obtain w ws where ws: "split_char c xs = w # ws"
    using split_char_not_Nil [of c xs] by (cases "split_char c xs") auto
  with Cons show ?case by (cases ws) auto
qed simp

lemma split_char_Cons_sep:
  "c \<notin> set a \<Longrightarrow> split_char c (a @ c # b) = a # split_char c b"
  by (induction a) auto

lemma split_char_join:
  "ws \<noteq> [] \<Longrightarrow> \<forall>w \<in> set ws. c \<notin> set w \<Longrightarrow> split_char c (join [c] ws) = ws"
proof (induction "[c]" ws rule: join.induct)
  case (3 x y ys)
  then show ?case by (simp add: split_char_Cons_sep)
qed (simp_all add: split_char_no_sep)

lemma digit_cases:
  assumes "0 \<le> (d :: int)" "d < 10"
  obtains "d = 0" | "d = 1" | "d = 2" | "d = 3" | "d = 4" | "d = 5" | "d = 6" | "d = 7" | "d = 8"
    | "d = 9"
proof -
  from assms have "d = 0 \<or> d = 1 \<or> d = 2 \<or> d = 3 \<or> d = 4 \<or> d = 5 \<or> d = 6 \<or> d = 7 \<or> d = 8 \<or> d = 9"
    by presburger
  with that show thesis by blast
qed

lemma digit_char_digit [simp]:
  assumes "0 \<le> d" "d < 10"
  shows "is_digit (digit_char d)" "digit_val (digit_char d) = d"
  by (rule digit_cases [OF assms]; simp add: is_digit_def digit_val_def digit_char_def char_of_def)+

lemma format_nonneg_not_Nil [simp]: "format_nonneg n \<noteq> []"
  by (subst format_nonneg.simps) simp

lemma format_nonneg_digits: "0 \<le> n \<Longrightarrow> \<forall>c \<in> set (format_nonneg n). is_digit c"
proof (induction n rule: format_nonneg.induct)
  case (1 n)
  show ?case
  proof (cases "n < 10")
    case True
    with "1.prems" show ?thesis by (simp add: format_nonneg.simps [of n])
  next
    case False
    with "1.prems" have "\<forall>c \<in> set (format_nonneg (n div 10)). is_digit c" by (intro "1.IH") auto
    with False show ?thesis by (auto simp: format_nonneg.simps [of n])
  qed
qed

lemma uint_loop_append:
  "uint_loop a n = (m, None) \<Longrightarrow> uint_loop (a @ b) n = uint_loop b m"
  by (induction a arbitrary: n) (auto split: if_splits)

text \<open>Parsing what was formatted: the digit loop reads \<open>FormatUint\<close>'s output back.\<close>

lemma uint_loop_format_nonneg:
  "0 \<le> n \<Longrightarrow> n < 2 ^ 64 \<Longrightarrow> uint_loop (format_nonneg n) 0 = (n, None)"
proof (induction n rule: format_nonneg.induct)
  case (1 n)
  show ?case
  proof (cases "n < 10")
    case True
    with "1.prems" show ?thesis by (simp add: format_nonneg.simps [of n])
  next
    case False
    with "1.prems" have "uint_loop (format_nonneg (n div 10)) 0 = (n div 10, None)"
      by (intro "1.IH") auto
    moreover have "10 * (n div 10) + n mod 10 = n" by simp
    ultimately show ?thesis
      using False "1.prems" by (simp add: format_nonneg.simps [of n] uint_loop_append)
  qed
qed

lemma parse_uint_raw_format:
  "0 \<le> n \<Longrightarrow> n < 2 ^ 64 \<Longrightarrow> parse_uint_raw (format_nonneg n) = (n, None)"
  by (simp add: parse_uint_raw_def uint_loop_format_nonneg)

lemma digit_val_bounds: "is_digit c \<Longrightarrow> 0 \<le> digit_val c \<and> digit_val c \<le> 9"
  by (simp add: is_digit_def digit_val_def)

lemma uint_loop_range:
  "0 \<le> n \<Longrightarrow> n < 2 ^ 64 \<Longrightarrow> 0 \<le> fst (uint_loop s n) \<and> fst (uint_loop s n) < 2 ^ 64"
proof (induction s arbitrary: n)
  case (Cons c cs)
  show ?case
  proof (cases "is_digit c \<and> 10 * n + digit_val c < 2 ^ 64")
    case True
    then have "0 \<le> 10 * n + digit_val c" using Cons.prems digit_val_bounds [of c] by linarith
    with True Cons.IH [of "10 * n + digit_val c"] show ?thesis by simp
  next
    case False
    then show ?thesis by auto
  qed
qed simp

lemma digit_not_sign: "is_digit c \<Longrightarrow> c \<noteq> CHR ''-'' \<and> c \<noteq> CHR ''+''"
  by (auto simp: is_digit_def)

lemma parse_int_raw_format:
  assumes "- (2 ^ 63) \<le> n" "n < 2 ^ 63"
  shows "parse_int_raw (format_int n) = (n, None)"
proof (cases "n < 0")
  case True
  then have "parse_uint_raw (format_nonneg (- n)) = (- n, None)"
    using assms by (intro parse_uint_raw_format) auto
  with True assms show ?thesis by (simp add: parse_int_raw_def format_int_def)
next
  case False
  then have d: "is_digit (hd (format_nonneg n))"
    using format_nonneg_digits [of n] by (simp add: hd_in_set)
  from False have "parse_uint_raw (format_nonneg n) = (n, None)"
    using assms by (intro parse_uint_raw_format) auto
  with False assms digit_not_sign [OF d] show ?thesis by (simp add: parse_int_raw_def format_int_def)
qed

end
