(* ===== verification/GoFloat.thy ===== *)
theory GoFloat
  imports Complex_Main GoStrings
begin

text \<open>
  Go's float64 and float32 and \<open>strconv.ParseFloat\<close>. A finite number is the rational it stands
  for; negative zero, the infinities and NaN are constructors of their own. A float32 is a
  float64 whose value is representable in 24 bits, so both use one type. Rounding is to nearest,
  ties to even, with subnormals and overflow.

  A conversion from a float to an integer type is defined by the language only when the truncated
  value is in the range of that type. Out of range the result depends on the processor, so it is
  a parameter: a \<open>platform\<close> gives it for each integer type, and no property here assumes
  anything about it.
\<close>

datatype f64 = FNum rat | FNegZero | FPosInf | FNegInf | FNaN

type_synonym f32 = f64

section \<open>Rounding\<close>

function nbits :: "int \<Rightarrow> int" where
  "nbits n = (if n \<le> 0 then 0 else 1 + nbits (n div 2))"
  by pat_completeness auto
termination
  by (relation "measure nat") auto

declare nbits.simps [simp del]

text \<open>The \<open>k\<close> with \<open>2 ^ k \<le> q < 2 ^ (k + 1)\<close>, for positive \<open>q\<close>.\<close>

definition ilog2 :: "rat \<Rightarrow> int" where
  "ilog2 q = (case quotient_of q of (a, b) \<Rightarrow>
     let k = nbits a - nbits b
     in if 2 powi k \<le> q then k else k - 1)"

definition round_half_even :: "rat \<Rightarrow> int" where
  "round_half_even x =
     (let n = \<lfloor>x\<rfloor>; r = x - of_int n
      in if r < 1 / 2 then n else if 1 / 2 < r then n + 1 else if even n then n else n + 1)"

text \<open>A format: bits of precision, exponent of the least subnormal, exponent where infinity starts.\<close>

record float_fmt =
  prec :: int
  emin :: int
  elim :: int

definition binary64 :: float_fmt where
  "binary64 = \<lparr>prec = 53, emin = -1074, elim = 1024\<rparr>"

definition binary32 :: float_fmt where
  "binary32 = \<lparr>prec = 24, emin = -149, elim = 128\<rparr>"

definition round_pos :: "float_fmt \<Rightarrow> rat \<Rightarrow> rat" where
  "round_pos F q =
     (let e = max (emin F) (ilog2 q - prec F + 1)
      in of_int (round_half_even (q / 2 powi e)) * 2 powi e)"

text \<open>Round the number with sign \<open>neg\<close> and absolute value \<open>q\<close>.\<close>

definition round_abs :: "float_fmt \<Rightarrow> bool \<Rightarrow> rat \<Rightarrow> f64" where
  "round_abs F neg q =
     (let r = (if q = 0 then 0 else round_pos F q)
      in if r \<noteq> 0 \<and> elim F \<le> ilog2 r then (if neg then FNegInf else FPosInf)
         else if neg then (if r = 0 then FNegZero else FNum (- r)) else FNum r)"

definition round_rat :: "float_fmt \<Rightarrow> rat \<Rightarrow> f64" where
  "round_rat F q = round_abs F (q < 0) \<bar>q\<bar>"

section \<open>Comparison and arithmetic\<close>

fun rat_of :: "f64 \<Rightarrow> rat" where
  "rat_of (FNum q) = q"
| "rat_of _ = 0"

definition finite_f64 :: "f64 \<Rightarrow> bool" where
  "finite_f64 x = (case x of FNum _ \<Rightarrow> True | FNegZero \<Rightarrow> True | _ \<Rightarrow> False)"

text \<open>Go's \<open>==\<close>: NaN differs from everything, the two zeros are equal.\<close>

definition f64_eq :: "f64 \<Rightarrow> f64 \<Rightarrow> bool" where
  "f64_eq x y =
     (if finite_f64 x \<and> finite_f64 y then rat_of x = rat_of y
      else x = y \<and> x \<noteq> FNaN)"

instantiation f64 :: ord
begin

fun less_f64 :: "f64 \<Rightarrow> f64 \<Rightarrow> bool" where
  "less_f64 FNaN y = False"
| "less_f64 FPosInf y = False"
| "less_f64 FNegInf y = (y \<noteq> FNaN \<and> y \<noteq> FNegInf)"
| "less_f64 x y = (case y of FNaN \<Rightarrow> False | FPosInf \<Rightarrow> True | FNegInf \<Rightarrow> False
     | _ \<Rightarrow> rat_of x < rat_of y)"

definition less_eq_f64 :: "f64 \<Rightarrow> f64 \<Rightarrow> bool" where
  "less_eq_f64 x y = (x < y \<or> f64_eq x y)"

instance ..

end

fun neg_f64 :: "f64 \<Rightarrow> bool" where
  "neg_f64 (FNum q) = (q < 0)"
| "neg_f64 FNegZero = True"
| "neg_f64 FNegInf = True"
| "neg_f64 _ = False"

instantiation f64 :: "{zero, plus, uminus, minus, times}"
begin

definition zero_f64 :: f64 where
  "zero_f64 = FNum 0"

fun uminus_f64 :: "f64 \<Rightarrow> f64" where
  "uminus_f64 (FNum q) = (if q = 0 then FNegZero else FNum (- q))"
| "uminus_f64 FNegZero = FNum 0"
| "uminus_f64 FPosInf = FNegInf"
| "uminus_f64 FNegInf = FPosInf"
| "uminus_f64 FNaN = FNaN"

definition plus_f64 :: "f64 \<Rightarrow> f64 \<Rightarrow> f64" where
  "plus_f64 x y =
     (if x = FNaN \<or> y = FNaN then FNaN
      else if finite_f64 x \<and> finite_f64 y then
        (if x = FNegZero \<and> y = FNegZero then FNegZero
         else round_rat binary64 (rat_of x + rat_of y))
      else if finite_f64 x then y
      else if finite_f64 y then x
      else if x = y then x else FNaN)"

definition minus_f64 :: "f64 \<Rightarrow> f64 \<Rightarrow> f64" where
  "minus_f64 x y = x + (- y)"

definition times_f64 :: "f64 \<Rightarrow> f64 \<Rightarrow> f64" where
  "times_f64 x y =
     (if x = FNaN \<or> y = FNaN then FNaN
      else let neg = (neg_f64 x \<noteq> neg_f64 y) in
        if finite_f64 x \<and> finite_f64 y then round_abs binary64 neg \<bar>rat_of x * rat_of y\<bar>
        else if (finite_f64 x \<and> rat_of x = 0) \<or> (finite_f64 y \<and> rat_of y = 0) then FNaN
        else if neg then FNegInf else FPosInf)"

instance ..

end

text \<open>\<open>math.Sqrt\<close>, correctly rounded.\<close>

function isqrt :: "int \<Rightarrow> int" where
  "isqrt n = (if n \<le> 0 then 0
     else let s = 2 * isqrt (n div 4) in if (s + 1) * (s + 1) \<le> n then s + 1 else s)"
  by pat_completeness auto
termination
  by (relation "measure nat") auto

declare isqrt.simps [simp del]

definition round_sqrt :: "rat \<Rightarrow> rat" where
  "round_sqrt q =
     (let e = max (emin binary64) (ilog2 q div 2 - prec binary64 + 1);
          x = q / 4 powi e;
          m = of_int (isqrt \<lfloor>x\<rfloor>) :: rat;
          h = (m + 1 / 2) * (m + 1 / 2)
      in (if x > h then m + 1 else m) * 2 powi e)"

definition sqrt_f64 :: "f64 \<Rightarrow> f64" where
  "sqrt_f64 x =
     (case x of FNum q \<Rightarrow> if q < 0 then FNaN else if q = 0 then FNum 0 else FNum (round_sqrt q)
      | FNegZero \<Rightarrow> FNegZero | FPosInf \<Rightarrow> FPosInf | FNegInf \<Rightarrow> FNaN | FNaN \<Rightarrow> FNaN)"

section \<open>Conversions\<close>

text \<open>\<open>float32(x)\<close> of a float64.\<close>

definition to_f32 :: "f64 \<Rightarrow> f32" where
  "to_f32 x = (if finite_f64 x then round_abs binary32 (neg_f64 x) \<bar>rat_of x\<bar> else x)"

definition f64_of_int :: "int \<Rightarrow> f64" where
  "f64_of_int i = round_rat binary64 (of_int i)"

definition f64_of_u64 :: "u64 \<Rightarrow> f64" where
  "f64_of_u64 w = f64_of_int (uint w)"

text \<open>Truncation towards zero of a finite value.\<close>

definition trunc_f64 :: "f64 \<Rightarrow> int option" where
  "trunc_f64 x =
     (if finite_f64 x then Some (if rat_of x < 0 then - \<lfloor>- rat_of x\<rfloor> else \<lfloor>rat_of x\<rfloor>) else None)"

record platform =
  oor_u8 :: "f64 \<Rightarrow> u8"
  oor_u16 :: "f64 \<Rightarrow> u16"
  oor_u64 :: "f64 \<Rightarrow> u64"
  oor_i64 :: "f64 \<Rightarrow> u64"

definition to_uint :: "(f64 \<Rightarrow> 'w word) \<Rightarrow> f64 \<Rightarrow> 'w :: len word" where
  "to_uint oor x = (case trunc_f64 x of
     Some z \<Rightarrow> if 0 \<le> z \<and> z < 2 ^ LENGTH('w) then of_int z else oor x
   | None \<Rightarrow> oor x)"

definition f64_to_u8 :: "platform \<Rightarrow> f64 \<Rightarrow> u8" where
  "f64_to_u8 P = to_uint (oor_u8 P)"

definition f64_to_u16 :: "platform \<Rightarrow> f64 \<Rightarrow> u16" where
  "f64_to_u16 P = to_uint (oor_u16 P)"

definition f64_to_u64 :: "platform \<Rightarrow> f64 \<Rightarrow> u64" where
  "f64_to_u64 P = to_uint (oor_u64 P)"

definition f64_to_i64 :: "platform \<Rightarrow> f64 \<Rightarrow> int" where
  "f64_to_i64 P x = (case trunc_f64 x of
     Some z \<Rightarrow> if - (2 ^ 63) \<le> z \<and> z < 2 ^ 63 then z else sint (oor_i64 P x)
   | None \<Rightarrow> sint (oor_i64 P x))"

text \<open>One admissible platform, used where a concrete one is needed.\<close>

definition zero_platform :: platform where
  "zero_platform = \<lparr>oor_u8 = (\<lambda>_. 0), oor_u16 = (\<lambda>_. 0), oor_u64 = (\<lambda>_. 0), oor_i64 = (\<lambda>_. 0)\<rparr>"

section \<open>Facts about rounding\<close>

lemma nbits_0 [simp]: "nbits 0 = 0"
  by (simp add: nbits.simps)

lemma nbits_nonneg [simp]: "0 \<le> nbits n"
proof (induction n rule: nbits.induct)
  case (1 n)
  then show ?case by (auto simp: nbits.simps [of n])
qed

text \<open>A count of digits to a base, and the logarithm that two counts give.\<close>

lemma digit_count_bounds:
  fixes f :: "int \<Rightarrow> int" and B :: int
  assumes f: "\<And>n. f n = (if n \<le> 0 then 0 else 1 + f (n div B))" and B: "1 < B"
  shows "0 < n \<Longrightarrow> 0 < f n \<and> B ^ nat (f n - 1) \<le> n \<and> n < B ^ nat (f n)"
proof (induction "nat n" arbitrary: n rule: less_induct)
  case less
  have unf: "f n = 1 + f (n div B)" using less.prems by (subst f) simp
  have low: "B * (n div B) \<le> n" and up: "n < B * (n div B) + B"
    using B pos_mod_bound [of B n] pos_mod_sign [of B n] mult_div_mod_eq [of B n] by linarith+
  show ?case
  proof (cases "n div B = 0")
    case True
    then show ?thesis using less.prems up unf f [of 0] by simp
  next
    case False
    then have pos: "0 < n div B" using less.prems B by (simp add: pos_imp_zdiv_pos_iff pos_imp_zdiv_nonneg_iff order_less_le)
    have "n div B < n" using less.prems B by (simp add: int_div_less_self)
    then have IH: "0 < f (n div B)" "B ^ nat (f (n div B) - 1) \<le> n div B" "n div B < B ^ nat (f (n div B))"
      using less.hyps [of "n div B"] pos less.prems by auto
    have "nat (f n) = Suc (nat (f (n div B)))" "nat (f n - 1) = Suc (nat (f (n div B) - 1))"
      using IH(1) unf by simp_all
    then have s: "B ^ nat (f n) = B * B ^ nat (f (n div B))" "B ^ nat (f n - 1) = B * B ^ nat (f (n div B) - 1)" by simp_all
    have "B ^ nat (f n - 1) \<le> B * (n div B)" unfolding s(2) using IH(2) B by (intro mult_left_mono) simp_all
    with low have 1: "B ^ nat (f n - 1) \<le> n" by (rule order_trans [rotated])
    have "B * (n div B + 1) \<le> B ^ nat (f n)" unfolding s(1) using IH(3) B by (intro mult_left_mono) simp_all
    with up have "n < B ^ nat (f n)" by (simp add: distrib_left)
    with 1 show ?thesis using unf IH(1) by simp
  qed
qed

lemma digit_count_bounds_rat:
  fixes f :: "int \<Rightarrow> int" and B :: int
  assumes "\<And>n. f n = (if n \<le> 0 then 0 else 1 + f (n div B))" "1 < B" "0 < n"
  shows "of_int B powi (f n - 1) \<le> (of_int n :: rat) \<and> (of_int n :: rat) < of_int B powi f n"
proof -
  note b = digit_count_bounds [OF assms]
  have "of_int B powi (f n - 1) = (of_int (B ^ nat (f n - 1)) :: rat)" "of_int B powi f n = (of_int (B ^ nat (f n)) :: rat)"
    using b by (simp_all add: power_int_def)
  then show ?thesis using b by (simp only: of_int_le_iff of_int_less_iff)
qed

lemma log_bounds:
  fixes f :: "int \<Rightarrow> int" and B :: int and q :: rat
  assumes f: "\<And>n. f n = (if n \<le> 0 then 0 else 1 + f (n div B))" and B: "1 < B" and q: "0 < q"
    and l: "l = (case quotient_of q of (a, b) \<Rightarrow> let k = f a - f b in if of_int B powi k \<le> q then k else k - 1)"
  shows "of_int B powi l \<le> q" "q < of_int B powi (l + 1)"
proof -
  obtain a b where ab: "quotient_of q = (a, b)" by (cases "quotient_of q")
  then have b: "0 < b" and q_eq: "q = of_int a / of_int b"
    by (auto dest: quotient_of_denom_pos quotient_of_div)
  from q q_eq b have a: "0 < a" by (simp add: zero_less_divide_iff)
  let ?k = "f a - f b"
  note M = digit_count_bounds_rat [OF f B a] and N = digit_count_bounds_rat [OF f B b]
  have pos: "(0 :: rat) < of_int B powi j" for j using B by simp
  have B0: "(of_int B :: rat) \<noteq> 0" using B by simp
  have "q < of_int B powi f a / of_int B powi (f b - 1)"
    unfolding q_eq using M N a b pos by (intro frac_less) (auto simp: less_imp_le)
  also have "\<dots> = of_int B powi (?k + 1)" using B0 by (simp add: power_int_diff power_int_add)
  finally have up: "q < of_int B powi (?k + 1)" .
  have "of_int B powi (?k - 1) = of_int B powi (f a - 1) / (of_int B :: rat) powi f b"
    using B0 by (simp add: power_int_diff)
  also have "\<dots> \<le> q"
    unfolding q_eq using M N a b pos by (intro frac_le) (auto simp: less_imp_le)
  finally have low: "of_int B powi (?k - 1) \<le> q" .
  have l': "l = (if of_int B powi ?k \<le> q then ?k else ?k - 1)" by (simp add: l ab Let_def)
  show "of_int B powi l \<le> q" using low by (simp add: l')
  show "q < of_int B powi (l + 1)" using up by (simp add: l')
qed

lemma nbits_bounds:
  "0 < n \<Longrightarrow> 2 powi (nbits n - 1) \<le> (of_int n :: rat) \<and> (of_int n :: rat) < 2 powi nbits n"
  using digit_count_bounds_rat [OF nbits.simps, of n] by simp

lemma ilog2_bounds:
  assumes "0 < q"
  shows "2 powi (ilog2 q) \<le> q" "q < 2 powi (ilog2 q + 1)"
  using log_bounds [OF nbits.simps _ assms, of "ilog2 q"] by (simp_all add: ilog2_def)

lemma ilog2_less:
  assumes "0 < q" "q < 2 powi k"
  shows "ilog2 q < k"
proof (rule ccontr)
  assume "\<not> ilog2 q < k"
  then have "2 powi k \<le> (2 :: rat) powi ilog2 q" by (intro power_int_increasing) auto
  with ilog2_bounds(1) [OF assms(1)] assms(2) show False by simp
qed

lemma round_half_even_int [simp]: "round_half_even (of_int i) = i"
  by (simp add: round_half_even_def)

text \<open>A number with few enough bits is its own rounding.\<close>

lemma round_pos_exact:
  assumes q: "q = of_nat m * 2 powi e" and m: "0 < m" "of_nat m < (2 :: rat) powi prec F"
    and e: "emin F \<le> e"
  shows "round_pos F q = q"
proof -
  have q0: "0 < q" using q m by simp
  have "q < 2 powi prec F * 2 powi e" unfolding q using m(2) by simp
  also have "\<dots> = 2 powi (prec F + e)" by (simp add: power_int_add)
  finally have "ilog2 q < prec F + e" by (rule ilog2_less [OF q0])
  define e' where "e' = max (emin F) (ilog2 q - prec F + 1)"
  have le: "e' \<le> e" using \<open>ilog2 q < prec F + e\<close> e by (simp add: e'_def)
  have "q / 2 powi e' = of_nat m * 2 powi (e - e')" unfolding q by (simp add: power_int_diff)
  also have "\<dots> = of_int (int m * 2 ^ nat (e - e'))" using le by (simp add: power_int_def)
  finally have "q / 2 powi e' = of_int (int m * 2 ^ nat (e - e'))" .
  then have "round_pos F q = of_int (int m * 2 ^ nat (e - e')) * 2 powi e'"
    unfolding round_pos_def Let_def e'_def [symmetric] by (simp only: round_half_even_int)
  also have "\<dots> = q"
    using \<open>q / 2 powi e' = of_int (int m * 2 ^ nat (e - e'))\<close> [symmetric]
    by simp
  finally show ?thesis .
qed

lemma round_abs_exact:
  assumes q: "q = of_nat m * 2 powi e" and m: "0 < m" "of_nat m < (2 :: rat) powi prec F"
    and e: "emin F \<le> e" and lim: "q < 2 powi elim F"
  shows "round_abs F neg q = FNum (if neg then - q else q)"
proof -
  have q0: "0 < q" using q m by simp
  then show ?thesis
    using round_pos_exact [OF q m e] ilog2_less [OF q0 lim] by (simp add: round_abs_def)
qed

lemma f64_of_int_exact:
  assumes "0 \<le> n" "n < 2 ^ 53"
  shows "f64_of_int n = FNum (of_int n)"
proof (cases "n = 0")
  case False
  from assms have lt: "(of_int n :: rat) < 2 ^ 53"
    by (metis of_int_less_iff of_int_numeral of_int_power)
  have "round_abs binary64 False (of_int n) = FNum (if False then - of_int n else of_int n)"
  proof (rule round_abs_exact [of _ "nat n" 0])
    show "(of_int n :: rat) < 2 powi elim binary64"
      using lt by (rule less_trans) (simp add: binary64_def power_int_def power_strict_increasing)
  qed (use False lt assms in \<open>auto simp: binary64_def power_int_def\<close>)
  then show ?thesis using assms False by (simp add: f64_of_int_def round_rat_def)
qed (simp add: f64_of_int_def round_rat_def round_abs_def)

end
