(* ===== verification/GoValues.thy ===== *)
theory GoValues
  imports GoFloat
begin

text \<open>
  Values of Go's interface type and instants of package time.
\<close>

text \<open>
  A Go value of interface type: what decoding produces (nil, bool, float64, string, slice, map)
  and what the export rows hold besides (int, and the unsigned integer types).
\<close>

datatype any =
    ANil
  | ABool bool
  | AInt int
  | AUint int
  | AFloat f64
  | AFloat32 f32
  | AString string
  | ASlice "any list"
  | AMap "(string \<times> any) list"

text \<open>A \<open>time.Time\<close>: the zero time, or an instant in nanoseconds since the Unix epoch.\<close>

datatype gtime = ZeroTime | At int

end
