(* ===== verification/Core_Types.thy ===== *)
theory Core_Types
  imports GoValues
begin

text \<open>
  The domain types of pkg/core: one record per struct, fields in the order and with the names of
  the source behind a short prefix per struct (\<open>s_ID\<close> is \<open>Soldier.ID\<close>). A pointer
  field (\<open>*uint\<close>, \<open>*uint16\<close>) is an option. A nil slice and an empty one are both \<open>[]\<close>, a nil
  map is the empty map.
\<close>

type_synonym int8 = "8 word"

text \<open>\<open>type Frame uint\<close>.\<close>

type_synonym frame = guint

definition FrameForever :: frame where
  "FrameForever = 0"

section \<open>Frames, positions, scores\<close>

record position3D =
  pos3_X :: f64
  pos3_Y :: f64
  pos3_Z :: f64

record position2D =
  pos2_X :: f64
  pos2_Y :: f64

type_synonym polyline = "position2D list"

record soldier_scores =
  sco_InfantryKills :: u8
  sco_VehicleKills :: u8
  sco_ArmorKills :: u8
  sco_AirKills :: u8
  sco_Deaths :: u8
  sco_TotalScore :: u8

record playable_slots =
  slots_West :: u8
  slots_East :: u8
  slots_Independent :: u8
  slots_Civilian :: u8
  slots_Logic :: u8

record side_friendly =
  sf_EastWest :: bool
  sf_EastIndependent :: bool
  sf_WestIndependent :: bool

record focus_range =
  fr_Start :: frame
  fr_End :: frame

record upload_metadata =
  um_WorldName :: string
  um_MissionName :: string
  um_MissionDuration :: f64
  um_Tag :: string
  um_EndFrame :: frame
  um_FocusRanges :: "focus_range list"

section \<open>Soldiers\<close>

record soldier =
  s_ID :: u16
  s_JoinTime :: gtime
  s_JoinFrame :: frame
  s_OcapType :: string
  s_UnitName :: string
  s_GroupID :: string
  s_Side :: string
  s_IsPlayer :: bool
  s_RoleDescription :: string
  s_ClassName :: string
  s_DisplayName :: string
  s_PlayerUID :: string
  s_SquadParams :: "any list"
  s_DeleteFrame :: frame

record soldier_state =
  ss_SoldierID :: u16
  ss_Time :: gtime
  ss_CaptureFrame :: frame
  ss_Position :: position3D
  ss_Bearing :: u16
  ss_Lifestate :: u8
  ss_InVehicle :: bool
  ss_InVehicleObjectID :: "u16 option"
  ss_VehicleRole :: string
  ss_UnitName :: string
  ss_IsPlayer :: bool
  ss_CurrentRole :: string
  ss_HasStableVitals :: bool
  ss_IsDraggedCarried :: bool
  ss_Stance :: string
  ss_GroupID :: string
  ss_Side :: string
  ss_Scores :: soldier_scores

section \<open>Vehicles\<close>

record vehicle =
  v_ID :: u16
  v_JoinTime :: gtime
  v_JoinFrame :: frame
  v_OcapType :: string
  v_ClassName :: string
  v_DisplayName :: string
  v_Customization :: string
  v_Side :: string
  v_DeleteFrame :: frame

record vehicle_state =
  vs_VehicleID :: u16
  vs_Time :: gtime
  vs_CaptureFrame :: frame
  vs_Position :: position3D
  vs_Bearing :: u16
  vs_IsAlive :: bool
  vs_Crew :: string
  vs_Fuel :: f32
  vs_Damage :: f32
  vs_Locked :: bool
  vs_EngineOn :: bool
  vs_Side :: string
  vs_VectorDir :: string
  vs_VectorUp :: string
  vs_TurretAzimuth :: f32
  vs_TurretElevation :: f32

section \<open>Markers\<close>

record marker =
  mk_ID :: guint
  mk_Time :: gtime
  mk_CaptureFrame :: frame
  mk_EndFrame :: frame
  mk_MarkerName :: string
  mk_Direction :: f32
  mk_MarkerType :: string
  mk_Text :: string
  mk_OwnerID :: int
  mk_Color :: string
  mk_Size :: string
  mk_Side :: string
  mk_Position :: position3D
  mk_Polyline :: polyline
  mk_Shape :: string
  mk_Alpha :: f32
  mk_Brush :: string
  mk_IsDeleted :: bool

record delete_marker =
  dm_Name :: string
  dm_EndFrame :: frame

record marker_state =
  ms_ID :: guint
  ms_MarkerID :: guint
  ms_Time :: gtime
  ms_CaptureFrame :: frame
  ms_Position :: position3D
  ms_Direction :: f32
  ms_Alpha :: f32
  ms_Text :: string
  ms_Color :: string
  ms_Size :: string
  ms_MarkerType :: string
  ms_Brush :: string
  ms_Shape :: string

section \<open>Placed objects\<close>

record placed_object =
  po_ID :: u16
  po_JoinTime :: gtime
  po_JoinFrame :: frame
  po_ClassName :: string
  po_DisplayName :: string
  po_Position :: position3D
  po_OwnerID :: u16
  po_Side :: string
  po_Weapon :: string
  po_MagazineIcon :: string

record placed_object_event =
  poe_CaptureFrame :: frame
  poe_PlacedID :: u16
  poe_EventType :: string
  poe_Position :: position3D
  poe_HitEntityID :: "u16 option"

section \<open>Events\<close>

record fired_event =
  fe_SoldierID :: u16
  fe_Time :: gtime
  fe_CaptureFrame :: frame
  fe_Weapon :: string
  fe_Magazine :: string
  fe_FiringMode :: string
  fe_StartPos :: position3D
  fe_EndPos :: position3D

record general_event =
  ge_ID :: guint
  ge_Time :: gtime
  ge_CaptureFrame :: frame
  ge_Name :: string
  ge_Message :: string
  ge_ExtraData :: "(string \<times> any) list"

record sector_event =
  sec_ID :: guint
  sec_Time :: gtime
  sec_CaptureFrame :: frame
  sec_Name :: string
  sec_ObjectType :: string
  sec_UnitName :: string
  sec_Side :: string
  sec_PosX :: f64
  sec_PosY :: f64
  sec_PosZ :: f64

record end_mission_event =
  eme_ID :: guint
  eme_Time :: gtime
  eme_CaptureFrame :: frame
  eme_Side :: string
  eme_Message :: string

record hit_event =
  he_ID :: guint
  he_Time :: gtime
  he_CaptureFrame :: frame
  he_VictimSoldierID :: "guint option"
  he_VictimVehicleID :: "guint option"
  he_ShooterSoldierID :: "guint option"
  he_ShooterVehicleID :: "guint option"
  he_WeaponVehicle :: string
  he_WeaponName :: string
  he_WeaponMagazine :: string
  he_EventText :: string
  he_Distance :: f32

record kill_event =
  ke_ID :: guint
  ke_Time :: gtime
  ke_CaptureFrame :: frame
  ke_VictimSoldierID :: "guint option"
  ke_VictimVehicleID :: "guint option"
  ke_KillerSoldierID :: "guint option"
  ke_KillerVehicleID :: "guint option"
  ke_WeaponVehicle :: string
  ke_WeaponName :: string
  ke_WeaponMagazine :: string
  ke_EventText :: string
  ke_Distance :: f32

record chat_event =
  ce_ID :: guint
  ce_SoldierID :: "guint option"
  ce_Time :: gtime
  ce_CaptureFrame :: frame
  ce_Channel :: string
  ce_FromName :: string
  ce_SenderName :: string
  ce_Message :: string
  ce_PlayerUID :: string

record radio_event =
  re_ID :: guint
  re_SoldierID :: "guint option"
  re_Time :: gtime
  re_CaptureFrame :: frame
  re_Radio :: string
  re_RadioType :: string
  re_StartEnd :: string
  re_Channel :: int8
  re_IsAdditional :: bool
  re_Frequency :: f32
  re_Code :: string

record ace3_death_event =
  ad_ID :: guint
  ad_SoldierID :: guint
  ad_Time :: gtime
  ad_CaptureFrame :: frame
  ad_Reason :: string
  ad_LastDamageSourceID :: "guint option"

record ace3_unconscious_event =
  au_ID :: guint
  au_SoldierID :: guint
  au_Time :: gtime
  au_CaptureFrame :: frame
  au_IsUnconscious :: bool

record trajectory_point =
  tp_Position :: position3D
  tp_FrameNum :: frame

record projectile_hit =
  ph_CaptureFrame :: frame
  ph_Position :: position3D
  ph_SoldierID :: "u16 option"
  ph_VehicleID :: "u16 option"
  ph_ComponentsHit :: "string list"

record projectile_event =
  pe_CaptureFrame :: frame
  pe_FirerObjectID :: u16
  pe_VehicleObjectID :: "u16 option"
  pe_WeaponDisplay :: string
  pe_MagazineDisplay :: string
  pe_MuzzleDisplay :: string
  pe_SimulationType :: string
  pe_MagazineIcon :: string
  pe_Trajectory :: "trajectory_point list"
  pe_Hits :: "projectile_hit list"

record time_state =
  ts_ID :: guint
  ts_Time :: gtime
  ts_CaptureFrame :: frame
  ts_SystemTimeUTC :: string
  ts_MissionDate :: string
  ts_TimeMultiplier :: f32
  ts_MissionTime :: f32

record entity_locality =
  loc_UnitsTotal :: guint
  loc_UnitsAlive :: guint
  loc_UnitsDead :: guint
  loc_Groups :: guint
  loc_Vehicles :: guint
  loc_WeaponHolders :: guint

record side_entity_count =
  side_Local :: entity_locality
  side_Remote :: entity_locality

record side_entity_counts =
  sides_East :: side_entity_count
  sides_West :: side_entity_count
  sides_Independent :: side_entity_count
  sides_Civilian :: side_entity_count

record global_entity_count =
  glob_UnitsAlive :: guint
  glob_UnitsDead :: guint
  glob_Groups :: guint
  glob_Vehicles :: guint
  glob_WeaponHolders :: guint
  glob_PlayersAlive :: guint
  glob_PlayersDead :: guint
  glob_PlayersConnected :: guint

record script_counts =
  scr_Spawn :: guint
  scr_ExecVM :: guint
  scr_Exec :: guint
  scr_ExecFSM :: guint
  scr_PFH :: guint

record weather_data =
  wea_Fog :: f32
  wea_Overcast :: f32
  wea_Rain :: f32
  wea_Humidity :: f32
  wea_Waves :: f32
  wea_WindDir :: f32
  wea_WindStr :: f32
  wea_Gusts :: f32
  wea_Lightnings :: f32
  wea_MoonIntensity :: f32
  wea_MoonPhase :: f32
  wea_SunOrMoon :: f32

record player_network_data =
  net_UID :: string
  net_Name :: string
  net_Ping :: f32
  net_BW :: f32
  net_Desync :: f32

record telemetry_event =
  tel_Time :: gtime
  tel_CaptureFrame :: frame
  tel_FpsAverage :: f32
  tel_FpsMin :: f32
  tel_SideEntityCounts :: side_entity_counts
  tel_GlobalCounts :: global_entity_count
  tel_Scripts :: script_counts
  tel_Weather :: weather_data
  tel_Players :: "player_network_data list"

section \<open>World and mission\<close>

record world =
  w_ID :: guint
  w_Author :: string
  w_WorkshopID :: string
  w_DisplayName :: string
  w_WorldName :: string
  w_WorldNameOriginal :: string
  w_WorldSize :: f32
  w_Latitude :: f32
  w_Longitude :: f32
  w_Location :: position3D

record addon =
  ao_ID :: guint
  ao_Name :: string
  ao_WorkshopID :: string

record mission =
  mi_ID :: guint
  mi_MissionName :: string
  mi_BriefingName :: string
  mi_MissionNameSource :: string
  mi_OnLoadName :: string
  mi_Author :: string
  mi_ServerName :: string
  mi_ServerProfile :: string
  mi_StartTime :: gtime
  mi_WorldID :: guint
  mi_CaptureDelay :: f32
  mi_AddonVersion :: string
  mi_ExtensionVersion :: string
  mi_ExtensionBuild :: string
  mi_OcapRecorderExtensionVersion :: string
  mi_Tag :: string
  mi_PlayableSlots :: playable_slots
  mi_SideFriendly :: side_friendly
  mi_Addons :: "addon list"

end
