(* ===== verification/GoParseFloat.thy ===== *)
theory GoParseFloat
  imports GoFloat
begin

text \<open>
  \<open>strconv.ParseFloat\<close>: the special names, the decimal and hexadecimal grammars with their
  underscores, and the correctly rounded value. An overflow gives an infinity together with a
  range error, an underflow gives zero without an error.
\<close>

definition lower_byte :: "char \<Rightarrow> char" where
  "lower_byte c = (if 65 \<le> byte c \<and> byte c \<le> 90 then char_of (byte c + 32) else c)"

definition hex_val :: "char \<Rightarrow> int option" where
  "hex_val c =
     (if is_digit c then Some (digit_val c)
      else let l = of_char (lower_byte c) in if 97 \<le> l \<and> l \<le> 102 then Some (l - 87) else None)"

section \<open>Syntax\<close>

record mantissa =
  mant :: int          \<comment> \<open>the digits as one number\<close>
  frac :: nat          \<comment> \<open>how many of them follow the point\<close>
  saw_dot :: bool
  saw_digits :: bool
  underscores :: bool

definition mantissa0 :: mantissa where
  "mantissa0 = \<lparr>mant = 0, frac = 0, saw_dot = False, saw_digits = False, underscores = False\<rparr>"

definition digit_of :: "bool \<Rightarrow> char \<Rightarrow> int option" where
  "digit_of hex c = (if hex then hex_val c else if is_digit c then Some (digit_val c) else None)"

definition add_digit :: "bool \<Rightarrow> int \<Rightarrow> mantissa \<Rightarrow> mantissa" where
  "add_digit hex d m = m\<lparr>mant := (if hex then 16 else 10) * mant m + d,
     frac := (if saw_dot m then Suc (frac m) else frac m), saw_digits := True\<rparr>"

fun scan_mantissa :: "bool \<Rightarrow> string \<Rightarrow> mantissa \<Rightarrow> mantissa \<times> string" where
  "scan_mantissa hex [] m = (m, [])"
| "scan_mantissa hex (c # cs) m =
     (if c = CHR ''_'' then scan_mantissa hex cs (m\<lparr>underscores := True\<rparr>)
      else if c = CHR ''.'' then
        (if saw_dot m then (m, c # cs) else scan_mantissa hex cs (m\<lparr>saw_dot := True\<rparr>))
      else case digit_of hex c of
          Some d \<Rightarrow> scan_mantissa hex cs (add_digit hex d m)
        | None \<Rightarrow> (m, c # cs))"

text \<open>The exponent's digits; its value stops growing at five digits.\<close>

fun scan_exponent :: "string \<Rightarrow> int \<Rightarrow> bool \<Rightarrow> int \<times> bool \<times> string" where
  "scan_exponent [] e us = (e, us, [])"
| "scan_exponent (c # cs) e us =
     (if c = CHR ''_'' then scan_exponent cs e True
      else if is_digit c then scan_exponent cs (if e < 10000 then 10 * e + digit_val c else e) us
      else (e, us, c # cs))"

text \<open>Underscores only between digits, or between a base prefix and a digit.\<close>

fun underscore_loop :: "bool \<Rightarrow> char \<Rightarrow> string \<Rightarrow> bool" where
  "underscore_loop hex saw [] = (saw \<noteq> CHR ''_'')"
| "underscore_loop hex saw (c # cs) =
     (if is_digit c \<or> (hex \<and> hex_val c \<noteq> None) then underscore_loop hex (CHR ''0'') cs
      else if c = CHR ''_'' then saw = CHR ''0'' \<and> underscore_loop hex (CHR ''_'') cs
      else saw \<noteq> CHR ''_'' \<and> underscore_loop hex (CHR 0x21) cs)"

definition drop_sign :: "string \<Rightarrow> string" where
  "drop_sign s = (if s \<noteq> [] \<and> (hd s = CHR ''+'' \<or> hd s = CHR ''-'') then tl s else s)"

definition underscore_ok :: "string \<Rightarrow> bool" where
  "underscore_ok s =
     (let t = drop_sign s in
      if 2 \<le> length t \<and> hd t = CHR ''0'' \<and> lower_byte (t ! 1) \<in> {CHR ''b'', CHR ''o'', CHR ''x''}
      then underscore_loop (lower_byte (t ! 1) = CHR ''x'') (CHR ''0'') (drop 2 t)
      else underscore_loop False (CHR 0x5E) t)"

text \<open>A numeral's sign and absolute value, \<open>None\<close> for a syntax error.\<close>

definition exponent_part :: "string \<Rightarrow> (int \<times> bool \<times> string) option" where
  "exponent_part r =
     (let neg = (r \<noteq> [] \<and> hd r = CHR ''-''); ds = drop_sign r
      in if ds = [] \<or> \<not> is_digit (hd ds) then None
         else case scan_exponent ds 0 False of (e, us, rest) \<Rightarrow>
           Some (if neg then - e else e, us, rest))"

definition read_float :: "string \<Rightarrow> (bool \<times> rat) option" where
  "read_float s =
     (let neg = (s \<noteq> [] \<and> hd s = CHR ''-'');
          t = drop_sign s;
          hex = (2 < length t \<and> hd t = CHR ''0'' \<and> lower_byte (t ! 1) = CHR ''x'');
          body = (if hex then drop 2 t else t)
      in case scan_mantissa hex body mantissa0 of (m, r) \<Rightarrow>
        if \<not> saw_digits m then None
        else if r \<noteq> [] \<and> lower_byte (hd r) = (if hex then CHR ''p'' else CHR ''e'') then
          (case exponent_part (tl r) of
             None \<Rightarrow> None
           | Some (e, us, rest) \<Rightarrow>
               if rest \<noteq> [] \<or> ((underscores m \<or> us) \<and> \<not> underscore_ok s) then None
               else Some (neg, if hex then of_int (mant m) * 2 powi (e - 4 * int (frac m))
                               else of_int (mant m) * 10 powi (e - int (frac m))))
        else if hex \<or> r \<noteq> [] \<or> (underscores m \<and> \<not> underscore_ok s) then None
        else Some (neg, of_int (mant m) * 10 powi (- int (frac m))))"

definition special_float :: "string \<Rightarrow> f64 option" where
  "special_float s =
     (let neg = (s \<noteq> [] \<and> hd s = CHR ''-''); l = map lower_byte s; t = drop_sign l
      in if t = ''inf'' \<or> t = ''infinity'' then Some (if neg then FNegInf else FPosInf)
         else if l = ''nan'' then Some FNaN else None)"

definition parse_float_fmt :: "float_fmt \<Rightarrow> string \<Rightarrow> f64 \<times> go_err option" where
  "parse_float_fmt F s =
     (case special_float s of
        Some x \<Rightarrow> (x, None)
      | None \<Rightarrow> (case read_float s of
          None \<Rightarrow> (FNum 0, Some (NumError ''ParseFloat'' s ErrSyntax))
        | Some (neg, q) \<Rightarrow>
            let x = round_abs F neg q
            in (x, if finite_f64 x then None else Some (NumError ''ParseFloat'' s ErrRange))))"

text \<open>\<open>ParseFloat(s, 64)\<close> and \<open>ParseFloat(s, 32)\<close>.\<close>

definition parse_float64 :: "string \<Rightarrow> f64 \<times> go_err option" where
  "parse_float64 s = parse_float_fmt binary64 s"

definition parse_float32 :: "string \<Rightarrow> f64 \<times> go_err option" where
  "parse_float32 s = parse_float_fmt binary32 s"

section \<open>Reading an integer written with or without a fraction of zeros\<close>

fun digits_val :: "string \<Rightarrow> int \<Rightarrow> int" where
  "digits_val [] n = n"
| "digits_val (c # cs) n = digits_val cs (10 * n + digit_val c)"

lemma digits_val_append: "digits_val (a @ b) n = digits_val b (digits_val a n)"
  by (induction a arbitrary: n) auto

lemma digits_val_format_nonneg: "0 \<le> n \<Longrightarrow> digits_val (format_nonneg n) 0 = n"
proof (induction n rule: format_nonneg.induct)
  case (1 n)
  show ?case
  proof (cases "n < 10")
    case True
    with "1.prems" show ?thesis by (simp add: format_nonneg.simps [of n])
  next
    case False
    with "1.prems" have "digits_val (format_nonneg (n div 10)) 0 = n div 10" by (intro "1.IH") auto
    moreover have "10 * (n div 10) + n mod 10 = n" by simp
    ultimately show ?thesis
      using False "1.prems" by (simp add: format_nonneg.simps [of n] digits_val_append)
  qed
qed

lemma digit_not_punct:
  "is_digit c \<Longrightarrow> c \<noteq> CHR ''_'' \<and> c \<noteq> CHR ''.'' \<and> c \<noteq> CHR ''-'' \<and> c \<noteq> CHR ''+'' \<and> c \<noteq> CHR ''x''
    \<and> c \<noteq> CHR ''X''"
  by (auto simp: is_digit_def)

lemma scan_mantissa_digits:
  "\<forall>c \<in> set ds. is_digit c \<Longrightarrow> ds \<noteq> [] \<Longrightarrow> \<not> saw_dot m \<Longrightarrow>
   scan_mantissa False (ds @ r) m
     = scan_mantissa False r (m\<lparr>mant := digits_val ds (mant m), saw_digits := True\<rparr>)"
proof (induction ds arbitrary: m)
  case (Cons c cs)
  then have c: "is_digit c" by simp
  show ?case
  proof (cases "cs = []")
    case True
    with Cons.prems c digit_not_punct [OF c] show ?thesis
      by (simp add: digit_of_def add_digit_def)
  next
    case False
    with Cons.prems c digit_not_punct [OF c] Cons.IH show ?thesis
      by (simp add: digit_of_def add_digit_def)
  qed
qed simp

lemma scan_mantissa_zeros:
  "saw_dot m \<Longrightarrow> scan_mantissa False (replicate k (CHR ''0'')) m
     = (m\<lparr>mant := mant m * 10 ^ k, frac := frac m + k,
          saw_digits := (saw_digits m \<or> 0 < k)\<rparr>, [])"
  by (induction k arbitrary: m)
     (auto simp: digit_of_def add_digit_def is_digit_def digit_val_def)

definition int_text :: "nat option \<Rightarrow> int \<Rightarrow> string" where
  "int_text z n = format_nonneg n @ (case z of None \<Rightarrow> [] | Some k \<Rightarrow> CHR ''.'' # replicate k (CHR ''0''))"

lemma digit_lower: "is_digit c \<Longrightarrow> lower_byte c = c"
  by (simp add: is_digit_def lower_byte_def)

lemma not_hex_text:
  assumes "0 \<le> n"
  shows "\<not> (2 < length (int_text z n) \<and> hd (int_text z n) = CHR ''0'' \<and>
     lower_byte (int_text z n ! 1) = CHR ''x'')"
proof -
  have "\<forall>c \<in> set (int_text z n). is_digit c \<or> c = CHR ''.''"
    using format_nonneg_digits [OF assms]
    by (auto simp: int_text_def is_digit_def split: option.splits)
  moreover have "\<And>c. is_digit c \<or> c = CHR ''.'' \<Longrightarrow> lower_byte c \<noteq> CHR ''x''"
    using digit_lower digit_not_punct by (fastforce simp: lower_byte_def)
  ultimately show ?thesis by (metis One_nat_def Suc_lessD numeral_2_eq_2 nth_mem)
qed

lemma read_float_int_text:
  assumes "0 \<le> n"
  shows "read_float (int_text z n) = Some (False, of_int n)"
proof -
  let ?s = "int_text z n"
  have d: "\<forall>c \<in> set (format_nonneg n). is_digit c" by (rule format_nonneg_digits [OF assms])
  then have "is_digit (hd ?s)" by (simp add: int_text_def hd_append)
  from digit_not_punct [OF this]
  have sg: "hd ?s \<noteq> CHR ''-''" "drop_sign ?s = ?s" by (simp_all add: drop_sign_def)
  have scan: "scan_mantissa False ?s mantissa0 =
      (mantissa0\<lparr>mant := n * 10 ^ (case z of None \<Rightarrow> 0 | Some k \<Rightarrow> k),
         frac := (case z of None \<Rightarrow> 0 | Some k \<Rightarrow> k), saw_dot := z \<noteq> None, saw_digits := True\<rparr>, [])"
    using d assms
    by (simp add: int_text_def scan_mantissa_digits scan_mantissa_zeros mantissa0_def
          digits_val_format_nonneg split: option.splits)
  have val: "of_int (n * 10 ^ k) * 10 powi (- int k) = (of_int n :: rat)" for k
    by (simp add: power_int_minus power_int_of_nat)
  have hex: "(2 < length ?s \<and> hd ?s = CHR ''0'' \<and> lower_byte (?s ! 1) = CHR ''x'') = False"
    using not_hex_text [OF assms, of z] by blast
  show ?thesis
    unfolding read_float_def Let_def sg(2) hex if_False scan
    using sg(1) val [of "case z of None \<Rightarrow> 0 | Some k \<Rightarrow> k"]
    by (simp add: mantissa0_def)
qed

lemma special_float_int_text:
  assumes "0 \<le> n"
  shows "special_float (int_text z n) = None"
proof -
  have "\<forall>c \<in> set (format_nonneg n). is_digit c" by (rule format_nonneg_digits [OF assms])
  then have h: "is_digit (hd (int_text z n))" and ne: "int_text z n \<noteq> []"
    by (simp_all add: int_text_def hd_append)
  from h have "hd (map lower_byte (int_text z n)) = hd (int_text z n)"
    using ne by (simp add: hd_map digit_lower)
  moreover have "hd (int_text z n) \<notin> {CHR ''i'', CHR ''n'', CHR ''+'', CHR ''-''}"
    using h by (auto simp: is_digit_def)
  ultimately show ?thesis
    by (auto simp: special_float_def drop_sign_def Let_def)
qed

lemma parse_float64_int_text:
  assumes "0 \<le> n" "n < 2 ^ 53"
  shows "parse_float64 (int_text z n) = (FNum (of_int n), None)"
proof -
  have "round_abs binary64 False (of_int n) = FNum (of_int n)"
    using f64_of_int_exact [OF assms] assms(1) by (simp add: f64_of_int_def round_rat_def)
  then show ?thesis
    using assms by (simp add: parse_float64_def parse_float_fmt_def special_float_int_text
        read_float_int_text finite_f64_def)
qed

end
