(* ===== verification/GoJson.thy ===== *)
theory GoJson
  imports GoParseFloat GoValues
begin

text \<open>
  What the program uses of encoding/json's \<open>Unmarshal\<close>: the grammar of JSON texts, read into a
  syntax tree, and the decoding of that tree into the Go types the program asks for. As in Go the
  whole text is checked first, a value of the wrong type is an error that does not stop the rest
  of the decoding, and numbers go through \<open>ParseFloat\<close>.
\<close>

datatype json =
    JNull
  | JBool bool
  | JNum string
  | JStr string
  | JArr "json list"
  | JObj "(string \<times> json) list"

section \<open>Strings\<close>

definition is_cont :: "char \<Rightarrow> bool" where
  "is_cont c = (128 \<le> byte c \<and> byte c \<le> 191)"

definition between :: "nat \<Rightarrow> nat \<Rightarrow> char \<Rightarrow> bool" where
  "between a b c = (a \<le> byte c \<and> byte c \<le> b)"

text \<open>The length of the valid UTF-8 encoding at the head of a string, 0 if there is none.\<close>

definition utf8_len :: "string \<Rightarrow> nat" where
  "utf8_len s =
     (let b = byte (s ! 0); n = length s in
      if n = 0 then 0
      else if b < 128 then 1
      else if 194 \<le> b \<and> b \<le> 223 then (if 2 \<le> n \<and> is_cont (s ! 1) then 2 else 0)
      else if 224 \<le> b \<and> b \<le> 239 then
        (if 3 \<le> n \<and> is_cont (s ! 2) \<and>
            (if b = 224 then between 160 191 (s ! 1)
             else if b = 237 then between 128 159 (s ! 1) else is_cont (s ! 1)) then 3 else 0)
      else if 240 \<le> b \<and> b \<le> 244 then
        (if 4 \<le> n \<and> is_cont (s ! 2) \<and> is_cont (s ! 3) \<and>
            (if b = 240 then between 144 191 (s ! 1)
             else if b = 244 then between 128 143 (s ! 1) else is_cont (s ! 1)) then 4 else 0)
      else 0)"

definition rune_error :: string where
  "rune_error = [CHR 0xEF, CHR 0xBF, CHR 0xBD]"

definition utf8_encode :: "int \<Rightarrow> string" where
  "utf8_encode r =
     (if r < 0x80 then [char_of r]
      else if r < 0x800 then [char_of (0xC0 + r div 64), char_of (0x80 + r mod 64)]
      else if r < 0x10000 then
        [char_of (0xE0 + r div 4096), char_of (0x80 + r div 64 mod 64), char_of (0x80 + r mod 64)]
      else [char_of (0xF0 + r div 262144), char_of (0x80 + r div 4096 mod 64),
            char_of (0x80 + r div 64 mod 64), char_of (0x80 + r mod 64)])"

fun hex_number :: "string \<Rightarrow> int \<Rightarrow> int option" where
  "hex_number [] n = Some n"
| "hex_number (c # cs) n = (case hex_val c of None \<Rightarrow> None | Some d \<Rightarrow> hex_number cs (16 * n + d))"

definition getu4 :: "string \<Rightarrow> int option" where
  "getu4 s = (if 4 \<le> length s then hex_number (take 4 s) 0 else None)"

text \<open>
  What a \<open>\u\<close> escape stands for and how many bytes after the \<open>u\<close> it takes; half a surrogate
  pair stands for the replacement character. \<open>None\<close> is a syntax error.
\<close>

definition unicode_escape :: "string \<Rightarrow> (string \<times> nat) option" where
  "unicode_escape s = (case getu4 s of
     None \<Rightarrow> None
   | Some a \<Rightarrow>
       if \<not> (0xD800 \<le> a \<and> a \<le> 0xDFFF) then Some (utf8_encode a, 4)
       else let t = drop 4 s;
                b = (if 2 \<le> length t \<and> hd t = CHR 0x5C \<and> t ! 1 = CHR ''u'' then getu4 (drop 2 t) else None)
            in case b of
                 None \<Rightarrow> Some (rune_error, 4)
               | Some b \<Rightarrow>
                   if a < 0xDC00 \<and> 0xDC00 \<le> b \<and> b \<le> 0xDFFF
                   then Some (utf8_encode ((a - 0xD800) * 1024 + (b - 0xDC00) + 0x10000), 10)
                   else Some (rune_error, 4))"

definition simple_escape :: "char \<Rightarrow> char option" where
  "simple_escape c =
     map_of [(dquote, dquote), (CHR 0x5C, CHR 0x5C), (CHR ''/'', CHR ''/''), (CHR ''b'', CHR 0x08),
             (CHR ''f'', CHR 0x0C), (CHR ''n'', CHR 0x0A), (CHR ''r'', CHR 0x0D), (CHR ''t'', CHR 0x09)] c"

text \<open>The characters of a string literal after its opening quote, and what follows the literal.\<close>

function json_chars :: "string \<Rightarrow> (string \<times> string) option" where
  "json_chars s =
     (if s = [] then None
      else let c = hd s; cs = tl s in
        if c = dquote then Some ([], cs)
        else if byte c < 32 then None
        else if c = CHR 0x5C then
          (if cs = [] then None
           else case simple_escape (hd cs) of
               Some e \<Rightarrow> map_option (\<lambda>(a, r). (e # a, r)) (json_chars (tl cs))
             | None \<Rightarrow>
                 if hd cs \<noteq> CHR ''u'' then None
                 else case unicode_escape (tl cs) of
                     None \<Rightarrow> None
                   | Some (u, n) \<Rightarrow> map_option (\<lambda>(a, r). (u @ a, r)) (json_chars (drop n (tl cs))))
        else let n = utf8_len s in
          if n = 0 then map_option (\<lambda>(a, r). (rune_error @ a, r)) (json_chars cs)
          else map_option (\<lambda>(a, r). (take n s @ a, r)) (json_chars (drop n s)))"
  by pat_completeness auto
termination
  by (relation "measure length") (auto simp: less_Suc_eq_le le_diff_conv)

declare json_chars.simps [simp del]

section \<open>Values\<close>

definition skip_ws :: "string \<Rightarrow> string" where
  "skip_ws s = dropWhile (\<lambda>c. c \<in> {CHR 0x20, CHR 0x09, CHR 0x0A, CHR 0x0D}) s"

definition digits_prefix :: "string \<Rightarrow> string" where
  "digits_prefix s = takeWhile is_digit s"

text \<open>The number literal at the head of a text: its end, or \<open>None\<close>.\<close>

definition scan_int :: "string \<Rightarrow> string option" where
  "scan_int s =
     (if s = [] \<or> \<not> is_digit (hd s) then None
      else if hd s = CHR ''0'' then Some (tl s) else Some (dropWhile is_digit s))"

definition scan_frac :: "string \<Rightarrow> string option" where
  "scan_frac s =
     (if s \<noteq> [] \<and> hd s = CHR ''.'' then
        (if digits_prefix (tl s) = [] then None else Some (dropWhile is_digit (tl s)))
      else Some s)"

definition scan_exp :: "string \<Rightarrow> string option" where
  "scan_exp s =
     (if s \<noteq> [] \<and> lower_byte (hd s) = CHR ''e'' then
        (let t = drop_sign (tl s)
         in if digits_prefix t = [] then None else Some (dropWhile is_digit t))
      else Some s)"

definition json_number :: "string \<Rightarrow> (json \<times> string) option" where
  "json_number s =
     (let t = (if s \<noteq> [] \<and> hd s = CHR ''-'' then tl s else s)
      in case Option.bind (Option.bind (scan_int t) scan_frac) scan_exp of
           None \<Rightarrow> None
         | Some r \<Rightarrow> Some (JNum (take (length s - length r) s), r))"

definition json_literal :: "string \<Rightarrow> json \<Rightarrow> string \<Rightarrow> (json \<times> string) option" where
  "json_literal w v s = (if has_prefix w s then Some (v, drop (length w) s) else None)"

definition max_depth :: nat where
  "max_depth = 10000"

text \<open>
  The first argument is fuel, the second the nesting depth. A value takes at most two units of
  fuel per byte (\<open>json_value_fuel\<close> below).
\<close>

fun json_value :: "nat \<Rightarrow> nat \<Rightarrow> string \<Rightarrow> (json \<times> string) option"
  and json_elems :: "nat \<Rightarrow> nat \<Rightarrow> string \<Rightarrow> (json list \<times> string) option"
  and json_members :: "nat \<Rightarrow> nat \<Rightarrow> string \<Rightarrow> ((string \<times> json) list \<times> string) option"
where
  "json_value 0 d s = None"
| "json_value (Suc f) d s = (case skip_ws s of
     [] \<Rightarrow> None
   | c # cs \<Rightarrow>
       if c = dquote then map_option (\<lambda>(a, r). (JStr a, r)) (json_chars cs)
       else if c = CHR ''['' then
         (if max_depth \<le> d then None
          else case skip_ws cs of
            [] \<Rightarrow> None
          | e # r \<Rightarrow> if e = CHR '']'' then Some (JArr [], r)
                     else map_option (\<lambda>(vs, r). (JArr vs, r)) (json_elems f (Suc d) cs))
       else if c = CHR ''{'' then
         (if max_depth \<le> d then None
          else case skip_ws cs of
            [] \<Rightarrow> None
          | e # r \<Rightarrow> if e = CHR ''}'' then Some (JObj [], r)
                     else map_option (\<lambda>(vs, r). (JObj vs, r)) (json_members f (Suc d) cs))
       else if c = CHR ''t'' then json_literal ''true'' (JBool True) (c # cs)
       else if c = CHR ''f'' then json_literal ''false'' (JBool False) (c # cs)
       else if c = CHR ''n'' then json_literal ''null'' JNull (c # cs)
       else json_number (c # cs))"
| "json_elems 0 d s = None"
| "json_elems (Suc f) d s = (case json_value f d s of
     None \<Rightarrow> None
   | Some (v, r) \<Rightarrow> (case skip_ws r of
       [] \<Rightarrow> None
     | c # cs \<Rightarrow> if c = CHR '']'' then Some ([v], cs)
                 else if c = CHR '','' then map_option (\<lambda>(vs, r). (v # vs, r)) (json_elems f d cs)
                 else None))"
| "json_members 0 d s = None"
| "json_members (Suc f) d s = (case skip_ws s of
     [] \<Rightarrow> None
   | q # qs \<Rightarrow> if q \<noteq> dquote then None
     else case json_chars qs of
       None \<Rightarrow> None
     | Some (k, r) \<Rightarrow> (case skip_ws r of
         [] \<Rightarrow> None
       | c # cs \<Rightarrow> if c \<noteq> CHR '':'' then None
         else case json_value f d cs of
           None \<Rightarrow> None
         | Some (v, r) \<Rightarrow> (case skip_ws r of
             [] \<Rightarrow> None
           | c # cs \<Rightarrow> if c = CHR ''}'' then Some ([(k, v)], cs)
                       else if c = CHR '','' then map_option (\<lambda>(vs, r). ((k, v) # vs, r)) (json_members f d cs)
                       else None)))"

text \<open>\<open>None\<close> is a syntax error.\<close>

definition json_parse :: "string \<Rightarrow> json option" where
  "json_parse s = (case json_value (2 * length s + 2) 0 s of
     None \<Rightarrow> None
   | Some (v, r) \<Rightarrow> if skip_ws r = [] then Some v else None)"

section \<open>The fuel is enough\<close>

lemma length_skip_ws: "length (skip_ws s) \<le> length s"
  by (simp add: skip_ws_def length_dropWhile_le)

lemma skip_ws_Cons: "skip_ws s = c # cs \<Longrightarrow> length cs < length s"
  using length_skip_ws [of s] by simp

lemma json_chars_shorter: "json_chars s = Some (a, r) \<Longrightarrow> length r < length s"
proof (induction s arbitrary: a r rule: measure_induct_rule [where f = length])
  case (less s)
  from less.prems have ne: "s \<noteq> []" by (subst (asm) json_chars.simps) auto
  have IH: "json_chars t = Some (b, r) \<Longrightarrow> length t < length s \<Longrightarrow> length r < length s" for t b
    using less.IH [of t b r] by simp
  show ?case
    using less.prems ne
    apply (subst (asm) json_chars.simps)
    apply (auto simp: Let_def neq_Nil_conv split: if_splits option.splits prod.splits)
        apply (drule IH, simp, simp)+
    done
qed

lemma json_literal_shorter: "json_literal w v s = Some (x, r) \<Longrightarrow> w \<noteq> [] \<Longrightarrow> s \<noteq> [] \<Longrightarrow> length r < length s"
  by (auto simp: json_literal_def split: if_splits)

lemma json_number_shorter: "json_number s = Some (x, r) \<Longrightarrow> length r < length s"
proof -
  have tl: "length (tl u) \<le> length u" for u :: string by simp
  have dw: "length (dropWhile P u) \<le> length u" for P and u :: string by (rule length_dropWhile_le)
  have i: "scan_int u = Some t \<Longrightarrow> length t < length u" for u t
    using dw [of is_digit "tl u"] by (cases u) (auto simp: scan_int_def less_Suc_eq_le split: if_splits)
  have f: "scan_frac u = Some t \<Longrightarrow> length t \<le> length u" for u t
    using dw [of is_digit "tl u"] tl [of u] by (auto simp: scan_frac_def split: if_splits)
  have d: "length (drop_sign u) \<le> length u" for u by (cases u) (auto simp: drop_sign_def)
  have e: "scan_exp u = Some t \<Longrightarrow> length t \<le> length u" for u t
    using dw [of is_digit "drop_sign (tl u)"] d [of "tl u"] tl [of u]
    by (auto simp: scan_exp_def Let_def split: if_splits)
  assume "json_number s = Some (x, r)"
  then obtain t a b where t: "t = (if s \<noteq> [] \<and> hd s = CHR ''-'' then tl s else s)"
    and "scan_int t = Some a" "scan_frac a = Some b" "scan_exp b = Some r"
    by (auto simp: json_number_def Let_def bind_eq_Some_conv split: option.splits if_splits)
  then have "length r < length t" using i f e by fastforce
  moreover have "length t \<le> length s" using t by auto
  ultimately show ?thesis by simp
qed

lemma json_shorter:
  "json_value f d s = Some (v, r) \<Longrightarrow> length r < length s"
  "json_elems f d s = Some (vs, r) \<Longrightarrow> length r < length s"
  "json_members f d s = Some (ms, r) \<Longrightarrow> length r < length s"
proof (induction f d s and f d s and f d s arbitrary: v r and vs r and ms r
    rule: json_value_json_elems_json_members.induct)
  case (2 f d s)
  obtain c cs where c: "skip_ws s = c # cs" using "2.prems" by (auto split: list.splits)
  have n: "json_number (c # cs) = Some (v, r) \<Longrightarrow> length r < length s"
    using json_number_shorter [of "c # cs"] skip_ws_Cons [OF c] by fastforce
  have l: "json_literal w j (c # cs) = Some (v, r) \<Longrightarrow> w \<noteq> [] \<Longrightarrow> length r < length s" for w j
    using json_literal_shorter [of w j "c # cs"] skip_ws_Cons [OF c] by fastforce
  have q: "json_chars cs = Some (x, r) \<Longrightarrow> length r < length s" for x
    using json_chars_shorter [of cs x r] skip_ws_Cons [OF c] by simp
  show ?case
    using "2.prems" c n l q skip_ws_Cons [OF c] 2(1) 2(2)
    by (fastforce split: if_splits list.splits dest: skip_ws_Cons)
next
  case (4 f d s)
  then show ?case
    by (fastforce split: if_splits list.splits option.splits prod.splits dest: skip_ws_Cons)
next
  case (6 f d s)
  then show ?case
    by (fastforce split: if_splits list.splits option.splits prod.splits dest: skip_ws_Cons json_chars_shorter)
qed simp_all

text \<open>With two units per byte more fuel changes nothing: a \<open>None\<close> is a syntax error.\<close>

lemma json_value_fuel_aux:
  "length s = n \<Longrightarrow> (2 * n < f \<longrightarrow> 2 * n < f' \<longrightarrow> json_value f d s = json_value f' d s) \<and>
     (2 * n + 1 < f \<longrightarrow> 2 * n + 1 < f' \<longrightarrow> json_elems f d s = json_elems f' d s) \<and>
     (2 * n + 1 < f \<longrightarrow> 2 * n + 1 < f' \<longrightarrow> json_members f d s = json_members f' d s)"
proof (induction n arbitrary: s f f' d rule: less_induct)
  case (less n)
  have IH: "2 * length t < g \<Longrightarrow> 2 * length t < g' \<Longrightarrow> json_value g e t = json_value g' e t"
    "2 * length t + 1 < g \<Longrightarrow> 2 * length t + 1 < g' \<Longrightarrow> json_elems g e t = json_elems g' e t"
    "2 * length t + 1 < g \<Longrightarrow> 2 * length t + 1 < g' \<Longrightarrow> json_members g e t = json_members g' e t"
    if "length t < length s" for t g g' e
    using less.IH [of "length t" t g g' e] less.prems that by auto
  have value_eq: "json_value g e s = json_value g' e s" if g: "2 * n < g" "2 * n < g'" for g g' e
  proof -
    obtain h h' where h: "g = Suc h" "g' = Suc h'" using g by (cases g; cases g') auto
    show ?thesis
    proof (cases "skip_ws s")
      case Nil then show ?thesis using h by simp
    next
      case (Cons c cs)
      then have l: "length cs < length s" by (rule skip_ws_Cons)
      then have "2 * length cs + 1 < h" "2 * length cs + 1 < h'" using g h less.prems by auto
      note eqs = IH(2) [OF l this] IH(3) [OF l this]
      show ?thesis unfolding h by (simp only: json_value.simps Cons list.case eqs)
    qed
  qed
  have elems_eq: "json_elems g e s = json_elems g' e s" if g: "2 * n + 1 < g" "2 * n + 1 < g'" for g g' e
  proof -
    obtain h h' where h: "g = Suc h" "g' = Suc h'" using g by (cases g; cases g') auto
    have v: "json_value h e s = json_value h' e s" using g h by (intro value_eq) auto
    have "json_elems h e cs = json_elems h' e cs"
      if "json_value h' e s = Some (x, r)" "skip_ws r = c # cs" for x r c cs
      using g h less.prems json_shorter(1) [OF that(1)] skip_ws_Cons [OF that(2)] by (intro IH) auto
    then show ?thesis unfolding h json_elems.simps v
      by (auto split: option.split prod.split list.split)
  qed
  have members_eq: "json_members g e s = json_members g' e s" if g: "2 * n + 1 < g" "2 * n + 1 < g'" for g g' e
  proof -
    obtain h h' where h: "g = Suc h" "g' = Suc h'" using g by (cases g; cases g') auto
    have v: "json_value h e cs = json_value h' e cs"
      if "skip_ws s = q # qs" "json_chars qs = Some (k, r)" "skip_ws r = c # cs" for q qs k r c cs
      using g h less.prems skip_ws_Cons [OF that(1)] json_chars_shorter [OF that(2)]
        skip_ws_Cons [OF that(3)] by (intro IH) auto
    have m: "json_members h e cs' = json_members h' e cs'"
      if "skip_ws s = q # qs" "json_chars qs = Some (k, r)" "skip_ws r = c # cs"
        "json_value h' e cs = Some (x, r')" "skip_ws r' = c' # cs'" for q qs k r c cs x r' c' cs'
      using g h less.prems skip_ws_Cons [OF that(1)] json_chars_shorter [OF that(2)]
        skip_ws_Cons [OF that(3)] json_shorter(1) [OF that(4)] skip_ws_Cons [OF that(5)]
      by (intro IH) auto
    show ?thesis unfolding h json_members.simps
      by (auto simp: v m split: option.split prod.split list.split)
  qed
  show ?case using value_eq elems_eq members_eq by blast
qed

lemma json_value_fuel:
  "2 * length s < f \<Longrightarrow> json_value f 0 s = json_value (2 * length s + 2) 0 s"
  using json_value_fuel_aux [of s "length s" f "2 * length s + 2" 0] by simp

section \<open>Decoding\<close>

text \<open>
  A decoder gives the value stored in a zeroed target and whether an \<open>UnmarshalTypeError\<close> was
  saved on the way.
\<close>

fun to_any :: "json \<Rightarrow> any \<times> bool" where
  "to_any JNull = (ANil, False)"
| "to_any (JBool b) = (ABool b, False)"
| "to_any (JNum s) = (case parse_float64 s of (x, None) \<Rightarrow> (AFloat x, False) | _ \<Rightarrow> (ANil, True))"
| "to_any (JStr s) = (AString s, False)"
| "to_any (JArr vs) = (let rs = map to_any vs in (ASlice (map fst rs), list_ex snd rs))"
| "to_any (JObj ms) =
     (let rs = map (\<lambda>(k, v). (k, to_any v)) ms
      in (AMap (fold (\<lambda>(k, r). AList.update k (fst r)) rs []), list_ex (\<lambda>(k, r). snd r) rs))"

definition decode_any_map :: "json \<Rightarrow> (string \<times> any) list \<times> bool" where
  "decode_any_map j = (case to_any j of
     (AMap m, e) \<Rightarrow> (m, e) | (ANil, e) \<Rightarrow> ([], e) | _ \<Rightarrow> ([], True))"

definition decode_float64 :: "json \<Rightarrow> f64 \<times> bool" where
  "decode_float64 j = (case j of
     JNum s \<Rightarrow> (case parse_float64 s of (x, None) \<Rightarrow> (x, False) | _ \<Rightarrow> (0, True))
   | JNull \<Rightarrow> (0, False)
   | _ \<Rightarrow> (0, True))"

definition decode_slice :: "(json \<Rightarrow> 'a \<times> bool) \<Rightarrow> json \<Rightarrow> 'a list \<times> bool" where
  "decode_slice d j = (case j of
     JArr vs \<Rightarrow> (map (fst \<circ> d) vs, list_ex (snd \<circ> d) vs)
   | JNull \<Rightarrow> ([], False)
   | _ \<Rightarrow> ([], True))"

text \<open>
  A Go array \<open>[n]T\<close>: further elements of the text are skipped, missing ones are zero.
\<close>

definition decode_array :: "nat \<Rightarrow> 'a \<Rightarrow> (json \<Rightarrow> 'a \<times> bool) \<Rightarrow> json \<Rightarrow> 'a list \<times> bool" where
  "decode_array n z d j = (case j of
     JArr vs \<Rightarrow> (map (fst \<circ> d) (take n vs) @ replicate (n - length vs) z, list_ex (snd \<circ> d) (take n vs))
   | JNull \<Rightarrow> (replicate n z, False)
   | _ \<Rightarrow> (replicate n z, True))"

text \<open>\<open>json.Unmarshal\<close> into a target whose zero value is the second argument.\<close>

definition unmarshal :: "(json \<Rightarrow> 'a \<times> bool) \<Rightarrow> 'a \<Rightarrow> string \<Rightarrow> 'a \<times> go_err option" where
  "unmarshal d z s = (case json_parse s of
     None \<Rightarrow> (z, Some (JSONError SyntaxError))
   | Some j \<Rightarrow> (let (x, bad) = d j in (x, if bad then Some (JSONError UnmarshalTypeError) else None)))"

lemma length_decode_array [simp]: "length (fst (decode_array n z d j)) = n"
  by (auto simp: decode_array_def split: json.split)

lemma length_unmarshal_array [simp]:
  "length (fst (unmarshal (decode_array n z d) (replicate n z) s)) = n"
  by (auto simp: unmarshal_def split_beta split: option.split)

lemma wf_map_fold_update: "wf_map m \<Longrightarrow> wf_map (fold (\<lambda>(k, r). AList.update k (f r)) rs m)"
  by (induction rs arbitrary: m) auto

lemma wf_decode_any_map: "wf_map (fst (decode_any_map j))"
  by (cases j) (auto simp: decode_any_map_def Let_def wf_map_fold_update split: option.splits prod.splits)
end
