(* ===== verification/Util.thy ===== *)
theory Util
  imports GoStrings
begin

text \<open>
  Package internal/util: undoing SQF's string quoting, and the weapon description of hit and
  kill events. SQF's \<open>str\<close> puts a string in quotes and doubles the quotes inside it;
  \<open>sqf_escape\<close> and \<open>sqf_quote\<close> are that encoding, the specification \<open>FixEscapeQuotes\<close>
  and \<open>TrimQuotes\<close> are checked against.
\<close>

definition TrimQuotes :: "string \<Rightarrow> string" where
  "TrimQuotes s = trim_char dquote s"

definition FixEscapeQuotes :: "string \<Rightarrow> string" where
  "FixEscapeQuotes s = replace_all [dquote, dquote] [dquote] s"

text \<open>The triple \<open>(vehicle, weapon, magazine)\<close>.\<close>

definition ParseSQFStringArray :: "string \<Rightarrow> string \<times> string \<times> string" where
  "ParseSQFStringArray s =
     (let s = trim_space s in
      if length s < 2 \<or> s ! 0 \<noteq> CHR ''['' \<or> s ! (length s - 1) \<noteq> CHR '']'' then ([], s, [])
      else let inner = drop 1 (take (length s - 1) s);
               parts = split_n [dquote, CHR '','', dquote] 3 inner
           in if length parts \<noteq> 3 then ([], s, [])
              else (FixEscapeQuotes (trim_char dquote (parts ! 0)),
                    FixEscapeQuotes (trim_char dquote (parts ! 1)),
                    FixEscapeQuotes (trim_char dquote (parts ! 2))))"

definition FormatWeaponText :: "string \<Rightarrow> string \<Rightarrow> string \<Rightarrow> string" where
  "FormatWeaponText vehicle weapon magazine =
     (if vehicle \<noteq> [] then vehicle @ (if weapon \<noteq> [] then '': '' else []) else [])
     @ weapon
     @ (if magazine \<noteq> [] then '' ['' @ magazine @ '']'' else [])"

section \<open>SQF quoting\<close>

definition sqf_escape :: "string \<Rightarrow> string" where
  "sqf_escape s = concat (map (\<lambda>c. if c = dquote then [dquote, dquote] else [c]) s)"

definition sqf_quote :: "string \<Rightarrow> string" where
  "sqf_quote s = dquote # sqf_escape s @ [dquote]"

definition bare_ends :: "string \<Rightarrow> bool" where
  "bare_ends s = (s \<noteq> [] \<longrightarrow> hd s \<noteq> dquote \<and> last s \<noteq> dquote)"

lemma bare_ends_Nil [simp]: "bare_ends []"
  by (simp add: bare_ends_def)

lemma sqf_escape_simps [simp]:
  "sqf_escape [] = []"
  "sqf_escape (c # s) = (if c = dquote then [dquote, dquote] else [c]) @ sqf_escape s"
  by (simp_all add: sqf_escape_def)

lemma sqf_escape_eq_Nil [simp]: "sqf_escape s = [] \<longleftrightarrow> s = []"
  by (cases s) auto

lemma sqf_escape_no_quote: "dquote \<notin> set s \<Longrightarrow> sqf_escape s = s"
  by (induction s) auto

lemma replace_all_Nil [simp]: "replace_all old new [] = []"
  by (simp add: replace_all.simps)

lemma FixEscapeQuotes_simps [simp]:
  "FixEscapeQuotes [] = []"
  "FixEscapeQuotes (dquote # dquote # s) = dquote # FixEscapeQuotes s"
  "c \<noteq> dquote \<Longrightarrow> FixEscapeQuotes (c # s) = c # FixEscapeQuotes s"
  unfolding FixEscapeQuotes_def
  by simp (subst replace_all.simps, simp add: has_prefix_def)+

lemma FixEscapeQuotes_escape [simp]: "FixEscapeQuotes (sqf_escape s) = s"
  by (induction s) auto

lemma FixEscapeQuotes_no_quote: "dquote \<notin> set s \<Longrightarrow> FixEscapeQuotes s = s"
  using FixEscapeQuotes_escape [of s] by (simp add: sqf_escape_no_quote)

lemma trim_char_bare:
  "s \<noteq> [] \<Longrightarrow> hd s \<noteq> c \<Longrightarrow> last s \<noteq> c \<Longrightarrow> trim_char c s = s"
proof -
  assume s: "s \<noteq> []" "hd s \<noteq> c" "last s \<noteq> c"
  then have "dropWhile (\<lambda>x. x = c) s = s" "dropWhile (\<lambda>x. x = c) (rev s) = rev s"
    by (auto simp: dropWhile_eq_self_iff hd_rev)
  then show ?thesis by (simp add: trim_char_def)
qed

lemma trim_char_left: "trim_char c (c # s) = trim_char c s"
  by (simp add: trim_char_def)

lemma trim_char_right: "trim_char c (s @ [c]) = trim_char c s"
proof (cases "\<forall>x \<in> set s. x = c")
  case True
  then show ?thesis by (auto simp: trim_char_def dest!: set_dropWhileD)
next
  case False
  then show ?thesis by (auto simp: trim_char_def dropWhile_append1)
qed

lemma trim_char_Nil [simp]: "trim_char c [] = []"
  by (simp add: trim_char_def)

lemma hd_sqf_escape: "s \<noteq> [] \<Longrightarrow> hd (sqf_escape s) = hd s"
  by (cases s) auto

lemma last_sqf_escape: "s \<noteq> [] \<Longrightarrow> last (sqf_escape s) = last s"
  by (induction s) auto

lemma trim_sqf_escape: "bare_ends s \<Longrightarrow> trim_char dquote (sqf_escape s) = sqf_escape s"
  by (cases "s = []") (auto simp: bare_ends_def hd_sqf_escape last_sqf_escape intro: trim_char_bare)

lemma trim_no_quote: "dquote \<notin> set s \<Longrightarrow> trim_char dquote s = s"
  by (cases "s = []") (auto intro!: trim_char_bare, metis hd_in_set, metis last_in_set)

lemma TrimQuotes_quote: "bare_ends s \<Longrightarrow> TrimQuotes (sqf_quote s) = sqf_escape s"
  using trim_char_right [of dquote "dquote # sqf_escape s"]
  by (simp add: TrimQuotes_def sqf_quote_def trim_char_left trim_sqf_escape)

text \<open>What every parser does to each of its arguments.\<close>

definition fix_arg :: "string \<Rightarrow> string" where
  "fix_arg s = FixEscapeQuotes (TrimQuotes s)"

lemma fix_arg_quote: "bare_ends s \<Longrightarrow> fix_arg (sqf_quote s) = s"
  by (simp add: fix_arg_def TrimQuotes_quote)

lemma fix_arg_no_quote: "dquote \<notin> set s \<Longrightarrow> fix_arg s = s"
  by (simp add: fix_arg_def TrimQuotes_def trim_no_quote FixEscapeQuotes_no_quote)

section \<open>The weapon array\<close>

definition sqf_array3 :: "string \<Rightarrow> string \<Rightarrow> string \<Rightarrow> string" where
  "sqf_array3 a b c = ''['' @ sqf_quote a @ '','' @ sqf_quote b @ '','' @ sqf_quote c @ '']''"

lemma cut_separator:
  assumes "dquote \<notin> set a"
  shows "cut [dquote, CHR '','', dquote] (a @ dquote # CHR '','' # dquote # b) = Some (a, b)"
  using assms
proof (induction a)
  case Nil
  show ?case by (simp add: cut.simps has_prefix_def)
next
  case (Cons x a)
  then show ?case by (subst cut.simps) (auto simp: has_prefix_def)
qed

lemma trim_space_bracketed: "trim_space (''['' @ s @ '']'') = ''['' @ s @ '']''"
proof -
  have l: "trim_left_runes space_runes (CHR ''['' # t) = CHR ''['' # t" for t
    by (subst trim_left_runes.simps) (simp add: head_len_def space_runes_def has_prefix_def)
  have r: "trim_left_runes (map rev space_runes) (CHR '']'' # t) = CHR '']'' # t" for t
    by (subst trim_left_runes.simps) (simp add: head_len_def space_runes_def has_prefix_def)
  show ?thesis by (simp add: trim_space_def l r)
qed

lemma ParseSQFStringArray_bracketed:
  assumes "split_n [dquote, CHR '','', dquote] 3 inner = [a, b, c]"
  shows "ParseSQFStringArray (''['' @ inner @ '']'') =
    (FixEscapeQuotes (trim_char dquote a), FixEscapeQuotes (trim_char dquote b),
     FixEscapeQuotes (trim_char dquote c))"
  unfolding ParseSQFStringArray_def trim_space_bracketed using assms
  by (simp add: Let_def nth_append del: split_n.simps)

lemma ParseSQFStringArray_array:
  assumes "dquote \<notin> set v" "v \<noteq> '',''" "dquote \<notin> set w" "bare_ends m"
  shows "ParseSQFStringArray (sqf_array3 v w m) = (v, w, m)"
proof -
  let ?sep = "[dquote, CHR '','', dquote]"
  let ?inner = "dquote # v @ dquote # CHR '','' # dquote # w @ dquote # CHR '','' # dquote # sqf_escape m @ [dquote]"
  have arr: "sqf_array3 v w m = ''['' @ ?inner @ '']''"
    using assms by (simp add: sqf_array3_def sqf_quote_def sqf_escape_no_quote)
  have c2: "cut ?sep (w @ dquote # CHR '','' # dquote # sqf_escape m @ [dquote]) = Some (w, sqf_escape m @ [dquote])"
    by (rule cut_separator) fact
  have c1: "cut ?sep ?inner = Some (dquote # v, w @ dquote # CHR '','' # dquote # sqf_escape m @ [dquote])"
  proof (cases v)
    case Nil
    then show ?thesis using cut_separator [of "[]"] by (subst cut.simps) (simp add: has_prefix_def)
  next
    case (Cons x xs)
    with assms have "\<not> has_prefix ?sep ?inner"
      by (cases xs) (auto simp: has_prefix_def)
    with assms show ?thesis using cut_separator [of v] by (subst cut.simps) auto
  qed
  have parts: "split_n ?sep 3 ?inner = [dquote # v, w, sqf_escape m @ [dquote]]"
    by (simp add: eval_nat_numeral c1 c2)
  have trims: "trim_char dquote (dquote # v) = v" "trim_char dquote w = w"
    "trim_char dquote (sqf_escape m @ [dquote]) = sqf_escape m"
    using assms by (simp_all add: trim_char_left trim_char_right trim_sqf_escape trim_no_quote)
  show ?thesis
    unfolding arr ParseSQFStringArray_bracketed [OF parts] trims
    using assms by (simp add: FixEscapeQuotes_no_quote)
qed

end
