(* ===== verification/Export_Types.thy ===== *)
theory Export_Types
  imports Core_Types GoJson Util
begin

text \<open>
  internal/storage/memory/export/v1: the types of the export format (types.go), the input
  \<open>MissionData\<close>, and the helpers of builder.go. The rows of the format are heterogeneous
  JSON arrays, lists of \<open>any\<close>: Go's int is \<open>AInt\<close>, its unsigned types \<open>AUint\<close>, float64 \<open>AFloat\<close> and
  float32 \<open>AFloat32\<close>.
\<close>

section \<open>Types\<close>

record export_time =
  et_Date :: string
  et_FrameNum :: int
  et_SystemTimeUTC :: string
  et_Time :: f32
  et_TimeMultiplier :: f32

record entity =
  en_ID :: u16
  en_Name :: string
  en_Group :: string
  en_Side :: string
  en_IsPlayer :: int
  en_Type :: string
  en_Role :: string
  en_Class :: string
  en_StartFrameNum :: int
  en_Positions :: "any list list"
  en_FramesFired :: "any list list"

record export =
  ex_AddonVersion :: string
  ex_ExtensionVersion :: string
  ex_ExtensionBuild :: string
  ex_MissionName :: string
  ex_MissionAuthor :: string
  ex_WorldName :: string
  ex_EndFrame :: int
  ex_CaptureDelay :: f32
  ex_Tags :: string
  ex_Times :: "export_time list"
  ex_Entities :: "entity list"
  ex_Events :: "any list list"
  ex_Markers :: "any list list"

record soldier_record =
  sr_Soldier :: soldier
  sr_States :: "soldier_state list"
  sr_FiredEvents :: "fired_event list"

record vehicle_record =
  vr_Vehicle :: vehicle
  vr_States :: "vehicle_state list"

record marker_record =
  mr_Marker :: marker
  mr_States :: "marker_state list"

record placed_object_record =
  pr_PlacedObject :: placed_object
  pr_Events :: "placed_object_event list"

record mission_data =
  md_Mission :: "mission option"
  md_World :: "world option"
  md_Soldiers :: "(u16 \<times> soldier_record) list"
  md_Vehicles :: "(u16 \<times> vehicle_record) list"
  md_Markers :: "(string \<times> marker_record) list"
  md_PlacedObjects :: "(u16 \<times> placed_object_record) list"
  md_GeneralEvents :: "general_event list"
  md_SectorEvents :: "sector_event list"
  md_EndMissionEvents :: "end_mission_event list"
  md_HitEvents :: "hit_event list"
  md_KillEvents :: "kill_event list"
  md_TimeStates :: "time_state list"
  md_ProjectileEvents :: "projectile_event list"

section \<open>Frames\<close>

text \<open>Go's \<open>int\<close> arithmetic wraps at 64 bits.\<close>

definition wrap64 :: "int \<Rightarrow> int" where
  "wrap64 i = sint (of_int i :: u64)"

definition frameToV1 :: "frame \<Rightarrow> int" where
  "frameToV1 f = wrap64 (sint f - 1)"

text \<open>
  \<open>for f := startF; f <= endF; f++ { positions = append(positions, pos) }\<close>. With \<open>endF\<close> the
  greatest int the condition never fails: \<open>None\<close> is a loop that does not end.
\<close>

partial_function (option) gap_fill :: "int \<Rightarrow> int \<Rightarrow> 'a \<Rightarrow> 'a list \<Rightarrow> 'a list option" where
  "gap_fill f endF pos acc =
     (if f \<le> endF then gap_fill (wrap64 (f + 1)) endF pos (acc @ [pos]) else Some acc)"

section \<open>Helpers of builder.go\<close>

definition boolToInt :: "bool \<Rightarrow> int" where
  "boolToInt b = (if b then 1 else 0)"

definition isProjectileMarker :: "string \<Rightarrow> bool" where
  "isProjectileMarker sim = (sim \<noteq> ''shotBullet'')"

definition parseMarkerSize :: "string \<Rightarrow> f64 list" where
  "parseMarkerSize sizeStr = (case unmarshal (decode_slice decode_float64) [] sizeStr of
     (sz, err) \<Rightarrow> if err \<noteq> None \<or> length sz \<noteq> 2 then [FNum 1, FNum 1] else sz)"

definition sideToIndex :: "string \<Rightarrow> int" where
  "sideToIndex side = (let s = to_upper side in
     if s = ''EAST'' \<or> s = ''OPFOR'' then 0
     else if s = ''WEST'' \<or> s = ''BLUFOR'' then 1
     else if s = ''GUER'' \<or> s = ''INDEPENDENT'' then 2
     else if s = ''CIV'' \<or> s = ''CIVILIAN'' then 3
     else -1)"

text \<open>The loop of \<open>extractFilename\<close>: the last separator among the first \<open>i\<close> characters.\<close>

fun last_sep :: "string \<Rightarrow> nat \<Rightarrow> nat option" where
  "last_sep path 0 = None"
| "last_sep path (Suc i) =
     (if path ! i = CHR ''/'' \<or> path ! i = CHR 0x5C then Some i else last_sep path i)"

definition extractFilename :: "string \<Rightarrow> string" where
  "extractFilename path = (case last_sep path (length path) of
     Some i \<Rightarrow> drop (i + 1) path
   | None \<Rightarrow> path)"

definition sortedMarkers :: "(string \<times> marker_record) list \<Rightarrow> marker_record list" where
  "sortedMarkers m = List.map_filter (map_of m) (sort (map fst m))"

definition sortedPlacedObjects :: "(u16 \<times> placed_object_record) list \<Rightarrow> placed_object_record list" where
  "sortedPlacedObjects m = List.map_filter (map_of m) (sort (map fst m))"

section \<open>Facts\<close>

lemma wrap64_id: "- (2 ^ 63) \<le> i \<Longrightarrow> i < 2 ^ 63 \<Longrightarrow> wrap64 i = i"
  by (simp add: wrap64_def sint_sbintrunc' signed_take_bit_int_eq_self)

lemma wrap64_range: "- (2 ^ 63) \<le> wrap64 i \<and> wrap64 i < 2 ^ 63"
  using sint_range_size [of "of_int i :: u64"] by (simp add: wrap64_def word_size)

lemma sint_word_range: "- (2 ^ 63) \<le> sint (w :: u64) \<and> sint w < 2 ^ 63"
  using sint_range_size [of w] by (simp add: word_size)

lemma frameToV1_sint: "sint w \<noteq> - (2 ^ 63) \<Longrightarrow> frameToV1 w = sint w - 1"
  using sint_word_range [of w] by (simp add: frameToV1_def wrap64_id)

lemma frameToV1_range: "- (2 ^ 63) \<le> frameToV1 w \<and> frameToV1 w < 2 ^ 63"
  unfolding frameToV1_def by (rule wrap64_range)

text \<open>Frames of a recording are small: below \<open>2 ^ 63\<close> the conversion is a shift by one.\<close>

lemma frameToV1_uint:
  assumes "uint w < 2 ^ 63"
  shows "frameToV1 w = uint w - 1"
proof -
  have "sint w = uint w"
    using wrap64_id [of "uint w"] assms uint_ge_0 [of w] by (simp add: wrap64_def)
  moreover have "uint w \<noteq> - (2 ^ 63)" using uint_ge_0 [of w] by (metis neg_0_le_iff_le not_le zero_less_numeral zero_less_power order.trans)
  ultimately show ?thesis using frameToV1_sint [of w] by simp
qed

text \<open>The gap-filling loop ends, unless its bound is the greatest int.\<close>

lemma gap_fill_stop: "endF < f \<Longrightarrow> gap_fill f endF pos acc = Some acc"
  by (subst gap_fill.simps) simp

lemma gap_fill_step: "f \<le> endF \<Longrightarrow> gap_fill f endF pos acc = gap_fill (wrap64 (f + 1)) endF pos (acc @ [pos])"
  by (subst gap_fill.simps) simp

lemma gap_fill_count:
  assumes "- (2 ^ 63) \<le> f" "endF < 2 ^ 63 - 1"
  shows "gap_fill f endF pos acc = Some (acc @ replicate (nat (endF + 1 - f)) pos)"
  using assms(1)
proof (induction "nat (endF + 1 - f)" arbitrary: f acc)
  case 0
  then show ?case by (simp add: gap_fill_stop)
next
  case (Suc n)
  then have le: "f \<le> endF" and n: "n = nat (endF + 1 - (f + 1))" by linarith+
  have w: "wrap64 (f + 1) = f + 1" using Suc.prems le assms(2) by (intro wrap64_id) auto
  have "gap_fill f endF pos acc = gap_fill (f + 1) endF pos (acc @ [pos])"
    using le w by (simp add: gap_fill_step)
  also have "\<dots> = Some ((acc @ [pos]) @ replicate (nat (endF + 1 - (f + 1))) pos)"
    using Suc.prems n by (intro Suc.hyps(1)) auto
  also have "\<dots> = Some (acc @ replicate (nat (endF + 1 - f)) pos)"
    using n Suc.hyps(2) by (metis append_Cons append_Nil append_assoc replicate_Suc)
  finally show ?case .
qed

lemma gap_fill_None:
  "gap_fill f endF pos acc = Some r \<Longrightarrow> f < 2 ^ 63 \<Longrightarrow> endF < 2 ^ 63 - 1 \<or> endF < f"
proof (induction f endF pos acc r rule: gap_fill.raw_induct [rotated, consumes 1])
  case (1 g f endF pos acc r)
  show ?case
  proof (cases "f \<le> endF")
    case True
    then have "endF < 2 ^ 63 - 1 \<or> endF < wrap64 (f + 1)"
      using 1 wrap64_range [of "f + 1"] by auto
    then show ?thesis using wrap64_range [of "f + 1"] by linarith
  qed simp
qed

lemma gap_fill_diverges: "f < 2 ^ 63 \<Longrightarrow> gap_fill f (2 ^ 63 - 1) pos acc = None"
  using gap_fill_None [of f "2 ^ 63 - 1" pos acc] by (cases "gap_fill f (2 ^ 63 - 1) pos acc") auto

section \<open>File names, markers in order\<close>

lemma last_sep_None: "i \<le> length path \<Longrightarrow> last_sep path i = None \<longleftrightarrow>
    (\<forall>j < i. path ! j \<noteq> CHR ''/'' \<and> path ! j \<noteq> CHR 0x5C)"
  by (induction i) (auto simp: less_Suc_eq)

lemma last_sep_Some: "last_sep path i = Some k \<Longrightarrow> k < i \<and> path ! k \<in> {CHR ''/'', CHR 0x5C} \<and>
    (\<forall>j. k < j \<and> j < i \<longrightarrow> path ! j \<noteq> CHR ''/'' \<and> path ! j \<noteq> CHR 0x5C)"
  by (induction i) (auto simp: less_Suc_eq split: if_splits)

text \<open>The file name is the longest suffix of the path without a separator.\<close>

lemma extractFilename_suffix:
  "\<exists>dir. path = dir @ extractFilename path \<and> (dir = [] \<or> last dir \<in> {CHR ''/'', CHR 0x5C}) \<and>
     CHR ''/'' \<notin> set (extractFilename path) \<and> CHR 0x5C \<notin> set (extractFilename path)"
proof (cases "last_sep path (length path)")
  case None
  then have "\<forall>c \<in> set path. c \<noteq> CHR ''/'' \<and> c \<noteq> CHR 0x5C"
    by (auto simp: last_sep_None in_set_conv_nth)
  with None show ?thesis by (intro exI [of _ "[]"]) (auto simp: extractFilename_def)
next
  case (Some k)
  note k = last_sep_Some [OF Some]
  have "\<forall>c \<in> set (drop (k + 1) path). c \<noteq> CHR ''/'' \<and> c \<noteq> CHR 0x5C"
    using k by (fastforce simp: in_set_conv_nth)
  moreover have "last (take (k + 1) path) \<in> {CHR ''/'', CHR 0x5C}"
    using k by (simp add: take_Suc_conv_app_nth)
  ultimately show ?thesis
    using Some by (intro exI [of _ "take (k + 1) path"]) (auto simp: extractFilename_def)
qed

lemma sort_map_fst:
  fixes m :: "('k :: linorder \<times> 'v) list"
  shows "sort (map fst m) = map fst (sort_key fst m)"
  by (rule properties_for_sort) (simp_all add: mset_map)

lemma map_filter_map_of_keys:
  assumes "wf_map m"
  shows "List.map_filter (map_of m) (sort (map fst m)) = map snd (sort_key fst m)"
proof -
  have "List.map_filter (map_of m) (map fst xs) = map snd xs" if "set xs \<subseteq> set m" for xs
    using that
  proof (induction xs)
    case (Cons x xs)
    then have "map_of m (fst x) = Some (snd x)"
      using wf_map_Some_iff [OF assms] by simp
    with Cons show ?case by (simp add: List.map_filter_simps)
  qed (simp add: List.map_filter_simps)
  from this [of "sort_key fst m"] show ?thesis by (simp add: sort_map_fst)
qed

end
