(* ===== verification/Export_Build.thy ===== *)
theory Export_Build
  imports Export_Types
begin

text \<open>
  builder.go: \<open>Build\<close> turns the mission data into an \<open>Export\<close>. The rows are built by one
  definition per kind of row. A result is \<open>None\<close> when a gap-filling loop does not end, a
  \<open>Panic\<close> when Go panics. The distances use separate float64 operations, as Go compiles them
  on amd64.
\<close>

section \<open>Event rows\<close>

definition AFloats :: "f64 list \<Rightarrow> any" where
  "AFloats xs = ASlice (map AFloat xs)"

definition ARows :: "any list list \<Rightarrow> any" where
  "ARows rs = ASlice (map ASlice rs)"

definition buildGeneralEvent :: "general_event \<Rightarrow> any list" where
  "buildGeneralEvent evt =
     (let msg = ge_Message evt;
          message = (if msg \<noteq> [] \<and> (hd msg = CHR ''['' \<or> hd msg = CHR ''{'')
                     then (case unmarshal to_any ANil msg of
                         (parsed, None) \<Rightarrow> parsed | (_, Some _) \<Rightarrow> AString msg)
                     else AString msg);
          event = [AInt (frameToV1 (ge_CaptureFrame evt)), AString (ge_Name evt), message]
      in if ge_Name evt = ''connected'' \<or> ge_Name evt = ''disconnected'' then
           (case map_of (ge_ExtraData evt) ''playerUid'' of
              Some (AString playerUID) \<Rightarrow> if playerUID \<noteq> [] then event @ [AString playerUID] else event
            | _ \<Rightarrow> event)
         else event)"

definition sector_row :: "sector_event \<Rightarrow> any list" where
  "sector_row evt =
     [AInt (frameToV1 (sec_CaptureFrame evt)), AString (sec_Name evt),
      ASlice [AString (sec_ObjectType evt), AString (sec_UnitName evt), AString (sec_Side evt),
              AFloats [sec_PosX evt, sec_PosY evt, sec_PosZ evt]]]"

definition end_mission_row :: "end_mission_event \<Rightarrow> any list" where
  "end_mission_row evt =
     [AInt (frameToV1 (eme_CaptureFrame evt)), AString ''endMission'',
      ASlice [AString (eme_Side evt), AString (eme_Message evt)]]"

text \<open>The vehicle ID if there is one, else the soldier ID, else 0.\<close>

definition pick_id :: "guint option \<Rightarrow> guint option \<Rightarrow> guint" where
  "pick_id vehicleID soldierID = (case vehicleID of
     Some i \<Rightarrow> i
   | None \<Rightarrow> (case soldierID of Some i \<Rightarrow> i | None \<Rightarrow> 0))"

definition hit_row :: "hit_event \<Rightarrow> any list" where
  "hit_row evt =
     [AInt (frameToV1 (he_CaptureFrame evt)), AString ''hit'',
      AUint (uint (pick_id (he_VictimVehicleID evt) (he_VictimSoldierID evt))),
      ASlice [AUint (uint (pick_id (he_ShooterVehicleID evt) (he_ShooterSoldierID evt))),
              AString (he_EventText evt)],
      AFloat32 (he_Distance evt)]"

definition kill_row :: "kill_event \<Rightarrow> any list" where
  "kill_row evt =
     [AInt (frameToV1 (ke_CaptureFrame evt)), AString ''killed'',
      AUint (uint (pick_id (ke_VictimVehicleID evt) (ke_VictimSoldierID evt))),
      ASlice [AUint (uint (pick_id (ke_KillerVehicleID evt) (ke_KillerSoldierID evt))),
              AString (ke_EventText evt)],
      AFloat32 (ke_Distance evt)]"

section \<open>Marker rows\<close>

definition pos3_list :: "position3D \<Rightarrow> f64 list" where
  "pos3_list p = [pos3_X p, pos3_Y p, pos3_Z p]"

definition marker_positions :: "marker_record \<Rightarrow> any list list" where
  "marker_positions record =
     (let m = mr_Marker record; markerColor = trim_prefix ''#'' (mk_Color m);
          tail = [AFloat32 (mk_Direction m), AFloat32 (mk_Alpha m), AString (mk_Text m),
                  AString markerColor, AFloats (parseMarkerSize (mk_Size m)),
                  AString (mk_MarkerType m), AString (mk_Brush m), AString (mk_Shape m)];
          frame = AInt (frameToV1 (mk_CaptureFrame m))
      in if mk_Shape m = ''POLYLINE'' then
           [[frame, ASlice (map (\<lambda>pt. AFloats [pos2_X pt, pos2_Y pt]) (mk_Polyline m))] @ tail]
         else
           [[frame, AFloats (pos3_list (mk_Position m))] @ tail]
           @ map (\<lambda>st. [AInt (frameToV1 (ms_CaptureFrame st)), AFloats (pos3_list (ms_Position st)),
                       AFloat32 (ms_Direction st), AFloat32 (ms_Alpha st), AString (ms_Text st),
                       AString (trim_prefix ''#'' (ms_Color st)),
                       AFloats (parseMarkerSize (ms_Size st)), AString (ms_MarkerType st),
                       AString (ms_Brush st), AString (ms_Shape st)]) (mr_States record))"

definition marker_row :: "marker_record \<Rightarrow> any list" where
  "marker_row record =
     (let m = mr_Marker record in
      [AString (mk_MarkerType m), AString (mk_Text m), AInt (frameToV1 (mk_CaptureFrame m)),
       AInt (frameToV1 (mk_EndFrame m)), AInt (mk_OwnerID m),
       AString (trim_prefix ''#'' (mk_Color m)), AInt (sideToIndex (mk_Side m)),
       ARows (marker_positions record), AFloats (parseMarkerSize (mk_Size m)),
       AString (mk_Shape m), AString (mk_Brush m)])"

text \<open>The end of a placed object: its first detonation or deletion.\<close>

definition placed_end_frame :: "placed_object_event list \<Rightarrow> int" where
  "placed_end_frame evts =
     (case find (\<lambda>e. poe_EventType e = ''detonated'' \<or> poe_EventType e = ''deleted'') evts of
        Some e \<Rightarrow> frameToV1 (poe_CaptureFrame e) | None \<Rightarrow> -1)"

definition placed_row :: "placed_object_record \<Rightarrow> any list" where
  "placed_row record =
     (let p = pr_PlacedObject record; iconFilename = extractFilename (po_MagazineIcon p);
          markerType = (if iconFilename \<noteq> [] then ''magIcons/'' @ iconFilename else ''Minefield'')
      in [AString markerType, AString (po_DisplayName p), AInt (frameToV1 (po_JoinFrame p)),
          AInt (placed_end_frame (pr_Events record)), AInt (uint (po_OwnerID p)),
          AString ''D96600'', AInt (-1),
          ARows [[AInt (frameToV1 (po_JoinFrame p)), AFloats (pos3_list (po_Position p)),
                  AInt 0, AFloat (FNum 1)]],
          AFloats [FNum 1, FNum 1], AString ''ICON'', AString ''Solid''])"

definition distance2D :: "position3D \<Rightarrow> position3D \<Rightarrow> f32" where
  "distance2D p q =
     (let dx = pos3_X p - pos3_X q; dy = pos3_Y p - pos3_Y q
      in to_f32 (sqrt_f64 (dx * dx + dy * dy)))"

definition placed_hits :: "placed_object_record \<Rightarrow> any list list" where
  "placed_hits record =
     (let p = pr_PlacedObject record in
      List.map_filter (\<lambda>evt.
        if poe_EventType evt = ''hit'' then
          map_option (\<lambda>victim.
            [AInt (frameToV1 (poe_CaptureFrame evt)), AString ''hit'', AUint (uint victim),
             ASlice [AUint (uint (po_OwnerID p)), AString (po_DisplayName p)],
             AFloat32 (distance2D (po_Position p) (poe_Position evt))]) (poe_HitEntityID evt)
        else None) (pr_Events record))"

section \<open>Projectiles\<close>

text \<open>A bullet with a trajectory is a fire line of its firer.\<close>

definition fireline_of :: "projectile_event \<Rightarrow> (u16 \<times> any list) option" where
  "fireline_of p =
     (if \<not> isProjectileMarker (pe_SimulationType p) \<and> 2 \<le> length (pe_Trajectory p) then
        Some (pe_FirerObjectID p,
          [AInt (frameToV1 (pe_CaptureFrame p)),
           AFloats (pos3_list (tp_Position (last (pe_Trajectory p))))])
      else None)"

definition projectile_text :: "(u16 \<times> vehicle_record) list \<Rightarrow> projectile_event \<Rightarrow> string" where
  "projectile_text vs p =
     (case pe_VehicleObjectID p of
        Some v \<Rightarrow>
          if v \<noteq> pe_FirerObjectID p then
            (case map_of vs v of Some r \<Rightarrow> v_DisplayName (vr_Vehicle r) | None \<Rightarrow> [])
            @ '' '' @ pe_MuzzleDisplay p @ '' - '' @ pe_MagazineDisplay p
          else if pe_SimulationType p = ''shotGrenade'' then pe_MagazineDisplay p
          else pe_MuzzleDisplay p @ '' - '' @ pe_MagazineDisplay p
      | None \<Rightarrow>
          if pe_SimulationType p = ''shotGrenade'' then pe_MagazineDisplay p
          else pe_MuzzleDisplay p @ '' - '' @ pe_MagazineDisplay p)"

definition projectile_row :: "(u16 \<times> vehicle_record) list \<Rightarrow> projectile_event \<Rightarrow> any list" where
  "projectile_row vs p =
     (let iconFilename = extractFilename (pe_MagazineIcon p); tr = pe_Trajectory p;
          (markerType, color) =
            (if iconFilename \<noteq> [] then (''magIcons/'' @ iconFilename, ''ColorWhite'')
             else (''mil_triangle'', ''ColorRed''));
          posArray = map (\<lambda>t. [AInt (frameToV1 (tp_FrameNum t)), AFloats (pos3_list (tp_Position t)),
                              AInt 0, AFloat (FNum 1)]) tr;
          projEndFrame = (if tr \<noteq> [] then frameToV1 (tp_FrameNum (last tr)) else -1)
      in [AString markerType, AString (projectile_text vs p), AInt (frameToV1 (pe_CaptureFrame p)),
          AInt projEndFrame, AInt (uint (pe_FirerObjectID p)), AString color, AInt (-1),
          ARows posArray, AFloats [FNum 1, FNum 1], AString ''ICON'', AString ''Solid''])"

definition projectile_markers :: "(u16 \<times> vehicle_record) list \<Rightarrow> projectile_event \<Rightarrow> any list list" where
  "projectile_markers vs p =
     (if isProjectileMarker (pe_SimulationType p) then [projectile_row vs p] else [])"

definition projectile_hits :: "projectile_event \<Rightarrow> any list list" where
  "projectile_hits p =
     (let weaponName = (if pe_MuzzleDisplay p = [] then pe_WeaponDisplay p else pe_MuzzleDisplay p);
          eventText = FormatWeaponText [] weaponName (pe_MagazineDisplay p);
          startPos = (case pe_Trajectory p of
              [] \<Rightarrow> \<lparr>pos3_X = 0, pos3_Y = 0, pos3_Z = 0\<rparr> | t # _ \<Rightarrow> tp_Position t)
      in map (\<lambda>hit.
           [AInt (frameToV1 (ph_CaptureFrame hit)), AString ''hit'',
            AUint (case ph_SoldierID hit of Some i \<Rightarrow> uint i
                   | None \<Rightarrow> (case ph_VehicleID hit of Some i \<Rightarrow> uint i | None \<Rightarrow> 0)),
            ASlice [AUint (uint (pe_FirerObjectID p)), AString eventText],
            AFloat32 (distance2D startPos (ph_Position hit))]) (pe_Hits p))"

section \<open>Entities\<close>

definition ever_player :: "soldier_record \<Rightarrow> bool \<times> string" where
  "ever_player record =
     fold (\<lambda>st (isPlayer, name).
         if ss_IsPlayer st then (True, if ss_UnitName st \<noteq> [] then ss_UnitName st else name)
         else (isPlayer, name))
       (sr_States record) (s_IsPlayer (sr_Soldier record), s_UnitName (sr_Soldier record))"

definition soldier_row :: "soldier_state \<Rightarrow> any list" where
  "soldier_row st =
     [AFloats (pos3_list (ss_Position st)), AUint (uint (ss_Bearing st)),
      AUint (uint (ss_Lifestate st)),
      (case ss_InVehicleObjectID st of None \<Rightarrow> AInt 0 | Some v \<Rightarrow> AUint (uint v)),
      AString (ss_UnitName st), AInt (boolToInt (ss_IsPlayer st)), AString (ss_CurrentRole st),
      AString (ss_GroupID st), AString (ss_Side st)]"

text \<open>
  The last frame of a state: the one before the next state's, or the end of the entity, its
  deletion or else the end of the recording. \<open>rest\<close> holds the capture frames of the later states.
\<close>

definition end_frame :: "frame \<Rightarrow> frame \<Rightarrow> frame list \<Rightarrow> int" where
  "end_frame deleteFrame maxFrame rest = (case rest of
     nextFrame # _ \<Rightarrow> wrap64 (frameToV1 nextFrame - 1)
   | [] \<Rightarrow> if deleteFrame > 0 then frameToV1 deleteFrame else frameToV1 maxFrame)"

fun soldier_positions ::
    "frame \<Rightarrow> frame \<Rightarrow> soldier_state list \<Rightarrow> any list list \<Rightarrow> any list list option" where
  "soldier_positions deleteFrame maxFrame [] acc = Some acc"
| "soldier_positions deleteFrame maxFrame (st # rest) acc =
     Option.bind
       (gap_fill (frameToV1 (ss_CaptureFrame st))
          (end_frame deleteFrame maxFrame (map ss_CaptureFrame rest)) (soldier_row st) acc)
       (soldier_positions deleteFrame maxFrame rest)"

definition fired_row :: "fired_event \<Rightarrow> any list" where
  "fired_row fired = [AInt (frameToV1 (fe_CaptureFrame fired)), AFloats (pos3_list (fe_EndPos fired))]"

definition buildSoldierEntity :: "soldier_record \<Rightarrow> frame \<Rightarrow> any list list \<Rightarrow> entity option" where
  "buildSoldierEntity record maxFrame extraFirelines =
     (let s = sr_Soldier record; (isPlayer, name) = ever_player record in
      map_option (\<lambda>positions.
        \<lparr>en_ID = s_ID s, en_Name = name, en_Group = s_GroupID s, en_Side = s_Side s,
         en_IsPlayer = boolToInt isPlayer, en_Type = ''unit'', en_Role = s_RoleDescription s,
         en_Class = [], en_StartFrameNum = frameToV1 (s_JoinFrame s), en_Positions = positions,
         en_FramesFired = map fired_row (sr_FiredEvents record) @ extraFirelines\<rparr>)
        (soldier_positions (s_DeleteFrame s) maxFrame (sr_States record) []))"

text \<open>
  \<open>crew\<close> starts as an empty array, and decoding replaces it unless the text is no JSON or a number
  that overflows.
\<close>

definition parse_crew :: "string \<Rightarrow> any" where
  "parse_crew s = (case json_parse s of
     None \<Rightarrow> ASlice []
   | Some (JNum n) \<Rightarrow> (case to_any (JNum n) of (x, False) \<Rightarrow> x | (_, True) \<Rightarrow> ASlice [])
   | Some j \<Rightarrow> fst (to_any j))"

fun vehicle_positions :: "frame \<Rightarrow> frame \<Rightarrow> vehicle_state list \<Rightarrow> any list list" where
  "vehicle_positions deleteFrame maxFrame [] = []"
| "vehicle_positions deleteFrame maxFrame (st # rest) =
     [AFloats (pos3_list (vs_Position st)), AUint (uint (vs_Bearing st)),
      AInt (boolToInt (vs_IsAlive st)), parse_crew (vs_Crew st),
      ASlice [AInt (frameToV1 (vs_CaptureFrame st)),
              AInt (end_frame deleteFrame maxFrame (map vs_CaptureFrame rest))]]
     # vehicle_positions deleteFrame maxFrame rest"

definition buildVehicleEntity :: "vehicle_record \<Rightarrow> frame \<Rightarrow> entity" where
  "buildVehicleEntity record maxFrame =
     (let v = vr_Vehicle record in
      \<lparr>en_ID = v_ID v, en_Name = v_DisplayName v, en_Group = [],
       en_Side = (if v_Side v = [] then ''UNKNOWN'' else v_Side v), en_IsPlayer = 0,
       en_Type = ''vehicle'', en_Role = [], en_Class = v_OcapType v,
       en_StartFrameNum = frameToV1 (v_JoinFrame v),
       en_Positions = vehicle_positions (v_DeleteFrame v) maxFrame (vr_States record),
       en_FramesFired = []\<rparr>)"

definition zero_entity :: entity where
  "zero_entity = \<lparr>en_ID = 0, en_Name = [], en_Group = [], en_Side = [], en_IsPlayer = 0,
     en_Type = [], en_Role = [], en_Class = [], en_StartFrameNum = 0, en_Positions = [],
     en_FramesFired = []\<rparr>"

section \<open>Build\<close>

definition time_entry :: "time_state \<Rightarrow> export_time" where
  "time_entry ts = \<lparr>et_Date = ts_MissionDate ts, et_FrameNum = frameToV1 (ts_CaptureFrame ts),
     et_SystemTimeUTC = ts_SystemTimeUTC ts, et_Time = ts_MissionTime ts,
     et_TimeMultiplier = ts_TimeMultiplier ts\<rparr>"

text \<open>\<open>for ... { if x > m { m = x } }\<close>\<close>

definition running_max :: "'a :: linorder list \<Rightarrow> 'a \<Rightarrow> 'a" where
  "running_max xs m = fold (\<lambda>x m. if x > m then x else m) xs m"

definition soldier_frames :: "soldier_record \<Rightarrow> frame list" where
  "soldier_frames record = map ss_CaptureFrame (sr_States record)"

definition vehicle_frames :: "vehicle_record \<Rightarrow> frame list" where
  "vehicle_frames record = map vs_CaptureFrame (vr_States record)"

text \<open>Filling the entities array: the entity is built first, then the index is checked.\<close>

fun place_entities ::
    "('r \<Rightarrow> entity option) \<Rightarrow> ('r \<Rightarrow> u16) \<Rightarrow> 'r list \<Rightarrow> entity list \<Rightarrow> entity list outcome option" where
  "place_entities build key [] es = Some (Ok es)"
| "place_entities build key (r # rs) es = (case build r of
     None \<Rightarrow> None
   | Some e \<Rightarrow>
       if unat (key r) < length es then place_entities build key rs (es[unat (key r) := e])
       else Some (Panic (IndexOutOfRange (unat (key r)) (length es))))"

definition add_fireline :: "projectile_event \<Rightarrow> entity list \<Rightarrow> entity list" where
  "add_fireline p es = (case fireline_of p of
     Some (firer, ff) \<Rightarrow>
       if unat firer < length es
       then es[unat firer := (es ! unat firer)\<lparr>en_FramesFired := en_FramesFired (es ! unat firer) @ [ff]\<rparr>]
       else es
   | None \<Rightarrow> es)"

text \<open>Every row starts with its frame number, so the comparison's type assertions never fail.\<close>

definition event_frame :: "any list \<Rightarrow> int" where
  "event_frame r = (case r of AInt i # _ \<Rightarrow> i | _ \<Rightarrow> 0)"

definition all_events :: "mission_data \<Rightarrow> any list list" where
  "all_events data =
     map buildGeneralEvent (md_GeneralEvents data) @ map sector_row (md_SectorEvents data)
     @ map end_mission_row (md_EndMissionEvents data) @ map hit_row (md_HitEvents data)
     @ map kill_row (md_KillEvents data)
     @ concat (map placed_hits (sortedPlacedObjects (md_PlacedObjects data)))
     @ concat (map projectile_hits (md_ProjectileEvents data))"

definition all_markers :: "mission_data \<Rightarrow> any list list" where
  "all_markers data =
     map marker_row (sortedMarkers (md_Markers data))
     @ map placed_row (sortedPlacedObjects (md_PlacedObjects data))
     @ concat (map (projectile_markers (md_Vehicles data)) (md_ProjectileEvents data))"

definition Build :: "mission_data \<Rightarrow> export outcome option" where
  "Build data = (case (md_Mission data, md_World data) of
     (Some m, Some w) \<Rightarrow>
       let ss = map snd (md_Soldiers data); vs = map snd (md_Vehicles data);
           maxFrame = running_max (concat (map vehicle_frames vs))
                        (running_max (concat (map soldier_frames ss)) 0);
           hasEntities = (0 < length ss \<or> 0 < length vs);
           maxEntityID = running_max (map (v_ID \<circ> vr_Vehicle) vs)
                           (running_max (map (s_ID \<circ> sr_Soldier) ss) 0);
           es0 = (if hasEntities then replicate (unat (maxEntityID + 1)) zero_entity else [])
       in (case place_entities (\<lambda>r. buildSoldierEntity r maxFrame []) (s_ID \<circ> sr_Soldier) ss es0 of
             None \<Rightarrow> None
           | Some (Err e) \<Rightarrow> Some (Err e)
           | Some (Panic p) \<Rightarrow> Some (Panic p)
           | Some (Ok es1) \<Rightarrow>
         (case place_entities (\<lambda>r. Some (buildVehicleEntity r maxFrame)) (v_ID \<circ> vr_Vehicle) vs es1 of
             None \<Rightarrow> None
           | Some (Err e) \<Rightarrow> Some (Err e)
           | Some (Panic p) \<Rightarrow> Some (Panic p)
           | Some (Ok es2) \<Rightarrow>
               Some (Ok \<lparr>ex_AddonVersion = mi_AddonVersion m, ex_ExtensionVersion = mi_ExtensionVersion m,
                         ex_ExtensionBuild = mi_ExtensionBuild m, ex_MissionName = mi_MissionName m,
                         ex_MissionAuthor = mi_Author m, ex_WorldName = w_WorldName w,
                         ex_EndFrame = frameToV1 maxFrame, ex_CaptureDelay = mi_CaptureDelay m,
                         ex_Tags = mi_Tag m, ex_Times = map time_entry (md_TimeStates data),
                         ex_Entities = fold add_fireline (md_ProjectileEvents data) es2,
                         ex_Events = sort_key event_frame (all_events data),
                         ex_Markers = all_markers data\<rparr>)))
   | _ \<Rightarrow> Some (Panic NilDereference))"

end
