(* ===== verification/Export_Stream.thy ===== *)
theory Export_Stream
  imports Export_Build
begin

text \<open>
  stream.go: \<open>Stream\<close> writes the export field by field, one entity at a time. Its result is the
  document written, as an \<open>export\<close>, or the error of the first value that has no JSON form
  (a NaN or an infinity); \<open>None\<close> is again a gap-filling loop that does not end. The writer
  itself is taken not to fail here; the memory backend adds that case.
\<close>

section \<open>Marshalling\<close>

text \<open>json.Marshal fails on a float that is no finite number, and only then.\<close>

fun any_ok :: "any \<Rightarrow> bool" where
  "any_ok (AFloat x) = finite_f64 x"
| "any_ok (AFloat32 x) = finite_f64 x"
| "any_ok (ASlice xs) = (\<forall>x \<in> set xs. any_ok x)"
| "any_ok (AMap m) = (\<forall>kx \<in> set m. any_ok (snd kx))"
| "any_ok _ = True"

definition rows_ok :: "any list list \<Rightarrow> bool" where
  "rows_ok rs = (\<forall>r \<in> set rs. \<forall>x \<in> set r. any_ok x)"

definition entity_ok :: "entity \<Rightarrow> bool" where
  "entity_ok e = (rows_ok (en_Positions e) \<and> rows_ok (en_FramesFired e))"

definition time_ok :: "export_time \<Rightarrow> bool" where
  "time_ok t = (finite_f64 (et_Time t) \<and> finite_f64 (et_TimeMultiplier t))"

definition export_ok :: "export \<Rightarrow> bool" where
  "export_ok e = (finite_f64 (ex_CaptureDelay e) \<and> (\<forall>t \<in> set (ex_Times e). time_ok t) \<and>
     (\<forall>en \<in> set (ex_Entities e). entity_ok en) \<and> rows_ok (ex_Events e) \<and> rows_ok (ex_Markers e))"

definition unsupported :: "'a outcome" where
  "unsupported = Err (JSONError UnsupportedValue)"

text \<open>\<open>json.NewEncoder(w).Encode(e)\<close>.\<close>

definition Encode :: "export \<Rightarrow> export outcome" where
  "Encode e = (if export_ok e then Ok e else unsupported)"

section \<open>Stream\<close>

definition computeMetadata :: "mission_data \<Rightarrow> frame \<times> u16 \<times> bool" where
  "computeMetadata data =
     (let ss = map snd (md_Soldiers data); vs = map snd (md_Vehicles data)
      in (running_max (concat (map vehicle_frames vs)) (running_max (concat (map soldier_frames ss)) 0),
          running_max (map (v_ID \<circ> vr_Vehicle) vs) (running_max (map (s_ID \<circ> sr_Soldier) ss) 0),
          0 < length ss \<or> 0 < length vs))"

definition buildTimes :: "mission_data \<Rightarrow> export_time list" where
  "buildTimes data = map time_entry (md_TimeStates data)"

type_synonym firelines = "(u16 \<times> any list list) list"

definition lines_of :: "firelines \<Rightarrow> u16 \<Rightarrow> any list list" where
  "lines_of m i = (case map_of m i of Some l \<Rightarrow> l | None \<Rightarrow> [])"

definition collect_fireline :: "projectile_event \<Rightarrow> firelines \<Rightarrow> firelines" where
  "collect_fireline p m = (case fireline_of p of
     Some (firer, ff) \<Rightarrow> AList.update firer (lines_of m firer @ [ff]) m
   | None \<Rightarrow> m)"

text \<open>Markers come sorted, with their positions; placed objects give a marker and the hits of their events.\<close>

definition stream_markers :: "mission_data \<Rightarrow> any list list" where
  "stream_markers data = map marker_row (sortedMarkers (md_Markers data))"

definition stream_placed :: "mission_data \<Rightarrow> any list list \<times> any list list \<Rightarrow> any list list \<times> any list list" where
  "stream_placed data em =
     fold (\<lambda>record (events, markers). (events @ placed_hits record, markers @ [placed_row record]))
       (sortedPlacedObjects (md_PlacedObjects data)) em"

text \<open>One projectile: a bullet becomes a fire line of its firer, others become markers; both produce hits.\<close>

definition stream_projectile ::
  "(u16 \<times> vehicle_record) list \<Rightarrow> projectile_event \<Rightarrow> any list list \<times> any list list \<times> firelines \<Rightarrow>
     any list list \<times> any list list \<times> firelines" where
  "stream_projectile vs pe emf = (case emf of (events, markers, firelines) \<Rightarrow>
     let (markers, firelines) =
           (if \<not> isProjectileMarker (pe_SimulationType pe) then (markers, collect_fireline pe firelines)
            else (markers @ [projectile_row vs pe], firelines));
         events = (if 0 < length (pe_Hits pe) then events @ projectile_hits pe else events)
     in (events, markers, firelines))"

definition buildAggregates :: "mission_data \<Rightarrow> any list list \<times> any list list \<times> firelines" where
  "buildAggregates data =
     (let events = map buildGeneralEvent (md_GeneralEvents data) @ map sector_row (md_SectorEvents data)
            @ map end_mission_row (md_EndMissionEvents data) @ map hit_row (md_HitEvents data)
            @ map kill_row (md_KillEvents data);
          (events, markers) = stream_placed data (events, stream_markers data)
      in fold (stream_projectile (md_Vehicles data)) (md_ProjectileEvents data) (events, markers, []))"

definition entity_for_ID :: "mission_data \<Rightarrow> frame \<Rightarrow> any list list \<Rightarrow> u16 \<Rightarrow> entity option" where
  "entity_for_ID data maxFrame extraFirelines i = (case map_of (md_Soldiers data) i of
     Some soldier \<Rightarrow> buildSoldierEntity soldier maxFrame extraFirelines
   | None \<Rightarrow> (case map_of (md_Vehicles data) i of
         Some vehicle \<Rightarrow> Some (buildVehicleEntity vehicle maxFrame)
       | None \<Rightarrow> Some zero_entity))"

fun stream_entities :: "mission_data \<Rightarrow> frame \<Rightarrow> firelines \<Rightarrow> u16 list \<Rightarrow> entity list outcome option" where
  "stream_entities data maxFrame fl [] = Some (Ok [])"
| "stream_entities data maxFrame fl (i # is) =
     (case entity_for_ID data maxFrame (lines_of fl i) i of
        None \<Rightarrow> None
      | Some e \<Rightarrow>
          if entity_ok e then map_option (map_ok (\<lambda>es. e # es)) (stream_entities data maxFrame fl is)
          else Some unsupported)"

text \<open>\<open>for id := uint16(0); ; id++ { ...; if id == maxEntityID { break } }\<close>\<close>

definition ids_upto :: "u16 \<Rightarrow> u16 list" where
  "ids_upto maxEntityID = map of_nat [0 ..< Suc (unat maxEntityID)]"

definition Stream :: "mission_data \<Rightarrow> export outcome option" where
  "Stream data =
     (let (maxFrame, maxEntityID, hasEntities) = computeMetadata data;
          times = buildTimes data;
          (events, markers, firelines) = buildAggregates data;
          events = sort_key event_frame events
      in case (md_Mission data, md_World data) of
        (Some m, Some w) \<Rightarrow>
          if \<not> finite_f64 (mi_CaptureDelay m) \<or> \<not> (\<forall>t \<in> set times. time_ok t) then Some unsupported
          else (case stream_entities data maxFrame firelines
                       (if hasEntities then ids_upto maxEntityID else []) of
              None \<Rightarrow> None
            | Some (Err e) \<Rightarrow> Some (Err e)
            | Some (Panic p) \<Rightarrow> Some (Panic p)
            | Some (Ok es) \<Rightarrow>
                if \<not> rows_ok events \<or> \<not> rows_ok markers then Some unsupported
                else Some (Ok \<lparr>ex_AddonVersion = mi_AddonVersion m,
                         ex_ExtensionVersion = mi_ExtensionVersion m,
                         ex_ExtensionBuild = mi_ExtensionBuild m, ex_MissionName = mi_MissionName m,
                         ex_MissionAuthor = mi_Author m, ex_WorldName = w_WorldName w,
                         ex_EndFrame = frameToV1 maxFrame, ex_CaptureDelay = mi_CaptureDelay m,
                         ex_Tags = mi_Tag m, ex_Times = times, ex_Entities = es,
                         ex_Events = events, ex_Markers = markers\<rparr>))
      | _ \<Rightarrow> Some (Panic NilDereference))"

end
