(* ===== verification/Export_Facts.thy ===== *)
theory Export_Facts
  imports Export_Stream
begin

text \<open>
  What the export guarantees: the dense position arrays, the entities array indexed by ID, the
  chronological order of the events, the independence of Go's map order, and the agreement of
  \<open>Stream\<close> with \<open>Build\<close>.
\<close>

section \<open>The rows of a stream\<close>

lemma fold_placed:
  "fold (\<lambda>record (events, markers). (events @ placed_hits record, markers @ [placed_row record])) rs (es, ms) =
     (es @ concat (map placed_hits rs), ms @ map placed_row rs)"
  by (induction rs arbitrary: es ms) simp_all

lemma collect_nothing: "isProjectileMarker (pe_SimulationType p) \<Longrightarrow> collect_fireline p fl = fl"
  by (simp add: collect_fireline_def fireline_of_def)

lemma fold_projectiles:
  "fold (stream_projectile vs) ps (es, ms, fl) =
     (es @ concat (map projectile_hits ps), ms @ concat (map (projectile_markers vs) ps), fold collect_fireline ps fl)"
proof (induction ps arbitrary: es ms fl)
  case (Cons p ps)
  have "stream_projectile vs p (es, ms, fl) = (es @ projectile_hits p, ms @ projectile_markers vs p, collect_fireline p fl)"
    using collect_nothing [of p fl] by (auto simp: stream_projectile_def projectile_markers_def projectile_hits_def Let_def)
  then show ?case using Cons.IH by simp
qed simp

text \<open>The loops of \<open>buildAggregates\<close> collect what \<open>Build\<close> collects.\<close>

lemma buildAggregates_eq:
  "buildAggregates data = (all_events data, all_markers data, fold collect_fireline (md_ProjectileEvents data) [])"
  by (simp add: buildAggregates_def stream_placed_def stream_markers_def fold_placed fold_projectiles all_events_def all_markers_def)

section \<open>Dense positions\<close>

definition frames_ok :: "frame list \<Rightarrow> bool" where
  "frames_ok fs = (\<forall>f \<in> set fs. uint f < 2 ^ 63)"

definition last_frame :: "frame \<Rightarrow> frame \<Rightarrow> frame" where
  "last_frame deleteFrame maxFrame = (if deleteFrame > 0 then deleteFrame else maxFrame)"

text \<open>The state an entity is in at a frame: the last one captured until then.\<close>

definition active_state :: "soldier_state list \<Rightarrow> int \<Rightarrow> soldier_state" where
  "active_state sts f = last (filter (\<lambda>st. uint (ss_CaptureFrame st) \<le> f) sts)"

lemma end_frame_Nil: "end_frame d m [] = frameToV1 (last_frame d m)"
  by (simp add: end_frame_def last_frame_def)

lemma end_frame_Cons:
  assumes "uint f < 2 ^ 63"
  shows "end_frame d m (f # fs) = uint f - 2"
proof -
  have "- (2 ^ 63) \<le> uint f - 2" using uint_ge_0 [of f] by (simp del: uint_ge_0)
  with assms show ?thesis by (simp add: end_frame_def frameToV1_uint wrap64_id)
qed

lemma gap_fill_frames:
  assumes "uint f < 2 ^ 63" "e < 2 ^ 63 - 1"
  shows "gap_fill (frameToV1 f) e pos acc = Some (acc @ replicate (nat (e + 2 - uint f)) pos)"
  using gap_fill_count [of "frameToV1 f" e pos acc] frameToV1_range [of f] assms
  by (simp add: frameToV1_uint algebra_simps)

text \<open>Each state fills the frames up to the next state, the last one up to the entity's end.\<close>

lemma soldier_positions_Cons2:
  assumes "uint (ss_CaptureFrame a) < 2 ^ 63" "uint (ss_CaptureFrame b) < 2 ^ 63"
  shows "soldier_positions d m (a # b # rest) acc =
    soldier_positions d m (b # rest)
      (acc @ replicate (nat (uint (ss_CaptureFrame b) - uint (ss_CaptureFrame a))) (soldier_row a))"
  using assms by (simp add: gap_fill_frames end_frame_Cons)

lemma soldier_positions_single:
  assumes "uint (ss_CaptureFrame a) < 2 ^ 63" "uint (last_frame d m) < 2 ^ 63"
  shows "soldier_positions d m [a] acc =
    Some (acc @ replicate (nat (uint (last_frame d m) + 1 - uint (ss_CaptureFrame a))) (soldier_row a))"
proof -
  have "end_frame d m [] = uint (last_frame d m) - 1"
    using assms(2) by (simp add: end_frame_Nil frameToV1_uint)
  with assms show ?thesis by (simp add: gap_fill_frames)
qed

lemma soldier_positions_dense_aux:
  assumes "sts \<noteq> []" "sorted (map (uint \<circ> ss_CaptureFrame) sts)"
    "\<forall>st \<in> set sts. uint (ss_CaptureFrame st) < 2 ^ 63" "uint (last_frame d m) < 2 ^ 63"
    "uint (ss_CaptureFrame (last sts)) \<le> uint (last_frame d m)"
  shows "\<exists>ps. soldier_positions d m sts acc = Some (acc @ ps) \<and>
     int (length ps) = uint (last_frame d m) + 1 - uint (ss_CaptureFrame (hd sts)) \<and>
     (\<forall>k < length ps. ps ! k = soldier_row (active_state sts (uint (ss_CaptureFrame (hd sts)) + int k)))"
  using assms
proof (induction sts arbitrary: acc)
  case (Cons a rest)
  show ?case
  proof (cases rest)
    case Nil
    with Cons.prems show ?thesis
      by (simp add: soldier_positions_single active_state_def del: soldier_positions.simps)
  next
    case (Cons b rest')
    let ?a = "uint (ss_CaptureFrame a)" and ?b = "uint (ss_CaptureFrame b)" and ?E = "uint (last_frame d m)"
    have ab: "?a \<le> ?b" using Cons.prems(2) Cons by simp
    obtain ps where ps: "soldier_positions d m rest (acc @ replicate (nat (?b - ?a)) (soldier_row a)) =
        Some ((acc @ replicate (nat (?b - ?a)) (soldier_row a)) @ ps)"
      and len: "int (length ps) = ?E + 1 - ?b"
      and nth: "\<forall>k < length ps. ps ! k = soldier_row (active_state rest (?b + int k))"
      using Cons.IH [of "acc @ replicate (nat (?b - ?a)) (soldier_row a)"] Cons.prems Cons by auto
    let ?qs = "replicate (nat (?b - ?a)) (soldier_row a) @ ps"
    have "soldier_positions d m (a # rest) acc = Some (acc @ ?qs)"
      using ps Cons Cons.prems by (simp add: soldier_positions_Cons2 del: soldier_positions.simps)
    moreover have "int (length ?qs) = ?E + 1 - ?a" using len ab by simp
    moreover have "?qs ! k = soldier_row (active_state (a # rest) (?a + int k))" if k: "k < length ?qs" for k
    proof (cases "k < nat (?b - ?a)")
      case True
      then have "?a + int k < ?b" by linarith
      moreover have "\<forall>st \<in> set rest. ?b \<le> uint (ss_CaptureFrame st)" using Cons.prems(2) Cons by auto
      ultimately have "filter (\<lambda>st. uint (ss_CaptureFrame st) \<le> ?a + int k) rest = []"
        by (force simp: filter_empty_conv)
      with True show ?thesis by (simp add: nth_append active_state_def)
    next
      case False
      define j where "j = k - nat (?b - ?a)"
      have kj: "?a + int k = ?b + int j" and j: "j < length ps" "(replicate (nat (?b - ?a)) (soldier_row a) @ ps) ! k = ps ! j"
        using False k ab by (auto simp: j_def nth_append)
      have "filter (\<lambda>st. uint (ss_CaptureFrame st) \<le> ?b + int j) rest \<noteq> []"
        using Cons by simp
      then have "active_state (a # rest) (?b + int j) = active_state rest (?b + int j)"
        by (simp add: active_state_def)
      then show ?thesis using j nth unfolding kj by simp
    qed
    ultimately show ?thesis by (intro exI [of _ ?qs]) simp
  qed
qed simp

section \<open>The entities array\<close>

lemma place_entities_Ok:
  "place_entities b key rs es = Some (Ok es') \<Longrightarrow>
     length es' = length es \<and> (\<forall>r \<in> set rs. unat (key r) < length es \<and> b r \<noteq> None) \<and>
     (distinct (map key rs) \<longrightarrow>
        (\<forall>r \<in> set rs. b r = Some (es' ! unat (key r))) \<and>
        (\<forall>i < length es. (\<forall>r \<in> set rs. unat (key r) \<noteq> i) \<longrightarrow> es' ! i = es ! i))"
proof (induction rs arbitrary: es)
  case (Cons r rs)
  then obtain e where e: "b r = Some e" and l: "unat (key r) < length es"
    and p: "place_entities b key rs (es[unat (key r) := e]) = Some (Ok es')"
    by (auto split: option.splits if_splits)
  note IH = Cons.IH [OF p]
  have "es' ! unat (key r) = e" if "distinct (map key (r # rs))"
  proof -
    have "\<forall>q \<in> set rs. unat (key q) \<noteq> unat (key r)"
      using that by simp (metis imageI word_unat_eq_iff)
    then show ?thesis using IH that l by simp
  qed
  moreover have "es' ! i = es ! i"
    if "distinct (map key (r # rs))" "i < length es" "\<forall>q \<in> set (r # rs). unat (key q) \<noteq> i" for i
    using IH that by simp
  ultimately show ?case using IH e l by auto
qed simp

definition lines_from :: "projectile_event list \<Rightarrow> u16 \<Rightarrow> any list list" where
  "lines_from ps i =
     List.map_filter (\<lambda>p. case fireline_of p of
        Some (firer, ff) \<Rightarrow> if firer = i then Some ff else None | None \<Rightarrow> None) ps"

lemma lines_from_simps [simp]:
  "lines_from [] i = []"
  "lines_from (p # ps) i = (case fireline_of p of
     Some (firer, ff) \<Rightarrow> if firer = i then ff # lines_from ps i else lines_from ps i
   | None \<Rightarrow> lines_from ps i)"
  by (auto simp: lines_from_def List.map_filter_simps split: option.split)

definition append_lines :: "any list list \<Rightarrow> entity \<Rightarrow> entity" where
  "append_lines ls e = e\<lparr>en_FramesFired := en_FramesFired e @ ls\<rparr>"

lemma append_lines_Nil [simp]: "append_lines [] = id"
  by (simp add: append_lines_def fun_eq_iff)

lemma length_add_fireline [simp]: "length (add_fireline p es) = length es"
  by (auto simp: add_fireline_def split: option.split)

lemma length_fold_add_fireline [simp]: "length (fold add_fireline ps es) = length es"
  by (induction ps arbitrary: es) auto

lemma fold_add_fireline_nth:
  "unat i < length es \<Longrightarrow>
     fold add_fireline ps es ! unat i = append_lines (lines_from ps i) (es ! unat i)"
proof (induction ps arbitrary: es)
  case (Cons p ps)
  have "add_fireline p es ! unat i =
      (case fireline_of p of
         Some (firer, ff) \<Rightarrow> if firer = i then append_lines [ff] (es ! unat i) else es ! unat i
       | None \<Rightarrow> es ! unat i)"
    using Cons.prems
    by (auto simp: add_fireline_def append_lines_def nth_list_update word_unat_eq_iff split: option.split)
  with Cons show ?case by (auto simp: append_lines_def split: option.split)
qed simp

lemma lines_of_collect:
  "lines_of (fold collect_fireline ps m) i = lines_of m i @ lines_from ps i"
proof (induction ps arbitrary: m)
  case (Cons p ps)
  then show ?case
    by (auto simp: collect_fireline_def lines_of_def update_conv split: option.split)
qed simp

lemma buildSoldierEntity_lines:
  "buildSoldierEntity r m ls = map_option (append_lines ls) (buildSoldierEntity r m [])"
  by (cases "ever_player r"; cases "soldier_positions (s_DeleteFrame (sr_Soldier r)) m (sr_States r) []")
    (simp_all add: buildSoldierEntity_def append_lines_def Let_def)

lemma running_max_Max: "running_max xs m = Max (insert m (set xs))"
proof -
  have "(\<lambda>x m. if x > m then x else m) = (max :: 'a \<Rightarrow> 'a \<Rightarrow> 'a)"
    by (auto simp: fun_eq_iff max_def)
  then show ?thesis
    using Max.set_eq_fold [of m xs] by (simp add: running_max_def)
qed

lemma running_max_ge: "m \<le> running_max xs m" "x \<in> set xs \<Longrightarrow> x \<le> running_max xs m"
  by (simp_all add: running_max_Max)

section \<open>Stream writes what Build builds\<close>

text \<open>
  What the memory backend guarantees of the maps: distinct keys, each record under its own ID.
  The IDs of soldiers and vehicles come from one counter in the game, and bullets are fired by
  soldiers.
\<close>

definition keyed_by_ID :: "mission_data \<Rightarrow> bool" where
  "keyed_by_ID data =
     (wf_map (md_Soldiers data) \<and> wf_map (md_Vehicles data) \<and>
      (\<forall>(i, r) \<in> set (md_Soldiers data). s_ID (sr_Soldier r) = i) \<and>
      (\<forall>(i, r) \<in> set (md_Vehicles data). v_ID (vr_Vehicle r) = i))"

definition disjoint_IDs :: "mission_data \<Rightarrow> bool" where
  "disjoint_IDs data = (fst ` set (md_Soldiers data) \<inter> fst ` set (md_Vehicles data) = {})"

definition bullets_of_soldiers :: "mission_data \<Rightarrow> bool" where
  "bullets_of_soldiers data =
     (\<forall>p \<in> set (md_ProjectileEvents data). \<forall>firer ff. fireline_of p = Some (firer, ff) \<longrightarrow>
        firer \<in> fst ` set (md_Soldiers data) \<or> fst (snd (computeMetadata data)) < firer)"

lemma lines_from_Nil: "\<forall>p \<in> set ps. \<forall>ff. fireline_of p \<noteq> Some (i, ff) \<Longrightarrow> lines_from ps i = []"
  by (induction ps) (auto split: option.split)

lemma keyed_keys:
  "keyed_by_ID data \<Longrightarrow> map (s_ID \<circ> sr_Soldier) (map snd (md_Soldiers data)) = map fst (md_Soldiers data)"
  "keyed_by_ID data \<Longrightarrow> map (v_ID \<circ> vr_Vehicle) (map snd (md_Vehicles data)) = map fst (md_Vehicles data)"
  by (auto simp: keyed_by_ID_def)

lemma Build_Ok_entities:
  assumes B: "Build data = Some (Ok e)" and K: "keyed_by_ID data" and D: "disjoint_IDs data"
    and M: "computeMetadata data = (mf, maxID, True)"
  shows "length (ex_Entities e) = Suc (unat maxID)"
    and "\<And>i. i \<le> maxID \<Longrightarrow>
       Some (ex_Entities e ! unat i) =
         map_option (append_lines (lines_from (md_ProjectileEvents data) i)) (entity_for_ID data mf [] i)"
proof -
  let ?ss = "map snd (md_Soldiers data)" and ?vs = "map snd (md_Vehicles data)"
  let ?b = "\<lambda>r. buildSoldierEntity r mf []" and ?bv = "\<lambda>r. Some (buildVehicleEntity r mf)"
  let ?es0 = "replicate (unat (maxID + 1)) zero_entity"
  obtain es1 es2 where P1: "place_entities ?b (s_ID \<circ> sr_Soldier) ?ss ?es0 = Some (Ok es1)"
    and P2: "place_entities ?bv (v_ID \<circ> vr_Vehicle) ?vs es1 = Some (Ok es2)"
    and E: "ex_Entities e = fold add_fireline (md_ProjectileEvents data) es2"
    using B M unfolding Build_def computeMetadata_def Let_def
    by (auto split: option.splits outcome.splits)
  note O1 = place_entities_Ok [OF P1] and O2 = place_entities_Ok [OF P2]
  have "md_Soldiers data \<noteq> [] \<or> md_Vehicles data \<noteq> []"
    using M by (auto simp: computeMetadata_def Let_def)
  then have "0 < unat (maxID + 1)" using O1 O2 by (auto simp: neq_Nil_conv)
  then have suc: "unat (maxID + 1) = Suc (unat maxID)"
    by (metis add.commute not_gr_zero unat_eq_zero unatSuc)
  have dS: "distinct (map (s_ID \<circ> sr_Soldier) ?ss)" and dV: "distinct (map (v_ID \<circ> vr_Vehicle) ?vs)"
    unfolding keyed_keys [OF K] using K by (auto simp: keyed_by_ID_def wf_map_def)
  show len: "length (ex_Entities e) = Suc (unat maxID)" using O1 O2 E suc by simp
  fix i assume i: "i \<le> maxID"
  then have il: "unat i < Suc (unat maxID)" by (simp add: less_Suc_eq_le word_le_nat_alt)
  have "Some (es2 ! unat i) = entity_for_ID data mf [] i"
  proof (cases "map_of (md_Soldiers data) i")
    case (Some r)
    then have r: "(i, r) \<in> set (md_Soldiers data)" and "s_ID (sr_Soldier r) = i"
      using K by (auto simp: keyed_by_ID_def dest!: map_of_SomeD)
    moreover have "\<forall>q \<in> set ?vs. unat ((v_ID \<circ> vr_Vehicle) q) \<noteq> unat i"
      using D K r by (auto simp: disjoint_IDs_def keyed_by_ID_def word_unat_eq_iff [symmetric]) force
    ultimately show ?thesis
      using O1 O2 dS dV il suc Some by (force simp: entity_for_ID_def)
  next
    case None
    then have nS: "\<forall>q \<in> set ?ss. unat ((s_ID \<circ> sr_Soldier) q) \<noteq> unat i"
      using K by (auto simp: keyed_by_ID_def word_unat_eq_iff [symmetric] map_of_eq_None_iff) force
    show ?thesis
    proof (cases "map_of (md_Vehicles data) i")
      case (Some r)
      then have "(i, r) \<in> set (md_Vehicles data)" and "v_ID (vr_Vehicle r) = i"
        using K by (auto simp: keyed_by_ID_def dest!: map_of_SomeD)
      then show ?thesis using O2 dV None Some by (force simp: entity_for_ID_def)
    next
      case None': None
      then have "\<forall>q \<in> set ?vs. unat ((v_ID \<circ> vr_Vehicle) q) \<noteq> unat i"
        using K by (auto simp: keyed_by_ID_def word_unat_eq_iff [symmetric] map_of_eq_None_iff) force
      then show ?thesis using O1 O2 dS dV None None' nS il suc by (simp add: entity_for_ID_def del: replicate_Suc)
    qed
  qed
  then show "Some (ex_Entities e ! unat i) =
      map_option (append_lines (lines_from (md_ProjectileEvents data) i)) (entity_for_ID data mf [] i)"
    using O1 O2 E il suc by (simp add: fold_add_fireline_nth flip: option.map(2))
qed

lemma entity_for_ID_lines:
  "entity_for_ID data mf ls i =
     (if i \<in> fst ` set (md_Soldiers data) then map_option (append_lines ls) (entity_for_ID data mf [] i)
      else entity_for_ID data mf [] i)"
proof (cases "map_of (md_Soldiers data) i")
  case (Some r)
  then have "i \<in> fst ` set (md_Soldiers data)" by (force dest: map_of_SomeD)
  then show ?thesis
    using Some buildSoldierEntity_lines [of r mf ls] by (simp add: entity_for_ID_def)
next
  case None
  then have "i \<notin> fst ` set (md_Soldiers data)" by (simp add: map_of_eq_None_iff)
  with None show ?thesis by (simp add: entity_for_ID_def)
qed

text \<open>Streaming a list of entities gives them all, or the error of one that has no JSON form.\<close>

lemma stream_entities_list:
  "\<forall>i \<in> set is. entity_for_ID data mf (lines_of fl i) i = Some (f i) \<Longrightarrow>
     stream_entities data mf fl is =
       Some (if \<forall>i \<in> set is. entity_ok (f i) then Ok (map f is) else unsupported)"
  by (induction "is") (auto simp: unsupported_def)

lemma unat_u16: "unat (w :: u16) < 2 ^ 16"
proof -
  have "unat w < 2 ^ LENGTH(16)" by (rule unsigned_less)
  then show ?thesis by simp
qed

lemma map_ids_upto: "length xs = Suc (unat m) \<Longrightarrow> map (\<lambda>i. xs ! unat i) (ids_upto m) = xs"
proof (rule nth_equalityI)
  assume l: "length xs = Suc (unat m)"
  then show "length (map (\<lambda>i. xs ! unat i) (ids_upto m)) = length xs" by (simp add: ids_upto_def)
  fix k assume "k < length (map (\<lambda>i. xs ! unat i) (ids_upto m))"
  then have k: "k < Suc (unat m)" by (simp add: ids_upto_def)
  then have "k < 2 ^ 16" using unat_u16 [of m] by simp
  then have "unat (of_nat k :: u16) = k" by (simp add: unat_of_nat take_bit_nat_eq_self)
  then show "map (\<lambda>i. xs ! unat i) (ids_upto m) ! k = xs ! k"
    using k by (simp add: ids_upto_def del: upt_Suc)
qed

lemma in_ids_upto: "i \<in> set (ids_upto m) \<Longrightarrow> i \<le> m"
proof -
  assume "i \<in> set (ids_upto m)"
  then obtain k where k: "i = of_nat k" "k < Suc (unat m)" by (auto simp: ids_upto_def simp del: upt_Suc)
  then have "k < 2 ^ 16" using unat_u16 [of m] by simp
  then have "unat i = k" using k by (simp add: unat_of_nat take_bit_nat_eq_self)
  with k show ?thesis by (simp add: word_le_nat_alt)
qed

lemma stream_entities_Build:
  assumes B: "Build data = Some (Ok e)" and K: "keyed_by_ID data" and D: "disjoint_IDs data"
    and F: "bullets_of_soldiers data" and M: "computeMetadata data = (mf, maxID, True)"
  shows "stream_entities data mf (fold collect_fireline (md_ProjectileEvents data) []) (ids_upto maxID) =
    Some (if \<forall>en \<in> set (ex_Entities e). entity_ok en then Ok (ex_Entities e) else unsupported)"
proof -
  let ?fl = "fold collect_fireline (md_ProjectileEvents data) []"
  note ents = Build_Ok_entities [OF B K D M]
  have "entity_for_ID data mf (lines_of ?fl i) i = Some (ex_Entities e ! unat i)" if "i \<in> set (ids_upto maxID)" for i
  proof -
    have i: "i \<le> maxID" using that by (rule in_ids_upto)
    have fl: "lines_of ?fl i = lines_from (md_ProjectileEvents data) i"
      by (simp add: lines_of_collect) (simp add: lines_of_def)
    show ?thesis
    proof (cases "i \<in> fst ` set (md_Soldiers data)")
      case True
      then show ?thesis using ents(2) [OF i] by (simp add: fl entity_for_ID_lines [of data mf "lines_from _ _"])
    next
      case False
      have "lines_from (md_ProjectileEvents data) i = []"
        using F M False i by (intro lines_from_Nil) (auto simp: bullets_of_soldiers_def)
      then show ?thesis using ents(2) [OF i] by (simp add: fl option.map_id)
    qed
  qed
  then have "stream_entities data mf ?fl (ids_upto maxID) =
      Some (if \<forall>i \<in> set (ids_upto maxID). entity_ok (ex_Entities e ! unat i)
            then Ok (map (\<lambda>i. ex_Entities e ! unat i) (ids_upto maxID)) else unsupported)"
    by (intro stream_entities_list) simp
  moreover have "ex_Entities e = map (\<lambda>i. ex_Entities e ! unat i) (ids_upto maxID)"
    using map_ids_upto [OF ents(1)] by simp
  then have "(\<forall>i \<in> set (ids_upto maxID). entity_ok (ex_Entities e ! unat i)) =
      (\<forall>en \<in> set (ex_Entities e). entity_ok en)"
    by (metis (no_types, lifting) image_iff list.set_map)
  ultimately show ?thesis using map_ids_upto [OF ents(1)] by simp
qed

lemma rows_ok_sort [simp]: "rows_ok (sort_key f rs) = rows_ok rs"
  by (simp add: rows_ok_def)

lemma Build_no_entities:
  assumes "Build data = Some (Ok e)" "computeMetadata data = (mf, maxID, False)"
  shows "ex_Entities e = []"
proof -
  have "fold add_fireline ps [] = []" for ps
    by (induction ps) (auto simp: add_fireline_def split: option.split)
  then show ?thesis
    using assms by (auto simp: Build_def computeMetadata_def Let_def split: option.splits)
qed

definition export_of :: "mission \<Rightarrow> world \<Rightarrow> frame \<Rightarrow> mission_data \<Rightarrow> entity list \<Rightarrow> export" where
  "export_of m w mf data es =
     \<lparr>ex_AddonVersion = mi_AddonVersion m, ex_ExtensionVersion = mi_ExtensionVersion m,
      ex_ExtensionBuild = mi_ExtensionBuild m, ex_MissionName = mi_MissionName m,
      ex_MissionAuthor = mi_Author m, ex_WorldName = w_WorldName w, ex_EndFrame = frameToV1 mf,
      ex_CaptureDelay = mi_CaptureDelay m, ex_Tags = mi_Tag m, ex_Times = buildTimes data,
      ex_Entities = es, ex_Events = sort_key event_frame (all_events data),
      ex_Markers = all_markers data\<rparr>"

lemma Build_fields:
  assumes "Build data = Some (Ok e)" "computeMetadata data = (mf, maxID, h)"
  shows "\<exists>m w. md_Mission data = Some m \<and> md_World data = Some w \<and> e = export_of m w mf data (ex_Entities e)"
  using assms
  by (auto simp: Build_def computeMetadata_def buildTimes_def export_of_def Let_def
      split: option.splits outcome.splits)

lemma Stream_Encode:
  assumes mw: "md_Mission data = Some m" "md_World data = Some w"
    and M: "computeMetadata data = (mf, maxID, h)"
    and S: "stream_entities data mf (fold collect_fireline (md_ProjectileEvents data) [])
      (if h then ids_upto maxID else []) =
      Some (if \<forall>en \<in> set es. entity_ok en then Ok es else unsupported)"
  shows "Stream data = Some (Encode (export_of m w mf data es))"
proof -
  have ok: "export_ok (export_of m w mf data es) =
      (finite_f64 (mi_CaptureDelay m) \<and> (\<forall>t \<in> set (buildTimes data). time_ok t) \<and>
       (\<forall>en \<in> set es. entity_ok en) \<and> rows_ok (all_events data) \<and> rows_ok (all_markers data))"
    by (simp add: export_ok_def export_of_def)
  show ?thesis
    unfolding Stream_def M buildAggregates_eq Encode_def ok Let_def mw prod.case option.case S
    by (simp add: unsupported_def export_of_def)
qed

lemma Stream_Build_aux:
  assumes B: "Build data = Some (Ok e)" and K: "keyed_by_ID data" and D: "disjoint_IDs data"
    and F: "bullets_of_soldiers data"
  shows "Stream data = Some (Encode e)"
proof -
  obtain mf maxID h where M: "computeMetadata data = (mf, maxID, h)" by (metis prod_cases3)
  obtain m w where mw: "md_Mission data = Some m" "md_World data = Some w"
    and e: "e = export_of m w mf data (ex_Entities e)"
    using Build_fields [OF B M] by blast
  have "stream_entities data mf (fold collect_fireline (md_ProjectileEvents data) [])
      (if h then ids_upto maxID else []) =
    Some (if \<forall>en \<in> set (ex_Entities e). entity_ok en then Ok (ex_Entities e) else unsupported)"
    using stream_entities_Build [OF B K D F, of mf maxID] Build_no_entities [OF B, of mf maxID] M
    by (cases h) auto
  from Stream_Encode [OF mw M this] e show ?thesis by simp
qed

section \<open>Go's map order does not matter\<close>

text \<open>The same data, its maps listed in another order.\<close>

definition reordered :: "mission_data \<Rightarrow> mission_data \<Rightarrow> bool" where
  "reordered d d' =
     (\<exists>ss vs ms ps. d' = d\<lparr>md_Soldiers := ss, md_Vehicles := vs, md_Markers := ms, md_PlacedObjects := ps\<rparr> \<and>
        mset ss = mset (md_Soldiers d) \<and> mset vs = mset (md_Vehicles d) \<and>
        mset ms = mset (md_Markers d) \<and> mset ps = mset (md_PlacedObjects d))"

definition maps_ok :: "mission_data \<Rightarrow> bool" where
  "maps_ok d = (wf_map (md_Soldiers d) \<and> wf_map (md_Vehicles d) \<and> wf_map (md_Markers d) \<and>
     wf_map (md_PlacedObjects d))"

lemma wf_map_mset: "mset m = mset m' \<Longrightarrow> wf_map m = wf_map m'"
  by (metis mset_eq_imp_distinct_iff mset_map wf_map_def)

lemma map_of_mset: "mset m = mset m' \<Longrightarrow> wf_map m \<Longrightarrow> map_of m = map_of m'"
  using wf_map_mset [of m m'] by (intro map_of_inject_set [THEN iffD2] ext) (auto simp: wf_map_def dest: mset_eq_setD)

lemma sorted_values_mset:
  assumes "mset m = mset m'" "wf_map m"
  shows "List.map_filter (map_of m) (sort (map fst m)) = List.map_filter (map_of m') (sort (map fst m'))"
proof -
  have "sort (map fst m) = sort (map fst m')"
    using assms(1) by (intro properties_for_sort) simp_all
  then show ?thesis using map_of_mset [OF assms] by simp
qed

lemma running_max_set: "set xs = set ys \<Longrightarrow> running_max xs m = running_max ys m"
  by (simp add: running_max_Max)

lemma reordered_Stream:
  assumes R: "reordered d d'" and W: "maps_ok d"
  shows "Stream d' = Stream d"
proof -
  obtain ss vs ms ps where d': "d' = d\<lparr>md_Soldiers := ss, md_Vehicles := vs, md_Markers := ms, md_PlacedObjects := ps\<rparr>"
    and eqs: "mset (md_Soldiers d) = mset ss" "mset (md_Vehicles d) = mset vs"
      "mset (md_Markers d) = mset ms" "mset (md_PlacedObjects d) = mset ps"
    using R by (auto simp: reordered_def)
  note wf = W [unfolded maps_ok_def]
  have sets: "set ss = set (md_Soldiers d)" "set vs = set (md_Vehicles d)"
    using eqs by (auto dest: mset_eq_setD)
  then have emp: "ss = [] \<longleftrightarrow> md_Soldiers d = []" "vs = [] \<longleftrightarrow> md_Vehicles d = []"
    by (metis set_empty)+
  have mo: "map_of ss = map_of (md_Soldiers d)" "map_of vs = map_of (md_Vehicles d)"
    using map_of_mset [OF eqs(1)] map_of_mset [OF eqs(2)] wf by auto
  have so: "sortedMarkers ms = sortedMarkers (md_Markers d)"
    "sortedPlacedObjects ps = sortedPlacedObjects (md_PlacedObjects d)"
    using sorted_values_mset [OF eqs(3)] sorted_values_mset [OF eqs(4)] wf
    by (simp_all add: sortedMarkers_def sortedPlacedObjects_def)
  have "projectile_text vs p = projectile_text (md_Vehicles d) p" for p
    by (simp only: projectile_text_def mo)
  then have pt: "projectile_markers vs = projectile_markers (md_Vehicles d)"
    by (intro ext) (simp only: projectile_markers_def projectile_row_def)
  have cm: "computeMetadata d' = computeMetadata d"
    by (simp add: d' computeMetadata_def Let_def emp running_max_Max sets)
  have ent: "entity_for_ID d' mf ls i = entity_for_ID d mf ls i" for mf ls i
    by (simp add: d' entity_for_ID_def mo split: option.split)
  then have se: "stream_entities d' mf fl is = stream_entities d mf fl is" for mf fl "is"
    by (induction "is") (auto split: option.split)
  have "buildAggregates d' = buildAggregates d" "buildTimes d' = buildTimes d"
    "md_Mission d' = md_Mission d" "md_World d' = md_World d"
    by (simp_all add: d' buildAggregates_eq all_events_def all_markers_def so pt buildTimes_def)
  then show ?thesis unfolding Stream_def cm se by simp
qed

section \<open>Events in order\<close>

definition starts_with_frame :: "any list \<Rightarrow> bool" where
  "starts_with_frame r = (\<exists>i rest. r = AInt i # rest)"

lemma starts_with_frame_Cons [simp]: "starts_with_frame (AInt i # rest)"
  by (simp add: starts_with_frame_def)

lemma general_row_frame [simp]: "starts_with_frame (buildGeneralEvent e)"
  by (simp add: buildGeneralEvent_def Let_def split: option.split any.split)

lemma simple_row_frames [simp]:
  "starts_with_frame (sector_row se)" "starts_with_frame (end_mission_row ee)"
  "starts_with_frame (hit_row he)" "starts_with_frame (kill_row ke)"
  by (simp_all add: sector_row_def end_mission_row_def hit_row_def kill_row_def)

lemma placed_hits_frames: "r \<in> set (placed_hits p) \<Longrightarrow> starts_with_frame r"
  by (auto simp: placed_hits_def Let_def List.map_filter_def split: if_splits)

lemma projectile_hits_frames: "r \<in> set (projectile_hits p) \<Longrightarrow> starts_with_frame r"
  by (auto simp: projectile_hits_def Let_def)

lemma rows_start_with_frame: "r \<in> set (all_events d) \<Longrightarrow> starts_with_frame r"
  by (auto simp: all_events_def placed_hits_frames projectile_hits_frames)

lemma sorted_events: "sorted (map event_frame (sort_key event_frame rs))"
  by simp

lemma stable_events:
  "filter (\<lambda>r. event_frame r = k) (sort_key event_frame rs) = filter (\<lambda>r. event_frame r = k) rs"
  by (rule sort_key_stable)

lemma Stream_Ok_fields:
  assumes "Stream d = Some (Ok e)"
  shows "ex_Events e = sort_key event_frame (all_events d)" "ex_Markers e = all_markers d"
    "ex_Times e = buildTimes d" "ex_EndFrame e = frameToV1 (fst (computeMetadata d))"
  using assms
  by (auto simp: Stream_def buildAggregates_eq unsupported_def Let_def
      split: option.splits outcome.splits prod.splits if_splits)

lemma computeMetadata_maxFrame:
  "fst (computeMetadata d) =
     Max (insert 0 ((\<Union>(i, r) \<in> set (md_Soldiers d). set (soldier_frames r)) \<union>
                    (\<Union>(i, r) \<in> set (md_Vehicles d). set (vehicle_frames r))))"
proof -
  let ?S = "\<Union>(i, r) \<in> set (md_Soldiers d). set (soldier_frames r)"
  let ?V = "\<Union>(i, r) \<in> set (md_Vehicles d). set (vehicle_frames r)"
  have fin: "finite ?S" "finite ?V" by auto
  have "fst (computeMetadata d) = Max (insert (Max (insert 0 ?S)) ?V)"
    by (simp add: computeMetadata_def Let_def running_max_Max image_image split_beta)
  also have "\<dots> = Max (insert 0 (?S \<union> ?V))"
  proof (cases "?V = {}")
    case False
    then have "Max (insert (Max (insert 0 ?S)) ?V) = max (Max (insert 0 ?S)) (Max ?V)"
      using fin by (intro Max_insert)
    also have "\<dots> = Max (insert 0 ?S \<union> ?V)"
      using fin False by (intro Max_Un [symmetric]) auto
    finally show ?thesis by simp
  qed simp
  finally show ?thesis .
qed

section \<open>What can go wrong\<close>

text \<open>With ID 65535 in use the array size wraps to 0 in \<open>Build\<close>, and \<open>Stream\<close> does not care.\<close>

lemma Build_wraps:
  assumes "md_Mission d = Some m" "md_World d = Some w" "snd (computeMetadata d) = (65535, True)"
    "md_Soldiers d = (i, r) # rest" "buildSoldierEntity r (fst (computeMetadata d)) [] \<noteq> None"
  shows "Build d = Some (Panic (IndexOutOfRange (unat (s_ID (sr_Soldier r))) 0))"
  using assms
  by (auto simp: Build_def computeMetadata_def Let_def)

text \<open>A deletion frame of \<open>2 ^ 63\<close> makes the gap-filling loop of the last state endless.\<close>

lemma buildSoldierEntity_diverges:
  assumes "s_DeleteFrame (sr_Soldier r) = 2 ^ 63" "sr_States r = [st]"
  shows "buildSoldierEntity r mf ls = None"
proof -
  have "frameToV1 (2 ^ 63) = 2 ^ 63 - 1" by (simp add: frameToV1_def wrap64_def)
  moreover have "(2 ^ 63 :: frame) > 0" by (simp add: word_gt_0)
  ultimately have "end_frame (2 ^ 63) mf [] = 2 ^ 63 - 1" by (simp add: end_frame_def)
  then have "soldier_positions (2 ^ 63) mf [st] [] = None"
    using gap_fill_diverges [of "frameToV1 (ss_CaptureFrame st)" "soldier_row st" "[]"] frameToV1_range [of "ss_CaptureFrame st"]
    by simp
  then show ?thesis using assms by (simp add: buildSoldierEntity_def Let_def split: prod.split)
qed

end
