(* ===== verification/Examples.thy ===== *)
theory Examples
  imports Export_Types
begin

text \<open>
  Concrete values on which the properties are applied: a mission with one soldier, one vehicle
  and a bullet.
\<close>

definition example_mission :: mission where
  "example_mission = \<lparr>mi_ID = 0, mi_MissionName = ''Night Op: 1'', mi_BriefingName = [],
     mi_MissionNameSource = [], mi_OnLoadName = [], mi_Author = ''me'', mi_ServerName = [],
     mi_ServerProfile = [], mi_StartTime = ZeroTime, mi_WorldID = 0, mi_CaptureDelay = FNum 1,
     mi_AddonVersion = [], mi_ExtensionVersion = [], mi_ExtensionBuild = [],
     mi_OcapRecorderExtensionVersion = [], mi_Tag = ''TvT'',
     mi_PlayableSlots = \<lparr>slots_West = 1, slots_East = 2, slots_Independent = 0, slots_Civilian = 0, slots_Logic = 0\<rparr>,
     mi_SideFriendly = \<lparr>sf_EastWest = False, sf_EastIndependent = False, sf_WestIndependent = True\<rparr>,
     mi_Addons = []\<rparr>"

definition origin :: position3D where
  "origin = \<lparr>pos3_X = FNum 0, pos3_Y = FNum 0, pos3_Z = FNum 0\<rparr>"

definition example_world :: world where
  "example_world = \<lparr>w_ID = 0, w_Author = [], w_WorkshopID = [], w_DisplayName = [], w_WorldName = ''Altis'',
     w_WorldNameOriginal = [], w_WorldSize = FNum 30720, w_Latitude = 0, w_Longitude = 0, w_Location = origin\<rparr>"

definition example_soldier :: "u16 \<Rightarrow> soldier" where
  "example_soldier i = \<lparr>s_ID = i, s_JoinTime = ZeroTime, s_JoinFrame = 1, s_OcapType = [], s_UnitName = ''Kerry'',
     s_GroupID = ''Alpha 1-1'', s_Side = ''WEST'', s_IsPlayer = False, s_RoleDescription = ''Rifleman'',
     s_ClassName = ''B_Soldier_F'', s_DisplayName = ''Rifleman'', s_PlayerUID = [], s_SquadParams = [],
     s_DeleteFrame = 0\<rparr>"

definition example_scores :: soldier_scores where
  "example_scores = \<lparr>sco_InfantryKills = 1, sco_VehicleKills = 0, sco_ArmorKills = 0, sco_AirKills = 0,
     sco_Deaths = 0, sco_TotalScore = 1\<rparr>"

definition example_state :: "u16 \<Rightarrow> frame \<Rightarrow> soldier_state" where
  "example_state i f = \<lparr>ss_SoldierID = i, ss_Time = ZeroTime, ss_CaptureFrame = f, ss_Position = origin,
     ss_Bearing = 90, ss_Lifestate = 1, ss_InVehicle = False, ss_InVehicleObjectID = None, ss_VehicleRole = [],
     ss_UnitName = ''Kerry'', ss_IsPlayer = True, ss_CurrentRole = ''Rifleman'', ss_HasStableVitals = True,
     ss_IsDraggedCarried = False, ss_Stance = ''STAND'', ss_GroupID = [], ss_Side = [], ss_Scores = example_scores\<rparr>"

definition example_vehicle :: "u16 \<Rightarrow> vehicle" where
  "example_vehicle i = \<lparr>v_ID = i, v_JoinTime = ZeroTime, v_JoinFrame = 1, v_OcapType = ''car'', v_ClassName = [],
     v_DisplayName = ''Hunter'', v_Customization = [], v_Side = [], v_DeleteFrame = 0\<rparr>"

definition example_bullet :: "u16 \<Rightarrow> projectile_event" where
  "example_bullet i = \<lparr>pe_CaptureFrame = 2, pe_FirerObjectID = i, pe_VehicleObjectID = None,
     pe_WeaponDisplay = ''MX'', pe_MagazineDisplay = ''6.5 mm'', pe_MuzzleDisplay = ''MX'',
     pe_SimulationType = ''shotBullet'', pe_MagazineIcon = [],
     pe_Trajectory = [\<lparr>tp_Position = origin, tp_FrameNum = 2\<rparr>, \<lparr>tp_Position = origin, tp_FrameNum = 3\<rparr>],
     pe_Hits = []\<rparr>"

definition example_data :: mission_data where
  "example_data = \<lparr>md_Mission = Some example_mission, md_World = Some example_world,
     md_Soldiers = [(3, \<lparr>sr_Soldier = example_soldier 3, sr_States = [example_state 3 1, example_state 3 4],
       sr_FiredEvents = []\<rparr>)],
     md_Vehicles = [(5, \<lparr>vr_Vehicle = example_vehicle 5, vr_States = []\<rparr>)], md_Markers = [],
     md_PlacedObjects = [], md_GeneralEvents = [], md_SectorEvents = [],
     md_EndMissionEvents = [\<lparr>eme_ID = 0, eme_Time = ZeroTime, eme_CaptureFrame = 9, eme_Side = ''WEST'', eme_Message = []\<rparr>],
     md_HitEvents = [], md_KillEvents = [], md_TimeStates = [], md_ProjectileEvents = [example_bullet 3]\<rparr>"

lemmas example_defs =
  example_mission_def example_world_def example_soldier_def example_state_def example_vehicle_def
  example_bullet_def example_data_def origin_def example_scores_def

end
