(* ===== verification/Export_Properties.thy ===== *)
theory Export_Properties
  imports Export_Facts Examples
begin

text \<open>
  When the export returns, and the properties of \<open>Build\<close> and \<open>Stream\<close>, each applied to the example
  recording.
\<close>

section \<open>The export returns\<close>

text \<open>
  Frames below \<open>2 ^ 63\<close>, where a conversion to \<open>int\<close> keeps them; the game counts frames from 1
  at one or two a second.
\<close>

definition soldier_in_range :: "soldier_record \<Rightarrow> bool" where
  "soldier_in_range r = (frames_ok (soldier_frames r) \<and> uint (s_DeleteFrame (sr_Soldier r)) < 2 ^ 63)"

definition data_in_range :: "mission_data \<Rightarrow> bool" where
  "data_in_range d = ((\<forall>(i, r) \<in> set (md_Soldiers d). soldier_in_range r) \<and>
     (\<forall>(i, r) \<in> set (md_Vehicles d). frames_ok (vehicle_frames r)))"

lemma soldier_positions_returns:
  assumes "\<forall>st \<in> set sts. uint (ss_CaptureFrame st) < 2 ^ 63" "uint (last_frame d m) < 2 ^ 63"
  shows "\<exists>ps. soldier_positions d m sts acc = Some ps"
  using assms
proof (induction sts arbitrary: acc)
  case (Cons st rest)
  have "end_frame d m (map ss_CaptureFrame rest) < 2 ^ 63 - 1"
  proof (cases rest)
    case Nil
    with Cons.prems(2) show ?thesis by (simp add: end_frame_Nil frameToV1_uint)
  next
    case (Cons b bs)
    with Cons.prems(1) show ?thesis by (simp add: end_frame_Cons)
  qed
  then show ?case using Cons by (simp add: gap_fill_frames)
qed simp

lemma buildSoldierEntity_returns:
  assumes "soldier_in_range r" "uint m < 2 ^ 63"
  shows "buildSoldierEntity r m ls \<noteq> None"
proof -
  have "uint (last_frame (s_DeleteFrame (sr_Soldier r)) m) < 2 ^ 63"
    using assms by (simp add: last_frame_def soldier_in_range_def)
  then obtain ps where "soldier_positions (s_DeleteFrame (sr_Soldier r)) m (sr_States r) [] = Some ps"
    using soldier_positions_returns [of "sr_States r" "s_DeleteFrame (sr_Soldier r)" m "[]"] assms(1)
    by (auto simp: soldier_in_range_def frames_ok_def soldier_frames_def)
  then show ?thesis by (simp add: buildSoldierEntity_def Let_def split: prod.split)
qed

lemma place_entities_returns:
  "\<forall>r \<in> set rs. build r \<noteq> None \<and> unat (key r) < length es \<Longrightarrow>
     \<exists>es'. place_entities build key rs es = Some (Ok es') \<and> length es' = length es"
proof (induction rs arbitrary: es)
  case (Cons r rs)
  then obtain e where "build r = Some e" "unat (key r) < length es" by auto
  with Cons.IH [of "es[unat (key r) := e]"] Cons.prems show ?case by auto
qed simp

lemma max_in_range: "data_in_range d \<Longrightarrow> uint (fst (computeMetadata d)) < 2 ^ 63"
proof -
  assume R: "data_in_range d"
  let ?S = "insert 0 ((\<Union>(i, r) \<in> set (md_Soldiers d). set (soldier_frames r)) \<union>
                    (\<Union>(i, r) \<in> set (md_Vehicles d). set (vehicle_frames r)))"
  have "fst (computeMetadata d) \<in> ?S"
    unfolding computeMetadata_maxFrame by (rule Max_in) auto
  with R show ?thesis by (auto simp: data_in_range_def soldier_in_range_def frames_ok_def)
qed

lemma Build_returns:
  assumes M: "md_Mission d = Some m" "md_World d = Some w" and R: "data_in_range d"
    and K: "fst (snd (computeMetadata d)) \<noteq> 65535"
  shows "\<exists>e. Build d = Some (Ok e)"
proof -
  let ?ss = "map snd (md_Soldiers d)" and ?vs = "map snd (md_Vehicles d)"
  let ?mf = "fst (computeMetadata d)" and ?id = "fst (snd (computeMetadata d))"
  let ?h = "0 < length ?ss \<or> 0 < length ?vs"
  let ?es0 = "if ?h then replicate (unat (?id + 1)) zero_entity else []"
  have "?id + 1 \<noteq> 0"
  proof
    assume "?id + 1 = 0"
    then have "?id = - 1" by (simp add: eq_neg_iff_add_eq_0)
    with K show False by simp
  qed
  then have suc: "unat (?id + 1) = Suc (unat ?id)"
    by (metis add.commute unatSuc)
  have "uint (fst (computeMetadata d)) < 2 ^ 63" by (rule max_in_range [OF R])
  then have bS: "\<forall>r \<in> set ?ss. buildSoldierEntity r ?mf [] \<noteq> None"
    using R buildSoldierEntity_returns by (fastforce simp: data_in_range_def)
  have id: "?id = running_max (map (v_ID \<circ> vr_Vehicle) ?vs) (running_max (map (s_ID \<circ> sr_Soldier) ?ss) 0)"
    by (simp add: computeMetadata_def Let_def)
  have kS: "(s_ID \<circ> sr_Soldier) r \<le> ?id" if "r \<in> set ?ss" for r
    unfolding id using that by (intro order_trans [OF running_max_ge(2) running_max_ge(1)]) auto
  have kV: "(v_ID \<circ> vr_Vehicle) r \<le> ?id" if "r \<in> set ?vs" for r
    unfolding id using that by (intro running_max_ge(2)) auto
  have len: "x \<le> ?id \<Longrightarrow> ?h \<Longrightarrow> unat x < length ?es0" for x
    by (simp add: suc less_Suc_eq_le word_le_nat_alt del: replicate_Suc)
  obtain es1 where P1: "place_entities (\<lambda>r. buildSoldierEntity r ?mf []) (s_ID \<circ> sr_Soldier) ?ss ?es0 = Some (Ok es1)"
    and l1: "length es1 = length ?es0"
    using place_entities_returns [of ?ss "\<lambda>r. buildSoldierEntity r ?mf []" "s_ID \<circ> sr_Soldier" ?es0] bS len kS
    by (metis length_pos_if_in_set)
  obtain es2 where P2: "place_entities (\<lambda>r. Some (buildVehicleEntity r ?mf)) (v_ID \<circ> vr_Vehicle) ?vs es1 = Some (Ok es2)"
    using place_entities_returns [of ?vs "\<lambda>r. Some (buildVehicleEntity r ?mf)" "v_ID \<circ> vr_Vehicle" es1] len kV l1
    by (metis length_pos_if_in_set option.distinct(1))
  have mf: "?mf = running_max (concat (map vehicle_frames ?vs)) (running_max (concat (map soldier_frames ?ss)) 0)"
    by (simp add: computeMetadata_def Let_def)
  show ?thesis
    using P1 P2 M unfolding Build_def Let_def mf [symmetric] id [symmetric] by simp
qed

lemma Stream_returns_aux:
  assumes M: "md_Mission d = Some m" "md_World d = Some w" and R: "data_in_range d"
  shows "\<exists>r. Stream d = Some r \<and> \<not> panics r \<and> (\<forall>e. r = Err e \<longrightarrow> e = JSONError UnsupportedValue)"
proof -
  let ?mf = "fst (computeMetadata d)"
  have "entity_for_ID d ?mf ls i \<noteq> None" for ls i
  proof (cases "map_of (md_Soldiers d) i")
    case (Some r)
    then have "soldier_in_range r" using R by (auto simp: data_in_range_def dest: map_of_SomeD)
    then show ?thesis
      using Some buildSoldierEntity_returns [OF _ max_in_range [OF R]] by (simp add: entity_for_ID_def)
  qed (simp add: entity_for_ID_def split: option.split)
  then have "\<exists>r. stream_entities d ?mf fl is = Some r \<and> \<not> panics r \<and> (\<forall>e. r = Err e \<longrightarrow> e = JSONError UnsupportedValue)" for fl "is"
  proof (induction "is")
    case (Cons i "is")
    then obtain r e where "stream_entities d ?mf fl is = Some r" "\<not> panics r" "\<forall>e. r = Err e \<longrightarrow> e = JSONError UnsupportedValue"
      "entity_for_ID d ?mf (lines_of fl i) i = Some e"
      by (metis option.exhaust)
    then show ?case by (cases r) (auto simp: unsupported_def)
  qed simp
  from this [of "snd (snd (buildAggregates d))"
      "if snd (snd (computeMetadata d)) then ids_upto (fst (snd (computeMetadata d))) else []"]
  obtain r where r: "stream_entities d ?mf (snd (snd (buildAggregates d)))
      (if snd (snd (computeMetadata d)) then ids_upto (fst (snd (computeMetadata d))) else []) = Some r"
    "\<not> panics r" "\<forall>e. r = Err e \<longrightarrow> e = JSONError UnsupportedValue" by blast
  then show ?thesis
    using M by (cases r) (auto simp: Stream_def Let_def case_prod_beta unsupported_def)
qed

section \<open>The example recording\<close>

lemma example_metadata: "computeMetadata example_data = (4, 5, True)"
  by (simp add: computeMetadata_def example_defs running_max_def soldier_frames_def vehicle_frames_def)

lemma example_ok:
  "md_Mission example_data = Some example_mission" "md_World example_data = Some example_world"
  "data_in_range example_data" "keyed_by_ID example_data" "disjoint_IDs example_data"
  "bullets_of_soldiers example_data" "maps_ok example_data"
  by (simp_all add: example_defs data_in_range_def soldier_in_range_def frames_ok_def soldier_frames_def
      vehicle_frames_def keyed_by_ID_def disjoint_IDs_def bullets_of_soldiers_def maps_ok_def wf_map_def
      fireline_of_def isProjectileMarker_def)

lemma example_Build: "\<exists>e. Build example_data = Some (Ok e)"
  by (rule Build_returns [OF example_ok(1,2,3)]) (simp add: example_metadata)

section \<open>Properties\<close>

text \<open>
  C5. The streaming encoder writes exactly what encoding the built export would write, the
  document or the error, when the IDs of soldiers and vehicles are distinct and bullets are fired
  by recorded soldiers.
\<close>

theorem Stream_agrees_with_Build:
  assumes "Build data = Some (Ok e)" "keyed_by_ID data" "disjoint_IDs data" "bullets_of_soldiers data"
  shows "Stream data = Some (Encode e)"
  using assms by (rule Stream_Build_aux)

theorem Stream_agrees_with_Build_witness:
  "\<exists>e. Build example_data = Some (Ok e) \<and> Stream example_data = Some (Encode e)"
proof -
  obtain e where e: "Build example_data = Some (Ok e)" using example_Build by blast
  with Stream_agrees_with_Build [OF e example_ok(4,5,6)] show ?thesis by blast
qed

text \<open>
  The document does not depend on the order in which Go visits its maps: reordering the
  entries of the soldiers, vehicles, markers and placed objects changes nothing.
\<close>

theorem Stream_independent_of_map_order:
  assumes "reordered d d'" "maps_ok d"
  shows "Stream d' = Stream d"
  using assms by (rule reordered_Stream)

definition two_soldiers :: mission_data where
  "two_soldiers = example_data\<lparr>md_Soldiers :=
     md_Soldiers example_data @ [(4, \<lparr>sr_Soldier = example_soldier 4, sr_States = [], sr_FiredEvents = []\<rparr>)]\<rparr>"

theorem Stream_independent_of_map_order_witness:
  "Stream (two_soldiers\<lparr>md_Soldiers := rev (md_Soldiers two_soldiers)\<rparr>) = Stream two_soldiers"
proof (rule Stream_independent_of_map_order)
  show "reordered two_soldiers (two_soldiers\<lparr>md_Soldiers := rev (md_Soldiers two_soldiers)\<rparr>)"
    unfolding reordered_def
    by (intro exI [of _ "rev (md_Soldiers two_soldiers)"] exI [of _ "md_Vehicles two_soldiers"]
        exI [of _ "md_Markers two_soldiers"] exI [of _ "md_PlacedObjects two_soldiers"]) simp
  show "maps_ok two_soldiers" by (simp add: two_soldiers_def maps_ok_def wf_map_def example_data_def)
qed



text \<open>
  The entities array is indexed by ID: it has one place for every ID up to the largest, with
  the entity of the soldier or vehicle of that ID, and the bullets the soldier fired, or the
  empty entity if nothing has the ID.
\<close>

theorem entities_indexed_by_ID:
  assumes "Build data = Some (Ok e)" "keyed_by_ID data" "disjoint_IDs data"
    "computeMetadata data = (maxFrame, maxID, True)"
  shows "length (ex_Entities e) = Suc (unat maxID) \<and>
    (\<forall>i \<le> maxID. Some (ex_Entities e ! unat i) =
       map_option (append_lines (lines_from (md_ProjectileEvents data) i)) (entity_for_ID data maxFrame [] i))"
  using Build_Ok_entities [OF assms] by simp

theorem entities_indexed_by_ID_witness:
  "\<exists>e. Build example_data = Some (Ok e) \<and> length (ex_Entities e) = 6 \<and> ex_Entities e ! 4 = zero_entity"
proof -
  obtain e where e: "Build example_data = Some (Ok e)" using example_Build by blast
  have "unat (4 :: u16) = 4" "(4 :: u16) \<le> 5" by simp_all
  then have "Some (ex_Entities e ! 4) =
      map_option (append_lines (lines_from (md_ProjectileEvents example_data) 4)) (entity_for_ID example_data 4 [] 4)"
    using entities_indexed_by_ID [OF e example_ok(4,5) example_metadata] by metis
  moreover have "lines_from (md_ProjectileEvents example_data) 4 = []" "entity_for_ID example_data 4 [] 4 = Some zero_entity"
    by (simp_all add: example_defs fireline_of_def isProjectileMarker_def entity_for_ID_def)
  ultimately show ?thesis
    using e entities_indexed_by_ID [OF e example_ok(4,5) example_metadata] by auto
qed



text \<open>
  The end frame of a document is the latest frame captured for a soldier or a vehicle, as a
  0-based frame; without any it is -1.
\<close>

theorem end_frame_is_latest:
  assumes "Build d = Some (Ok e) \<or> Stream d = Some (Ok e)"
  shows "ex_EndFrame e = frameToV1 (Max (insert 0
    ((\<Union>(i, r) \<in> set (md_Soldiers d). set (soldier_frames r)) \<union>
     (\<Union>(i, r) \<in> set (md_Vehicles d). set (vehicle_frames r)))))"
proof -
  obtain mf mid h where M: "computeMetadata d = (mf, mid, h)" by (metis prod_cases3)
  have "ex_EndFrame e = frameToV1 (fst (computeMetadata d))"
    using assms Stream_Ok_fields(4) [of d e] Build_fields [OF _ M, of e]
    by (auto simp: M export_of_def dest!: arg_cong [of e _ ex_EndFrame])
  then show ?thesis by (simp add: computeMetadata_maxFrame)
qed

theorem end_frame_is_latest_witness:
  "\<exists>e. Build example_data = Some (Ok e) \<and> ex_EndFrame e = 3"
proof -
  obtain e where e: "Build example_data = Some (Ok e)" using example_Build by blast
  then have "ex_EndFrame e = frameToV1 (fst (computeMetadata example_data))"
    using end_frame_is_latest [of example_data e] by (simp add: computeMetadata_maxFrame)
  also have "\<dots> = 3" by (simp add: example_metadata frameToV1_uint)
  finally show ?thesis using e by blast
qed

text \<open>
  C33. The export of data in range returns: the loops that fill the gaps between states end, no
  index is out of range, and the only error is a number JSON has no form for.
\<close>

theorem Stream_returns:
  assumes "md_Mission d = Some m" "md_World d = Some w" "data_in_range d"
  shows "\<exists>r. Stream d = Some r \<and> \<not> panics r \<and> (\<forall>e. r = Err e \<longrightarrow> e = JSONError UnsupportedValue)"
  using assms by (rule Stream_returns_aux)

theorem Stream_returns_witness:
  "\<exists>r. Stream example_data = Some r \<and> \<not> panics r"
  using Stream_returns [OF example_ok(1,2,3)] by blast

text \<open>
  The gap-filling loop appends one copy per frame of its range and ends, whatever the range,
  unless its last frame is the greatest integer: then it never ends.
\<close>

theorem gap_fill_ends_iff:
  assumes "- (2 ^ 63) \<le> f" "f < 2 ^ 63" "endF < 2 ^ 63"
  shows "gap_fill f endF pos acc =
    (if endF < 2 ^ 63 - 1 then Some (acc @ replicate (nat (endF + 1 - f)) pos) else None)"
proof (cases "endF < 2 ^ 63 - 1")
  case True
  with gap_fill_count [OF assms(1) True, of pos acc] show ?thesis by simp
next
  case False
  with assms(3) have "endF = 2 ^ 63 - 1" by simp
  with gap_fill_diverges [OF assms(2), of pos acc] show ?thesis by simp
qed

theorem gap_fill_ends_iff_witness:
  "gap_fill 3 5 (0 :: int) [] = Some [0, 0, 0] \<and> gap_fill 3 (2 ^ 63 - 1) (0 :: int) [] = None"
  using gap_fill_ends_iff [of 3 5 "0 :: int" "[]"] gap_fill_ends_iff [of 3 "2 ^ 63 - 1" "0 :: int" "[]"]
  by (simp add: eval_nat_numeral)

text \<open>
  A soldier deleted at frame \<open>2 ^ 63\<close> with one recorded state makes the building of its
  entity run forever: the export does not return.
\<close>

theorem delete_frame_hangs:
  assumes "s_DeleteFrame (sr_Soldier r) = 2 ^ 63" "sr_States r = [st]"
  shows "buildSoldierEntity r maxFrame ls = None"
  using assms by (rule buildSoldierEntity_diverges)

theorem delete_frame_hangs_witness:
  "buildSoldierEntity \<lparr>sr_Soldier = (example_soldier 3)\<lparr>s_DeleteFrame := 2 ^ 63\<rparr>,
     sr_States = [example_state 3 1], sr_FiredEvents = []\<rparr> 4 [] = None"
  by (rule delete_frame_hangs [where st = "example_state 3 1"]) simp_all

text \<open>
  With a soldier of ID 65535 the size of the entities array wraps to 0 and \<open>Build\<close> panics at
  the first soldier, while \<open>Stream\<close> of the same data in range does not panic.
\<close>

theorem Build_panics_at_65535:
  assumes "md_Mission d = Some m" "md_World d = Some w" "data_in_range d"
    "snd (computeMetadata d) = (65535, True)" "md_Soldiers d = (i, r) # rest"
  shows "Build d = Some (Panic (IndexOutOfRange (unat (s_ID (sr_Soldier r))) 0)) \<and> (\<exists>x. Stream d = Some x \<and> \<not> panics x)"
proof -
  have "buildSoldierEntity r (fst (computeMetadata d)) [] \<noteq> None"
    using assms(3,5) by (intro buildSoldierEntity_returns max_in_range) (auto simp: data_in_range_def)
  with Build_wraps [OF assms(1,2,4,5)] Stream_returns_aux [OF assms(1,2,3)] show ?thesis by auto
qed

definition last_ID_data :: mission_data where
  "last_ID_data = example_data\<lparr>md_Soldiers :=
     [(65535, \<lparr>sr_Soldier = example_soldier 65535, sr_States = [], sr_FiredEvents = []\<rparr>)]\<rparr>"

theorem Build_panics_at_65535_witness:
  "Build last_ID_data = Some (Panic (IndexOutOfRange 65535 0))"
proof -
  have "snd (computeMetadata last_ID_data) = (65535, True)"
    by (simp add: computeMetadata_def last_ID_data_def example_defs running_max_def)
  moreover have "data_in_range last_ID_data"
    by (simp add: last_ID_data_def example_defs data_in_range_def soldier_in_range_def frames_ok_def
        soldier_frames_def vehicle_frames_def)
  ultimately show ?thesis
    using Build_panics_at_65535 [of last_ID_data example_mission example_world]
    by (simp add: last_ID_data_def example_data_def example_soldier_def)
qed

text \<open>
  The file name of a path is what follows its last slash or backslash, and all of it when it
  has none.
\<close>

theorem extractFilename_last_component:
  "\<exists>dir. path = dir @ extractFilename path \<and> (dir = [] \<or> last dir \<in> {CHR ''/'', CHR 0x5C}) \<and>
     CHR ''/'' \<notin> set (extractFilename path) \<and> CHR 0x5C \<notin> set (extractFilename path)"
  by (rule extractFilename_suffix)

end
