(* ===== verification/Storage.thy ===== *)
theory Storage
  imports Core_Types
begin

text \<open>
  internal/storage/storage.go: the interface \<open>Backend\<close>. A call of one of its methods is a value
  of \<open>backend_call\<close>, one constructor per method, so that a backend is one function from a call
  and its state to a result and the next state, and a recording is a list of calls. The pointers
  the methods take are read during the call; the arguments stand for what they point to.
\<close>

datatype backend_call =
    CallInit
  | CallClose
  | CallStartMission mission world
  | CallEndMission
  | CallAddSoldier soldier
  | CallAddVehicle vehicle
  | CallAddMarker marker
  | CallDeleteSoldier u16 frame
  | CallDeleteVehicle u16 frame
  | CallRecordSoldierState soldier_state
  | CallRecordVehicleState vehicle_state
  | CallRecordMarkerState marker_state
  | CallDeleteMarker delete_marker
  | CallRecordFiredEvent fired_event
  | CallRecordProjectileEvent projectile_event
  | CallRecordGeneralEvent general_event
  | CallRecordSectorEvent sector_event
  | CallRecordEndMissionEvent end_mission_event
  | CallRecordHitEvent hit_event
  | CallRecordKillEvent kill_event
  | CallRecordChatEvent chat_event
  | CallRecordRadioEvent radio_event
  | CallRecordTelemetryEvent telemetry_event
  | CallRecordTimeState time_state
  | CallRecordAce3DeathEvent ace3_death_event
  | CallRecordAce3UnconsciousEvent ace3_unconscious_event
  | CallAddPlacedObject placed_object
  | CallRecordPlacedObjectEvent placed_object_event
  | CallSetFocusStart frame
  | CallSetFocusEnd frame

text \<open>What a method returns: an error or nil, and for \<open>AddMarker\<close> the new ID with it.\<close>

datatype backend_result = Returned "go_err option" | MarkerAdded guint "go_err option"

end
