(* ===== verification/Memory.thy ===== *)
theory Memory
  imports Storage Export_Stream
begin

text \<open>
  internal/storage/memory: the backend that keeps a mission in memory and exports it as JSON
  (memory.go, export.go). Every method holds the mutex for its whole body and is one step. The
  marker records are shared between two maps, by name and by ID: \<open>b_heap\<close> is the store of
  those records and the maps hold addresses. The other maps own their records.
\<close>

record memory_config =
  mc_OutputDir :: string
  mc_CompressOutput :: bool

record backend =
  b_cfg :: memory_config
  b_mission :: "mission option"
  b_world :: "world option"
  b_lastExportPath :: string
  b_lastExportMetadata :: upload_metadata
  b_soldiers :: "(u16 \<times> soldier_record) list"
  b_vehicles :: "(u16 \<times> vehicle_record) list"
  b_heap :: "marker_record list"
  b_markers :: "(string \<times> nat) list"
  b_markersByID :: "(guint \<times> nat) list"
  b_nextMarkerID :: guint
  b_placed :: "(u16 \<times> placed_object_record) list"
  b_generalEvents :: "general_event list"
  b_sectorEvents :: "sector_event list"
  b_endMissionEvents :: "end_mission_event list"
  b_hitEvents :: "hit_event list"
  b_killEvents :: "kill_event list"
  b_chatEvents :: "chat_event list"
  b_radioEvents :: "radio_event list"
  b_telemetryEvents :: "telemetry_event list"
  b_timeStates :: "time_state list"
  b_ace3DeathEvents :: "ace3_death_event list"
  b_ace3UnconsciousEvents :: "ace3_unconscious_event list"
  b_projectileEvents :: "projectile_event list"
  b_focusRanges :: "focus_range list"
  b_focusOpenStart :: "frame option"

definition zero_metadata :: upload_metadata where
  "zero_metadata = \<lparr>um_WorldName = [], um_MissionName = [], um_MissionDuration = 0, um_Tag = [],
     um_EndFrame = 0, um_FocusRanges = []\<rparr>"

definition mem_New :: "memory_config \<Rightarrow> backend" where
  "mem_New cfg = \<lparr>b_cfg = cfg, b_mission = None, b_world = None, b_lastExportPath = [],
     b_lastExportMetadata = zero_metadata, b_soldiers = [], b_vehicles = [], b_heap = [],
     b_markers = [], b_markersByID = [], b_nextMarkerID = 0, b_placed = [], b_generalEvents = [],
     b_sectorEvents = [], b_endMissionEvents = [], b_hitEvents = [], b_killEvents = [],
     b_chatEvents = [], b_radioEvents = [], b_telemetryEvents = [], b_timeStates = [],
     b_ace3DeathEvents = [], b_ace3UnconsciousEvents = [], b_projectileEvents = [],
     b_focusRanges = [], b_focusOpenStart = None\<rparr>"

text \<open>The records become unreachable with the maps, so the store is emptied too.\<close>

definition resetCollections :: "backend \<Rightarrow> backend" where
  "resetCollections b = b\<lparr>b_soldiers := [], b_vehicles := [], b_heap := [], b_markers := [],
     b_markersByID := [], b_nextMarkerID := 0, b_placed := [], b_generalEvents := [],
     b_sectorEvents := [], b_endMissionEvents := [], b_hitEvents := [], b_killEvents := [],
     b_chatEvents := [], b_radioEvents := [], b_telemetryEvents := [], b_timeStates := [],
     b_ace3DeathEvents := [], b_ace3UnconsciousEvents := [], b_projectileEvents := [],
     b_focusRanges := [], b_focusOpenStart := None\<rparr>"

section \<open>Entities\<close>

definition mem_StartMission :: "mission \<Rightarrow> world \<Rightarrow> backend \<Rightarrow> backend" where
  "mem_StartMission m w b =
     resetCollections (b\<lparr>b_mission := Some m, b_world := Some w, b_lastExportPath := []\<rparr>)"

definition mem_AddSoldier :: "soldier \<Rightarrow> backend \<Rightarrow> backend" where
  "mem_AddSoldier s b =
     b\<lparr>b_soldiers := AList.update (s_ID s) \<lparr>sr_Soldier = s, sr_States = [], sr_FiredEvents = []\<rparr> (b_soldiers b)\<rparr>"

definition mem_AddVehicle :: "vehicle \<Rightarrow> backend \<Rightarrow> backend" where
  "mem_AddVehicle v b =
     b\<lparr>b_vehicles := AList.update (v_ID v) \<lparr>vr_Vehicle = v, vr_States = []\<rparr> (b_vehicles b)\<rparr>"

definition mem_AddMarker :: "marker \<Rightarrow> backend \<Rightarrow> guint \<times> backend" where
  "mem_AddMarker m b =
     (let i = b_nextMarkerID b + 1; a = length (b_heap b);
          record = \<lparr>mr_Marker = m\<lparr>mk_ID := i\<rparr>, mr_States = []\<rparr>
      in (i, b\<lparr>b_nextMarkerID := i, b_heap := b_heap b @ [record],
               b_markers := AList.update (mk_MarkerName m) a (b_markers b),
               b_markersByID := AList.update i a (b_markersByID b)\<rparr>))"

definition mem_DeleteSoldier :: "u16 \<Rightarrow> frame \<Rightarrow> backend \<Rightarrow> backend" where
  "mem_DeleteSoldier i f b =
     b\<lparr>b_soldiers := modify_at i (\<lambda>r. r\<lparr>sr_Soldier := (sr_Soldier r)\<lparr>s_DeleteFrame := f\<rparr>\<rparr>) (b_soldiers b)\<rparr>"

definition mem_DeleteVehicle :: "u16 \<Rightarrow> frame \<Rightarrow> backend \<Rightarrow> backend" where
  "mem_DeleteVehicle i f b =
     b\<lparr>b_vehicles := modify_at i (\<lambda>r. r\<lparr>vr_Vehicle := (vr_Vehicle r)\<lparr>v_DeleteFrame := f\<rparr>\<rparr>) (b_vehicles b)\<rparr>"

definition mem_RecordSoldierState :: "soldier_state \<Rightarrow> backend \<Rightarrow> backend" where
  "mem_RecordSoldierState st b =
     b\<lparr>b_soldiers := modify_at (ss_SoldierID st) (\<lambda>r. r\<lparr>sr_States := sr_States r @ [st]\<rparr>) (b_soldiers b)\<rparr>"

definition mem_RecordVehicleState :: "vehicle_state \<Rightarrow> backend \<Rightarrow> backend" where
  "mem_RecordVehicleState st b =
     b\<lparr>b_vehicles := modify_at (vs_VehicleID st) (\<lambda>r. r\<lparr>vr_States := vr_States r @ [st]\<rparr>) (b_vehicles b)\<rparr>"

text \<open>Writing through a pointer: the record at an address of the store.\<close>

definition update_marker :: "nat option \<Rightarrow> (marker_record \<Rightarrow> marker_record) \<Rightarrow> backend \<Rightarrow> backend" where
  "update_marker a f b = (case a of
     None \<Rightarrow> b
   | Some a \<Rightarrow> b\<lparr>b_heap := (b_heap b)[a := f (b_heap b ! a)]\<rparr>)"

definition mem_RecordMarkerState :: "marker_state \<Rightarrow> backend \<Rightarrow> backend" where
  "mem_RecordMarkerState st b =
     update_marker (map_of (b_markersByID b) (ms_MarkerID st)) (\<lambda>r. r\<lparr>mr_States := mr_States r @ [st]\<rparr>) b"

definition mem_DeleteMarker :: "delete_marker \<Rightarrow> backend \<Rightarrow> backend" where
  "mem_DeleteMarker d b =
     update_marker (map_of (b_markers b) (dm_Name d))
       (\<lambda>r. r\<lparr>mr_Marker := (mr_Marker r)\<lparr>mk_EndFrame := dm_EndFrame d\<rparr>\<rparr>) b"

definition mem_RecordFiredEvent :: "fired_event \<Rightarrow> backend \<Rightarrow> backend" where
  "mem_RecordFiredEvent e b =
     b\<lparr>b_soldiers := modify_at (fe_SoldierID e) (\<lambda>r. r\<lparr>sr_FiredEvents := sr_FiredEvents r @ [e]\<rparr>) (b_soldiers b)\<rparr>"

definition mem_AddPlacedObject :: "placed_object \<Rightarrow> backend \<Rightarrow> backend" where
  "mem_AddPlacedObject p b =
     b\<lparr>b_placed := AList.update (po_ID p) \<lparr>pr_PlacedObject = p, pr_Events = []\<rparr> (b_placed b)\<rparr>"

definition mem_RecordPlacedObjectEvent :: "placed_object_event \<Rightarrow> backend \<Rightarrow> backend" where
  "mem_RecordPlacedObjectEvent e b =
     b\<lparr>b_placed := modify_at (poe_PlacedID e) (\<lambda>r. r\<lparr>pr_Events := pr_Events r @ [e]\<rparr>) (b_placed b)\<rparr>"

section \<open>Events\<close>

definition mem_RecordProjectileEvent :: "projectile_event \<Rightarrow> backend \<Rightarrow> backend" where
  "mem_RecordProjectileEvent e b = b\<lparr>b_projectileEvents := b_projectileEvents b @ [e]\<rparr>"

definition mem_RecordGeneralEvent :: "general_event \<Rightarrow> backend \<Rightarrow> backend" where
  "mem_RecordGeneralEvent e b = b\<lparr>b_generalEvents := b_generalEvents b @ [e]\<rparr>"

definition mem_RecordSectorEvent :: "sector_event \<Rightarrow> backend \<Rightarrow> backend" where
  "mem_RecordSectorEvent e b = b\<lparr>b_sectorEvents := b_sectorEvents b @ [e]\<rparr>"

definition mem_RecordEndMissionEvent :: "end_mission_event \<Rightarrow> backend \<Rightarrow> backend" where
  "mem_RecordEndMissionEvent e b = b\<lparr>b_endMissionEvents := b_endMissionEvents b @ [e]\<rparr>"

definition mem_RecordHitEvent :: "hit_event \<Rightarrow> backend \<Rightarrow> backend" where
  "mem_RecordHitEvent e b = b\<lparr>b_hitEvents := b_hitEvents b @ [e]\<rparr>"

definition mem_RecordKillEvent :: "kill_event \<Rightarrow> backend \<Rightarrow> backend" where
  "mem_RecordKillEvent e b = b\<lparr>b_killEvents := b_killEvents b @ [e]\<rparr>"

definition mem_RecordChatEvent :: "chat_event \<Rightarrow> backend \<Rightarrow> backend" where
  "mem_RecordChatEvent e b = b\<lparr>b_chatEvents := b_chatEvents b @ [e]\<rparr>"

definition mem_RecordRadioEvent :: "radio_event \<Rightarrow> backend \<Rightarrow> backend" where
  "mem_RecordRadioEvent e b = b\<lparr>b_radioEvents := b_radioEvents b @ [e]\<rparr>"

definition mem_RecordTelemetryEvent :: "telemetry_event \<Rightarrow> backend \<Rightarrow> backend" where
  "mem_RecordTelemetryEvent e b = b\<lparr>b_telemetryEvents := b_telemetryEvents b @ [e]\<rparr>"

definition mem_RecordTimeState :: "time_state \<Rightarrow> backend \<Rightarrow> backend" where
  "mem_RecordTimeState e b = b\<lparr>b_timeStates := b_timeStates b @ [e]\<rparr>"

definition mem_RecordAce3DeathEvent :: "ace3_death_event \<Rightarrow> backend \<Rightarrow> backend" where
  "mem_RecordAce3DeathEvent e b = b\<lparr>b_ace3DeathEvents := b_ace3DeathEvents b @ [e]\<rparr>"

definition mem_RecordAce3UnconsciousEvent :: "ace3_unconscious_event \<Rightarrow> backend \<Rightarrow> backend" where
  "mem_RecordAce3UnconsciousEvent e b = b\<lparr>b_ace3UnconsciousEvents := b_ace3UnconsciousEvents b @ [e]\<rparr>"

section \<open>Focus ranges\<close>

definition mem_SetFocusStart :: "frame \<Rightarrow> backend \<Rightarrow> go_err option \<times> backend" where
  "mem_SetFocusStart f b =
     (if f = FrameForever then (Some (Errorf ''focus start frame must be > 0'' []), b)
      else if b_focusOpenStart b \<noteq> None then (None, b)
      else if b_focusRanges b \<noteq> [] \<and> f < fr_End (last (b_focusRanges b)) then
        (Some (Errorf ''focus start frame %d must be >= end of previous range %d''
           [ArgInt (uint f), ArgInt (uint (fr_End (last (b_focusRanges b))))]), b)
      else (None, b\<lparr>b_focusOpenStart := Some f\<rparr>))"

definition mem_SetFocusEnd :: "frame \<Rightarrow> backend \<Rightarrow> go_err option \<times> backend" where
  "mem_SetFocusEnd f b = (case b_focusOpenStart b of
     None \<Rightarrow> (None, b)
   | Some start \<Rightarrow>
       if f \<le> start then
         (Some (Errorf ''focus end frame %d must be > start frame %d''
            [ArgInt (uint f), ArgInt (uint start)]), b)
       else (None, b\<lparr>b_focusRanges := b_focusRanges b @ [\<lparr>fr_Start = start, fr_End = f\<rparr>],
                    b_focusOpenStart := None\<rparr>))"

section \<open>Export\<close>

definition metadata_frames :: "backend \<Rightarrow> frame list" where
  "metadata_frames b =
     concat (map (\<lambda>(_, r). map ss_CaptureFrame (sr_States r)) (b_soldiers b))
     @ concat (map (\<lambda>(_, r). map vs_CaptureFrame (vr_States r)) (b_vehicles b))
     @ concat (map (\<lambda>(_, r). map poe_CaptureFrame (pr_Events r)) (b_placed b))"

definition computeExportMetadata :: "backend \<Rightarrow> upload_metadata" where
  "computeExportMetadata b = (case (b_mission b, b_world b) of
     (Some m, Some w) \<Rightarrow>
       let endFrame = running_max (metadata_frames b) 0;
           duration = f64_of_u64 endFrame * mi_CaptureDelay m;
           open_range = (case b_focusOpenStart b of
               Some start \<Rightarrow> if endFrame > start then [\<lparr>fr_Start = start, fr_End = endFrame\<rparr>] else []
             | None \<Rightarrow> [])
       in \<lparr>um_WorldName = w_WorldName w, um_MissionName = mi_MissionName m,
           um_MissionDuration = duration, um_Tag = mi_Tag m, um_EndFrame = endFrame,
           um_FocusRanges = b_focusRanges b @ open_range\<rparr>
   | _ \<Rightarrow> zero_metadata)"

definition buildMissionDataUnlocked :: "backend \<Rightarrow> mission_data" where
  "buildMissionDataUnlocked b =
     \<lparr>md_Mission = b_mission b, md_World = b_world b, md_Soldiers = b_soldiers b,
      md_Vehicles = b_vehicles b,
      md_Markers = map (\<lambda>(name, a). (name, b_heap b ! a)) (b_markers b),
      md_PlacedObjects = b_placed b, md_GeneralEvents = b_generalEvents b,
      md_SectorEvents = b_sectorEvents b, md_EndMissionEvents = b_endMissionEvents b,
      md_HitEvents = b_hitEvents b, md_KillEvents = b_killEvents b,
      md_TimeStates = b_timeStates b, md_ProjectileEvents = b_projectileEvents b\<rparr>"

definition mem_BuildExport :: "backend \<Rightarrow> export outcome option" where
  "mem_BuildExport b = Build (buildMissionDataUnlocked b)"

text \<open>
  The operating system's part of an export: the time in the file name, \<open>filepath.Join\<close>, and
  which of the calls fail. A write error shows at the latest when the buffer is flushed.
\<close>

record export_env =
  env_timestamp :: string
  env_join :: "string \<Rightarrow> string \<Rightarrow> string"
  env_mkdir :: "go_err option"
  env_create :: "go_err option"
  env_write :: "go_err option"

definition writeJSON :: "export_env \<Rightarrow> mission_data \<Rightarrow> export outcome option" where
  "writeJSON env data = (case env_create env of
     Some e \<Rightarrow> Some (Err (Errorf ''failed to create file: %w'' [ArgErr e]))
   | None \<Rightarrow> (case (Stream data, env_write env) of
         (Some (Ok doc), Some e) \<Rightarrow> Some (Err e)
       | (r, _) \<Rightarrow> r))"

definition export_filename :: "export_env \<Rightarrow> memory_config \<Rightarrow> mission \<Rightarrow> string" where
  "export_filename env cfg m =
     (let missionName = replace_all '':'' ''_'' (replace_all '' '' ''_'' (mi_MissionName m))
      in missionName @ ''_'' @ env_timestamp env @ (if mc_CompressOutput cfg then ''.json.gz'' else ''.json''))"

text \<open>The document written, and the backend with the path of the file.\<close>

definition exportJSON :: "export_env \<Rightarrow> backend \<Rightarrow> (export \<times> backend) outcome option" where
  "exportJSON env b = (case b_mission b of
     None \<Rightarrow> Some (Panic NilDereference)
   | Some m \<Rightarrow>
       let outputPath = env_join env (mc_OutputDir (b_cfg b)) (export_filename env (b_cfg b) m)
       in (case env_mkdir env of
             Some e \<Rightarrow> Some (Err (Errorf ''failed to create output directory: %w'' [ArgErr e]))
           | None \<Rightarrow>
               map_option (map_ok (\<lambda>doc. (doc, b\<lparr>b_lastExportPath := outputPath\<rparr>)))
                 (writeJSON env (buildMissionDataUnlocked b))))"

text \<open>
  The deferred function turns a panic into an error and clears the mission whatever happened.
  \<open>None\<close>: the call does not return.
\<close>

definition clear_mission :: "backend \<Rightarrow> backend" where
  "clear_mission b = resetCollections (b\<lparr>b_mission := None, b_world := None\<rparr>)"

definition mem_EndMission :: "export_env \<Rightarrow> backend \<Rightarrow> (go_err option \<times> backend) option" where
  "mem_EndMission env b =
     (if b_mission b = None then
        Some (Some (Errorf ''no mission to end: mission was never started'' []), b)
      else let b = b\<lparr>b_lastExportMetadata := computeExportMetadata b\<rparr> in
        (case exportJSON env b of
           None \<Rightarrow> None
         | Some (Ok (doc, b')) \<Rightarrow> Some (None, clear_mission b')
         | Some (Err e) \<Rightarrow> Some (Some e, clear_mission b)
         | Some (Panic p) \<Rightarrow> Some (Some (Errorf ''panic during mission export: %v'' [ArgPanic p]), clear_mission b)))"

definition mem_GetExportedFilePath :: "backend \<Rightarrow> string" where
  "mem_GetExportedFilePath b = b_lastExportPath b"

definition mem_GetExportMetadata :: "backend \<Rightarrow> upload_metadata" where
  "mem_GetExportMetadata b =
     (if b_mission b \<noteq> None \<and> b_world b \<noteq> None then computeExportMetadata b else b_lastExportMetadata b)"

section \<open>The interface\<close>

definition ok :: "'b \<Rightarrow> (backend_result \<times> 'b) option" where
  "ok b = Some (Returned None, b)"

fun mem_exec :: "export_env \<Rightarrow> backend_call \<Rightarrow> backend \<Rightarrow> (backend_result \<times> backend) option" where
  "mem_exec env (CallInit) b = ok b"
| "mem_exec env (CallClose) b = ok b"
| "mem_exec env (CallStartMission m w) b = ok (mem_StartMission m w b)"
| "mem_exec env (CallEndMission) b = map_option (\<lambda>(e, b). (Returned e, b)) (mem_EndMission env b)"
| "mem_exec env (CallAddSoldier s) b = ok (mem_AddSoldier s b)"
| "mem_exec env (CallAddVehicle v) b = ok (mem_AddVehicle v b)"
| "mem_exec env (CallAddMarker m) b = (let (i, b) = mem_AddMarker m b in Some (MarkerAdded i None, b))"
| "mem_exec env (CallDeleteSoldier i f) b = ok (mem_DeleteSoldier i f b)"
| "mem_exec env (CallDeleteVehicle i f) b = ok (mem_DeleteVehicle i f b)"
| "mem_exec env (CallRecordSoldierState s) b = ok (mem_RecordSoldierState s b)"
| "mem_exec env (CallRecordVehicleState s) b = ok (mem_RecordVehicleState s b)"
| "mem_exec env (CallRecordMarkerState s) b = ok (mem_RecordMarkerState s b)"
| "mem_exec env (CallDeleteMarker d) b = ok (mem_DeleteMarker d b)"
| "mem_exec env (CallRecordFiredEvent e) b = ok (mem_RecordFiredEvent e b)"
| "mem_exec env (CallRecordProjectileEvent e) b = ok (mem_RecordProjectileEvent e b)"
| "mem_exec env (CallRecordGeneralEvent e) b = ok (mem_RecordGeneralEvent e b)"
| "mem_exec env (CallRecordSectorEvent e) b = ok (mem_RecordSectorEvent e b)"
| "mem_exec env (CallRecordEndMissionEvent e) b = ok (mem_RecordEndMissionEvent e b)"
| "mem_exec env (CallRecordHitEvent e) b = ok (mem_RecordHitEvent e b)"
| "mem_exec env (CallRecordKillEvent e) b = ok (mem_RecordKillEvent e b)"
| "mem_exec env (CallRecordChatEvent e) b = ok (mem_RecordChatEvent e b)"
| "mem_exec env (CallRecordRadioEvent e) b = ok (mem_RecordRadioEvent e b)"
| "mem_exec env (CallRecordTelemetryEvent e) b = ok (mem_RecordTelemetryEvent e b)"
| "mem_exec env (CallRecordTimeState e) b = ok (mem_RecordTimeState e b)"
| "mem_exec env (CallRecordAce3DeathEvent e) b = ok (mem_RecordAce3DeathEvent e b)"
| "mem_exec env (CallRecordAce3UnconsciousEvent e) b = ok (mem_RecordAce3UnconsciousEvent e b)"
| "mem_exec env (CallAddPlacedObject p) b = ok (mem_AddPlacedObject p b)"
| "mem_exec env (CallRecordPlacedObjectEvent e) b = ok (mem_RecordPlacedObjectEvent e b)"
| "mem_exec env (CallSetFocusStart f) b = (let (e, b) = mem_SetFocusStart f b in Some (Returned e, b))"
| "mem_exec env (CallSetFocusEnd f) b = (let (e, b) = mem_SetFocusEnd f b in Some (Returned e, b))"

text \<open>A recording: calls one after the other, each in its environment.\<close>

fun mem_run :: "(export_env \<times> backend_call) list \<Rightarrow> backend \<Rightarrow> backend option" where
  "mem_run [] b = Some b"
| "mem_run ((env, c) # cs) b = (case mem_exec env c b of
     None \<Rightarrow> None | Some (r, b') \<Rightarrow> mem_run cs b')"

end
