(* ===== verification/Memory_Facts.thy ===== *)
theory Memory_Facts
  imports Memory Export_Facts
begin

text \<open>
  What the memory backend guarantees: the contract of its record stores, the invariant of its
  state over every sequence of calls, the markers behind two maps, the focus ranges, the metadata
  of an export, and the end of a mission.
\<close>

section \<open>Record stores\<close>

text \<open>
  Soldiers, vehicles and placed objects are kept alike: an entity is registered under its ID with
  an empty record, and what is recorded for an ID is appended to the record if there is one.
\<close>

locale record_store =
  fixes lookup :: "'k \<Rightarrow> 'b \<Rightarrow> 'r option"
    and register :: "'e \<Rightarrow> 'b \<Rightarrow> 'b"
    and key :: "'e \<Rightarrow> 'k"
    and fresh :: "'e \<Rightarrow> 'r"
    and record_in :: "'s \<Rightarrow> 'b \<Rightarrow> 'b"
    and target :: "'s \<Rightarrow> 'k"
    and append_to :: "'s \<Rightarrow> 'r \<Rightarrow> 'r"
  assumes lookup_register: "lookup k (register e b) = (if k = key e then Some (fresh e) else lookup k b)"
    and lookup_record: "lookup k (record_in s b) =
      (if k = target s then map_option (append_to s) (lookup k b) else lookup k b)"
begin

text \<open>A run of recordings leaves at each ID what was recorded for it, in order.\<close>

lemma lookup_records:
  "lookup k (fold record_in ss b) =
     map_option (fold append_to (filter (\<lambda>s. target s = k) ss)) (lookup k b)"
proof (induction ss arbitrary: b)
  case (Cons s ss)
  then show ?case by (auto simp: lookup_record option.map_comp o_def)
qed (simp add: option.map_id)

text \<open>What is recorded for an ID nobody registered is dropped.\<close>

lemma dropped: "lookup k b = None \<Longrightarrow> lookup k (fold record_in ss b) = None"
  by (simp add: lookup_records)

text \<open>Registering an ID again starts an empty record, whatever was there.\<close>

lemma register_restarts:
  "lookup (key e) (fold record_in ss (register e b)) =
     Some (fold append_to (filter (\<lambda>s. target s = key e) ss) (fresh e))"
  by (simp add: lookup_records lookup_register)

text \<open>Recordings for different IDs commute.\<close>

lemma record_commute:
  "target s \<noteq> target t \<Longrightarrow> lookup k (record_in s (record_in t b)) = lookup k (record_in t (record_in s b))"
  by (auto simp: lookup_record)

end

definition find_soldier :: "u16 \<Rightarrow> backend \<Rightarrow> soldier_record option" where
  "find_soldier i b = map_of (b_soldiers b) i"

definition find_vehicle :: "u16 \<Rightarrow> backend \<Rightarrow> vehicle_record option" where
  "find_vehicle i b = map_of (b_vehicles b) i"

definition find_placed :: "u16 \<Rightarrow> backend \<Rightarrow> placed_object_record option" where
  "find_placed i b = map_of (b_placed b) i"

interpretation soldier_states: record_store find_soldier mem_AddSoldier s_ID
  "\<lambda>s. \<lparr>sr_Soldier = s, sr_States = [], sr_FiredEvents = []\<rparr>" mem_RecordSoldierState ss_SoldierID
  "\<lambda>st r. r\<lparr>sr_States := sr_States r @ [st]\<rparr>"
  by unfold_locales
    (auto simp: find_soldier_def mem_AddSoldier_def mem_RecordSoldierState_def map_simps)

interpretation fired_events: record_store find_soldier mem_AddSoldier s_ID
  "\<lambda>s. \<lparr>sr_Soldier = s, sr_States = [], sr_FiredEvents = []\<rparr>" mem_RecordFiredEvent fe_SoldierID
  "\<lambda>e r. r\<lparr>sr_FiredEvents := sr_FiredEvents r @ [e]\<rparr>"
  by unfold_locales
    (auto simp: find_soldier_def mem_AddSoldier_def mem_RecordFiredEvent_def map_simps)

interpretation vehicle_states: record_store find_vehicle mem_AddVehicle v_ID
  "\<lambda>v. \<lparr>vr_Vehicle = v, vr_States = []\<rparr>" mem_RecordVehicleState vs_VehicleID
  "\<lambda>st r. r\<lparr>vr_States := vr_States r @ [st]\<rparr>"
  by unfold_locales
    (auto simp: find_vehicle_def mem_AddVehicle_def mem_RecordVehicleState_def map_simps)

interpretation placed_events: record_store find_placed mem_AddPlacedObject po_ID
  "\<lambda>p. \<lparr>pr_PlacedObject = p, pr_Events = []\<rparr>" mem_RecordPlacedObjectEvent poe_PlacedID
  "\<lambda>e r. r\<lparr>pr_Events := pr_Events r @ [e]\<rparr>"
  by unfold_locales
    (auto simp: find_placed_def mem_AddPlacedObject_def mem_RecordPlacedObjectEvent_def map_simps)

section \<open>The invariant\<close>

definition wf_soldiers :: "backend \<Rightarrow> bool" where
  "wf_soldiers b = (wf_map (b_soldiers b) \<and>
     (\<forall>i r. (i, r) \<in> set (b_soldiers b) \<longrightarrow> s_ID (sr_Soldier r) = i \<and>
        (\<forall>st \<in> set (sr_States r). ss_SoldierID st = i) \<and> (\<forall>e \<in> set (sr_FiredEvents r). fe_SoldierID e = i)))"

definition wf_vehicles :: "backend \<Rightarrow> bool" where
  "wf_vehicles b = (wf_map (b_vehicles b) \<and>
     (\<forall>i r. (i, r) \<in> set (b_vehicles b) \<longrightarrow> v_ID (vr_Vehicle r) = i \<and> (\<forall>st \<in> set (vr_States r). vs_VehicleID st = i)))"

definition wf_placed :: "backend \<Rightarrow> bool" where
  "wf_placed b = (wf_map (b_placed b) \<and>
     (\<forall>i r. (i, r) \<in> set (b_placed b) \<longrightarrow> po_ID (pr_PlacedObject r) = i \<and> (\<forall>e \<in> set (pr_Events r). poe_PlacedID e = i)))"

text \<open>
  Both marker maps point into the store, to records that carry the name and the ID they are
  found under; the store numbers its records from 1.
\<close>

definition wf_markers :: "backend \<Rightarrow> bool" where
  "wf_markers b = (wf_map (b_markers b) \<and> wf_map (b_markersByID b) \<and>
     b_nextMarkerID b = of_nat (length (b_heap b)) \<and>
     (\<forall>a < length (b_heap b). mk_ID (mr_Marker (b_heap b ! a)) = of_nat (a + 1)) \<and>
     (\<forall>(n, a) \<in> set (b_markers b). a < length (b_heap b) \<and> mk_MarkerName (mr_Marker (b_heap b ! a)) = n) \<and>
     (\<forall>(i, a) \<in> set (b_markersByID b). a < length (b_heap b) \<and> mk_ID (mr_Marker (b_heap b ! a)) = i) \<and>
     (\<forall>a < length (b_heap b). \<forall>st \<in> set (mr_States (b_heap b ! a)). ms_MarkerID st = of_nat (a + 1)) \<and>
     (length (b_heap b) < 2 ^ 64 \<longrightarrow>
        (\<forall>a < length (b_heap b). map_of (b_markersByID b) (of_nat (a + 1)) = Some a)))"

text \<open>Focus ranges are non-empty, in order and do not overlap, and an open one comes after them.\<close>

fun ranges_from :: "frame \<Rightarrow> focus_range list \<Rightarrow> bool" where
  "ranges_from f [] = True"
| "ranges_from f (r # rs) = (f \<le> fr_Start r \<and> fr_Start r < fr_End r \<and> ranges_from (fr_End r) rs)"

definition last_end :: "focus_range list \<Rightarrow> frame" where
  "last_end rs = (if rs = [] then 1 else fr_End (last rs))"

definition wf_focus :: "backend \<Rightarrow> bool" where
  "wf_focus b = (ranges_from 1 (b_focusRanges b) \<and>
     (case b_focusOpenStart b of None \<Rightarrow> True | Some f \<Rightarrow> 0 < f \<and> last_end (b_focusRanges b) \<le> f))"

definition wf_backend :: "backend \<Rightarrow> bool" where
  "wf_backend b = (wf_soldiers b \<and> wf_vehicles b \<and> wf_placed b \<and> wf_markers b \<and> wf_focus b)"

named_theorems mem_defs "operations of the memory backend"

lemmas mem_op_defs [mem_defs] =
  mem_StartMission_def mem_AddSoldier_def mem_AddVehicle_def mem_AddMarker_def
  mem_DeleteSoldier_def mem_DeleteVehicle_def mem_RecordSoldierState_def
  mem_RecordVehicleState_def mem_RecordMarkerState_def mem_DeleteMarker_def
  mem_RecordFiredEvent_def mem_RecordProjectileEvent_def mem_RecordGeneralEvent_def
  mem_RecordSectorEvent_def mem_RecordEndMissionEvent_def mem_RecordHitEvent_def
  mem_RecordKillEvent_def mem_RecordChatEvent_def mem_RecordRadioEvent_def
  mem_RecordTelemetryEvent_def mem_RecordTimeState_def mem_RecordAce3DeathEvent_def
  mem_RecordAce3UnconsciousEvent_def mem_AddPlacedObject_def mem_RecordPlacedObjectEvent_def

lemma wf_soldiers_ops:
  "wf_soldiers b \<Longrightarrow> wf_soldiers (mem_AddSoldier s b)"
  "wf_soldiers b \<Longrightarrow> wf_soldiers (mem_DeleteSoldier i f b)"
  "wf_soldiers b \<Longrightarrow> wf_soldiers (mem_RecordSoldierState st b)"
  "wf_soldiers b \<Longrightarrow> wf_soldiers (mem_RecordFiredEvent e b)"
  by (auto simp: wf_soldiers_def mem_defs set_update_wf set_modify_at_wf split: if_splits)

lemma wf_vehicles_ops:
  "wf_vehicles b \<Longrightarrow> wf_vehicles (mem_AddVehicle v b)"
  "wf_vehicles b \<Longrightarrow> wf_vehicles (mem_DeleteVehicle i f b)"
  "wf_vehicles b \<Longrightarrow> wf_vehicles (mem_RecordVehicleState st' b)"
  by (auto simp: wf_vehicles_def mem_defs set_update_wf set_modify_at_wf split: if_splits)

lemma wf_placed_ops:
  "wf_placed b \<Longrightarrow> wf_placed (mem_AddPlacedObject p b)"
  "wf_placed b \<Longrightarrow> wf_placed (mem_RecordPlacedObjectEvent e b)"
  by (auto simp: wf_placed_def mem_defs set_update_wf set_modify_at_wf split: if_splits)

lemma of_nat_guint_eq: "a < 2 ^ 64 \<Longrightarrow> c < 2 ^ 64 \<Longrightarrow> (of_nat a :: guint) = of_nat c \<longleftrightarrow> a = c"
  by (auto simp: of_nat_eq_iff word_of_nat_eq_iff take_bit_nat_eq_self)

lemma wf_markers_add:
  assumes "wf_markers b"
  shows "wf_markers (snd (mem_AddMarker m b))"
proof -
  let ?a = "length (b_heap b)"
  have "set (AList.update n ?a (b_markers b)) = insert (n, ?a) {e \<in> set (b_markers b). fst e \<noteq> n}" for n
    using assms by (intro set_update_wf) (simp add: wf_markers_def)
  moreover have "set (AList.update i ?a (b_markersByID b)) = insert (i, ?a) {e \<in> set (b_markersByID b). fst e \<noteq> i}" for i
    using assms by (intro set_update_wf) (simp add: wf_markers_def)
  moreover have "map_of (AList.update (of_nat (?a + 1)) ?a (b_markersByID b)) (of_nat (a + 1)) = Some a"
    if "?a + 1 < 2 ^ 64" "a \<le> ?a" for a
    using assms that of_nat_guint_eq [of "?a + 1" "a + 1"] by (auto simp: wf_markers_def map_simps)
  ultimately show ?thesis
    using assms
    by (auto simp: wf_markers_def mem_AddMarker_def Let_def nth_append less_Suc_eq less_Suc_eq_le add.commute)
qed

lemma wf_markers_update:
  assumes "wf_markers b"
    and f: "\<And>r. mk_ID (mr_Marker (f r)) = mk_ID (mr_Marker r)"
      "\<And>r. mk_MarkerName (mr_Marker (f r)) = mk_MarkerName (mr_Marker r)"
    and st: "\<And>x st. a = Some x \<Longrightarrow> st \<in> set (mr_States (f (b_heap b ! x))) \<Longrightarrow>
       st \<in> set (mr_States (b_heap b ! x)) \<or> ms_MarkerID st = of_nat (x + 1)"
  shows "wf_markers (update_marker a f b)"
proof (cases a)
  case (Some x)
  show ?thesis
  proof (cases "x < length (b_heap b)")
    case True
    with assms Some show ?thesis
      by (fastforce simp: wf_markers_def update_marker_def nth_list_update)
  next
    case False
    with assms(1) Some show ?thesis by (simp add: update_marker_def list_update_beyond)
  qed
qed (use assms in \<open>simp add: update_marker_def\<close>)

lemma wf_markers_ops:
  assumes "wf_markers b"
  shows "wf_markers (mem_RecordMarkerState st b)" "wf_markers (mem_DeleteMarker d b)"
proof -
  have "ms_MarkerID st = of_nat (x + 1)" if "map_of (b_markersByID b) (ms_MarkerID st) = Some x" for x
    using assms map_of_SomeD [OF that] by (auto simp: wf_markers_def)
  then show "wf_markers (mem_RecordMarkerState st b)"
    unfolding mem_RecordMarkerState_def using assms by (intro wf_markers_update) auto
  show "wf_markers (mem_DeleteMarker d b)"
    unfolding mem_DeleteMarker_def using assms by (intro wf_markers_update) auto
qed

lemma ranges_from_append:
  "ranges_from f (rs @ [r]) \<longleftrightarrow> ranges_from f rs \<and> (if rs = [] then f else fr_End (last rs)) \<le> fr_Start r \<and>
     fr_Start r < fr_End r"
  by (induction rs arbitrary: f) auto

lemma wf_focus_ops:
  assumes "wf_focus b"
  shows "wf_focus (snd (mem_SetFocusStart f b))" "wf_focus (snd (mem_SetFocusEnd f b))"
proof -
  have "f \<noteq> 0 \<Longrightarrow> 1 \<le> f"
    using unat_eq_zero [of f] by (simp add: word_le_nat_alt Suc_le_eq)
  then show "wf_focus (snd (mem_SetFocusStart f b))"
    using assms by (auto simp: wf_focus_def mem_SetFocusStart_def last_end_def FrameForever_def
        word_neq_0_conv not_less split: option.splits)
  show "wf_focus (snd (mem_SetFocusEnd f b))"
    using assms by (auto simp: wf_focus_def mem_SetFocusEnd_def last_end_def ranges_from_append
        split: option.splits)
qed

text \<open>Each part of the invariant depends on its own fields.\<close>

lemma wf_memory_frame:
  "b_soldiers b' = b_soldiers b \<Longrightarrow> wf_soldiers b \<Longrightarrow> wf_soldiers b'"
  "b_vehicles b' = b_vehicles b \<Longrightarrow> wf_vehicles b \<Longrightarrow> wf_vehicles b'"
  "b_placed b' = b_placed b \<Longrightarrow> wf_placed b \<Longrightarrow> wf_placed b'"
  "b_heap b' = b_heap b \<Longrightarrow> b_markers b' = b_markers b \<Longrightarrow> b_markersByID b' = b_markersByID b \<Longrightarrow>
     b_nextMarkerID b' = b_nextMarkerID b \<Longrightarrow> wf_markers b \<Longrightarrow> wf_markers b'"
  "b_focusRanges b' = b_focusRanges b \<Longrightarrow> b_focusOpenStart b' = b_focusOpenStart b \<Longrightarrow> wf_focus b \<Longrightarrow> wf_focus b'"
  by (simp_all add: wf_soldiers_def wf_vehicles_def wf_placed_def wf_markers_def wf_focus_def
      split: option.splits)

lemma wf_reset: "wf_backend (resetCollections b)"
  by (simp add: wf_backend_def wf_soldiers_def wf_vehicles_def wf_placed_def wf_markers_def
      wf_focus_def resetCollections_def wf_map_def)

lemma wf_New: "wf_backend (mem_New cfg)"
  by (simp add: wf_backend_def wf_soldiers_def wf_vehicles_def wf_placed_def wf_markers_def
      wf_focus_def mem_New_def wf_map_def)

lemma wf_StartMission: "wf_backend (mem_StartMission m w b)"
  by (simp add: mem_StartMission_def wf_reset)

lemma wf_EndMission:
  "mem_EndMission env b = Some (e, b') \<Longrightarrow> wf_backend b \<Longrightarrow> wf_backend b'"
  by (auto simp: mem_EndMission_def Let_def clear_mission_def wf_reset
      split: if_splits option.splits outcome.splits prod.splits)

lemma marker_frame:
  "b_soldiers (update_marker a f b) = b_soldiers b" "b_vehicles (update_marker a f b) = b_vehicles b"
  "b_placed (update_marker a f b) = b_placed b" "b_focusRanges (update_marker a f b) = b_focusRanges b"
  "b_focusOpenStart (update_marker a f b) = b_focusOpenStart b"
  "b_mission (update_marker a f b) = b_mission b" "b_world (update_marker a f b) = b_world b"
  "b_markers (update_marker a f b) = b_markers b"
  "length (b_heap (update_marker a f b)) = length (b_heap b)"
  by (simp_all add: update_marker_def split: option.split)

lemma focus_frame:
  "b_soldiers (snd (mem_SetFocusStart f b)) = b_soldiers b" "b_vehicles (snd (mem_SetFocusStart f b)) = b_vehicles b"
  "b_placed (snd (mem_SetFocusStart f b)) = b_placed b" "b_heap (snd (mem_SetFocusStart f b)) = b_heap b"
  "b_markers (snd (mem_SetFocusStart f b)) = b_markers b"
  "b_markersByID (snd (mem_SetFocusStart f b)) = b_markersByID b"
  "b_nextMarkerID (snd (mem_SetFocusStart f b)) = b_nextMarkerID b"
  "b_soldiers (snd (mem_SetFocusEnd f b)) = b_soldiers b" "b_vehicles (snd (mem_SetFocusEnd f b)) = b_vehicles b"
  "b_placed (snd (mem_SetFocusEnd f b)) = b_placed b" "b_heap (snd (mem_SetFocusEnd f b)) = b_heap b"
  "b_markers (snd (mem_SetFocusEnd f b)) = b_markers b"
  "b_markersByID (snd (mem_SetFocusEnd f b)) = b_markersByID b"
  "b_nextMarkerID (snd (mem_SetFocusEnd f b)) = b_nextMarkerID b"
  by (auto simp: mem_SetFocusStart_def mem_SetFocusEnd_def split: option.split)

text \<open>The calls other than the end of a mission are functions of the state that always return.\<close>

definition after :: "export_env \<Rightarrow> backend_call \<Rightarrow> backend \<Rightarrow> backend" where
  "after env c b = (case mem_exec env c b of None \<Rightarrow> b | Some (r, b') \<Rightarrow> b')"

lemma wf_exec:
  assumes "mem_exec env c b = Some (r, b')" and "wf_backend b"
  shows "wf_backend b'"
proof -
  have b': "b' = after env c b" using assms(1) by (simp add: after_def)
  note frame = after_def ok_def mem_defs marker_frame focus_frame mem_AddMarker_def Let_def case_prod_beta
  note wf = assms(2)[unfolded wf_backend_def]
  show ?thesis
  proof (cases "c = CallEndMission \<or> (\<exists>m w. c = CallStartMission m w)")
    case True
    with assms show ?thesis by (auto simp: ok_def wf_StartMission intro: wf_EndMission)
  next
    case False
    have "wf_soldiers b'" unfolding b'
      by (insert False wf, cases c; ((simp add: after_def ok_def case_prod_beta wf_soldiers_ops; fail) | (rule wf_memory_frame(1) [of _ b]; simp add: frame)))
    moreover have "wf_vehicles b'" unfolding b'
      by (insert False wf, cases c; ((simp add: after_def ok_def case_prod_beta wf_vehicles_ops; fail) | (rule wf_memory_frame(2) [of _ b]; simp add: frame)))
    moreover have "wf_placed b'" unfolding b'
      by (insert False wf, cases c; ((simp add: after_def ok_def case_prod_beta wf_placed_ops; fail) | (rule wf_memory_frame(3) [of _ b]; simp add: frame)))
    moreover have "wf_markers b'" unfolding b'
      by (insert False wf, cases c; ((simp add: after_def ok_def case_prod_beta wf_markers_ops wf_markers_add; fail) | (rule wf_memory_frame(4) [of _ b]; simp add: frame)))
    moreover have "wf_focus b'" unfolding b'
      by (insert False wf, cases c; ((simp add: after_def ok_def case_prod_beta wf_focus_ops; fail) | (rule wf_memory_frame(5) [of _ b]; simp add: frame)))
    ultimately show ?thesis by (simp add: wf_backend_def)
  qed
qed


lemma wf_run: "mem_run cs b = Some b' \<Longrightarrow> wf_backend b \<Longrightarrow> wf_backend b'"
  by (induction cs b rule: mem_run.induct) (auto split: option.splits dest: wf_exec)

section \<open>The data of an export\<close>

lemma wf_export_data:
  assumes "wf_backend b"
  shows "keyed_by_ID (buildMissionDataUnlocked b)" "maps_ok (buildMissionDataUnlocked b)"
proof -
  have "wf_map (map (\<lambda>(name, a). (name, b_heap b ! a)) (b_markers b))"
    using assms by (simp add: wf_backend_def wf_markers_def wf_map_def comp_def case_prod_beta)
  then show "maps_ok (buildMissionDataUnlocked b)"
    using assms by (simp add: wf_backend_def wf_soldiers_def wf_vehicles_def wf_placed_def maps_ok_def
        buildMissionDataUnlocked_def)
  show "keyed_by_ID (buildMissionDataUnlocked b)"
  proof -
    have "s_ID (sr_Soldier r) = i" if "(i, r) \<in> set (b_soldiers b)" for i r
      using assms that unfolding wf_backend_def wf_soldiers_def by blast
    moreover have "v_ID (vr_Vehicle r) = i" if "(i, r) \<in> set (b_vehicles b)" for i r
      using assms that unfolding wf_backend_def wf_vehicles_def by blast
    moreover have "wf_map (b_soldiers b)" "wf_map (b_vehicles b)"
      using assms unfolding wf_backend_def wf_soldiers_def wf_vehicles_def by blast+
    ultimately show ?thesis
      unfolding keyed_by_ID_def buildMissionDataUnlocked_def mission_data.simps by blast
  qed
qed

text \<open>
  The markers of an export are found by name. A state reaches the marker whose ID it names, and
  only while that marker is the one of its name: a state for a replaced marker changes nothing.
\<close>

definition exported_markers :: "backend \<Rightarrow> (string \<times> marker_record) list" where
  "exported_markers b = md_Markers (buildMissionDataUnlocked b)"

lemma record_marker_state:
  assumes wf: "wf_markers b" and small: "length (b_heap b) < 2 ^ 64"
  shows "exported_markers (mem_RecordMarkerState st b) =
    map (\<lambda>(n, r). (n, if mk_ID (mr_Marker r) = ms_MarkerID st then r\<lparr>mr_States := mr_States r @ [st]\<rparr> else r))
      (exported_markers b)"
proof -
  have at: "map_of (b_markersByID b) (ms_MarkerID st) = Some a \<longleftrightarrow> of_nat (a + 1) = ms_MarkerID st"
    if "a < length (b_heap b)" for a
  proof
    assume "map_of (b_markersByID b) (ms_MarkerID st) = Some a"
    from map_of_SomeD [OF this] wf that show "of_nat (a + 1) = ms_MarkerID st"
      by (auto simp: wf_markers_def)
  next
    assume "of_nat (a + 1) = ms_MarkerID st"
    then show "map_of (b_markersByID b) (ms_MarkerID st) = Some a"
      using wf small that unfolding wf_markers_def by metis
  qed
  have "b_heap (mem_RecordMarkerState st b) ! a =
      (if mk_ID (mr_Marker (b_heap b ! a)) = ms_MarkerID st
       then (b_heap b ! a)\<lparr>mr_States := mr_States (b_heap b ! a) @ [st]\<rparr> else b_heap b ! a)"
    if "(n, a) \<in> set (b_markers b)" for n a
  proof -
    have a: "a < length (b_heap b)" and "mk_ID (mr_Marker (b_heap b ! a)) = of_nat (a + 1)"
      using wf that by (auto simp: wf_markers_def)
    then show ?thesis using at [OF a]
      by (auto simp: mem_RecordMarkerState_def update_marker_def nth_list_update split: option.split)
  qed
  moreover have "b_markers (mem_RecordMarkerState st b) = b_markers b"
    by (simp add: mem_RecordMarkerState_def marker_frame)
  ultimately show ?thesis
    by (auto simp: exported_markers_def buildMissionDataUnlocked_def)
qed

text \<open>A new marker gets an ID no marker of the mission had, and replaces the one of its name.\<close>

lemma add_marker_fresh:
  assumes wf: "wf_markers b" and small: "length (b_heap b) + 1 < 2 ^ 64"
    and add: "mem_AddMarker m b = (i, b')"
  shows "i \<noteq> 0" "i \<notin> mk_ID ` mr_Marker ` set (b_heap b)"
    "map_of (exported_markers b') (mk_MarkerName m) = Some \<lparr>mr_Marker = m\<lparr>mk_ID := i\<rparr>, mr_States = []\<rparr>"
    "n \<noteq> mk_MarkerName m \<Longrightarrow> map_of (exported_markers b') n = map_of (exported_markers b) n"
proof -
  have i: "i = of_nat (length (b_heap b) + 1)" using wf add by (auto simp: mem_AddMarker_def Let_def wf_markers_def)
  show "i \<noteq> 0" using of_nat_guint_eq [of "length (b_heap b) + 1" 0] small unfolding i by simp
  have "of_nat (a + 1) \<noteq> i" if "a < length (b_heap b)" for a
    using of_nat_guint_eq [of "a + 1" "length (b_heap b) + 1"] small that unfolding i by simp
  then show "i \<notin> mk_ID ` mr_Marker ` set (b_heap b)"
    using wf by (force simp: wf_markers_def in_set_conv_nth)
  have em: "map_of (exported_markers c) n = map_option ((!) (b_heap c)) (map_of (b_markers c) n)" for c n
    by (simp add: exported_markers_def buildMissionDataUnlocked_def map_of_map)
  show "map_of (exported_markers b') (mk_MarkerName m) = Some \<lparr>mr_Marker = m\<lparr>mk_ID := i\<rparr>, mr_States = []\<rparr>"
    using add by (auto simp: em mem_AddMarker_def Let_def map_simps)
  assume n: "n \<noteq> mk_MarkerName m"
  have "a < length (b_heap b)" if "map_of (b_markers b) n = Some a" for a
    using wf map_of_SomeD [OF that] by (auto simp: wf_markers_def)
  then show "map_of (exported_markers b') n = map_of (exported_markers b) n"
    using add n by (cases "map_of (b_markers b) n") (auto simp: em mem_AddMarker_def Let_def map_simps nth_append)
qed

section \<open>The end of a mission\<close>

lemma end_frame_max:
  assumes "b_mission b = Some m" "b_world b = Some w"
  shows "um_EndFrame (computeExportMetadata b) = Max (insert 0 (set (metadata_frames b)))"
  using assms by (simp add: computeExportMetadata_def Let_def running_max_Max)

lemma end_mission_clears:
  assumes "mem_EndMission env b = Some (e, b')" "b_mission b \<noteq> None"
  shows "b_mission b' = None \<and> b_world b' = None \<and>
    buildMissionDataUnlocked b' = buildMissionDataUnlocked (mem_New (b_cfg b)) \<and>
    b_lastExportMetadata b' = computeExportMetadata b"
  using assms
  by (auto simp: mem_EndMission_def Let_def clear_mission_def resetCollections_def mem_New_def
      exportJSON_def buildMissionDataUnlocked_def map_ok_Ok_iff
      split: if_splits option.splits outcome.splits prod.splits)

lemma end_mission_export:
  assumes wf: "wf_backend b" and m: "b_mission b = Some m"
    and B: "Build (buildMissionDataUnlocked b) = Some (Ok doc)"
    and D: "disjoint_IDs (buildMissionDataUnlocked b)" "bullets_of_soldiers (buildMissionDataUnlocked b)"
    and ok: "export_ok doc" and env: "env_mkdir env = None" "env_create env = None" "env_write env = None"
  shows "exportJSON env b =
      Some (Ok (doc, b\<lparr>b_lastExportPath := env_join env (mc_OutputDir (b_cfg b)) (export_filename env (b_cfg b) m)\<rparr>))"
  using Stream_Build_aux [OF B wf_export_data(1) [OF wf] D] ok env m
  by (simp add: exportJSON_def writeJSON_def Encode_def)

lemma end_mission_writes:
  assumes "wf_backend b" "b_mission b = Some m" "Build (buildMissionDataUnlocked b) = Some (Ok doc)" "export_ok doc"
    "disjoint_IDs (buildMissionDataUnlocked b)" "bullets_of_soldiers (buildMissionDataUnlocked b)"
    "env_mkdir env = None" "env_create env = None" "env_write env = None"
  shows "exportJSON env b = Some (Ok (doc, b\<lparr>b_lastExportPath :=
      env_join env (mc_OutputDir (b_cfg b)) (export_filename env (b_cfg b) m)\<rparr>)) \<and>
    (\<exists>b'. mem_EndMission env b = Some (None, b') \<and> b_mission b' = None \<and>
      mem_GetExportedFilePath b' = env_join env (mc_OutputDir (b_cfg b)) (export_filename env (b_cfg b) m))"
proof -
  have *: "exportJSON env c = Some (Ok (doc, c\<lparr>b_lastExportPath :=
      env_join env (mc_OutputDir (b_cfg c)) (export_filename env (b_cfg c) m)\<rparr>))"
    if "wf_backend c" "b_mission c = Some m" "buildMissionDataUnlocked c = buildMissionDataUnlocked b" for c
    using assms that by (intro end_mission_export) simp_all
  let ?c = "b\<lparr>b_lastExportMetadata := computeExportMetadata b\<rparr>"
  have "wf_backend ?c" using assms(1)
    by (simp add: wf_backend_def wf_soldiers_def wf_vehicles_def wf_placed_def wf_markers_def wf_focus_def
        split: option.splits)
  moreover have "buildMissionDataUnlocked ?c = buildMissionDataUnlocked b"
    by (simp add: buildMissionDataUnlocked_def)
  ultimately have "exportJSON env ?c = Some (Ok (doc, ?c\<lparr>b_lastExportPath :=
      env_join env (mc_OutputDir (b_cfg b)) (export_filename env (b_cfg b) m)\<rparr>))"
    using *[of ?c] assms(2) by simp
  then show ?thesis
    using *[OF assms(1,2)] assms(2)
    by (simp add: mem_EndMission_def Let_def clear_mission_def resetCollections_def mem_GetExportedFilePath_def)
qed

end
