(* ===== verification/Queue.thy ===== *)
theory Queue
  imports Prelude
begin

text \<open>
  Package internal/queue: a FIFO queue under a mutex. Every method holds the lock for its whole
  body, so an operation is one step on the slice of items. \<open>Pop\<close> on an empty queue gives the
  zero value of the element type, the parameter \<open>zero\<close>.
\<close>

record 'a queue =
  items :: "'a list"

definition New :: "'a queue" where
  "New = \<lparr>items = []\<rparr>"

definition Push :: "'a list \<Rightarrow> 'a queue \<Rightarrow> 'a queue" where
  "Push xs q = q\<lparr>items := items q @ xs\<rparr>"

definition Pop :: "'a \<Rightarrow> 'a queue \<Rightarrow> 'a \<times> 'a queue" where
  "Pop zero q = (case items q of [] \<Rightarrow> (zero, q) | x # xs \<Rightarrow> (x, q\<lparr>items := xs\<rparr>))"

definition Empty :: "'a queue \<Rightarrow> bool" where
  "Empty q = (items q = [])"

definition Len :: "'a queue \<Rightarrow> nat" where
  "Len q = length (items q)"

definition Clear :: "'a queue \<Rightarrow> 'a queue" where
  "Clear q = q\<lparr>items := []\<rparr>"

definition GetAndEmpty :: "'a queue \<Rightarrow> 'a list \<times> 'a queue" where
  "GetAndEmpty q = (items q, q\<lparr>items := []\<rparr>)"

section \<open>The contract of a FIFO queue\<close>

text \<open>
  A client sees the content, appends at the back and takes either the front or everything.
\<close>

locale fifo =
  fixes content :: "'q \<Rightarrow> 'a list"
    and empty :: 'q
    and push :: "'a list \<Rightarrow> 'q \<Rightarrow> 'q"
    and pop :: "'q \<Rightarrow> 'a \<times> 'q"
    and drain :: "'q \<Rightarrow> 'a list \<times> 'q"
  assumes content_empty: "content empty = []"
    and content_push: "content (push xs q) = content q @ xs"
    and pop_front: "content q \<noteq> [] \<Longrightarrow> fst (pop q) = hd (content q) \<and> content (snd (pop q)) = tl (content q)"
    and drain_all: "fst (drain q) = content q \<and> content (snd (drain q)) = []"
begin

text \<open>Pushing batches one after the other and draining gives all items in the order of arrival.\<close>

lemma drain_after_pushes: "fst (drain (fold push xss q)) = content q @ concat xss"
proof (induction xss arbitrary: q)
  case Nil
  show ?case by (simp add: drain_all)
next
  case (Cons xs xss)
  then show ?case by (simp add: content_push)
qed

fun pops :: "nat \<Rightarrow> 'q \<Rightarrow> 'a list \<times> 'q" where
  "pops 0 q = ([], q)"
| "pops (Suc n) q = (let (x, q) = pop q; (xs, q) = pops n q in (x # xs, q))"

lemma pops_are_front:
  "n \<le> length (content q) \<Longrightarrow>
     fst (pops n q) = take n (content q) \<and> content (snd (pops n q)) = drop n (content q)"
proof (induction n arbitrary: q)
  case (Suc n)
  then obtain x xs where c: "content q = x # xs" by (cases "content q") auto
  with Suc.IH [of "snd (pop q)"] Suc.prems pop_front [of q] show ?case
    by (auto simp: split_beta Let_def)
qed simp

text \<open>An item is never lost and never duplicated by a drain between two batches.\<close>

lemma drain_splits:
  "fst (drain (push ys (snd (drain (push xs q))))) = ys \<and> fst (drain (push xs q)) = content q @ xs"
  by (simp add: drain_all content_push)

end

interpretation queue: fifo items New Push "Pop zero" GetAndEmpty for zero
  by unfold_locales
    (auto simp: New_def Push_def Pop_def GetAndEmpty_def split: list.split)

lemma Pop_empty: "Empty q \<Longrightarrow> Pop zero q = (zero, q)"
  by (simp add: Empty_def Pop_def)

lemma Len_Push: "Len (Push xs q) = Len q + length xs"
  by (simp add: Len_def Push_def)

lemma Empty_Clear: "Empty (Clear q)"
  by (simp add: Empty_def Clear_def)

end
