(* ===== verification/Cache.thy ===== *)
theory Cache
  imports Core_Types
begin

text \<open>
  Package internal/cache: the entity cache (three maps under one mutex) and the marker cache
  (a map under a read-write lock). Every method is one critical section, so one step.
\<close>

record entity_cache =
  soldiers :: "(u16 \<times> soldier) list"
  vehicles :: "(u16 \<times> vehicle) list"
  placed :: "(u16 \<times> placed_object) list"

definition NewEntityCache :: entity_cache where
  "NewEntityCache = \<lparr>soldiers = [], vehicles = [], placed = []\<rparr>"

definition Reset :: "entity_cache \<Rightarrow> entity_cache" where
  "Reset c = c\<lparr>soldiers := [], vehicles := [], placed := []\<rparr>"

definition SoldierCount :: "entity_cache \<Rightarrow> nat" where
  "SoldierCount c = length (soldiers c)"

definition VehicleCount :: "entity_cache \<Rightarrow> nat" where
  "VehicleCount c = length (vehicles c)"

definition GetSoldier :: "u16 \<Rightarrow> entity_cache \<Rightarrow> soldier option" where
  "GetSoldier eid c = map_of (soldiers c) eid"

definition GetVehicle :: "u16 \<Rightarrow> entity_cache \<Rightarrow> vehicle option" where
  "GetVehicle eid c = map_of (vehicles c) eid"

definition AddSoldier :: "soldier \<Rightarrow> entity_cache \<Rightarrow> entity_cache" where
  "AddSoldier s c = c\<lparr>soldiers := AList.update (s_ID s) s (soldiers c)\<rparr>"

definition UpdateSoldier :: "soldier \<Rightarrow> entity_cache \<Rightarrow> entity_cache" where
  "UpdateSoldier s c = c\<lparr>soldiers := AList.update (s_ID s) s (soldiers c)\<rparr>"

definition AddVehicle :: "vehicle \<Rightarrow> entity_cache \<Rightarrow> entity_cache" where
  "AddVehicle v c = c\<lparr>vehicles := AList.update (v_ID v) v (vehicles c)\<rparr>"

definition GetPlacedObject :: "u16 \<Rightarrow> entity_cache \<Rightarrow> placed_object option" where
  "GetPlacedObject eid c = map_of (placed c) eid"

definition AddPlacedObject :: "placed_object \<Rightarrow> entity_cache \<Rightarrow> entity_cache" where
  "AddPlacedObject p c = c\<lparr>placed := AList.update (po_ID p) p (placed c)\<rparr>"

record marker_cache =
  markers :: "(string \<times> guint) list"

definition NewMarkerCache :: marker_cache where
  "NewMarkerCache = \<lparr>markers = []\<rparr>"

definition Get :: "string \<Rightarrow> marker_cache \<Rightarrow> guint option" where
  "Get name c = map_of (markers c) name"

definition Set :: "string \<Rightarrow> guint \<Rightarrow> marker_cache \<Rightarrow> marker_cache" where
  "Set name eid c = c\<lparr>markers := AList.update name eid (markers c)\<rparr>"

definition Delete :: "string \<Rightarrow> marker_cache \<Rightarrow> marker_cache" where
  "Delete name c = c\<lparr>markers := AList.delete name (markers c)\<rparr>"

definition ResetMarkers :: "marker_cache \<Rightarrow> marker_cache" where
  "ResetMarkers c = c\<lparr>markers := []\<rparr>"

section \<open>The contract of a keyed store\<close>

locale keyed_store =
  fixes get :: "'k \<Rightarrow> 'c \<Rightarrow> 'v option"
    and add :: "'v \<Rightarrow> 'c \<Rightarrow> 'c"
    and key :: "'v \<Rightarrow> 'k"
  assumes get_add: "get k (add v c) = (if k = key v then Some v else get k c)"
begin

text \<open>After a run of insertions a lookup finds the last value inserted under the key.\<close>

lemma get_adds:
  "get k (fold add vs c) = (case find (\<lambda>v. key v = k) (rev vs) of Some v \<Rightarrow> Some v | None \<Rightarrow> get k c)"
proof (induction vs rule: rev_induct)
  case (snoc v vs)
  then show ?case by (auto simp: get_add)
qed simp

text \<open>Every cached value sits under its own key, and insertions keep it so.\<close>

definition keyed :: "'c \<Rightarrow> bool" where
  "keyed c = (\<forall>k v. get k c = Some v \<longrightarrow> key v = k)"

lemma keyed_add: "keyed c \<Longrightarrow> keyed (add v c)"
  by (auto simp: keyed_def get_add)

lemma keyed_adds: "keyed c \<Longrightarrow> keyed (fold add vs c)"
  by (induction vs arbitrary: c) (auto intro: keyed_add)

text \<open>Insertions under different keys commute, as far as lookups see.\<close>

lemma add_commute: "key v \<noteq> key w \<Longrightarrow> get k (add v (add w c)) = get k (add w (add v c))"
  by (auto simp: get_add)

end

interpretation cached_soldiers: keyed_store GetSoldier AddSoldier s_ID
  by unfold_locales (simp add: GetSoldier_def AddSoldier_def update_conv)

interpretation updated_soldiers: keyed_store GetSoldier UpdateSoldier s_ID
  by unfold_locales (simp add: GetSoldier_def UpdateSoldier_def update_conv)

interpretation cached_vehicles: keyed_store GetVehicle AddVehicle v_ID
  by unfold_locales (simp add: GetVehicle_def AddVehicle_def update_conv)

interpretation cached_placed: keyed_store GetPlacedObject AddPlacedObject po_ID
  by unfold_locales (simp add: GetPlacedObject_def AddPlacedObject_def update_conv)

interpretation cached_markers:
  keyed_store "\<lambda>name c. map_option (Pair name) (Get name c)" "\<lambda>(name, eid). Set name eid" fst
  by unfold_locales (auto simp: Get_def Set_def update_conv)

lemmas cache_frame_defs =
  GetSoldier_def GetVehicle_def GetPlacedObject_def AddSoldier_def UpdateSoldier_def
  AddVehicle_def AddPlacedObject_def Reset_def NewEntityCache_def

lemma cache_frames [simp]:
  "GetVehicle k (AddSoldier s c) = GetVehicle k c"
  "GetPlacedObject k (AddSoldier s c) = GetPlacedObject k c"
  "GetVehicle k (UpdateSoldier s c) = GetVehicle k c"
  "GetPlacedObject k (UpdateSoldier s c) = GetPlacedObject k c"
  "GetSoldier k (AddVehicle v c) = GetSoldier k c"
  "GetPlacedObject k (AddVehicle v c) = GetPlacedObject k c"
  "GetSoldier k (AddPlacedObject p c) = GetSoldier k c"
  "GetVehicle k (AddPlacedObject p c) = GetVehicle k c"
  by (simp_all add: cache_frame_defs)

lemma cache_reset [simp]:
  "GetSoldier k (Reset c) = None" "GetVehicle k (Reset c) = None" "GetPlacedObject k (Reset c) = None"
  "GetSoldier k NewEntityCache = None" "GetVehicle k NewEntityCache = None"
  "GetPlacedObject k NewEntityCache = None"
  by (simp_all add: cache_frame_defs)

lemmas cache_gets [simp] =
  cached_soldiers.get_add updated_soldiers.get_add cached_vehicles.get_add cached_placed.get_add

lemma marker_cache_simps [simp]:
  "Get n (Set m eid c) = (if n = m then Some eid else Get n c)"
  "Get n (Delete m c) = (if n = m then None else Get n c)"
  "Get n (ResetMarkers c) = None"
  "Get n NewMarkerCache = None"
  by (auto simp: Get_def Set_def Delete_def ResetMarkers_def NewMarkerCache_def update_conv delete_conv)

text \<open>The counts count the distinct keys.\<close>

definition wf_cache :: "entity_cache \<Rightarrow> bool" where
  "wf_cache c = (wf_map (soldiers c) \<and> wf_map (vehicles c) \<and> wf_map (placed c))"

lemma wf_cache_ops [simp]:
  "wf_cache NewEntityCache" "wf_cache (Reset c)"
  "wf_cache c \<Longrightarrow> wf_cache (AddSoldier s c)" "wf_cache c \<Longrightarrow> wf_cache (UpdateSoldier s c)"
  "wf_cache c \<Longrightarrow> wf_cache (AddVehicle v c)" "wf_cache c \<Longrightarrow> wf_cache (AddPlacedObject p c)"
  by (auto simp: wf_cache_def cache_frame_defs)

lemma SoldierCount_card: "wf_cache c \<Longrightarrow> SoldierCount c = card {k. GetSoldier k c \<noteq> None}"
  by (auto simp: SoldierCount_def GetSoldier_def wf_cache_def wf_map_def map_of_eq_None_iff
      Collect_conv_if distinct_card [symmetric] simp del: length_map)
    (metis (no_types, lifting) distinct_card length_map list.set_map)

end
