(* ===== verification/Memory_Properties.thy ===== *)
theory Memory_Properties
  imports Memory_Facts Export_Properties Queue Cache
begin

text \<open>
  The properties of the memory backend, and of the queue and the caches it works with, each
  applied to a concrete recording.
\<close>

section \<open>A concrete recording\<close>

definition quiet_env :: export_env where
  "quiet_env = \<lparr>env_timestamp = ''20250101_120000'', env_join = \<lambda>d f. d @ ''/'' @ f, env_mkdir = None,
     env_create = None, env_write = None\<rparr>"

definition started :: backend where
  "started = mem_StartMission example_mission example_world (mem_New \<lparr>mc_OutputDir = ''out'', mc_CompressOutput = False\<rparr>)"

definition example_marker :: "string \<Rightarrow> marker" where
  "example_marker n = \<lparr>mk_ID = 0, mk_Time = ZeroTime, mk_CaptureFrame = 1, mk_EndFrame = 0, mk_MarkerName = n,
     mk_Direction = 0, mk_MarkerType = ''mil_dot'', mk_Text = [], mk_OwnerID = 0, mk_Color = [], mk_Size = [],
     mk_Side = [], mk_Position = origin, mk_Polyline = [], mk_Shape = ''ICON'', mk_Alpha = FNum 1, mk_Brush = [],
     mk_IsDeleted = False\<rparr>"

definition recorded :: backend where
  "recorded = fold mem_RecordSoldierState [example_state 3 1, example_state 9 2, example_state 3 4]
     (mem_AddSoldier (example_soldier 3) started)"

lemmas backend_evals = started_def recorded_def mem_StartMission_def mem_New_def resetCollections_def
  mem_AddSoldier_def mem_RecordSoldierState_def modify_at_def

lemma wf_started: "wf_backend started"
  by (simp add: started_def wf_StartMission)

lemma wf_recorded: "wf_backend recorded"
  using wf_started
  by (simp add: recorded_def wf_backend_def wf_soldiers_ops) (simp add: wf_vehicles_def wf_placed_def wf_markers_def wf_focus_def mem_defs split: option.splits)

lemma recorded_mission:
  "b_mission recorded = Some example_mission" "b_world recorded = Some example_world"
  by (simp_all add: backend_evals)

lemma recorded_data:
  "buildMissionDataUnlocked recorded =
     \<lparr>md_Mission = Some example_mission, md_World = Some example_world,
      md_Soldiers = [(3, \<lparr>sr_Soldier = example_soldier 3, sr_States = [example_state 3 1, example_state 3 4], sr_FiredEvents = []\<rparr>)],
      md_Vehicles = [], md_Markers = [], md_PlacedObjects = [], md_GeneralEvents = [], md_SectorEvents = [],
      md_EndMissionEvents = [], md_HitEvents = [], md_KillEvents = [], md_TimeStates = [], md_ProjectileEvents = []\<rparr>"
  by (simp add: buildMissionDataUnlocked_def backend_evals example_soldier_def example_state_def)

section \<open>Properties\<close>

text \<open>
  C8. Every sequence of calls keeps the backend well-formed: the maps have distinct keys and hold
  each record under its own ID with only its own states and events, both marker maps point to
  records that carry the name or the ID they are found under, and the focus ranges are in order.
\<close>

theorem backend_invariant:
  assumes "mem_run calls (mem_New cfg) = Some b"
  shows "wf_backend b"
  using wf_run [OF assms wf_New] .

definition example_calls :: "(export_env \<times> backend_call) list" where
  "example_calls = map (Pair quiet_env)
     [CallStartMission example_mission example_world, CallAddSoldier (example_soldier 3),
      CallAddMarker (example_marker ''base''), CallSetFocusStart 2, CallRecordSoldierState (example_state 3 1),
      CallSetFocusEnd 4, CallAddMarker (example_marker ''base'')]"

theorem backend_invariant_witness:
  "\<exists>b. mem_run example_calls (mem_New \<lparr>mc_OutputDir = [], mc_CompressOutput = True\<rparr>) = Some b \<and>
     wf_backend b \<and> length (b_heap b) = 2 \<and> b_focusRanges b = [\<lparr>fr_Start = 2, fr_End = 4\<rparr>]"
proof -
  let ?b0 = "mem_New \<lparr>mc_OutputDir = [], mc_CompressOutput = True\<rparr>"
  have "\<exists>b. mem_run example_calls ?b0 = Some b \<and> length (b_heap b) = 2 \<and> b_focusRanges b = [\<lparr>fr_Start = 2, fr_End = 4\<rparr>]"
    by (simp add: example_calls_def ok_def mem_defs resetCollections_def mem_New_def mem_AddMarker_def
        mem_SetFocusStart_def mem_SetFocusEnd_def Let_def FrameForever_def)
  then show ?thesis using backend_invariant by blast
qed


definition recorded_entity :: entity where
  "recorded_entity = \<lparr>en_ID = 3, en_Name = ''Kerry'', en_Group = ''Alpha 1-1'', en_Side = ''WEST'', en_IsPlayer = 1,
     en_Type = ''unit'', en_Role = ''Rifleman'', en_Class = [], en_StartFrameNum = 0,
     en_Positions = replicate 3 (soldier_row (example_state 3 1)) @ [soldier_row (example_state 3 4)],
     en_FramesFired = []\<rparr>"

definition recorded_doc :: export where
  "recorded_doc = \<lparr>ex_AddonVersion = [], ex_ExtensionVersion = [], ex_ExtensionBuild = [],
     ex_MissionName = ''Night Op: 1'', ex_MissionAuthor = ''me'', ex_WorldName = ''Altis'', ex_EndFrame = 3,
     ex_CaptureDelay = FNum 1, ex_Tags = ''TvT'', ex_Times = [],
     ex_Entities = [zero_entity, zero_entity, zero_entity, recorded_entity], ex_Events = [], ex_Markers = []\<rparr>"

lemma recorded_positions:
  "soldier_positions 0 4 [example_state 3 1, example_state 3 4] [] =
     Some (replicate 3 (soldier_row (example_state 3 1)) @ [soldier_row (example_state 3 4)])"
  using soldier_positions_Cons2 [of "example_state 3 1" "example_state 3 4" 0 4 "[]" "[]"]
    soldier_positions_single [of "example_state 3 4" 0 4 "replicate 3 (soldier_row (example_state 3 1))"]
  by (simp add: example_state_def last_frame_def del: soldier_positions.simps)

lemma example_selectors [simp]:
  "s_ID (example_soldier i) = i" "s_DeleteFrame (example_soldier i) = 0" "s_JoinFrame (example_soldier i) = 1"
  "ss_CaptureFrame (example_state i f) = f" "ss_SoldierID (example_state i f) = i"
  by (simp_all add: example_soldier_def example_state_def)

lemma recorded_entity:
  "buildSoldierEntity \<lparr>sr_Soldier = example_soldier 3, sr_States = [example_state 3 1, example_state 3 4],
     sr_FiredEvents = []\<rparr> 4 [] = Some recorded_entity"
  using recorded_positions
  by (simp add: buildSoldierEntity_def ever_player_def recorded_entity_def frameToV1_uint boolToInt_def
      del: soldier_positions.simps)
    (simp add: example_soldier_def example_state_def)

lemma recorded_Build: "Build (buildMissionDataUnlocked recorded) = Some (Ok recorded_doc)"
proof -
  have "frameToV1 4 = 3" by (simp add: frameToV1_uint)
  moreover have "(replicate 4 zero_entity)[3 := x] = [zero_entity, zero_entity, zero_entity, x]" for x
    by (simp add: eval_nat_numeral)
  ultimately show ?thesis
    by (simp add: recorded_data Build_def running_max_def soldier_frames_def recorded_doc_def recorded_entity
        all_events_def all_markers_def sortedMarkers_def sortedPlacedObjects_def Let_def
        List.map_filter_simps example_mission_def example_world_def)
qed

lemma recorded_doc_ok: "export_ok recorded_doc"
  by (simp add: export_ok_def recorded_doc_def recorded_entity_def entity_ok_def rows_ok_def zero_entity_def soldier_row_def
      pos3_list_def AFloats_def example_state_def origin_def finite_f64_def eval_nat_numeral)

lemma recorded_shape:
  "disjoint_IDs (buildMissionDataUnlocked recorded)" "bullets_of_soldiers (buildMissionDataUnlocked recorded)"
  by (simp_all add: recorded_data disjoint_IDs_def bullets_of_soldiers_def)

lemma quiet_disk: "env_mkdir quiet_env = None" "env_create quiet_env = None" "env_write quiet_env = None"
  by (simp_all add: quiet_env_def)

lemma recorded_file:
  "env_join quiet_env (mc_OutputDir (b_cfg recorded)) (export_filename quiet_env (b_cfg recorded) example_mission) =
     ''out/Night_Op__1_20250101_120000.json''"
  by (simp add: export_filename_def quiet_env_def backend_evals example_mission_def replace_all.simps has_prefix_def)




text \<open>C37. Ending when no mission was started is an error and changes nothing.\<close>

theorem EndMission_without_mission:
  assumes "b_mission b = None"
  shows "mem_EndMission env b = Some (Some (Errorf ''no mission to end: mission was never started'' []), b)"
  using assms by (simp add: mem_EndMission_def)

theorem EndMission_without_mission_witness:
  "snd (the (mem_EndMission quiet_env (mem_New \<lparr>mc_OutputDir = [], mc_CompressOutput = False\<rparr>))) =
     mem_New \<lparr>mc_OutputDir = [], mc_CompressOutput = False\<rparr>"
  using EndMission_without_mission [of "mem_New \<lparr>mc_OutputDir = [], mc_CompressOutput = False\<rparr>" quiet_env]
  by (simp add: mem_New_def)

text \<open>
  A registered soldier has exactly the states recorded for its ID since then, in order;
  states for IDs nobody registered are dropped, and registering an ID again starts afresh.
\<close>

theorem soldier_states_in_order:
  "find_soldier k (fold mem_RecordSoldierState sts (mem_AddSoldier s b)) =
     (if k = s_ID s then
        Some \<lparr>sr_Soldier = s, sr_States = filter (\<lambda>st. ss_SoldierID st = k) sts, sr_FiredEvents = []\<rparr>
      else map_option (\<lambda>r. r\<lparr>sr_States := sr_States r @ filter (\<lambda>st. ss_SoldierID st = k) sts\<rparr>) (find_soldier k b))"
proof -
  have "fold (\<lambda>st r. r\<lparr>sr_States := sr_States r @ [st]\<rparr>) xs r = r\<lparr>sr_States := sr_States r @ xs\<rparr>"
    for xs and r :: soldier_record
    by (induction xs arbitrary: r) simp_all
  note appended = ext [OF this]
  show ?thesis
    by (auto simp: soldier_states.lookup_records soldier_states.lookup_register appended)
qed

text \<open>
  A marker added under a name in use replaces the one of that name in the export, under an ID
  the mission has not used, and a state recorded for a marker's ID reaches exactly the exported
  marker of that ID: states for a replaced marker are lost.
\<close>

theorem marker_states_follow_IDs:
  assumes "wf_backend b" "length (b_heap b) + 1 < 2 ^ 64" "mem_AddMarker m b = (i, b')"
  shows "i \<noteq> 0 \<and> i \<notin> mk_ID ` mr_Marker ` set (b_heap b) \<and>
    map_of (exported_markers b') (mk_MarkerName m) = Some \<lparr>mr_Marker = m\<lparr>mk_ID := i\<rparr>, mr_States = []\<rparr> \<and>
    (\<forall>n. n \<noteq> mk_MarkerName m \<longrightarrow> map_of (exported_markers b') n = map_of (exported_markers b) n) \<and>
    exported_markers (mem_RecordMarkerState st b) =
      map (\<lambda>(n, r). (n, if mk_ID (mr_Marker r) = ms_MarkerID st then r\<lparr>mr_States := mr_States r @ [st]\<rparr> else r))
        (exported_markers b)"
proof -
  have wf: "wf_markers b" using assms(1) by (simp add: wf_backend_def)
  show ?thesis
    using add_marker_fresh [OF wf assms(2,3)] record_marker_state [OF wf, of st] assms(2) by auto
qed

theorem marker_states_follow_IDs_witness:
  "map_of (exported_markers (snd (mem_AddMarker (example_marker ''base'') (snd (mem_AddMarker (example_marker ''base'') started)))))
     ''base'' = Some \<lparr>mr_Marker = (example_marker ''base'')\<lparr>mk_ID := 2\<rparr>, mr_States = []\<rparr>"
proof -
  let ?b = "snd (mem_AddMarker (example_marker ''base'') started)"
  have "wf_backend ?b"
    using wf_started wf_markers_add [of started "example_marker ''base''"]
    by (simp add: wf_backend_def)
      (simp add: wf_soldiers_def wf_vehicles_def wf_placed_def wf_focus_def mem_AddMarker_def Let_def split: option.splits)
  moreover have "length (b_heap ?b) + 1 < 2 ^ 64" "mem_AddMarker (example_marker ''base'') ?b = (2, snd (mem_AddMarker (example_marker ''base'') ?b))"
    by (simp_all add: backend_evals mem_AddMarker_def Let_def)
  ultimately show ?thesis using marker_states_follow_IDs [of ?b "example_marker ''base''" 2] by (simp add: example_marker_def)
qed

text \<open>
  The focus ranges uploaded with a mission are not empty, in order and disjoint, also when
  the last one was still open and ends with the recording.
\<close>

theorem uploaded_focus_ranges_ordered:
  assumes "wf_backend b"
  shows "ranges_from 1 (um_FocusRanges (computeExportMetadata b))"
proof -
  have "wf_focus b" using assms by (simp add: wf_backend_def)
  moreover have "(1 :: frame) \<le> f" if "0 < f" for f
    using that unat_gt_0 [of f] by (simp add: word_le_nat_alt Suc_le_eq word_gt_0)
  ultimately show ?thesis
    by (auto simp: computeExportMetadata_def wf_focus_def ranges_from_append last_end_def zero_metadata_def Let_def
        split: option.split)
qed

theorem uploaded_focus_ranges_ordered_witness:
  "um_FocusRanges (computeExportMetadata (snd (mem_SetFocusStart 2 recorded))) = [\<lparr>fr_Start = 2, fr_End = 4\<rparr>] \<and>
   ranges_from 1 (um_FocusRanges (computeExportMetadata (snd (mem_SetFocusStart 2 recorded))))"
proof
  have "wf_backend (snd (mem_SetFocusStart 2 recorded))"
    using wf_exec [of quiet_env "CallSetFocusStart 2" recorded] wf_recorded
    by (simp add: case_prod_beta)
  then show "ranges_from 1 (um_FocusRanges (computeExportMetadata (snd (mem_SetFocusStart 2 recorded))))"
    by (rule uploaded_focus_ranges_ordered)
  show "um_FocusRanges (computeExportMetadata (snd (mem_SetFocusStart 2 recorded))) = [\<lparr>fr_Start = 2, fr_End = 4\<rparr>]"
    by (simp add: backend_evals mem_SetFocusStart_def FrameForever_def computeExportMetadata_def Let_def
        metadata_frames_def running_max_def example_soldier_def example_state_def)
qed

text \<open>
  The end frame of the uploaded metadata is the latest frame of any state of a soldier or a
  vehicle and of any event of a placed object.
\<close>

theorem metadata_end_frame:
  assumes "b_mission b = Some m" "b_world b = Some w"
  shows "um_EndFrame (mem_GetExportMetadata b) = Max (insert 0 (set (metadata_frames b)))"
  using end_frame_max [OF assms] assms by (simp add: mem_GetExportMetadata_def)

theorem metadata_end_frame_witness: "um_EndFrame (mem_GetExportMetadata recorded) = 4"
proof -
  have "um_EndFrame (mem_GetExportMetadata recorded) = Max (insert 0 (set (metadata_frames recorded)))"
    by (rule metadata_end_frame [OF recorded_mission])
  also have "metadata_frames recorded = [1, 4]"
    by (simp add: backend_evals metadata_frames_def example_soldier_def example_state_def)
  finally show ?thesis by simp
qed

section \<open>Caches and queue\<close>

text \<open>
  The queue hands out every item once, in the order of arrival: after any number of batches
  a drain returns what was there and then all batches, and leaves nothing.
\<close>

theorem queue_is_fifo:
  "GetAndEmpty (fold Push xss q) = (items q @ concat xss, New)"
proof -
  have "fst (GetAndEmpty (fold Push xss q)) = items q @ concat xss"
    by (rule queue.drain_after_pushes)
  then show ?thesis by (simp add: GetAndEmpty_def New_def)
qed

text \<open>
  The entity cache returns for an ID the soldier added or updated last under it, and counts
  each ID once.
\<close>

theorem cache_last_soldier_wins:
  assumes "wf_cache c"
  shows "GetSoldier k (fold AddSoldier ss c) =
      (case find (\<lambda>s. s_ID s = k) (rev ss) of Some s \<Rightarrow> Some s | None \<Rightarrow> GetSoldier k c) \<and>
    SoldierCount (fold AddSoldier ss c) = card {k. GetSoldier k (fold AddSoldier ss c) \<noteq> None}"
proof -
  have "wf_cache (fold AddSoldier ss c)"
    using assms by (induction ss arbitrary: c) simp_all
  then show ?thesis by (simp add: cached_soldiers.get_adds SoldierCount_card)
qed

theorem cache_last_soldier_wins_witness:
  "GetSoldier 3 (fold AddSoldier [example_soldier 3, (example_soldier 3)\<lparr>s_Side := ''EAST''\<rparr>] NewEntityCache) =
     Some ((example_soldier 3)\<lparr>s_Side := ''EAST''\<rparr>)"
  using cache_last_soldier_wins [of NewEntityCache 3 "[example_soldier 3, (example_soldier 3)\<lparr>s_Side := ''EAST''\<rparr>]"]
  by (simp add: example_soldier_def)

end
