(* ===== verification/Geo.thy ===== *)
theory Geo
  imports Core_Types GoJson
begin

text \<open>
  Package internal/geo: positions written as \<open>x,y\<close> or \<open>x,y,z\<close>, and polylines written as a JSON
  array of coordinate pairs.
\<close>

definition ErrInvalidCoordinates :: go_err where
  "ErrInvalidCoordinates = Errorf ''invalid coordinates provided'' []"

definition parse_coord :: "string \<Rightarrow> f64 outcome" where
  "parse_coord s = (case parse_float64 s of (x, None) \<Rightarrow> Ok x | (_, Some _) \<Rightarrow> Err ErrInvalidCoordinates)"

definition Position3DFromString :: "string \<Rightarrow> position3D outcome" where
  "Position3DFromString coords =
     (let coordsSplit = split_char CHR '','' coords in
      if length coordsSplit < 2 then Err ErrInvalidCoordinates
      else and_then (parse_coord (coordsSplit ! 0)) (\<lambda>long.
           and_then (parse_coord (coordsSplit ! 1)) (\<lambda>lat.
           and_then (if length coordsSplit > 2 then parse_coord (coordsSplit ! 2) else Ok 0) (\<lambda>elev.
           Ok \<lparr>pos3_X = long, pos3_Y = lat, pos3_Z = elev\<rparr>))))"

text \<open>The loop over the coordinates, with the index its error message shows.\<close>

fun polyline_points :: "int \<Rightarrow> f64 list list \<Rightarrow> polyline outcome" where
  "polyline_points i [] = Ok []"
| "polyline_points i (coord # cs) =
     (if length coord < 2 then Err (Errorf ''coordinate %d has insufficient values'' [ArgInt i])
      else map_ok (\<lambda>ps. \<lparr>pos2_X = coord ! 0, pos2_Y = coord ! 1\<rparr> # ps) (polyline_points (i + 1) cs))"

definition ParsePolylineToCore :: "string \<Rightarrow> polyline outcome" where
  "ParsePolylineToCore input =
     (case unmarshal (decode_slice (decode_slice decode_float64)) [] input of
        (_, Some e) \<Rightarrow> Err (Errorf ''failed to parse polyline JSON: %w'' [ArgErr e])
      | (coords, None) \<Rightarrow>
          if length coords < 2 then
            Err (Errorf ''polyline must have at least 2 points, got %d'' [ArgInt (int (length coords))])
          else polyline_points 0 coords)"

section \<open>Facts\<close>

lemma parse_coord_not_panics [simp]: "\<not> panics (parse_coord s)"
  by (auto simp: parse_coord_def split: prod.split option.split)

lemma Position3DFromString_not_panics [simp]: "\<not> panics (Position3DFromString s)"
  by (simp add: Position3DFromString_def Let_def panics_and_then)

lemma Position3DFromString_error:
  "Position3DFromString s = Err e \<Longrightarrow> e = ErrInvalidCoordinates"
  by (auto simp: Position3DFromString_def Let_def and_then_Err_iff parse_coord_def
      split: if_splits prod.splits option.splits)

text \<open>Coordinates written with integers are read back exactly.\<close>

lemma parse_coord_int: "0 \<le> n \<Longrightarrow> n < 2 ^ 53 \<Longrightarrow> parse_coord (int_text z n) = Ok (FNum (of_int n))"
  by (simp add: parse_coord_def parse_float64_int_text)

lemma polyline_points_length: "polyline_points i cs = Ok ps \<Longrightarrow> length ps = length cs"
  by (induction cs arbitrary: i ps) (auto simp: outcome_simps split: if_splits)

lemma polyline_points_nth:
  "polyline_points i cs = Ok ps \<Longrightarrow> j < length cs \<Longrightarrow>
     2 \<le> length (cs ! j) \<and> ps ! j = \<lparr>pos2_X = cs ! j ! 0, pos2_Y = cs ! j ! 1\<rparr>"
proof (induction cs arbitrary: i ps j)
  case (Cons c cs)
  then show ?case by (cases j) (auto simp: outcome_simps split: if_splits)
qed simp

lemma polyline_points_not_panics: "\<not> panics (polyline_points i cs)"
proof (induction cs arbitrary: i)
  case (Cons c cs)
  from Cons.IH [of "i + 1"] show ?case by (cases "polyline_points (i + 1) cs") auto
qed simp

lemma ParsePolylineToCore_not_panics [simp]: "\<not> panics (ParsePolylineToCore s)"
  by (auto simp: ParsePolylineToCore_def polyline_points_not_panics split: prod.split option.split)

lemma ParsePolylineToCore_long: "ParsePolylineToCore s = Ok ps \<Longrightarrow> 2 \<le> length ps"
  by (auto simp: ParsePolylineToCore_def split: prod.splits option.splits if_splits
      dest!: polyline_points_length)

end
