(* ===== verification/Parser_Base.thy ===== *)
theory Parser_Base
  imports Geo Util
begin

text \<open>
  internal/parser/parser.go and types.go: numbers that SQF may have written as floats, the radio
  channel, and the reading of one argument. A parser gets the argument strings, the clock
  reading \<open>now\<close> that stands for \<open>time.Now()\<close>, and the \<open>platform\<close> whose out-of-range
  float conversions apply. Go panics when an argument that is not there is indexed; \<open>Panic\<close>
  is that outcome. Log messages are not modelled.
\<close>

section \<open>Numbers\<close>

definition parseUintFromFloat :: "platform \<Rightarrow> string \<Rightarrow> u64 outcome" where
  "parseUintFromFloat P s = (case parse_uint s of
     (v, None) \<Rightarrow> Ok v
   | (_, Some _) \<Rightarrow> (case parse_float64 s of
         (_, Some e) \<Rightarrow> Err e
       | (f, None) \<Rightarrow>
           if f < 0 \<or> \<not> f64_eq f (f64_of_u64 (f64_to_u64 P f))
           then Err (Errorf ''parseUintFromFloat: %q is not a valid uint64'' [ArgStr s])
           else Ok (f64_to_u64 P f)))"

definition parseIntFromFloat :: "platform \<Rightarrow> string \<Rightarrow> int outcome" where
  "parseIntFromFloat P s = (case parse_int s of
     (v, None) \<Rightarrow> Ok v
   | (_, Some _) \<Rightarrow> (case parse_float64 s of
         (_, Some e) \<Rightarrow> Err e
       | (f, None) \<Rightarrow>
           if \<not> f64_eq f (f64_of_int (f64_to_i64 P f))
           then Err (Errorf ''parseIntFromFloat: %q is not a valid int64'' [ArgStr s])
           else Ok (f64_to_i64 P f)))"

definition parseRadioChannel :: "platform \<Rightarrow> string \<Rightarrow> int outcome" where
  "parseRadioChannel P s =
     (let s = trim_space s;
          err = Err (Errorf ''parseRadioChannel: %q is not a valid channel (expected int or [int,...,int])'' [ArgStr s])
      in case parseIntFromFloat P s of
           Ok v \<Rightarrow> Ok v
         | _ \<Rightarrow>
             if has_prefix ''['' s \<and> has_suffix '']'' s then
               (if length s < 2 then Panic (OtherPanic ''slice bounds out of range'')
                else let inner = drop 1 (take (length s - 1) s);
                         parts = split_char CHR '','' inner;
                         last_part = trim_space (last parts)
                     in case parseIntFromFloat P last_part of Ok v \<Rightarrow> Ok v | _ \<Rightarrow> err)
             else err)"

definition ChatChannels :: "(int \<times> string) list" where
  "ChatChannels =
     [(0, ''Global''), (1, ''Side''), (2, ''Command''), (3, ''Group''), (4, ''Vehicle''),
      (5, ''Direct''), (16, ''System'')]"

section \<open>Parsed events that the worker classifies\<close>

record hit_part =
  hp_EntityID :: u16
  hp_ComponentsHit :: "string list"
  hp_CaptureFrame :: frame
  hp_Position :: position3D

record parsed_projectile =
  pp_CaptureFrame :: frame
  pp_FirerObjectID :: u16
  pp_VehicleObjectID :: "u16 option"
  pp_WeaponDisplay :: string
  pp_MagazineDisplay :: string
  pp_MuzzleDisplay :: string
  pp_SimulationType :: string
  pp_MagazineIcon :: string
  pp_Trajectory :: "trajectory_point list"
  pp_HitParts :: "hit_part list"

record parsed_kill =
  pk_Time :: gtime
  pk_CaptureFrame :: frame
  pk_VictimID :: u16
  pk_KillerID :: u16
  pk_WeaponVehicle :: string
  pk_WeaponName :: string
  pk_WeaponMagazine :: string
  pk_EventText :: string
  pk_Distance :: f32

record marker_move =
  mm_MarkerName :: string
  mm_CaptureFrame :: frame
  mm_Position :: position3D
  mm_Direction :: f32
  mm_Alpha :: f32
  mm_Text :: string
  mm_Color :: string
  mm_Size :: string
  mm_MarkerType :: string
  mm_Brush :: string
  mm_Shape :: string
  mm_Time :: gtime

section \<open>Arguments\<close>

text \<open>\<open>for i, v := range data { data[i] = util.FixEscapeQuotes(util.TrimQuotes(v)) }\<close>\<close>

definition fix_data :: "string list \<Rightarrow> string list" where
  "fix_data data = map fix_arg data"

definition float64_arg :: "string list \<Rightarrow> nat \<Rightarrow> string \<Rightarrow> f64 outcome" where
  "float64_arg data k msg = and_then (idx data k) (\<lambda>a. wrap_err msg (of_pair (parse_float64 a)))"

definition float32_arg :: "string list \<Rightarrow> nat \<Rightarrow> string \<Rightarrow> f32 outcome" where
  "float32_arg data k msg = and_then (idx data k) (\<lambda>a. wrap_err msg (of_pair (parse_float32 a)))"

definition frame_arg :: "platform \<Rightarrow> string list \<Rightarrow> nat \<Rightarrow> string \<Rightarrow> frame outcome" where
  "frame_arg P data k msg = map_ok (f64_to_u64 P) (float64_arg data k msg)"

definition uint_arg :: "platform \<Rightarrow> string list \<Rightarrow> nat \<Rightarrow> string \<Rightarrow> u64 outcome" where
  "uint_arg P data k msg = and_then (idx data k) (\<lambda>a. wrap_err msg (parseUintFromFloat P a))"

definition int_arg :: "platform \<Rightarrow> string list \<Rightarrow> nat \<Rightarrow> string \<Rightarrow> int outcome" where
  "int_arg P data k msg = and_then (idx data k) (\<lambda>a. wrap_err msg (parseIntFromFloat P a))"

definition bool_arg :: "string list \<Rightarrow> nat \<Rightarrow> string \<Rightarrow> bool outcome" where
  "bool_arg data k msg = and_then (idx data k) (\<lambda>a. wrap_err msg (of_pair (parse_bool a)))"

text \<open>The array position \<open>[x,y,z]\<close> without its brackets.\<close>

definition strip_brackets :: "string \<Rightarrow> string" where
  "strip_brackets s = trim_suffix '']'' (trim_prefix ''['' s)"

named_theorems parse_simps "arguments of the parsers"

lemma length_fix_data [simp]: "length (fix_data data) = length data"
  by (simp add: fix_data_def)

lemma nth_fix_data [simp]: "k < length data \<Longrightarrow> fix_data data ! k = fix_arg (data ! k)"
  by (simp add: fix_data_def)

lemma parseUintFromFloat_not_panics [simp]: "\<not> panics (parseUintFromFloat P s)"
  by (auto simp: parseUintFromFloat_def split: prod.split option.split)

lemma parseIntFromFloat_not_panics [simp]: "\<not> panics (parseIntFromFloat P s)"
  by (auto simp: parseIntFromFloat_def split: prod.split option.split)

lemma panics_map_ok [simp]: "panics (map_ok f m) = panics m"
  by (cases m) auto

lemma panics_args [simp]:
  "panics (float64_arg data k msg) \<longleftrightarrow> length data \<le> k"
  "panics (float32_arg data k msg) \<longleftrightarrow> length data \<le> k"
  "panics (frame_arg P data k msg) \<longleftrightarrow> length data \<le> k"
  "panics (uint_arg P data k msg) \<longleftrightarrow> length data \<le> k"
  "panics (int_arg P data k msg) \<longleftrightarrow> length data \<le> k"
  "panics (bool_arg data k msg) \<longleftrightarrow> length data \<le> k"
  by (auto simp: float64_arg_def float32_arg_def frame_arg_def uint_arg_def int_arg_def bool_arg_def
      panics_and_then idx_def)

lemma args_Ok_iff [parse_simps]:
  "float64_arg data k msg = Ok x \<longleftrightarrow> k < length data \<and> parse_float64 (data ! k) = (x, None)"
  "float32_arg data k msg = Ok x \<longleftrightarrow> k < length data \<and> parse_float32 (data ! k) = (x, None)"
  "frame_arg P data k msg = Ok w \<longleftrightarrow>
     k < length data \<and> (\<exists>x. parse_float64 (data ! k) = (x, None) \<and> w = f64_to_u64 P x)"
  "uint_arg P data k msg = Ok w \<longleftrightarrow> k < length data \<and> parseUintFromFloat P (data ! k) = Ok w"
  "int_arg P data k msg = Ok i \<longleftrightarrow> k < length data \<and> parseIntFromFloat P (data ! k) = Ok i"
  "bool_arg data k msg = Ok b \<longleftrightarrow> k < length data \<and> parse_bool (data ! k) = (b, None)"
  by (auto simp: float64_arg_def float32_arg_def frame_arg_def uint_arg_def int_arg_def bool_arg_def
      outcome_simps)

section \<open>Numbers as SQF writes them\<close>

lemma f64_to_u64_FNum_int [simp]:
  "0 \<le> n \<Longrightarrow> n < 2 ^ 64 \<Longrightarrow> f64_to_u64 P (FNum (of_int n)) = of_int n"
  by (simp add: f64_to_u64_def to_uint_def trunc_f64_def finite_f64_def)

lemma f64_to_u16_FNum_int [simp]:
  "0 \<le> n \<Longrightarrow> n < 2 ^ 16 \<Longrightarrow> f64_to_u16 P (FNum (of_int n)) = of_int n"
  by (simp add: f64_to_u16_def to_uint_def trunc_f64_def finite_f64_def)

lemma f64_to_i64_FNum_int [simp]:
  "- (2 ^ 63) \<le> n \<Longrightarrow> n < 2 ^ 63 \<Longrightarrow> f64_to_i64 P (FNum (of_int n)) = n"
  by (auto simp: f64_to_i64_def trunc_f64_def finite_f64_def)

lemma uint_of_int_u64: "0 \<le> n \<Longrightarrow> n < 2 ^ 64 \<Longrightarrow> uint (of_int n :: u64) = n"
  by (simp add: uint_word_of_int_eq take_bit_int_eq_self)

lemma f64_eq_FNum [simp]: "f64_eq (FNum a) (FNum b) = (a = b)"
  by (simp add: f64_eq_def finite_f64_def)

lemma FNum_less_0 [simp]: "FNum a < 0 \<longleftrightarrow> a < 0"
  by (simp add: zero_f64_def)

lemma parse_uint_format_nonneg:
  "0 \<le> n \<Longrightarrow> n < 2 ^ 64 \<Longrightarrow> parse_uint (format_nonneg n) = (of_int n, None)"
  by (simp add: parse_uint_def parse_uint_raw_format)

text \<open>Integers below \<open>2 ^ 53\<close> are read exactly in both spellings, on every platform.\<close>

lemma parseUintFromFloat_int_text:
  assumes n: "0 \<le> n" "n < 2 ^ 53"
  shows "parseUintFromFloat P (int_text z n) = Ok (of_int n)"
proof (cases "snd (parse_uint (int_text z n))")
  case None
  have "parse_uint (int_text z n) = (of_int n, None)"
  proof (cases z)
    case None then show ?thesis using n by (simp add: int_text_def parse_uint_format_nonneg)
  next
    case (Some k)
    have "uint_loop (int_text z n) 0 = uint_loop (CHR ''.'' # replicate k CHR ''0'') n"
      using n Some uint_loop_append [OF uint_loop_format_nonneg, of n] by (simp add: int_text_def)
    then have "snd (parse_uint (int_text z n)) \<noteq> None"
      by (simp add: parse_uint_def parse_uint_raw_def is_digit_def int_text_def split: prod.split)
    with None show ?thesis by simp
  qed
  then show ?thesis by (simp add: parseUintFromFloat_def)
next
  case (Some e)
  have "f64_of_u64 (of_int n) = FNum (of_int n)"
    using n f64_of_int_exact [OF n] by (simp add: f64_of_u64_def uint_of_int_u64)
  then show ?thesis
    using n Some parse_float64_int_text [OF n, of z]
    by (cases "parse_uint (int_text z n)") (simp add: parseUintFromFloat_def del: less_f64.simps)
qed

lemma format_int_nonneg: "0 \<le> n \<Longrightarrow> format_int n = format_nonneg n"
  by (simp add: format_int_def)

lemma parseIntFromFloat_format:
  "- (2 ^ 63) \<le> n \<Longrightarrow> n < 2 ^ 63 \<Longrightarrow> parseIntFromFloat P (format_int n) = Ok n"
  by (simp add: parseIntFromFloat_def parse_int_def parse_int_raw_format)

text \<open>
  What an accepted text says, whatever the platform does with conversions out of range: it is a
  numeral with the value of the result, or a float equal to the result.
\<close>

lemma parseUintFromFloat_sound:
  "parseUintFromFloat P s = Ok v \<Longrightarrow>
     parse_uint s = (v, None) \<or>
     (\<exists>f. parse_float64 s = (f, None) \<and> \<not> f < 0 \<and> f64_eq f (f64_of_u64 v))"
  by (auto simp: parseUintFromFloat_def split: prod.splits option.splits if_splits)

lemma parseIntFromFloat_sound:
  "parseIntFromFloat P s = Ok v \<Longrightarrow>
     parse_int s = (v, None) \<or>
     (\<exists>f. parse_float64 s = (f, None) \<and> f64_eq f (f64_of_int v))"
  by (auto simp: parseIntFromFloat_def split: prod.splits option.splits if_splits)

section \<open>Radio channels\<close>

lemma parseRadioChannel_not_panics [simp]: "\<not> panics (parseRadioChannel P s)"
proof -
  have "\<not> length t < 2" if "has_prefix ''['' t" "has_suffix '']'' t" for t
    using that by (cases t; cases "tl t") (auto simp: has_prefix_def has_suffix_def)
  then show ?thesis by (auto simp: parseRadioChannel_def Let_def split: outcome.split)
qed

lemma trim_left_runes_id: "head_len rs s = 0 \<Longrightarrow> trim_left_runes rs s = s"
  by (subst trim_left_runes.simps) simp

lemma has_prefix_hd: "has_prefix r s \<Longrightarrow> r \<noteq> [] \<Longrightarrow> hd s = hd r"
  by (cases r; cases s) (auto simp: has_prefix_def)

lemma head_len_printable:
  assumes "s \<noteq> []" "33 \<le> byte (hd s)" "byte (hd s) < 127"
  shows "head_len space_runes s = 0" "head_len (map rev space_runes) s = 0"
proof -
  have "\<forall>r \<in> set space_runes. byte (hd r) < 33 \<or> 127 \<le> byte (hd r)"
    "\<forall>r \<in> set space_runes. byte (last r) < 33 \<or> 127 \<le> byte (last r)"
    "\<forall>r \<in> set space_runes. r \<noteq> []"
    by (simp_all add: space_runes_def)
  then have "\<not> has_prefix r s" "\<not> has_prefix (rev r) s" if "r \<in> set space_runes" for r
    using that assms has_prefix_hd [of r s] has_prefix_hd [of "rev r" s] by (force simp: hd_rev)+
  then have "find (\<lambda>r. has_prefix r s) space_runes = None"
    "find (\<lambda>r. has_prefix r s) (map rev space_runes) = None"
    by (auto simp: find_None_iff)
  then show "head_len space_runes s = 0" "head_len (map rev space_runes) s = 0"
    by (simp_all add: head_len_def)
qed

lemma trim_space_printable:
  assumes "s \<noteq> []" "33 \<le> byte (hd s)" "byte (hd s) < 127" "33 \<le> byte (last s)" "byte (last s) < 127"
  shows "trim_space s = s"
  using assms head_len_printable [of s] head_len_printable [of "rev s"]
  by (simp add: trim_space_def trim_left_runes_id hd_rev)

lemma format_int_ends:
  "33 \<le> byte (hd (format_int n))" "byte (hd (format_int n)) < 127"
  "33 \<le> byte (last (format_int n))" "byte (last (format_int n)) < 127"
  "format_int n \<noteq> []" "CHR '','' \<notin> set (format_int n)"
proof -
  have d: "\<forall>c \<in> set (format_nonneg m). 33 \<le> byte c \<and> byte c < 127 \<and> c \<noteq> CHR '',''" if "0 \<le> m" for m
    using format_nonneg_digits [OF that] by (auto simp: is_digit_def)
  have "\<forall>c \<in> set (format_int n). 33 \<le> byte c \<and> byte c < 127 \<and> c \<noteq> CHR '',''"
    using d [of n] d [of "- n"] by (auto simp: format_int_def)
  moreover show "format_int n \<noteq> []" by (simp add: format_int_def)
  ultimately show "33 \<le> byte (hd (format_int n))" "byte (hd (format_int n)) < 127"
    "33 \<le> byte (last (format_int n))" "byte (last (format_int n)) < 127" "CHR '','' \<notin> set (format_int n)"
    by auto
qed

lemma parse_float64_bracket: "\<exists>e. snd (parse_float64 (CHR ''['' # t)) = Some e"
proof -
  have "read_float (CHR ''['' # t) = None"
    by (simp add: read_float_def drop_sign_def mantissa0_def digit_of_def is_digit_def lower_byte_def Let_def)
  moreover have "special_float (CHR ''['' # t) = None"
    by (simp add: special_float_def drop_sign_def lower_byte_def Let_def)
  ultimately show ?thesis by (simp add: parse_float64_def parse_float_fmt_def)
qed

lemma parseIntFromFloat_bracket: "\<exists>e. parseIntFromFloat P (CHR ''['' # t) = Err e"
proof -
  have "\<exists>e. snd (parse_int (CHR ''['' # t)) = Some e"
    by (simp add: parse_int_def parse_int_raw_def parse_uint_raw_def is_digit_def split: prod.split)
  with parse_float64_bracket [of t] show ?thesis
    by (auto simp: parseIntFromFloat_def split: prod.splits option.splits)
qed

lemma parseRadioChannel_scalar:
  "- (2 ^ 63) \<le> k \<Longrightarrow> k < 2 ^ 63 \<Longrightarrow> parseRadioChannel P (format_int k) = Ok k"
  using format_int_ends [of k] by (simp add: parseRadioChannel_def trim_space_printable parseIntFromFloat_format)

lemma parseRadioChannel_array:
  assumes ks: "ks \<noteq> []" and last: "- (2 ^ 63) \<le> last ks" "last ks < 2 ^ 63"
  shows "parseRadioChannel P (''['' @ join '','' (map format_int ks) @ '']'') = Ok (last ks)"
proof -
  let ?inner = "join '','' (map format_int ks)"
  let ?s = "''['' @ ?inner @ '']''"
  have sp: "split_char CHR '','' ?inner = map format_int ks"
    using ks format_int_ends by (intro split_char_join) auto
  obtain e where e: "parseIntFromFloat P ?s = Err e"
    using parseIntFromFloat_bracket [of P "?inner @ '']''"] by auto
  have "trim_space (last (map format_int ks)) = format_int (last ks)"
    using ks format_int_ends by (simp add: last_map trim_space_printable)
  then have "parseIntFromFloat P (trim_space (last (map format_int ks))) = Ok (last ks)"
    using last by (simp add: parseIntFromFloat_format)
  then show ?thesis
    unfolding parseRadioChannel_def trim_space_bracketed Let_def e
    using sp by (simp add: has_prefix_def has_suffix_def)
qed

text \<open>A channel text that is accepted is a number, or a bracketed list ending in that number.\<close>

lemma parseRadioChannel_sound:
  assumes "parseRadioChannel P s = Ok k"
  shows "parseIntFromFloat P (trim_space s) = Ok k \<or>
     (has_prefix ''['' (trim_space s) \<and> has_suffix '']'' (trim_space s) \<and>
      (\<exists>part. parseIntFromFloat P part = Ok k))"
  using assms by (auto simp: parseRadioChannel_def Let_def split: outcome.splits if_splits)

end
