(* ===== verification/Parser_Entities.thy ===== *)
theory Parser_Entities
  imports Parser_Base
begin

text \<open>
  internal/parser: parse_soldier.go, parse_vehicle.go, parse_marker.go, parse_placed.go,
  parse_chat.go, parse_ace3.go and parse_focus.go. Each parser reads its arguments in the order
  of the source, so that what comes first, an error or a missing argument, is what it reports.
\<close>

definition zero_position3D :: position3D where
  "zero_position3D = \<lparr>pos3_X = 0, pos3_Y = 0, pos3_Z = 0\<rparr>"

section \<open>Soldiers\<close>

definition ParseSoldier :: "platform \<Rightarrow> gtime \<Rightarrow> string list \<Rightarrow> soldier outcome" where
  "ParseSoldier P now args = (let data = fix_data args in
     and_then (frame_arg P data 0 ''error converting capture frame to int: %w'') (\<lambda>capframe.
     and_then (uint_arg P data 1 ''error converting ocapId to uint: %w'') (\<lambda>ocapID.
     and_then (idx data 2) (\<lambda>unitName.
     and_then (idx data 3) (\<lambda>groupID.
     and_then (idx data 4) (\<lambda>side.
     and_then (bool_arg data 5 ''error converting isPlayer to bool: %w'') (\<lambda>isPlayer.
     and_then (idx data 6) (\<lambda>roleDescription.
     and_then (idx data 7) (\<lambda>className.
     and_then (idx data 8) (\<lambda>displayName.
     and_then (idx data 9) (\<lambda>playerUID.
     and_then (idx data 10) (\<lambda>squad.
     and_then (wrap_err ''error unmarshalling squadParams: %w''
                (of_pair (unmarshal (decode_slice to_any) [] squad))) (\<lambda>squadParams.
     Ok \<lparr>s_ID = ucast ocapID, s_JoinTime = now, s_JoinFrame = capframe, s_OcapType = [],
         s_UnitName = unitName, s_GroupID = groupID, s_Side = side, s_IsPlayer = isPlayer,
         s_RoleDescription = roleDescription, s_ClassName = className,
         s_DisplayName = displayName, s_PlayerUID = playerUID, s_SquadParams = squadParams,
         s_DeleteFrame = 0\<rparr>)))))))))))))"

definition ParseSoldierDelete :: "platform \<Rightarrow> string list \<Rightarrow> (u16 \<times> frame) outcome" where
  "ParseSoldierDelete P args =
     (if length args < 2 then Err (Errorf ''expected 2 args, got %d'' [ArgInt (int (length args))])
      else let data = fix_data args in
        and_then (uint_arg P data 0 ''error converting entityId: %w'') (\<lambda>i.
        and_then (frame_arg P data 1 ''error converting frameNo: %w'') (\<lambda>frame.
        Ok (ucast i, frame))))"

definition parse_scores :: "string \<Rightarrow> soldier_scores option" where
  "parse_scores s =
     (let scoresInt = map (\<lambda>v. of_int (fst (atoi v))) (split_char CHR '','' s) in
      if 6 \<le> length scoresInt
      then Some \<lparr>sco_InfantryKills = scoresInt ! 0, sco_VehicleKills = scoresInt ! 1,
                sco_ArmorKills = scoresInt ! 2, sco_AirKills = scoresInt ! 3,
                sco_Deaths = scoresInt ! 4, sco_TotalScore = scoresInt ! 5\<rparr>
      else None)"

definition zero_scores :: soldier_scores where
  "zero_scores = \<lparr>sco_InfantryKills = 0, sco_VehicleKills = 0, sco_ArmorKills = 0,
     sco_AirKills = 0, sco_Deaths = 0, sco_TotalScore = 0\<rparr>"

definition ParseSoldierState :: "platform \<Rightarrow> gtime \<Rightarrow> string list \<Rightarrow> soldier_state outcome" where
  "ParseSoldierState P now args = (let data = fix_data args in
     and_then (frame_arg P data 8 ''error converting capture frame to int: %w'') (\<lambda>capframe.
     and_then (uint_arg P data 0 ''error converting ocapId to uint: %w'') (\<lambda>ocapID.
     and_then (idx data 1) (\<lambda>pos.
     and_then (Position3DFromString (strip_brackets pos)) (\<lambda>pos3d.
     and_then (idx data 2) (\<lambda>bearing.
     and_then (idx data 3) (\<lambda>lifeState.
     and_then (idx data 4) (\<lambda>inVehicle.
     and_then (idx data 5) (\<lambda>unitName.
     and_then (bool_arg data 6 ''error converting isPlayer to bool: %w'') (\<lambda>isPlayer.
     and_then (idx data 7) (\<lambda>currentRole.
     and_then (idx data 9) (\<lambda>hasStableVitals.
     and_then (idx data 10) (\<lambda>isDraggedCarried.
     and_then (if isPlayer
               then map_ok (\<lambda>s. case parse_scores s of Some sc \<Rightarrow> sc | None \<Rightarrow> zero_scores) (idx data 11)
               else Ok zero_scores) (\<lambda>scores.
     and_then (idx data 12) (\<lambda>vehicleRole.
     and_then (idx data 13) (\<lambda>veh.
     and_then (idx data 14) (\<lambda>stance.
     (let inVehicleID = fst (atoi veh);
          new_format = 17 \<le> length data
      in Ok \<lparr>ss_SoldierID = ucast ocapID, ss_Time = now, ss_CaptureFrame = capframe,
           ss_Position = pos3d, ss_Bearing = of_int (fst (atoi bearing)),
           ss_Lifestate = of_int (fst (atoi lifeState)), ss_InVehicle = fst (parse_bool inVehicle),
           ss_InVehicleObjectID = (if inVehicleID \<noteq> -1 then Some (of_int inVehicleID) else None),
           ss_VehicleRole = vehicleRole, ss_UnitName = unitName, ss_IsPlayer = isPlayer,
           ss_CurrentRole = currentRole, ss_HasStableVitals = fst (parse_bool hasStableVitals),
           ss_IsDraggedCarried = fst (parse_bool isDraggedCarried), ss_Stance = stance,
           ss_GroupID = (if new_format then data ! 15 else []),
           ss_Side = (if new_format then data ! 16 else []), ss_Scores = scores\<rparr>))))))))))))))))))"

section \<open>Vehicles\<close>

definition ParseVehicle :: "platform \<Rightarrow> gtime \<Rightarrow> string list \<Rightarrow> vehicle outcome" where
  "ParseVehicle P now args = (let data = fix_data args in
     and_then (frame_arg P data 0 ''error converting capture frame to int: %w'') (\<lambda>capframe.
     and_then (uint_arg P data 1 ''error converting ocapID to uint: %w'') (\<lambda>ocapID.
     and_then (idx data 2) (\<lambda>ocapType.
     and_then (idx data 3) (\<lambda>displayName.
     and_then (idx data 4) (\<lambda>className.
     and_then (idx data 5) (\<lambda>customization.
     and_then (idx data 6) (\<lambda>side.
     Ok \<lparr>v_ID = ucast ocapID, v_JoinTime = now, v_JoinFrame = capframe, v_OcapType = ocapType,
         v_ClassName = className, v_DisplayName = displayName, v_Customization = customization,
         v_Side = side, v_DeleteFrame = 0\<rparr>))))))))"

definition ParseVehicleDelete :: "platform \<Rightarrow> string list \<Rightarrow> (u16 \<times> frame) outcome" where
  "ParseVehicleDelete P args =
     (if length args < 2 then Err (Errorf ''expected 2 args, got %d'' [ArgInt (int (length args))])
      else let data = fix_data args in
        and_then (uint_arg P data 0 ''error converting entityId: %w'') (\<lambda>i.
        and_then (frame_arg P data 1 ''error converting frameNo: %w'') (\<lambda>frame.
        Ok (ucast i, frame))))"

definition ParseVehicleState :: "platform \<Rightarrow> gtime \<Rightarrow> string list \<Rightarrow> vehicle_state outcome" where
  "ParseVehicleState P now args = (let data = fix_data args in
     and_then (frame_arg P data 5 ''error converting capture frame to int: %w'') (\<lambda>capframe.
     and_then (uint_arg P data 0 ''error converting ocapId to uint: %w'') (\<lambda>ocapID.
     and_then (idx data 1) (\<lambda>pos.
     and_then (Position3DFromString (strip_brackets pos)) (\<lambda>pos3d.
     and_then (idx data 2) (\<lambda>bearing.
     and_then (idx data 3) (\<lambda>isAlive.
     and_then (idx data 4) (\<lambda>crew.
     and_then (float32_arg data 6 ''error converting fuel to float: %w'') (\<lambda>fuel.
     and_then (float32_arg data 7 ''error converting damage to float: %w'') (\<lambda>damage.
     and_then (bool_arg data 8 ''error converting isEngineOn to bool: %w'') (\<lambda>isEngineOn.
     and_then (bool_arg data 9 ''error converting locked to bool: %w'') (\<lambda>locked.
     and_then (idx data 10) (\<lambda>side.
     and_then (idx data 11) (\<lambda>vectorDir.
     and_then (idx data 12) (\<lambda>vectorUp.
     and_then (float32_arg data 13 ''error converting turretAzimuth to float: %w'') (\<lambda>azimuth.
     and_then (float32_arg data 14 ''error converting turretElevation to float: %w'') (\<lambda>elevation.
     Ok \<lparr>vs_VehicleID = ucast ocapID, vs_Time = now, vs_CaptureFrame = capframe,
         vs_Position = pos3d, vs_Bearing = of_int (fst (atoi bearing)),
         vs_IsAlive = fst (parse_bool isAlive), vs_Crew = crew, vs_Fuel = fuel,
         vs_Damage = damage, vs_Locked = locked, vs_EngineOn = isEngineOn, vs_Side = side,
         vs_VectorDir = vectorDir, vs_VectorUp = vectorUp, vs_TurretAzimuth = azimuth,
         vs_TurretElevation = elevation\<rparr>)))))))))))))))))"

section \<open>Markers\<close>

text \<open>A number whose parse error is only logged: the default stands in.\<close>

definition float32_or :: "f32 \<Rightarrow> string \<Rightarrow> f32" where
  "float32_or d s = (case parse_float32 s of (x, None) \<Rightarrow> x | (_, Some _) \<Rightarrow> d)"

definition parse_shape_position :: "string \<Rightarrow> string \<Rightarrow> (polyline \<times> position3D) outcome" where
  "parse_shape_position shape pos =
     (if shape = ''POLYLINE'' then
        map_ok (\<lambda>pl. (pl, zero_position3D))
          (wrap_err ''error parsing polyline: %w'' (ParsePolylineToCore pos))
      else
        map_ok (\<lambda>p. ([], p))
          (wrap_err ''error parsing position: %w'' (Position3DFromString (strip_brackets pos))))"

definition ParseMarkerCreate :: "platform \<Rightarrow> gtime \<Rightarrow> string list \<Rightarrow> marker outcome" where
  "ParseMarkerCreate P now args = (let data = fix_data args in
     and_then (idx data 0) (\<lambda>markerName.
     and_then (float32_arg data 1 ''error parsing direction: %w'') (\<lambda>dir.
     and_then (idx data 2) (\<lambda>markerType.
     and_then (idx data 3) (\<lambda>txt.
     and_then (frame_arg P data 4 ''error parsing capture frame: %w'') (\<lambda>capframe.
     and_then (idx data 6) (\<lambda>owner.
     and_then (idx data 7) (\<lambda>color.
     and_then (idx data 8) (\<lambda>msize.
     and_then (idx data 9) (\<lambda>side.
     and_then (idx data 11) (\<lambda>shape.
     and_then (idx data 10) (\<lambda>pos.
     and_then (parse_shape_position shape pos) (\<lambda>(pl, pos3d).
     and_then (idx data 12) (\<lambda>alpha.
     and_then (idx data 13) (\<lambda>brush.
     Ok \<lparr>mk_ID = 0, mk_Time = now, mk_CaptureFrame = capframe, mk_EndFrame = FrameForever,
         mk_MarkerName = markerName, mk_Direction = dir, mk_MarkerType = markerType,
         mk_Text = txt,
         mk_OwnerID = (case atoi owner of (n, None) \<Rightarrow> n | (_, Some _) \<Rightarrow> -1),
         mk_Color = color, mk_Size = msize, mk_Side = side, mk_Position = pos3d,
         mk_Polyline = pl, mk_Shape = shape, mk_Alpha = float32_or (FNum 1) alpha,
         mk_Brush = brush, mk_IsDeleted = False\<rparr>)))))))))))))))"

definition ParseMarkerMove :: "platform \<Rightarrow> gtime \<Rightarrow> string list \<Rightarrow> marker_move outcome" where
  "ParseMarkerMove P now args =
     (if length args < 11 then
        Err (Errorf ''insufficient data fields: got %d, need 11'' [ArgInt (int (length args))])
      else let data = fix_data args in
        and_then (idx data 0) (\<lambda>markerName.
        and_then (frame_arg P data 1 ''error parsing capture frame: %w'') (\<lambda>capframe.
        and_then (idx data 2) (\<lambda>pos.
        and_then (wrap_err ''error parsing position: %w'' (Position3DFromString (strip_brackets pos))) (\<lambda>pos3d.
        Ok \<lparr>mm_MarkerName = markerName, mm_CaptureFrame = capframe, mm_Position = pos3d,
            mm_Direction = float32_or 0 (data ! 3), mm_Alpha = float32_or (FNum 1) (data ! 4),
            mm_Text = data ! 5, mm_Color = data ! 6, mm_Size = data ! 7, mm_MarkerType = data ! 8,
            mm_Brush = data ! 9, mm_Shape = data ! 10, mm_Time = now\<rparr>)))))"

definition ParseMarkerDelete :: "platform \<Rightarrow> string list \<Rightarrow> delete_marker outcome" where
  "ParseMarkerDelete P args = (let data = fix_data args in
     and_then (frame_arg P data 1 ''error parsing capture frame: %w'') (\<lambda>capframe.
     and_then (idx data 0) (\<lambda>name.
     Ok \<lparr>dm_Name = name, dm_EndFrame = capframe\<rparr>)))"

section \<open>Placed objects\<close>

definition ParsePlacedObject :: "platform \<Rightarrow> gtime \<Rightarrow> string list \<Rightarrow> placed_object outcome" where
  "ParsePlacedObject P now args =
     (if length args < 9 then
        Err (Errorf ''insufficient data fields: got %d, need 9'' [ArgInt (int (length args))])
      else let data = fix_data args in
        and_then (frame_arg P data 0 ''error parsing captureFrame: %w'') (\<lambda>capframe.
        and_then (uint_arg P data 1 ''error parsing placedId: %w'') (\<lambda>placedID.
        and_then (wrap_err ''error parsing position: %w'' (Position3DFromString (data ! 4))) (\<lambda>pos3d.
        and_then (uint_arg P data 5 ''error parsing firerOcapId: %w'') (\<lambda>ownerID.
        Ok \<lparr>po_ID = ucast placedID, po_JoinTime = now, po_JoinFrame = capframe,
            po_ClassName = data ! 2, po_DisplayName = data ! 3, po_Position = pos3d,
            po_OwnerID = ucast ownerID, po_Side = data ! 6, po_Weapon = data ! 7,
            po_MagazineIcon = data ! 8\<rparr>)))))"

definition ParsePlacedObjectEvent :: "platform \<Rightarrow> string list \<Rightarrow> placed_object_event outcome" where
  "ParsePlacedObjectEvent P args =
     (if length args < 4 then
        Err (Errorf ''insufficient data fields: got %d, need 4'' [ArgInt (int (length args))])
      else let data = fix_data args in
        and_then (frame_arg P data 0 ''error parsing captureFrame: %w'') (\<lambda>capframe.
        and_then (uint_arg P data 1 ''error parsing placedId: %w'') (\<lambda>placedID.
        and_then (wrap_err ''error parsing position: %w'' (Position3DFromString (data ! 3))) (\<lambda>pos3d.
        and_then (if 5 \<le> length data
                  then map_ok (\<lambda>i. Some (ucast i)) (uint_arg P data 4 ''error parsing hitEntityOcapId: %w'')
                  else Ok None) (\<lambda>hitID.
        Ok \<lparr>poe_CaptureFrame = capframe, poe_PlacedID = ucast placedID, poe_EventType = data ! 2,
            poe_Position = pos3d, poe_HitEntityID = hitID\<rparr>)))))"

section \<open>Chat and radio\<close>

definition sender_of :: "int \<Rightarrow> guint option" where
  "sender_of i = (if i > -1 then Some (of_int i) else None)"

definition channel_name :: "int \<Rightarrow> string" where
  "channel_name i = (case map_of ChatChannels i of
     Some n \<Rightarrow> n
   | None \<Rightarrow> if i > 5 \<and> i < 16 then ''Custom'' else ''System'')"

definition ParseChatEvent :: "platform \<Rightarrow> gtime \<Rightarrow> string list \<Rightarrow> chat_event outcome" where
  "ParseChatEvent P now args = (let data = fix_data args in
     and_then (frame_arg P data 0 ''error converting capture frame to int: %w'') (\<lambda>capframe.
     and_then (int_arg P data 1 ''error converting sender ocap id to uint: %w'') (\<lambda>sender.
     and_then (int_arg P data 2 ''error converting channel to int: %w'') (\<lambda>channelInt.
     and_then (idx data 3) (\<lambda>fromName.
     and_then (idx data 4) (\<lambda>senderName.
     and_then (idx data 5) (\<lambda>message.
     and_then (idx data 6) (\<lambda>playerUID.
     Ok \<lparr>ce_ID = 0, ce_SoldierID = sender_of sender, ce_Time = now, ce_CaptureFrame = capframe,
         ce_Channel = channel_name channelInt, ce_FromName = fromName,
         ce_SenderName = senderName, ce_Message = message, ce_PlayerUID = playerUID\<rparr>))))))))"

definition ParseRadioEvent :: "platform \<Rightarrow> gtime \<Rightarrow> string list \<Rightarrow> radio_event outcome" where
  "ParseRadioEvent P now args = (let data = fix_data args in
     and_then (frame_arg P data 0 ''error converting capture frame to int: %w'') (\<lambda>capframe.
     and_then (int_arg P data 1 ''error converting sender ocap id to uint: %w'') (\<lambda>sender.
     and_then (idx data 2) (\<lambda>radio.
     and_then (idx data 3) (\<lambda>radioType.
     and_then (idx data 4) (\<lambda>startEnd.
     and_then (idx data 5) (\<lambda>ch.
     and_then (wrap_err ''error converting channel to int: %w'' (parseRadioChannel P ch)) (\<lambda>channelInt.
     and_then (bool_arg data 6 ''error converting isAddtl to bool: %w'') (\<lambda>isAddtl.
     and_then (idx data 7) (\<lambda>fr.
     and_then (if fr \<noteq> [] then wrap_err ''error converting freq to float: %w'' (of_pair (parse_float64 fr))
               else Ok 0) (\<lambda>freq.
     and_then (idx data 8) (\<lambda>code.
     Ok \<lparr>re_ID = 0, re_SoldierID = sender_of sender, re_Time = now, re_CaptureFrame = capframe,
         re_Radio = radio, re_RadioType = radioType, re_StartEnd = startEnd,
         re_Channel = of_int channelInt, re_IsAdditional = isAddtl, re_Frequency = to_f32 freq,
         re_Code = code\<rparr>))))))))))))"

section \<open>ACE3 events\<close>

definition ParseAce3DeathEvent :: "platform \<Rightarrow> gtime \<Rightarrow> string list \<Rightarrow> ace3_death_event outcome" where
  "ParseAce3DeathEvent P now args = (let data = fix_data args in
     and_then (frame_arg P data 0 ''error converting capture frame to int: %w'') (\<lambda>capframe.
     and_then (uint_arg P data 1 ''error converting victim ocap id to uint: %w'') (\<lambda>victim.
     and_then (idx data 2) (\<lambda>reason.
     and_then (int_arg P data 3 ''error converting last damage source id to uint: %w'') (\<lambda>source.
     Ok \<lparr>ad_ID = 0, ad_SoldierID = victim, ad_Time = now, ad_CaptureFrame = capframe,
         ad_Reason = reason, ad_LastDamageSourceID = sender_of source\<rparr>)))))"

definition ParseAce3UnconsciousEvent :: "platform \<Rightarrow> string list \<Rightarrow> ace3_unconscious_event outcome" where
  "ParseAce3UnconsciousEvent P args = (let data = fix_data args in
     and_then (frame_arg P data 0 ''error converting capture frame to int: %w'') (\<lambda>capframe.
     and_then (uint_arg P data 1 ''error converting ocap id to uint: %w'') (\<lambda>ocapID.
     and_then (bool_arg data 2 ''error converting isUnconscious to bool: %w'') (\<lambda>isUnconscious.
     Ok \<lparr>au_ID = 0, au_SoldierID = ocapID, au_Time = ZeroTime, au_CaptureFrame = capframe,
         au_IsUnconscious = isUnconscious\<rparr>))))"

section \<open>Focus\<close>

definition parseFocusFrame :: "platform \<Rightarrow> string list \<Rightarrow> frame outcome" where
  "parseFocusFrame P data =
     (if length data < 1 then Err (Errorf ''expected 1 arg, got %d'' [ArgInt (int (length data))])
      else wrap_err ''error converting frame: %w'' (parseUintFromFloat P (fix_arg (data ! 0))))"

definition ParseFocusStart :: "platform \<Rightarrow> string list \<Rightarrow> frame outcome" where
  "ParseFocusStart P data = parseFocusFrame P data"

definition ParseFocusEnd :: "platform \<Rightarrow> string list \<Rightarrow> frame outcome" where
  "ParseFocusEnd P data = parseFocusFrame P data"

end
