(* ===== verification/Parser_Entities_Facts.thy ===== *)
theory Parser_Entities_Facts
  imports Parser_Entities
begin

text \<open>
  What the parsers of Parser_Entities guarantee: how many arguments keep each from panicking,
  what an accepted message contains, and that a message written the way SQF writes it is read
  back field by field.
\<close>

section \<open>Enough arguments\<close>

lemma parse_shape_position_not_panics [simp]: "\<not> panics (parse_shape_position shape pos)"
  by (auto simp: parse_shape_position_def)

lemmas entity_parser_defs =
  ParseSoldier_def ParseSoldierDelete_def ParseSoldierState_def ParseVehicle_def
  ParseVehicleDelete_def ParseVehicleState_def ParseMarkerCreate_def ParseMarkerMove_def
  ParseMarkerDelete_def ParsePlacedObject_def ParsePlacedObjectEvent_def ParseChatEvent_def
  ParseRadioEvent_def ParseAce3DeathEvent_def ParseAce3UnconsciousEvent_def
  ParseFocusStart_def ParseFocusEnd_def parseFocusFrame_def

lemma entity_parsers_arity [simp]:
  "11 \<le> length args \<Longrightarrow> \<not> panics (ParseSoldier P now args)"
  "15 \<le> length args \<Longrightarrow> \<not> panics (ParseSoldierState P now args)"
  "7 \<le> length args \<Longrightarrow> \<not> panics (ParseVehicle P now args)"
  "15 \<le> length args \<Longrightarrow> \<not> panics (ParseVehicleState P now args)"
  "14 \<le> length args \<Longrightarrow> \<not> panics (ParseMarkerCreate P now args)"
  "2 \<le> length args \<Longrightarrow> \<not> panics (ParseMarkerDelete P args)"
  "7 \<le> length args \<Longrightarrow> \<not> panics (ParseChatEvent P now args)"
  "9 \<le> length args \<Longrightarrow> \<not> panics (ParseRadioEvent P now args)"
  "4 \<le> length args \<Longrightarrow> \<not> panics (ParseAce3DeathEvent P now args)"
  "3 \<le> length args \<Longrightarrow> \<not> panics (ParseAce3UnconsciousEvent P args)"
  by (simp_all add: entity_parser_defs Let_def panics_and_then split: prod.split) auto

text \<open>These check the number of arguments themselves, so no call of them panics.\<close>

lemma checked_parsers_never_panic [simp]:
  "\<not> panics (ParseSoldierDelete P args)" "\<not> panics (ParseVehicleDelete P args)"
  "\<not> panics (ParseMarkerMove P now args)" "\<not> panics (ParsePlacedObject P now args)"
  "\<not> panics (ParsePlacedObjectEvent P args)"
  "\<not> panics (ParseFocusStart P args)" "\<not> panics (ParseFocusEnd P args)"
  by (simp_all add: entity_parser_defs Let_def panics_and_then) auto

section \<open>Messages as SQF writes them\<close>

lemma no_quote_int_text: "0 \<le> n \<Longrightarrow> dquote \<notin> set (int_text z n)"
  using format_nonneg_digits [of n] by (auto simp: int_text_def is_digit_def split: option.splits)

lemma fix_arg_int_text [simp]: "0 \<le> n \<Longrightarrow> fix_arg (int_text z n) = int_text z n"
  by (simp add: fix_arg_no_quote no_quote_int_text)

lemma no_quote_format_int: "dquote \<notin> set (format_int n)"
proof -
  have "\<not> is_digit dquote" by (simp add: is_digit_def)
  then show ?thesis
    using format_nonneg_digits [of n] format_nonneg_digits [of "- n"] by (auto simp: format_int_def)
qed

lemma fix_arg_format_int [simp]: "fix_arg (format_int n) = format_int n"
  by (simp add: fix_arg_no_quote no_quote_format_int)

definition bool_text :: "bool \<Rightarrow> string" where
  "bool_text b = (if b then ''true'' else ''false'')"

lemma fix_arg_bool_text [simp]: "fix_arg (bool_text b) = bool_text b"
  by (simp add: fix_arg_no_quote bool_text_def)

lemma parse_bool_bool_text [simp]: "parse_bool (bool_text b) = (b, None)"
  by (simp add: parse_bool_def bool_text_def)

lemma frame_arg_int_text:
  "k < length data \<Longrightarrow> data ! k = int_text z n \<Longrightarrow> 0 \<le> n \<Longrightarrow> n < 2 ^ 53 \<Longrightarrow>
     frame_arg P data k msg = Ok (of_int n)"
  by (simp add: frame_arg_def float64_arg_def parse_float64_int_text of_pair_def)

lemma uint_arg_int_text:
  "k < length data \<Longrightarrow> data ! k = int_text z n \<Longrightarrow> 0 \<le> n \<Longrightarrow> n < 2 ^ 53 \<Longrightarrow>
     uint_arg P data k msg = Ok (of_int n)"
  by (simp add: uint_arg_def parseUintFromFloat_int_text)

lemma int_arg_format_int:
  "k < length data \<Longrightarrow> data ! k = format_int n \<Longrightarrow> - (2 ^ 63) \<le> n \<Longrightarrow> n < 2 ^ 63 \<Longrightarrow>
     int_arg P data k msg = Ok n"
  by (simp add: int_arg_def parseIntFromFloat_format)

lemma bool_arg_bool_text:
  "k < length data \<Longrightarrow> data ! k = bool_text b \<Longrightarrow> bool_arg data k msg = Ok b"
  by (simp add: bool_arg_def of_pair_def)

lemmas arg_texts = frame_arg_int_text uint_arg_int_text int_arg_format_int bool_arg_bool_text

lemma unmarshal_empty_array [simp]:
  "unmarshal (decode_slice d) [] ''[]'' = ([], None)"
  by (simp add: unmarshal_def json_parse_def decode_slice_def skip_ws_def max_depth_def
      eval_nat_numeral)

lemma ucast_of_int [simp]: "ucast (of_int n :: u64) = (of_int n :: u16)"
  by transfer simp

text \<open>A created soldier: the arguments, and the record they stand for.\<close>

definition soldier_args :: "nat option \<Rightarrow> int \<Rightarrow> nat option \<Rightarrow> int \<Rightarrow> soldier \<Rightarrow> string list" where
  "soldier_args zf frame zi i s =
     [int_text zf frame, int_text zi i, sqf_quote (s_UnitName s), sqf_quote (s_GroupID s),
      sqf_quote (s_Side s), bool_text (s_IsPlayer s), sqf_quote (s_RoleDescription s),
      sqf_quote (s_ClassName s), sqf_quote (s_DisplayName s), sqf_quote (s_PlayerUID s), ''[]'']"

definition soldier_texts :: "soldier \<Rightarrow> string list" where
  "soldier_texts s =
     [s_UnitName s, s_GroupID s, s_Side s, s_RoleDescription s, s_ClassName s, s_DisplayName s,
      s_PlayerUID s]"

lemma ParseSoldier_roundtrip_aux:
  assumes "0 \<le> frame" "frame < 2 ^ 53" "0 \<le> i" "i < 2 ^ 53" "\<forall>t \<in> set (soldier_texts s). bare_ends t"
  shows "ParseSoldier P now (soldier_args zf frame zi i s) =
    Ok (s\<lparr>s_ID := of_int i, s_JoinTime := now, s_JoinFrame := of_int frame, s_OcapType := [],
         s_SquadParams := [], s_DeleteFrame := 0\<rparr>)"
proof -
  have "fix_arg ''[]'' = ''[]''" by (simp add: fix_arg_no_quote)
  with assms show ?thesis
    by (simp add: ParseSoldier_def soldier_args_def soldier_texts_def fix_data_def fix_arg_quote
        arg_texts idx_def of_pair_def)
qed

text \<open>A position with integral coordinates, with or without the third one.\<close>

definition pos_text :: "(nat option \<times> int) list \<Rightarrow> string" where
  "pos_text cs = join '','' (map (\<lambda>(z, n). int_text z n) cs)"

definition coord_ok :: "nat option \<times> int \<Rightarrow> bool" where
  "coord_ok c = (0 \<le> snd c \<and> snd c < 2 ^ 53)"

definition pos_of :: "(nat option \<times> int) list \<Rightarrow> position3D" where
  "pos_of cs = \<lparr>pos3_X = FNum (of_int (snd (cs ! 0))), pos3_Y = FNum (of_int (snd (cs ! 1))),
     pos3_Z = (if length cs > 2 then FNum (of_int (snd (cs ! 2))) else 0)\<rparr>"

lemma no_comma_int_text: "0 \<le> n \<Longrightarrow> CHR '','' \<notin> set (int_text z n)"
  using format_nonneg_digits [of n] by (auto simp: int_text_def is_digit_def split: option.splits)

lemma split_pos_text:
  "cs \<noteq> [] \<Longrightarrow> \<forall>c \<in> set cs. coord_ok c \<Longrightarrow>
     split_char CHR '','' (pos_text cs) = map (\<lambda>(z, n). int_text z n) cs"
  unfolding pos_text_def by (rule split_char_join) (auto simp: coord_ok_def no_comma_int_text)

lemma Position3DFromString_pos_text:
  assumes "2 \<le> length cs" "\<forall>c \<in> set cs. coord_ok c"
  shows "Position3DFromString (pos_text cs) = Ok (pos_of cs)"
proof -
  have "cs \<noteq> []" using assms by auto
  then have sp: "split_char CHR '','' (pos_text cs) = map (\<lambda>(z, n). int_text z n) cs"
    using assms by (intro split_pos_text)
  have c: "parse_coord (case cs ! k of (z, n) \<Rightarrow> int_text z n) = Ok (FNum (of_int (snd (cs ! k))))"
    if "k < length cs" for k
  proof -
    have "coord_ok (cs ! k)" using assms(2) that by simp
    then show ?thesis by (cases "cs ! k") (simp add: coord_ok_def parse_coord_int)
  qed
  show ?thesis
    using assms(1) \<open>cs \<noteq> []\<close> c [of 0] c [of 1] c [of 2]
    by (simp add: Position3DFromString_def sp pos_of_def)
qed

lemma pos_text_chars:
  "\<forall>c \<in> set cs. coord_ok c \<Longrightarrow> c \<in> set (pos_text cs) \<Longrightarrow> is_digit c \<or> c = CHR ''.'' \<or> c = CHR '',''"
proof (induction cs)
  case (Cons x xs)
  have "is_digit (CHR ''0'')" by (simp add: is_digit_def)
  then have "\<forall>c \<in> set (int_text (fst x) (snd x)). is_digit c \<or> c = CHR ''.''"
    using Cons.prems(1) format_nonneg_digits [of "snd x"]
    by (auto simp: coord_ok_def int_text_def split: option.splits)
  with Cons show ?case by (cases xs) (auto simp: pos_text_def split: prod.splits)
qed (simp add: pos_text_def)

lemma strip_brackets_bracketed:
  "CHR ''['' \<notin> set t \<Longrightarrow> CHR '']'' \<notin> set t \<Longrightarrow> strip_brackets (''['' @ t @ '']'') = t"
  by (simp add: strip_brackets_def trim_prefix_def trim_suffix_def has_prefix_def has_suffix_def)

lemma strip_brackets_pos_text:
  assumes "\<forall>c \<in> set cs. coord_ok c"
  shows "strip_brackets (''['' @ pos_text cs @ '']'') = pos_text cs"
proof (rule strip_brackets_bracketed)
  show "CHR ''['' \<notin> set (pos_text cs)" "CHR '']'' \<notin> set (pos_text cs)"
    using pos_text_chars [OF assms] by (fastforce simp: is_digit_def)+
qed

lemma fix_arg_pos_text:
  assumes "\<forall>c \<in> set cs. coord_ok c"
  shows "fix_arg (''['' @ pos_text cs @ '']'') = ''['' @ pos_text cs @ '']''"
proof (rule fix_arg_no_quote)
  show "dquote \<notin> set (''['' @ pos_text cs @ '']'')"
    using pos_text_chars [OF assms, of dquote] by (auto simp: is_digit_def)
qed

text \<open>A soldier's state, the message that comes once per unit and frame.\<close>

definition scores_text :: "soldier_scores \<Rightarrow> string" where
  "scores_text sc = join '','' (map (\<lambda>w. format_nonneg (uint w))
     [sco_InfantryKills sc, sco_VehicleKills sc, sco_ArmorKills sc, sco_AirKills sc,
      sco_Deaths sc, sco_TotalScore sc])"

definition state_args ::
    "nat option \<Rightarrow> int \<Rightarrow> nat option \<Rightarrow> int \<Rightarrow> (nat option \<times> int) list \<Rightarrow> soldier_state \<Rightarrow> string list" where
  "state_args zf frame zi i cs st =
     [int_text zi i, ''['' @ pos_text cs @ '']'', format_int (uint (ss_Bearing st)),
      format_int (uint (ss_Lifestate st)), bool_text (ss_InVehicle st), sqf_quote (ss_UnitName st),
      bool_text (ss_IsPlayer st), sqf_quote (ss_CurrentRole st), int_text zf frame,
      bool_text (ss_HasStableVitals st), bool_text (ss_IsDraggedCarried st),
      scores_text (ss_Scores st), sqf_quote (ss_VehicleRole st),
      format_int (case ss_InVehicleObjectID st of None \<Rightarrow> -1 | Some v \<Rightarrow> uint v),
      sqf_quote (ss_Stance st), sqf_quote (ss_GroupID st), sqf_quote (ss_Side st)]"

definition state_texts :: "soldier_state \<Rightarrow> string list" where
  "state_texts st =
     [ss_UnitName st, ss_CurrentRole st, ss_VehicleRole st, ss_Stance st, ss_GroupID st, ss_Side st]"

lemma atoi_format_int [simp]:
  "- (2 ^ 63) \<le> n \<Longrightarrow> n < 2 ^ 63 \<Longrightarrow> atoi (format_int n) = (n, None)"
  by (simp add: atoi_def parse_int_raw_format)

lemma uint_word_lt: "uint (w :: u16) < 2 ^ 63" "uint (b :: u8) < 2 ^ 63"
  using uint_lt2p [of w] uint_lt2p [of b] by simp_all

lemma atoi_format_word [simp]:
  "atoi (format_int (uint (w :: u16))) = (uint w, None)"
  "atoi (format_int (uint (b :: u8))) = (uint b, None)"
  "atoi (format_nonneg (uint (b :: u8))) = (uint b, None)"
proof -
  have "- (2 ^ 63) \<le> uint w" "- (2 ^ 63) \<le> uint b"
    by (rule order_trans [of _ 0]; simp)+
  then show "atoi (format_int (uint w)) = (uint w, None)"
    and b: "atoi (format_int (uint b)) = (uint b, None)"
    using uint_word_lt(1) [of w] uint_word_lt(2) [of b] by (blast intro: atoi_format_int)+
  show "atoi (format_nonneg (uint b)) = (uint b, None)"
    using b by (simp only: format_int_nonneg uint_ge_0)
qed

lemma scores_text_chars: "c \<in> set (scores_text sc) \<Longrightarrow> is_digit c \<or> c = CHR '',''"
  using format_nonneg_digits by (fastforce simp: scores_text_def)

lemma fix_arg_scores_text [simp]: "fix_arg (scores_text sc) = scores_text sc"
  using scores_text_chars [of dquote] by (intro fix_arg_no_quote) (auto simp: is_digit_def)

lemma parse_scores_text [simp]: "parse_scores (scores_text sc) = Some sc"
proof -
  have "split_char CHR '','' (scores_text sc) = map (\<lambda>w. format_nonneg (uint w))
     [sco_InfantryKills sc, sco_VehicleKills sc, sco_ArmorKills sc, sco_AirKills sc,
      sco_Deaths sc, sco_TotalScore sc]"
    unfolding scores_text_def
    using format_nonneg_digits by (intro split_char_join) (fastforce simp: is_digit_def)+
  then show ?thesis by (simp add: parse_scores_def)
qed

lemma ParseSoldierState_roundtrip_aux:
  assumes "0 \<le> frame" "frame < 2 ^ 53" "0 \<le> i" "i < 2 ^ 53" "2 \<le> length cs"
    "\<forall>c \<in> set cs. coord_ok c" "\<forall>t \<in> set (state_texts st). bare_ends t"
  shows "ParseSoldierState P now (state_args zf frame zi i cs st) =
    Ok (st\<lparr>ss_SoldierID := of_int i, ss_Time := now, ss_CaptureFrame := of_int frame,
         ss_Position := pos_of cs,
         ss_Scores := (if ss_IsPlayer st then ss_Scores st else zero_scores)\<rparr>)"
proof -
  define vx where "vx = (case ss_InVehicleObjectID st of None \<Rightarrow> -1 | Some v \<Rightarrow> uint v)"
  have vid: "atoi (format_int vx) = (vx, None)"
    by (cases "ss_InVehicleObjectID st") (simp_all add: vx_def)
  have nonneg: "uint (v :: u16) \<noteq> -1" for v using uint_ge_0 [of v] by linarith
  have opt: "(if vx \<noteq> -1 then Some (of_int vx) else None) = ss_InVehicleObjectID st"
    by (cases "ss_InVehicleObjectID st") (simp_all add: vx_def nonneg)
  have nth: "fix_data (state_args zf frame zi i cs st) = [int_text zi i, ''['' @ pos_text cs @ '']'',
      format_int (uint (ss_Bearing st)),
      format_int (uint (ss_Lifestate st)), bool_text (ss_InVehicle st), ss_UnitName st,
      bool_text (ss_IsPlayer st), ss_CurrentRole st, int_text zf frame,
      bool_text (ss_HasStableVitals st), bool_text (ss_IsDraggedCarried st),
      scores_text (ss_Scores st), ss_VehicleRole st, format_int vx,
      ss_Stance st, ss_GroupID st, ss_Side st]"
    using assms fix_arg_pos_text [OF assms(6)]
    by (simp add: state_args_def state_texts_def fix_data_def fix_arg_quote vx_def del: append.simps)
  show ?thesis
    unfolding ParseSoldierState_def Let_def nth
    using assms opt strip_brackets_pos_text [OF assms(6)] Position3DFromString_pos_text [OF assms(5,6)]
    by (cases st) (auto simp: arg_texts idx_def vid simp del: append.simps)
qed

end
