(* ===== verification/Parser_Events.thy ===== *)
theory Parser_Events
  imports Parser_Base
begin

text \<open>
  internal/parser/parse_events.go: projectiles with their trajectory and hits, general, sector
  and end-of-mission events, kills, telemetry and the time state.
\<close>

section \<open>Projectiles\<close>

text \<open>One entry \<open>[tickTime, frameNo, "x,y,z"]\<close>; an ill-formed one is skipped.\<close>

definition trajectory_entry :: "platform \<Rightarrow> any list \<Rightarrow> trajectory_point option" where
  "trajectory_entry P posArr =
     (if length posArr < 3 then None
      else case posArr ! 1 of
        AFloat frameNo \<Rightarrow> (case posArr ! 2 of
            AString posStr \<Rightarrow> (case Position3DFromString posStr of
                Ok pos3d \<Rightarrow> Some \<lparr>tp_Position = pos3d, tp_FrameNum = f64_to_u64 P frameNo\<rparr>
              | _ \<Rightarrow> None)
          | _ \<Rightarrow> None)
      | _ \<Rightarrow> None)"

fun any_string :: "any \<Rightarrow> string option" where
  "any_string (AString s) = Some s"
| "any_string _ = None"

fun hit_components :: "any \<Rightarrow> string list" where
  "hit_components (AString c) = [c]"
| "hit_components (ASlice cs) = List.map_filter any_string cs"
| "hit_components _ = []"

text \<open>One entry \<open>[entityId, component(s), "x,y,z", frame]\<close>.\<close>

definition hit_entry :: "platform \<Rightarrow> any list \<Rightarrow> hit_part option" where
  "hit_entry P eventArr =
     (if length eventArr < 4 then None
      else case eventArr ! 0 of
        AFloat hitEntityID \<Rightarrow> (case eventArr ! 2 of
            AString hitPosStr \<Rightarrow> (case Position3DFromString hitPosStr of
                Ok hitPos3d \<Rightarrow> (case eventArr ! 3 of
                    AFloat hitFrame \<Rightarrow>
                      Some \<lparr>hp_EntityID = f64_to_u16 P hitEntityID,
                            hp_ComponentsHit = hit_components (eventArr ! 1),
                            hp_CaptureFrame = f64_to_u64 P hitFrame, hp_Position = hitPos3d\<rparr>
                  | _ \<Rightarrow> None)
              | _ \<Rightarrow> None)
          | _ \<Rightarrow> None)
      | _ \<Rightarrow> None)"

definition unmarshal_rows :: "string \<Rightarrow> any list list \<times> go_err option" where
  "unmarshal_rows s = unmarshal (decode_slice (decode_slice to_any)) [] s"

text \<open>A hit list that is not JSON is logged and counts as empty.\<close>

definition parse_hits :: "platform \<Rightarrow> string \<Rightarrow> hit_part list" where
  "parse_hits P s = (case unmarshal_rows s of
     (rows, None) \<Rightarrow> List.map_filter (hit_entry P) rows
   | (_, Some _) \<Rightarrow> [])"

definition ParseProjectileEvent :: "platform \<Rightarrow> string list \<Rightarrow> parsed_projectile outcome" where
  "ParseProjectileEvent P args = (let data = fix_data args in
     if length data < 20 then
       Err (Errorf ''insufficient data fields: got %d, need 20'' [ArgInt (int (length data))])
     else
       and_then (frame_arg P data 0 ''error parsing firedFrame: %v'') (\<lambda>capframe.
       and_then (uint_arg P data 2 ''error parsing firerID: %v'') (\<lambda>firerID.
       and_then (int_arg P data 3 ''error parsing vehicleID: %v'') (\<lambda>vehicleID.
       and_then (wrap_err ''error parsing positions: %v'' (of_pair (unmarshal_rows (data ! 14)))) (\<lambda>positions.
       Ok \<lparr>pp_CaptureFrame = capframe, pp_FirerObjectID = ucast firerID,
           pp_VehicleObjectID = (if 0 \<le> vehicleID then Some (of_int vehicleID) else None),
           pp_WeaponDisplay = data ! 7, pp_MagazineDisplay = data ! 11,
           pp_MuzzleDisplay = data ! 9, pp_SimulationType = data ! 17,
           pp_MagazineIcon = data ! 19,
           pp_Trajectory = List.map_filter (trajectory_entry P) positions,
           pp_HitParts = parse_hits P (data ! 16)\<rparr>)))))"

section \<open>General, sector and end-of-mission events\<close>

definition ParseGeneralEvent :: "platform \<Rightarrow> gtime \<Rightarrow> string list \<Rightarrow> general_event outcome" where
  "ParseGeneralEvent P now args = (let data = fix_data args in
     if length data < 3 then
       Err (Errorf ''insufficient data fields: got %d, need at least 3'' [ArgInt (int (length data))])
     else
       and_then (frame_arg P data 0 ''error converting capture frame: %w'') (\<lambda>capframe.
       and_then (if length data > 3
                 then wrap_err ''error unmarshalling extra data: %w''
                        (of_pair (unmarshal decode_any_map [] (data ! 3)))
                 else Ok []) (\<lambda>extraData.
       Ok \<lparr>ge_ID = 0, ge_Time = now, ge_CaptureFrame = capframe, ge_Name = data ! 1,
           ge_Message = data ! 2, ge_ExtraData = extraData\<rparr>)))"

definition ParseSectorEvent :: "platform \<Rightarrow> gtime \<Rightarrow> string list \<Rightarrow> sector_event outcome" where
  "ParseSectorEvent P now args = (let data = fix_data args in
     if length data < 4 then
       Err (Errorf ''insufficient data for sector event: got %d, need at least 4'' [ArgInt (int (length data))])
     else
       and_then (frame_arg P data 0 ''error converting capture frame: %w'') (\<lambda>capframe.
       and_then (if 8 \<le> length data then
                   and_then (float64_arg data 5 ''invalid position X for sector event: %w'') (\<lambda>x.
                   and_then (float64_arg data 6 ''invalid position Y for sector event: %w'') (\<lambda>y.
                   and_then (float64_arg data 7 ''invalid position Z for sector event: %w'') (\<lambda>z.
                   Ok (x, y, z))))
                 else Ok (0, 0, 0)) (\<lambda>(x, y, z).
       Ok \<lparr>sec_ID = 0, sec_Time = now, sec_CaptureFrame = capframe, sec_Name = data ! 1,
           sec_ObjectType = data ! 2, sec_UnitName = data ! 3,
           sec_Side = (if 5 \<le> length data then data ! 4 else []),
           sec_PosX = x, sec_PosY = y, sec_PosZ = z\<rparr>)))"

definition ParseEndMissionEvent :: "platform \<Rightarrow> gtime \<Rightarrow> string list \<Rightarrow> end_mission_event outcome" where
  "ParseEndMissionEvent P now args = (let data = fix_data args in
     if length data < 3 then
       Err (Errorf ''insufficient data for end mission event: got %d, need at least 3'' [ArgInt (int (length data))])
     else
       and_then (frame_arg P data 0 ''error converting capture frame: %w'') (\<lambda>capframe.
       Ok \<lparr>eme_ID = 0, eme_Time = now, eme_CaptureFrame = capframe, eme_Side = data ! 1,
           eme_Message = data ! 2\<rparr>))"

section \<open>Kills\<close>

text \<open>The weapon array is read from the argument before its quotes are unescaped.\<close>

definition ParseKillEvent :: "platform \<Rightarrow> gtime \<Rightarrow> string list \<Rightarrow> parsed_kill outcome" where
  "ParseKillEvent P now args =
     and_then (idx args 3) (\<lambda>a3.
       let rawWeapon = TrimQuotes a3; data = fix_data args in
       and_then (frame_arg P data 0 ''error converting capture frame to int: %w'') (\<lambda>capframe.
       and_then (uint_arg P data 1 ''error converting victim ocap id to uint: %w'') (\<lambda>victim.
       and_then (uint_arg P data 2 ''error converting killer ocap id to uint: %w'') (\<lambda>killer.
       (let (vehicle, weapon, magazine) = ParseSQFStringArray rawWeapon in
       and_then (float64_arg data 4 ''error converting distance to float: %w'') (\<lambda>distance.
       Ok \<lparr>pk_Time = now, pk_CaptureFrame = capframe, pk_VictimID = ucast victim,
           pk_KillerID = ucast killer, pk_WeaponVehicle = vehicle, pk_WeaponName = weapon,
           pk_WeaponMagazine = magazine, pk_EventText = FormatWeaponText vehicle weapon magazine,
           pk_Distance = to_f32 distance\<rparr>))))))"

section \<open>Telemetry\<close>

definition unmarshal_floats :: "nat \<Rightarrow> string \<Rightarrow> f64 list \<times> go_err option" where
  "unmarshal_floats n s = unmarshal (decode_array n 0 decode_float64) (replicate n 0) s"

definition unmarshal_sides :: "string \<Rightarrow> f64 list list list \<times> go_err option" where
  "unmarshal_sides s =
     (let loc = replicate 6 0; side = replicate 2 loc in
      unmarshal (decode_array 4 side (decode_array 2 loc (decode_array 6 0 decode_float64)))
        (replicate 4 side) s)"

definition parse_locality :: "platform \<Rightarrow> f64 list \<Rightarrow> entity_locality" where
  "parse_locality P l = (let u = (\<lambda>k. f64_to_u64 P (l ! k)) in
     \<lparr>loc_UnitsTotal = u 0, loc_UnitsAlive = u 1, loc_UnitsDead = u 2, loc_Groups = u 3,
      loc_Vehicles = u 4, loc_WeaponHolders = u 5\<rparr>)"

definition parseSide :: "platform \<Rightarrow> f64 list list \<Rightarrow> side_entity_count" where
  "parseSide P s = \<lparr>side_Local = parse_locality P (s ! 0), side_Remote = parse_locality P (s ! 1)\<rparr>"

text \<open>One row \<open>[uid, name, ping, bandwidth, desync]\<close>; an ill-formed one is skipped.\<close>

definition player_entry :: "any list \<Rightarrow> player_network_data option" where
  "player_entry row =
     (if length row < 5 then None
      else case (row ! 0, row ! 1, row ! 2, row ! 3, row ! 4) of
        (AString uid, AString name, AFloat ping, AFloat bw, AFloat desync) \<Rightarrow>
          Some \<lparr>net_UID = uid, net_Name = name, net_Ping = to_f32 ping, net_BW = to_f32 bw,
                net_Desync = to_f32 desync\<rparr>
      | _ \<Rightarrow> None)"

definition ParseTelemetryEvent :: "platform \<Rightarrow> gtime \<Rightarrow> string list \<Rightarrow> telemetry_event outcome" where
  "ParseTelemetryEvent P now args =
     (if length args < 7 then Err (Errorf ''telemetry: expected 7 args, got %d'' [ArgInt (int (length args))])
      else let data = fix_data args in
        and_then (frame_arg P data 0 ''telemetry: parse frameNo: %w'') (\<lambda>frameNo.
        and_then (wrap_err ''telemetry: parse fps: %w'' (of_pair (unmarshal_floats 2 (data ! 1)))) (\<lambda>fps.
        and_then (wrap_err ''telemetry: parse side data: %w'' (of_pair (unmarshal_sides (data ! 2)))) (\<lambda>sides.
        and_then (wrap_err ''telemetry: parse global counts: %w'' (of_pair (unmarshal_floats 8 (data ! 3)))) (\<lambda>global.
        and_then (wrap_err ''telemetry: parse scripts: %w'' (of_pair (unmarshal_floats 5 (data ! 4)))) (\<lambda>scripts.
        and_then (wrap_err ''telemetry: parse weather: %w'' (of_pair (unmarshal_floats 12 (data ! 5)))) (\<lambda>weather.
        and_then (wrap_err ''telemetry: parse players: %w'' (of_pair (unmarshal_rows (data ! 6)))) (\<lambda>players.
        let g = (\<lambda>k. f64_to_u64 P (global ! k)); s = (\<lambda>k. f64_to_u64 P (scripts ! k));
            w = (\<lambda>k. to_f32 (weather ! k)) in
        Ok \<lparr>tel_Time = now, tel_CaptureFrame = frameNo, tel_FpsAverage = to_f32 (fps ! 0),
            tel_FpsMin = to_f32 (fps ! 1),
            tel_SideEntityCounts =
              \<lparr>sides_East = parseSide P (sides ! 0), sides_West = parseSide P (sides ! 1),
               sides_Independent = parseSide P (sides ! 2), sides_Civilian = parseSide P (sides ! 3)\<rparr>,
            tel_GlobalCounts =
              \<lparr>glob_UnitsAlive = g 0, glob_UnitsDead = g 1, glob_Groups = g 2, glob_Vehicles = g 3,
               glob_WeaponHolders = g 4, glob_PlayersAlive = g 5, glob_PlayersDead = g 6,
               glob_PlayersConnected = g 7\<rparr>,
            tel_Scripts =
              \<lparr>scr_Spawn = s 0, scr_ExecVM = s 1, scr_Exec = s 2, scr_ExecFSM = s 3, scr_PFH = s 4\<rparr>,
            tel_Weather =
              \<lparr>wea_Fog = w 0, wea_Overcast = w 1, wea_Rain = w 2, wea_Humidity = w 3, wea_Waves = w 4,
               wea_WindDir = w 5, wea_WindStr = w 6, wea_Gusts = w 7, wea_Lightnings = w 8,
               wea_MoonIntensity = w 9, wea_MoonPhase = w 10, wea_SunOrMoon = w 11\<rparr>,
            tel_Players = List.map_filter player_entry players\<rparr>))))))))"

section \<open>Time state\<close>

definition ParseTimeState :: "platform \<Rightarrow> gtime \<Rightarrow> string list \<Rightarrow> time_state outcome" where
  "ParseTimeState P now args = (let data = fix_data args in
     and_then (frame_arg P data 0 ''error converting capture frame to int: %w'') (\<lambda>capframe.
     and_then (idx data 1) (\<lambda>systemTimeUTC.
     and_then (idx data 2) (\<lambda>missionDate.
     and_then (float64_arg data 3 ''error converting timeMultiplier to float: %w'') (\<lambda>timeMult.
     and_then (float64_arg data 4 ''error converting missionTime to float: %w'') (\<lambda>missionTime.
     Ok \<lparr>ts_ID = 0, ts_Time = now, ts_CaptureFrame = capframe, ts_SystemTimeUTC = systemTimeUTC,
         ts_MissionDate = missionDate, ts_TimeMultiplier = to_f32 timeMult,
         ts_MissionTime = to_f32 missionTime\<rparr>))))))"

section \<open>Facts\<close>

text \<open>Every index into the decoded telemetry arrays is in range.\<close>

lemma length_unmarshal_floats: "length (fst (unmarshal_floats n s)) = n"
  by (simp add: unmarshal_floats_def)

lemma length_unmarshal_sides: "length (fst (unmarshal_sides s)) = 4"
  by (simp add: unmarshal_sides_def Let_def)

lemma event_parsers_never_panic [simp]:
  "\<not> panics (ParseProjectileEvent P args)" "\<not> panics (ParseGeneralEvent P now args)"
  "\<not> panics (ParseSectorEvent P now args)" "\<not> panics (ParseEndMissionEvent P now args)"
  "\<not> panics (ParseTelemetryEvent P now args)"
  by (simp_all add: ParseProjectileEvent_def ParseGeneralEvent_def ParseSectorEvent_def
      ParseEndMissionEvent_def ParseTelemetryEvent_def Let_def panics_and_then split: prod.split) auto

lemma event_parsers_arity [simp]:
  "5 \<le> length args \<Longrightarrow> \<not> panics (ParseKillEvent P now args)"
  "5 \<le> length args \<Longrightarrow> \<not> panics (ParseTimeState P now args)"
  by (simp_all add: ParseKillEvent_def ParseTimeState_def Let_def panics_and_then split: prod.split) auto

text \<open>A skipped entry never disturbs the others, and what is kept is kept in order.\<close>

lemma map_filter_append [simp]:
  "List.map_filter f (xs @ ys) = List.map_filter f xs @ List.map_filter f ys"
  by (induction xs) (auto simp: List.map_filter_simps split: option.split)

lemma length_map_filter: "length (List.map_filter f xs) \<le> length xs"
  by (induction xs) (auto simp: List.map_filter_simps split: option.split)

end
