(* ===== verification/Parser_Mission.thy ===== *)
theory Parser_Mission
  imports Parser_Base
begin

text \<open>
  internal/parser/parse_mission.go: the world and the mission of a recording, from two JSON
  objects. The world is decoded straight into its struct; the mission goes through a
  \<open>map[string]any\<close>, whose fields are checked one by one. The two type assertions without
  an \<open>ok\<close> result (the slots and the friendships) panic on a value of another type.
\<close>

section \<open>Decoding the world\<close>

text \<open>
  encoding/json matches an object's keys with the field names first exactly and then by simple
  case folding, under which U+017F is an S and U+212A a K.
\<close>

definition fold_name :: "string \<Rightarrow> string" where
  "fold_name s =
     map upper_byte (replace_all [CHR 0xE2, CHR 0x84, CHR 0xAA] ''K''
       (replace_all [CHR 0xC5, CHR 0xBF] ''S'' s))"

definition same_field :: "string \<Rightarrow> string \<Rightarrow> bool" where
  "same_field field key = (key = field \<or> fold_name key = fold_name field)"

text \<open>One scalar field: the decoded value, or the old one and whether a type error was saved.\<close>

definition decode_string_field :: "json \<Rightarrow> string \<Rightarrow> string \<times> bool" where
  "decode_string_field j old = (case j of JStr s \<Rightarrow> (s, False) | JNull \<Rightarrow> (old, False) | _ \<Rightarrow> (old, True))"

definition decode_uint_field :: "json \<Rightarrow> guint \<Rightarrow> guint \<times> bool" where
  "decode_uint_field j old = (case j of
     JNum s \<Rightarrow> (case parse_uint s of (v, None) \<Rightarrow> (v, False) | (_, Some _) \<Rightarrow> (old, True))
   | JNull \<Rightarrow> (old, False) | _ \<Rightarrow> (old, True))"

definition decode_float_field :: "(string \<Rightarrow> f64 \<times> go_err option) \<Rightarrow> json \<Rightarrow> f64 \<Rightarrow> f64 \<times> bool" where
  "decode_float_field parse j old = (case j of
     JNum s \<Rightarrow> (case parse s of (v, None) \<Rightarrow> (v, False) | (_, Some _) \<Rightarrow> (old, True))
   | JNull \<Rightarrow> (old, False) | _ \<Rightarrow> (old, True))"

definition decode_position_member :: "string \<times> json \<Rightarrow> position3D \<times> bool \<Rightarrow> position3D \<times> bool" where
  "decode_position_member m pb = (let (key, j) = m; (p, bad) = pb in
     if same_field ''x'' key then (let (v, e) = decode_float_field parse_float64 j (pos3_X p) in (p\<lparr>pos3_X := v\<rparr>, bad \<or> e))
     else if same_field ''y'' key then (let (v, e) = decode_float_field parse_float64 j (pos3_Y p) in (p\<lparr>pos3_Y := v\<rparr>, bad \<or> e))
     else if same_field ''z'' key then (let (v, e) = decode_float_field parse_float64 j (pos3_Z p) in (p\<lparr>pos3_Z := v\<rparr>, bad \<or> e))
     else (p, bad))"

definition decode_position :: "json \<Rightarrow> position3D \<Rightarrow> position3D \<times> bool" where
  "decode_position j old = (case j of
     JObj ms \<Rightarrow> fold decode_position_member ms (old, False)
   | JNull \<Rightarrow> (old, False) | _ \<Rightarrow> (old, True))"

definition decode_world_member :: "string \<times> json \<Rightarrow> world \<times> bool \<Rightarrow> world \<times> bool" where
  "decode_world_member m wb = (let (key, j) = m; (w, bad) = wb in
     if same_field ''ID'' key then (let (v, e) = decode_uint_field j (w_ID w) in (w\<lparr>w_ID := v\<rparr>, bad \<or> e))
     else if same_field ''Author'' key then (let (v, e) = decode_string_field j (w_Author w) in (w\<lparr>w_Author := v\<rparr>, bad \<or> e))
     else if same_field ''WorkshopID'' key then (let (v, e) = decode_string_field j (w_WorkshopID w) in (w\<lparr>w_WorkshopID := v\<rparr>, bad \<or> e))
     else if same_field ''DisplayName'' key then (let (v, e) = decode_string_field j (w_DisplayName w) in (w\<lparr>w_DisplayName := v\<rparr>, bad \<or> e))
     else if same_field ''WorldName'' key then (let (v, e) = decode_string_field j (w_WorldName w) in (w\<lparr>w_WorldName := v\<rparr>, bad \<or> e))
     else if same_field ''WorldNameOriginal'' key then (let (v, e) = decode_string_field j (w_WorldNameOriginal w) in (w\<lparr>w_WorldNameOriginal := v\<rparr>, bad \<or> e))
     else if same_field ''WorldSize'' key then (let (v, e) = decode_float_field parse_float32 j (w_WorldSize w) in (w\<lparr>w_WorldSize := v\<rparr>, bad \<or> e))
     else if same_field ''Latitude'' key then (let (v, e) = decode_float_field parse_float32 j (w_Latitude w) in (w\<lparr>w_Latitude := v\<rparr>, bad \<or> e))
     else if same_field ''Longitude'' key then (let (v, e) = decode_float_field parse_float32 j (w_Longitude w) in (w\<lparr>w_Longitude := v\<rparr>, bad \<or> e))
     else if same_field ''Location'' key then (let (v, e) = decode_position j (w_Location w) in (w\<lparr>w_Location := v\<rparr>, bad \<or> e))
     else (w, bad))"

definition zero_world :: world where
  "zero_world = \<lparr>w_ID = 0, w_Author = [], w_WorkshopID = [], w_DisplayName = [], w_WorldName = [],
     w_WorldNameOriginal = [], w_WorldSize = 0, w_Latitude = 0, w_Longitude = 0,
     w_Location = \<lparr>pos3_X = 0, pos3_Y = 0, pos3_Z = 0\<rparr>\<rparr>"

definition decode_world :: "json \<Rightarrow> world \<times> bool" where
  "decode_world j = (case j of
     JObj ms \<Rightarrow> fold decode_world_member ms (zero_world, False)
   | JNull \<Rightarrow> (zero_world, False) | _ \<Rightarrow> (zero_world, True))"

section \<open>Mission fields\<close>

definition getString :: "(string \<times> any) list \<Rightarrow> string \<Rightarrow> string outcome" where
  "getString m key = (case map_of m key of
     Some (AString v) \<Rightarrow> Ok v
   | _ \<Rightarrow> Err (Errorf ''mission field %q is missing or not a string'' [ArgStr key]))"

definition getOptionalString :: "(string \<times> any) list \<Rightarrow> string \<Rightarrow> string" where
  "getOptionalString m key = (case map_of m key of Some (AString v) \<Rightarrow> v | _ \<Rightarrow> [])"

definition getFloat :: "(string \<times> any) list \<Rightarrow> string \<Rightarrow> f64 outcome" where
  "getFloat m key = (case map_of m key of
     Some (AFloat v) \<Rightarrow> Ok v
   | _ \<Rightarrow> Err (Errorf ''mission field %q is missing or not a number'' [ArgStr key]))"

definition getSlice :: "(string \<times> any) list \<Rightarrow> string \<Rightarrow> any list outcome" where
  "getSlice m key = (case map_of m key of
     Some (ASlice v) \<Rightarrow> Ok v
   | _ \<Rightarrow> Err (Errorf ''mission field %q is missing or not an array'' [ArgStr key]))"

text \<open>\<open>x.(float64)\<close> and \<open>x.(bool)\<close> without a second result.\<close>

fun assert_float :: "any \<Rightarrow> f64 outcome" where
  "assert_float (AFloat x) = Ok x"
| "assert_float _ = Panic TypeAssertion"

fun assert_bool :: "any \<Rightarrow> bool outcome" where
  "assert_bool (ABool b) = Ok b"
| "assert_bool _ = Panic TypeAssertion"

section \<open>Addons\<close>

text \<open>
  The workshop ID is a string or an integral float. The last two messages also show the value
  and its type.
\<close>

definition parse_workshop_id :: "platform \<Rightarrow> any \<Rightarrow> string outcome" where
  "parse_workshop_id P x = (case x of
     AFloat v \<Rightarrow>
       if \<not> f64_eq v (f64_of_int (f64_to_i64 P v))
       then Err (Errorf ''invalid addon workshop ID: float has fractional part %f'' [])
       else Ok (format_int (f64_to_i64 P v))
   | AString v \<Rightarrow> Ok v
   | _ \<Rightarrow> Err (Errorf ''invalid addon workshop ID type: %T'' []))"

definition parse_addon :: "platform \<Rightarrow> any \<Rightarrow> addon outcome" where
  "parse_addon P x = (case x of
     ASlice addonInfo \<Rightarrow>
       if length addonInfo < 2 then Err (Errorf ''invalid addon format'' [])
       else (case addonInfo ! 0 of
           AString addonName \<Rightarrow>
             map_ok (\<lambda>w. \<lparr>ao_ID = 0, ao_Name = addonName, ao_WorkshopID = w\<rparr>)
               (parse_workshop_id P (addonInfo ! 1))
         | _ \<Rightarrow> Err (Errorf ''invalid addon name type'' []))
   | _ \<Rightarrow> Err (Errorf ''invalid addon format'' []))"

fun parse_addons :: "platform \<Rightarrow> any list \<Rightarrow> addon list outcome" where
  "parse_addons P [] = Ok []"
| "parse_addons P (x # xs) =
     and_then (parse_addon P x) (\<lambda>a. map_ok (\<lambda>as. a # as) (parse_addons P xs))"

definition get_addons :: "(string \<times> any) list \<Rightarrow> any list outcome" where
  "get_addons m = (case map_of m ''addons'' of
     Some (ASlice v) \<Rightarrow> Ok v
   | _ \<Rightarrow> Err (Errorf ''addons field is missing or not an array'' []))"

section \<open>ParseMission\<close>

definition parse_slots :: "platform \<Rightarrow> any list \<Rightarrow> playable_slots outcome" where
  "parse_slots P xs =
     (if length xs < 5 then
        Err (Errorf ''playableSlots needs 5 elements, got %d'' [ArgInt (int (length xs))])
      else
        and_then (assert_float (xs ! 0)) (\<lambda>east.
        and_then (assert_float (xs ! 1)) (\<lambda>west.
        and_then (assert_float (xs ! 2)) (\<lambda>independent.
        and_then (assert_float (xs ! 3)) (\<lambda>civilian.
        and_then (assert_float (xs ! 4)) (\<lambda>logic.
        Ok \<lparr>slots_West = f64_to_u8 P west, slots_East = f64_to_u8 P east,
            slots_Independent = f64_to_u8 P independent, slots_Civilian = f64_to_u8 P civilian,
            slots_Logic = f64_to_u8 P logic\<rparr>))))))"

definition parse_friendly :: "any list \<Rightarrow> side_friendly outcome" where
  "parse_friendly xs =
     (if length xs < 3 then
        Err (Errorf ''sideFriendly needs 3 elements, got %d'' [ArgInt (int (length xs))])
      else
        and_then (assert_bool (xs ! 0)) (\<lambda>ew.
        and_then (assert_bool (xs ! 1)) (\<lambda>ei.
        and_then (assert_bool (xs ! 2)) (\<lambda>wi.
        Ok \<lparr>sf_EastWest = ew, sf_EastIndependent = ei, sf_WestIndependent = wi\<rparr>))))"

definition ParseMission :: "platform \<Rightarrow> gtime \<Rightarrow> string list \<Rightarrow> (mission \<times> world) outcome" where
  "ParseMission P now args = (let data = fix_data args in
     and_then (idx data 0) (\<lambda>a0.
     and_then (wrap_err ''error unmarshalling world data: %w''
                (of_pair (unmarshal decode_world zero_world a0))) (\<lambda>w0.
     let w = w0\<lparr>w_Location := \<lparr>pos3_X = w_Longitude w0, pos3_Y = w_Latitude w0, pos3_Z = 0\<rparr>\<rparr> in
     and_then (idx data 1) (\<lambda>a1.
     and_then (wrap_err ''error unmarshalling mission data: %w''
                (of_pair (unmarshal decode_any_map [] a1))) (\<lambda>m.
     and_then (get_addons m) (\<lambda>addonsRaw.
     and_then (parse_addons P addonsRaw) (\<lambda>addons.
     and_then (getFloat m ''captureDelay'') (\<lambda>captureDelay.
     and_then (getString m ''missionNameSource'') (\<lambda>missionNameSource.
     and_then (getString m ''missionName'') (\<lambda>missionName.
     and_then (getString m ''briefingName'') (\<lambda>briefingName.
     and_then (getString m ''serverName'') (\<lambda>serverName.
     and_then (getString m ''serverProfile'') (\<lambda>serverProfile.
     and_then (getString m ''onLoadName'') (\<lambda>onLoadName.
     and_then (getString m ''author'') (\<lambda>author.
     and_then (getSlice m ''playableSlots'') (\<lambda>slotsJSON.
     and_then (parse_slots P slotsJSON) (\<lambda>slots.
     and_then (getSlice m ''sideFriendly'') (\<lambda>friendlyJSON.
     and_then (parse_friendly friendlyJSON) (\<lambda>friendly.
     Ok (\<lparr>mi_ID = 0, mi_MissionName = missionName, mi_BriefingName = briefingName,
          mi_MissionNameSource = missionNameSource, mi_OnLoadName = onLoadName,
          mi_Author = author, mi_ServerName = serverName, mi_ServerProfile = serverProfile,
          mi_StartTime = now, mi_WorldID = 0, mi_CaptureDelay = to_f32 captureDelay,
          mi_AddonVersion = [], mi_ExtensionVersion = [], mi_ExtensionBuild = [],
          mi_OcapRecorderExtensionVersion = [], mi_Tag = getOptionalString m ''tag'',
          mi_PlayableSlots = slots, mi_SideFriendly = friendly, mi_Addons = addons\<rparr>, w))))))))))))))))))))"

section \<open>Facts\<close>

lemma mission_getters_not_panic [simp]:
  "\<not> panics (getString m k)" "\<not> panics (getFloat m k)" "\<not> panics (getSlice m k)"
  "\<not> panics (get_addons m)"
  by (auto simp: getString_def getFloat_def getSlice_def get_addons_def split: option.split any.split)

lemma parse_addon_not_panics [simp]: "\<not> panics (parse_addon P x)"
  by (auto simp: parse_addon_def parse_workshop_id_def split: any.split)

lemma parse_addons_not_panics [simp]: "\<not> panics (parse_addons P xs)"
  by (induction xs) (auto simp: panics_and_then)

lemma parse_addons_length: "parse_addons P xs = Ok as \<Longrightarrow> length as = length xs"
  by (induction xs arbitrary: as) (auto simp: outcome_simps)

text \<open>The only ways to panic: a missing argument, or a slot or friendship of another type.\<close>

lemma assert_float_panics [simp]: "panics (assert_float x) \<longleftrightarrow> (\<nexists>v. x = AFloat v)"
  by (cases x) auto

lemma assert_bool_panics [simp]: "panics (assert_bool x) \<longleftrightarrow> (\<nexists>b. x = ABool b)"
  by (cases x) auto

lemma parse_slots_panics:
  "panics (parse_slots P xs) \<Longrightarrow> 5 \<le> length xs \<and> (\<exists>k < 5. \<nexists>v. xs ! k = AFloat v)"
  by (auto simp: parse_slots_def panics_and_then split: if_splits)
    (rule exI [of _ 0] exI [of _ 1] exI [of _ 2] exI [of _ 3] exI [of _ 4], simp; fail)+

lemma parse_friendly_panics:
  "panics (parse_friendly xs) \<Longrightarrow> 3 \<le> length xs \<and> (\<exists>k < 3. \<nexists>b. xs ! k = ABool b)"
  by (auto simp: parse_friendly_def panics_and_then split: if_splits)
    (rule exI [of _ 0] exI [of _ 1] exI [of _ 2], simp; fail)+

lemma ParseMission_panics:
  assumes "panics (ParseMission P now args)" "2 \<le> length args"
  shows "\<exists>m. unmarshal decode_any_map [] (fix_arg (args ! 1)) = (m, None) \<and>
    ((\<exists>xs. getSlice m ''playableSlots'' = Ok xs \<and> 5 \<le> length xs \<and> (\<exists>k < 5. \<nexists>v. xs ! k = AFloat v)) \<or>
     (\<exists>xs. getSlice m ''sideFriendly'' = Ok xs \<and> 3 \<le> length xs \<and> (\<exists>k < 3. \<nexists>b. xs ! k = ABool b)))"
  using assms
  by (auto simp: ParseMission_def Let_def panics_and_then outcome_simps
      dest!: parse_slots_panics parse_friendly_panics)

end
