(* ===== verification/Parser_Properties.thy ===== *)
theory Parser_Properties
  imports Parser_Entities_Facts Parser_Events Parser_Mission Examples
begin

text \<open>
  The properties of the parser: the texts of the game are read back as the values they stand for,
  and which calls can panic.
\<close>

text \<open>
  A soldier's creation message is read back as the soldier: the numbers in either of the forms
  the game sends, "12" or "12.00", and the texts with their quotes doubled. The time of joining is
  the parser's clock; type, squad and deletion are not in the message.
\<close>

theorem ParseSoldier_roundtrip:
  assumes "0 \<le> frame" "frame < 2 ^ 53" "0 \<le> i" "i < 2 ^ 53" "\<forall>t \<in> set (soldier_texts s). bare_ends t"
  shows "ParseSoldier P now (soldier_args zf frame zi i s) =
    Ok (s\<lparr>s_ID := of_int i, s_JoinTime := now, s_JoinFrame := of_int frame, s_OcapType := [],
         s_SquadParams := [], s_DeleteFrame := 0\<rparr>)"
  using assms by (rule ParseSoldier_roundtrip_aux)

theorem ParseSoldier_roundtrip_witness:
  "ParseSoldier zero_platform (At 7) (soldier_args (Some 2) 1 None 3 (example_soldier 3)) =
     Ok ((example_soldier 3)\<lparr>s_JoinTime := At 7\<rparr>)"
  using ParseSoldier_roundtrip [of 1 3 "example_soldier 3" zero_platform "At 7" "Some 2" None]
  by (simp add: soldier_texts_def example_soldier_def bare_ends_def)



text \<open>
  An unsigned number is read exactly from both forms of text, and whatever text is accepted,
  the number is the one the text denotes: the decimal integer, or a non-negative float that is
  equal to it.
\<close>

theorem parseUintFromFloat_exact:
  "(0 \<le> n \<and> n < 2 ^ 53 \<longrightarrow> parseUintFromFloat P (int_text z n) = Ok (of_int n)) \<and>
   (parseUintFromFloat P s = Ok v \<longrightarrow> parse_uint s = (v, None) \<or>
     (\<exists>f. parse_float64 s = (f, None) \<and> \<not> f < 0 \<and> f64_eq f (f64_of_u64 v)))"
  using parseUintFromFloat_int_text parseUintFromFloat_sound by blast

theorem parseUintFromFloat_exact_witness:
  "parseUintFromFloat zero_platform ''32.00'' = Ok 32"
proof -
  have "int_text (Some 2) 32 = ''32.00''" by code_simp
  moreover have "parseUintFromFloat zero_platform (int_text (Some 2) 32) = Ok (of_int 32)"
    using parseUintFromFloat_exact [of 32 zero_platform "Some 2"] by simp
  ultimately show ?thesis by simp
qed

text \<open>
  A radio channel is read from a plain number and from the array of a radio with several
  knobs, whose last element it is.
\<close>

theorem parseRadioChannel_both_forms:
  assumes "ks \<noteq> []" "- (2 ^ 63) \<le> last ks" "last ks < 2 ^ 63"
  shows "parseRadioChannel P (format_int (last ks)) = Ok (last ks) \<and>
    parseRadioChannel P (''['' @ join '','' (map format_int ks) @ '']'') = Ok (last ks)"
  using parseRadioChannel_scalar [OF assms(2,3)] parseRadioChannel_array [OF assms] by blast

theorem parseRadioChannel_both_forms_witness:
  "parseRadioChannel zero_platform ''[0,11]'' = Ok 11"
proof -
  have "''['' @ join '','' (map format_int [0, 11]) @ '']'' = ''[0,11]''"
    by code_simp
  then show ?thesis using parseRadioChannel_both_forms [of "[0, 11]" zero_platform] by simp
qed

text \<open>
  A weapon array of three quoted strings is taken apart into the three strings, unless the
  vehicle's name or the weapon's holds a quote, or the vehicle's name is just a comma.
\<close>

theorem weapon_array_roundtrip:
  assumes "dquote \<notin> set v" "v \<noteq> '',''" "dquote \<notin> set w" "bare_ends m"
  shows "ParseSQFStringArray (sqf_array3 v w m) = (v, w, m)"
  using assms by (rule ParseSQFStringArray_array)

theorem weapon_array_roundtrip_witness:
  "ParseSQFStringArray (sqf_array3 ''Hunter'' ''MX 6.5'' ''30Rnd'') = (''Hunter'', ''MX 6.5'', ''30Rnd'')"
  by (rule weapon_array_roundtrip) (simp_all add: bare_ends_def)

text \<open>
  A string that SQF has quoted, its own quotes doubled, is restored by the cleaning of the
  arguments if it neither begins nor ends with a quote.
\<close>

theorem quoting_roundtrip:
  assumes "bare_ends s"
  shows "FixEscapeQuotes (TrimQuotes (sqf_quote s)) = s"
  using fix_arg_quote [OF assms] by (simp add: fix_arg_def)

theorem quoting_roundtrip_witness:
  "FixEscapeQuotes (TrimQuotes (sqf_quote (''Sgt '' @ [dquote] @ ''K'' @ [dquote] @ '' One''))) =
     ''Sgt '' @ [dquote] @ ''K'' @ [dquote] @ '' One''"
  by (rule quoting_roundtrip) (simp add: bare_ends_def)



text \<open>
  Given its two arguments, the parser of a mission panics only on a slot that is no number or
  a friendship that is no boolean, in arrays that are long enough: with the right types it
  returns a mission or an error.
\<close>

theorem ParseMission_panics_only_on_types:
  assumes "2 \<le> length args" "unmarshal decode_any_map [] (fix_arg (args ! 1)) = (m, err)"
    "\<And>xs k. getSlice m ''playableSlots'' = Ok xs \<Longrightarrow> 5 \<le> length xs \<Longrightarrow> k < 5 \<Longrightarrow> \<exists>v. xs ! k = AFloat v"
    "\<And>xs k. getSlice m ''sideFriendly'' = Ok xs \<Longrightarrow> 3 \<le> length xs \<Longrightarrow> k < 3 \<Longrightarrow> \<exists>b. xs ! k = ABool b"
  shows "\<not> panics (ParseMission P now args)"
  using ParseMission_panics [OF _ assms(1), of P now] assms(2-4) by auto blast+

theorem ParseMission_panics_only_on_types_witness:
  "\<not> panics (ParseMission zero_platform ZeroTime [''[]'', ''{}''])"
proof (rule ParseMission_panics_only_on_types)
  have "fix_arg ''{}'' = ''{}''" by (simp add: fix_arg_no_quote)
  then show "unmarshal decode_any_map [] (fix_arg ([''[]'', ''{}''] ! 1)) = ([], None)"
    by (simp add: unmarshal_def json_parse_def skip_ws_def max_depth_def eval_nat_numeral decode_any_map_def)
qed (simp_all add: getSlice_def)

end
