(* ===== verification/Dispatcher.thy ===== *)
theory Dispatcher
  imports GoValues
begin

text \<open>
  internal/dispatcher/dispatcher.go. \<open>'s\<close> is whatever the handlers read and write. A handler call is one
  step. \<open>make(chan Event, n)\<close> allocates the next address of \<open>d_bufs\<close>, where the channel is kept
  with the goroutine that reads it. A call that has to wait, at a gate or on a full blocking
  channel, is \<open>None\<close>: the step is possible only in a state where it need not wait. Metrics are
  counters per command; the gauge callback only reads.
\<close>

record event =
  ev_Command :: string
  ev_Args :: "string list"
  ev_Timestamp :: gtime

datatype handler_result = Returns any "go_err option" | Panics panic

type_synonym 's handler = "event \<Rightarrow> 's \<Rightarrow> handler_result \<times> 's"

datatype register_option = Buffered int | Blocking | Logged | Gated nat

record config =
  cf_bufferSize :: int
  cf_blocking :: bool
  cf_logged :: bool
  cf_readyChan :: "nat option"

fun apply_option :: "register_option \<Rightarrow> config \<Rightarrow> config" where
  "apply_option (Buffered n) c = c\<lparr>cf_bufferSize := n\<rparr>"
| "apply_option Blocking c = c\<lparr>cf_blocking := True\<rparr>"
| "apply_option Logged c = c\<lparr>cf_logged := True\<rparr>"
| "apply_option (Gated ready) c = c\<lparr>cf_readyChan := Some ready\<rparr>"

text \<open>The closures a registration builds around a handler; a buffer's closure knows its channel.\<close>

datatype 's wrapped =
    Direct "'s handler"
  | WithLogging string "'s wrapped"
  | WithGate nat "'s wrapped"
  | WithBuffer nat bool

datatype log_level = Debug | Info | Error

type_synonym log_entry = "log_level \<times> string \<times> string"

record 's buffer =
  bu_command :: string
  bu_cap :: nat
  bu_queue :: "event list"
  bu_gate :: "nat option"
  bu_open :: bool
  bu_current :: "event option"
  bu_handler :: "'s wrapped"

record 's dispatcher =
  d_handlers :: "(string \<times> 's wrapped) list"
  d_bufs :: "'s buffer list"
  d_buffers :: "(string \<times> nat) list"
  d_closed :: "nat list"
  d_processed :: "(string \<times> nat) list"
  d_dropped :: "(string \<times> nat) list"
  d_log :: "log_entry list"
  d_world :: 's

definition new_dispatcher :: "'s \<Rightarrow> 's dispatcher" where
  "new_dispatcher w = \<lparr>d_handlers = [], d_bufs = [], d_buffers = [], d_closed = [], d_processed = [],
     d_dropped = [], d_log = [], d_world = w\<rparr>"

text \<open>
  OpenTelemetry's meter: whether it refuses to make the gauge, to register its callback, to make the two counters.
\<close>

record meter =
  mt_queueSize :: "go_err option"
  mt_callback :: "go_err option"
  mt_processed :: "go_err option"
  mt_dropped :: "go_err option"

definition dispatcher_New :: "meter \<Rightarrow> 's \<Rightarrow> go_err + 's dispatcher" where
  "dispatcher_New m w = (case mt_queueSize m of
     Some err \<Rightarrow> Inl (Errorf ''creating queue size gauge: %w'' [ArgErr err])
   | None \<Rightarrow> (case mt_callback m of
       Some err \<Rightarrow> Inl (Errorf ''registering queue callback: %w'' [ArgErr err])
     | None \<Rightarrow> (case mt_processed m of
         Some err \<Rightarrow> Inl (Errorf ''creating processed counter: %w'' [ArgErr err])
       | None \<Rightarrow> (case mt_dropped m of
           Some err \<Rightarrow> Inl (Errorf ''creating dropped counter: %w'' [ArgErr err])
         | None \<Rightarrow> Inr (new_dispatcher w)))))"

definition willing_meter :: meter where
  "willing_meter = \<lparr>mt_queueSize = None, mt_callback = None, mt_processed = None, mt_dropped = None\<rparr>"

lemma New_willing [simp]: "dispatcher_New willing_meter w = Inr (new_dispatcher w)"
  by (simp add: dispatcher_New_def willing_meter_def)

text \<open>What the callback of the gauge reports: per command the number of events in its channel.\<close>

definition observe_queues :: "'s dispatcher \<Rightarrow> (string \<times> nat) list" where
  "observe_queues d = map (\<lambda>(cmd, buf). (cmd, length (bu_queue (d_bufs d ! buf)))) (d_buffers d)"

definition counter :: "(string \<times> nat) list \<Rightarrow> string \<Rightarrow> nat" where
  "counter m command = (case map_of m command of None \<Rightarrow> 0 | Some n \<Rightarrow> n)"

definition bump :: "string \<Rightarrow> (string \<times> nat) list \<Rightarrow> (string \<times> nat) list" where
  "bump command m = AList.update command (counter m command + 1) m"

definition log_msg :: "log_level \<Rightarrow> string \<Rightarrow> string \<Rightarrow> 's dispatcher \<Rightarrow> 's dispatcher" where
  "log_msg level msg command d = d\<lparr>d_log := d_log d @ [(level, msg, command)]\<rparr>"

definition update_buf :: "nat \<Rightarrow> ('s buffer \<Rightarrow> 's buffer) \<Rightarrow> 's dispatcher \<Rightarrow> 's dispatcher" where
  "update_buf a f d = d\<lparr>d_bufs := (d_bufs d)[a := f (d_bufs d ! a)]\<rparr>"

section \<open>Registration\<close>

text \<open>
  The goroutine of an ungated buffer reads at once, that of a gated one waits first.
\<close>

definition withBuffer :: "string \<Rightarrow> config \<Rightarrow> 's wrapped \<Rightarrow> 's dispatcher \<Rightarrow> 's wrapped \<times> 's dispatcher" where
  "withBuffer command cfg h d =
     (let a = length (d_bufs d);
          buffer = \<lparr>bu_command = command, bu_cap = nat (cf_bufferSize cfg), bu_queue = [],
            bu_gate = cf_readyChan cfg, bu_open = (cf_readyChan cfg = None), bu_current = None,
            bu_handler = h\<rparr>
      in (WithBuffer a (cf_blocking cfg),
          d\<lparr>d_bufs := d_bufs d @ [buffer], d_buffers := AList.update command a (d_buffers d)\<rparr>))"

definition Register :: "string \<Rightarrow> 's handler \<Rightarrow> register_option list \<Rightarrow> 's dispatcher \<Rightarrow> 's dispatcher" where
  "Register command h opts d =
     (let cfg = fold apply_option opts
            \<lparr>cf_bufferSize = 0, cf_blocking = False, cf_logged = False, cf_readyChan = None\<rparr>;
          handler = Direct h;
          handler = (if cf_logged cfg then WithLogging command handler else handler);
          (handler, d) =
            (if cf_bufferSize cfg > 0 then withBuffer command cfg handler d
             else (case cf_readyChan cfg of
                 Some ready \<Rightarrow> (WithGate ready handler, d)
               | None \<Rightarrow> (handler, d)))
      in d\<lparr>d_handlers := AList.update command handler (d_handlers d)\<rparr>)"

section \<open>Dispatch\<close>

definition queue_full :: "string \<Rightarrow> go_err" where
  "queue_full command = Errorf ''queue full: %s'' [ArgStr command]"

definition unknown_command :: "string \<Rightarrow> go_err" where
  "unknown_command command = Errorf ''unknown command: %s'' [ArgStr command]"

definition queued :: handler_result where
  "queued = Returns (AString ''queued'') None"

fun run :: "'s wrapped \<Rightarrow> event \<Rightarrow> 's dispatcher \<Rightarrow> (handler_result \<times> 's dispatcher) option" where
  "run (Direct h) e d = (let (r, w) = h e (d_world d) in Some (r, d\<lparr>d_world := w\<rparr>))"
| "run (WithLogging command h) e d = (case run h e (log_msg Debug ''handling event'' command d) of
      None \<Rightarrow> None
    | Some (Panics p, d) \<Rightarrow> Some (Panics p, d)
    | Some (Returns v (Some err), d) \<Rightarrow>
        Some (Returns v (Some err), log_msg Error ''event failed'' command d)
    | Some (Returns v None, d) \<Rightarrow> Some (Returns v None, log_msg Debug ''event complete'' command d))"
| "run (WithGate ready h) e d = (if ready \<in> set (d_closed d) then run h e d else None)"
| "run (WithBuffer a blocking) e d =
     (let b = d_bufs d ! a in
      if length (bu_queue b) < bu_cap b then
        Some (queued, update_buf a (\<lambda>b. b\<lparr>bu_queue := bu_queue b @ [e]\<rparr>) d)
      else if blocking then None
      else Some (Returns ANil (Some (queue_full (bu_command b))),
                 d\<lparr>d_dropped := bump (bu_command b) (d_dropped d)\<rparr>))"

definition Dispatch :: "event \<Rightarrow> 's dispatcher \<Rightarrow> (handler_result \<times> 's dispatcher) option" where
  "Dispatch e d = (case map_of (d_handlers d) (ev_Command e) of
     None \<Rightarrow> Some (Returns ANil (Some (unknown_command (ev_Command e))), d)
   | Some h \<Rightarrow> run h e d)"

definition HasHandler :: "string \<Rightarrow> 's dispatcher \<Rightarrow> bool" where
  "HasHandler command d = (map_of (d_handlers d) command \<noteq> None)"

section \<open>The goroutine of a buffer\<close>

definition pass_gate :: "nat \<Rightarrow> 's dispatcher \<Rightarrow> 's dispatcher option" where
  "pass_gate a d =
     (if a < length (d_bufs d) \<and> \<not> bu_open (d_bufs d ! a) then
        (case bu_gate (d_bufs d ! a) of
           None \<Rightarrow> None
         | Some ready \<Rightarrow>
             if ready \<in> set (d_closed d) then
               Some (log_msg Info ''gate opened, processing buffered events'' (bu_command (d_bufs d ! a))
                 (update_buf a (\<lambda>b. b\<lparr>bu_open := True\<rparr>) d))
             else None)
      else None)"

definition receive :: "nat \<Rightarrow> 's dispatcher \<Rightarrow> (event \<times> 's dispatcher) option" where
  "receive a d =
     (if a < length (d_bufs d) \<and> bu_open (d_bufs d ! a) \<and> bu_current (d_bufs d ! a) = None then
        (case bu_queue (d_bufs d ! a) of
           [] \<Rightarrow> None
         | e # es \<Rightarrow> Some (e, update_buf a (\<lambda>b. b\<lparr>bu_queue := es, bu_current := Some e\<rparr>) d))
      else None)"

definition safeHandle :: "string \<Rightarrow> 's wrapped \<Rightarrow> event \<Rightarrow> 's dispatcher \<Rightarrow> (handler_result \<times> 's dispatcher) option" where
  "safeHandle command h e d = (case run h e d of
     None \<Rightarrow> None
   | Some (Panics p, d) \<Rightarrow> Some (Panics p, log_msg Error ''panic in buffered handler (recovered)'' command d)
   | Some (Returns v err, d) \<Rightarrow>
       let d = (if err \<noteq> None then log_msg Error ''buffered handler failed'' command d else d)
       in Some (Returns v err, d\<lparr>d_processed := bump command (d_processed d)\<rparr>))"

definition handle :: "nat \<Rightarrow> 's dispatcher \<Rightarrow> (event \<times> handler_result \<times> 's dispatcher) option" where
  "handle a d =
     (if a < length (d_bufs d) then
        (case bu_current (d_bufs d ! a) of
           None \<Rightarrow> None
         | Some e \<Rightarrow> (case safeHandle (bu_command (d_bufs d ! a)) (bu_handler (d_bufs d ! a)) e d of
               None \<Rightarrow> None
             | Some (r, d) \<Rightarrow> Some (e, r, update_buf a (\<lambda>b. b\<lparr>bu_current := None\<rparr>) d)))
      else None)"

section \<open>Steps\<close>

text \<open>The channel a call goes to, if the command is buffered.\<close>

definition channel_of :: "string \<Rightarrow> 's dispatcher \<Rightarrow> nat option" where
  "channel_of command d = (case map_of (d_handlers d) command of Some (WithBuffer a _) \<Rightarrow> Some a | _ \<Rightarrow> None)"

datatype action =
    Registered string
  | Dispatched "nat option" event handler_result
  | GateClosed nat
  | GatePassed nat
  | Received nat event
  | Handled nat event handler_result

inductive dstep :: "'s dispatcher \<Rightarrow> action \<Rightarrow> 's dispatcher \<Rightarrow> bool" where
  register: "dstep d (Registered command) (Register command h opts d)"
| dispatch: "Dispatch e d = Some (r, d') \<Longrightarrow> dstep d (Dispatched (channel_of (ev_Command e) d) e r) d'"
| close: "dstep d (GateClosed ready) (d\<lparr>d_closed := ready # d_closed d\<rparr>)"
| pass: "pass_gate a d = Some d' \<Longrightarrow> dstep d (GatePassed a) d'"
| receive: "receive a d = Some (e, d') \<Longrightarrow> dstep d (Received a e) d'"
| handle: "handle a d = Some (e, r, d') \<Longrightarrow> dstep d (Handled a e r) d'"

inductive druns :: "'s dispatcher \<Rightarrow> action list \<Rightarrow> 's dispatcher \<Rightarrow> bool" where
  stop: "druns d [] d"
| step: "dstep d x d' \<Longrightarrow> druns d' xs d'' \<Longrightarrow> druns d (x # xs) d''"

inductive_simps druns_simps [simp]: "druns d [] d'" "druns d (x # xs) d'"
inductive_cases dstep_dispatch: "dstep d (Dispatched c e r) d'"
inductive_cases dstep_handle: "dstep d (Handled a e r) d'"
inductive_cases dstep_receive: "dstep d (Received a e) d'"
inductive_cases dstep_pass: "dstep d (GatePassed a) d'"

lemma druns_append: "druns d (xs @ ys) d'' \<longleftrightarrow> (\<exists>d'. druns d xs d' \<and> druns d' ys d'')"
  by (induction xs arbitrary: d) auto

text \<open>What a run accepted into a channel, refused for a command, and handled from a channel.\<close>

definition accepted :: "nat \<Rightarrow> action list \<Rightarrow> event list" where
  "accepted a tr = List.map_filter (\<lambda>x. case x of
     Dispatched c e r \<Rightarrow> if c = Some a \<and> r = queued then Some e else None | _ \<Rightarrow> None) tr"

definition handled :: "nat \<Rightarrow> action list \<Rightarrow> event list" where
  "handled a tr = List.map_filter (\<lambda>x. case x of
     Handled c e r \<Rightarrow> if c = a then Some e else None | _ \<Rightarrow> None) tr"

definition pending :: "nat \<Rightarrow> 's dispatcher \<Rightarrow> event list" where
  "pending a d =
     (if a < length (d_bufs d) then
        (case bu_current (d_bufs d ! a) of None \<Rightarrow> [] | Some e \<Rightarrow> [e]) @ bu_queue (d_bufs d ! a)
      else [])"

definition refused :: "string \<Rightarrow> action list \<Rightarrow> nat" where
  "refused command tr = length (filter (\<lambda>x. case x of
     Dispatched c e r \<Rightarrow> c \<noteq> None \<and> ev_Command e = command \<and> r \<noteq> queued | _ \<Rightarrow> False) tr)"

end
