(* ===== verification/Dispatcher_Facts.thy ===== *)
theory Dispatcher_Facts
  imports Dispatcher
begin

text \<open>
  What the dispatcher guarantees over every interleaving of callers and goroutines: a channel
  never holds more than its capacity, events are handled in the order they were accepted and none
  is lost or invented, gated channels are not read before the gate opens, the counters count, and
  a channel whose gate is open can always be drained.
\<close>

section \<open>The invariant\<close>

text \<open>Around a buffered handler there is at most logging: its calls never wait.\<close>

fun plain :: "'s wrapped \<Rightarrow> bool" where
  "plain (Direct h) = True"
| "plain (WithLogging command h) = plain h"
| "plain _ = False"

definition held :: "'s buffer \<Rightarrow> event list" where
  "held b = (case bu_current b of None \<Rightarrow> [] | Some e \<Rightarrow> [e]) @ bu_queue b"

definition wf_buf :: "nat list \<Rightarrow> 's buffer \<Rightarrow> bool" where
  "wf_buf gates b = (0 < bu_cap b \<and> length (bu_queue b) \<le> bu_cap b \<and> plain (bu_handler b) \<and>
     (bu_open b \<longrightarrow> (\<forall>c. bu_gate b = Some c \<longrightarrow> c \<in> set gates)) \<and>
     (bu_gate b = None \<longrightarrow> bu_open b) \<and> (bu_current b \<noteq> None \<longrightarrow> bu_open b) \<and>
     (\<forall>e \<in> set (held b). ev_Command e = bu_command b))"

definition wf_handler :: "'s dispatcher \<Rightarrow> string \<Rightarrow> 's wrapped \<Rightarrow> bool" where
  "wf_handler d command h = (case h of
     WithBuffer a blocking \<Rightarrow> a < length (d_bufs d) \<and> bu_command (d_bufs d ! a) = command
   | WithGate ready h \<Rightarrow> plain h
   | h \<Rightarrow> plain h)"

definition wf_dispatcher :: "'s dispatcher \<Rightarrow> bool" where
  "wf_dispatcher d = ((\<forall>b \<in> set (d_bufs d). wf_buf (d_closed d) b) \<and>
     (\<forall>command h. map_of (d_handlers d) command = Some h \<longrightarrow> wf_handler d command h))"

lemma wf_new: "wf_dispatcher (new_dispatcher w)"
  by (simp add: wf_dispatcher_def new_dispatcher_def)

lemma pending_held: "pending a d = (if a < length (d_bufs d) then held (d_bufs d ! a) else [])"
  by (simp add: pending_def held_def)

text \<open>A plain handler returns or panics, and only writes the world and the log.\<close>

lemma run_plain: "plain h \<Longrightarrow> \<exists>r w l. run h e d = Some (r, d\<lparr>d_world := w, d_log := l\<rparr>)"
proof (induction h arbitrary: d)
  case (Direct h)
  show ?case by (cases "h e (d_world d)") (auto intro!: exI [of _ "d_log d"])
next
  case (WithLogging c h)
  then obtain r w l where
    "run h e (log_msg Debug ''handling event'' c d) = Some (r, (log_msg Debug ''handling event'' c d)\<lparr>d_world := w, d_log := l\<rparr>)"
    by fastforce
  then show ?case by (auto simp: log_msg_def split: handler_result.split option.split)
qed auto

lemma run_plain_frame:
  assumes "run h e d = Some (r, d')" "plain h"
  shows "d_handlers d' = d_handlers d \<and> d_bufs d' = d_bufs d \<and> d_closed d' = d_closed d \<and>
    d_processed d' = d_processed d \<and> d_dropped d' = d_dropped d \<and> d_buffers d' = d_buffers d"
  using run_plain [OF assms(2), of e d] assms(1) by auto

lemma safeHandle_plain:
  assumes "plain h"
  obtains r d' where "safeHandle c h e d = Some (r, d')" "d_handlers d' = d_handlers d"
    "d_bufs d' = d_bufs d" "d_closed d' = d_closed d" "d_dropped d' = d_dropped d"
    "d_processed d' = (case r of Panics p \<Rightarrow> d_processed d | _ \<Rightarrow> bump c (d_processed d))"
proof -
  obtain r w l where "run h e d = Some (r, d\<lparr>d_world := w, d_log := l\<rparr>)" using run_plain [OF assms] by blast
  then show thesis
    by (intro that [of r "snd (the (safeHandle c h e d))"])
      (auto simp: safeHandle_def log_msg_def Let_def split: handler_result.split)
qed

section \<open>Every step\<close>

lemma counter_bump: "counter (bump c m) c' = counter m c' + (if c' = c then 1 else 0)"
  by (simp add: counter_def bump_def map_simps)

lemma wf_handler_frame:
  assumes "map bu_command (d_bufs d') = map bu_command (d_bufs d) @ cs"
  shows "wf_handler d c h \<Longrightarrow> wf_handler d' c h"
proof -
  have "length (d_bufs d') = length (d_bufs d) + length cs"
    using arg_cong [OF assms, of length] by simp
  moreover have "bu_command (d_bufs d' ! a) = bu_command (d_bufs d ! a)" if "a < length (d_bufs d)" for a
    using arg_cong [OF assms, of "\<lambda>l. l ! a"] that calculation by (simp add: nth_append)
  ultimately show "wf_handler d c h \<Longrightarrow> wf_handler d' c h"
    by (auto simp: wf_handler_def split: wrapped.splits)
qed

lemma wf_update_buf:
  assumes "wf_dispatcher d" "a < length (d_bufs d)"
    and "wf_buf (d_closed d) (f (d_bufs d ! a))" "bu_command (f (d_bufs d ! a)) = bu_command (d_bufs d ! a)"
  shows "wf_dispatcher (update_buf a f d)"
proof -
  have "map bu_command (d_bufs (update_buf a f d)) = map bu_command (d_bufs d) @ []"
    using assms(2,4) by (simp add: update_buf_def map_update list_update_same_conv)
  from wf_handler_frame [OF this] assms show ?thesis
    by (auto simp: wf_dispatcher_def update_buf_def dest!: set_update_subset_insert [THEN subsetD])
qed

lemma wf_frame:
  "d_handlers d' = d_handlers d \<Longrightarrow> d_bufs d' = d_bufs d \<Longrightarrow> d_closed d' = d_closed d \<Longrightarrow>
     wf_dispatcher d' = wf_dispatcher d"
  by (simp add: wf_dispatcher_def wf_handler_def cong: wrapped.case_cong)

lemma pending_update_buf:
  "a < length (d_bufs d) \<Longrightarrow>
     pending a' (update_buf a f d) = (if a' = a then held (f (d_bufs d ! a)) else pending a' d)"
  by (auto simp: pending_held update_buf_def)

lemma update_buf_frame [simp]:
  "d_handlers (update_buf a f d) = d_handlers d" "d_closed (update_buf a f d) = d_closed d"
  "d_processed (update_buf a f d) = d_processed d" "d_dropped (update_buf a f d) = d_dropped d"
  by (simp_all add: update_buf_def)

lemma pending_at: "a < length (d_bufs d) \<Longrightarrow> pending a d = held (d_bufs d ! a)"
  by (simp add: pending_held)

lemma pending_frame: "d_bufs d' = d_bufs d \<Longrightarrow> pending a d' = pending a d"
  by (simp add: pending_held)

text \<open>What one step does to the channels and the counters.\<close>

definition completed :: "string \<Rightarrow> action list \<Rightarrow> nat" where
  "completed command tr = length (filter (\<lambda>x. case x of
     Handled a e (Returns v err) \<Rightarrow> ev_Command e = command | _ \<Rightarrow> False) tr)"

definition accounts_for :: "'s dispatcher \<Rightarrow> action list \<Rightarrow> 's dispatcher \<Rightarrow> bool" where
  "accounts_for d tr d' =
     ((\<forall>a. pending a d @ accepted a tr = handled a tr @ pending a d') \<and>
      (\<forall>c. counter (d_dropped d') c = counter (d_dropped d) c + refused c tr) \<and>
      (\<forall>c. counter (d_processed d') c = counter (d_processed d) c + completed c tr))"

lemmas trace_defs = accepted_def handled_def refused_def completed_def

lemma trace_simps [simp]:
  "accepted a [] = []" "handled a [] = []" "refused c [] = 0" "completed c [] = 0"
  by (simp_all add: trace_defs List.map_filter_simps)

lemma trace_append:
  "accepted a (xs @ ys) = accepted a xs @ accepted a ys" "handled a (xs @ ys) = handled a xs @ handled a ys"
  "refused c (xs @ ys) = refused c xs + refused c ys" "completed c (xs @ ys) = completed c xs + completed c ys"
  by (simp_all add: trace_defs List.map_filter_def)

lemma accounts_trans:
  assumes "accounts_for d xs d'" "accounts_for d' ys d''"
  shows "accounts_for d (xs @ ys) d''"
proof -
  have "pending a d @ accepted a (xs @ ys) = handled a (xs @ ys) @ pending a d''" for a
    using assms unfolding accounts_for_def trace_append by (metis append_assoc)
  with assms show ?thesis by (simp add: accounts_for_def trace_append)
qed

lemma accounts_nothing:
  assumes "d_bufs d' = d_bufs d" "d_dropped d' = d_dropped d" "d_processed d' = d_processed d"
    and "\<And>a. accepted a tr = []" "\<And>a. handled a tr = []" "\<And>c. refused c tr = 0" "\<And>c. completed c tr = 0"
  shows "accounts_for d tr d'"
  using assms pending_frame [OF assms(1)] by (simp add: accounts_for_def)

lemma step_Register:
  assumes wf: "wf_dispatcher d"
  shows "wf_dispatcher (Register command h opts d) \<and> accounts_for d [Registered command] (Register command h opts d)"
proof -
  define cfg where "cfg = fold apply_option opts
    \<lparr>cf_bufferSize = 0, cf_blocking = False, cf_logged = False, cf_readyChan = None\<rparr>"
  define w where "w = (if cf_logged cfg then WithLogging command (Direct h) else Direct h)"
  have w: "plain w" by (simp add: w_def)
  show ?thesis
  proof (cases "cf_bufferSize cfg > 0")
    case True
    let ?b = "\<lparr>bu_command = command, bu_cap = nat (cf_bufferSize cfg), bu_queue = [],
            bu_gate = cf_readyChan cfg, bu_open = (cf_readyChan cfg = None), bu_current = None, bu_handler = w\<rparr>"
    have R: "Register command h opts d = d\<lparr>d_bufs := d_bufs d @ [?b],
        d_buffers := AList.update command (length (d_bufs d)) (d_buffers d),
        d_handlers := AList.update command (WithBuffer (length (d_bufs d)) (cf_blocking cfg)) (d_handlers d)\<rparr>"
      unfolding Register_def cfg_def [symmetric] Let_def w_def [symmetric]
      using True by (simp add: withBuffer_def Let_def)
    have b: "wf_buf (d_closed d) ?b" using True w by (simp add: wf_buf_def held_def)
    have "wf_handler (Register command h opts d) c k"
      if "map_of (d_handlers (Register command h opts d)) c = Some k" for c k
      using wf that wf_handler_frame [of "Register command h opts d" d "[command]" c k]
      by (auto simp: R map_simps wf_dispatcher_def wf_handler_def split: if_splits)
    then have "wf_dispatcher (Register command h opts d)"
      using wf b by (auto simp: wf_dispatcher_def R)
    moreover have "pending a (Register command h opts d) = pending a d" for a
      by (auto simp: pending_held R nth_append held_def not_less less_Suc_eq)
    ultimately show ?thesis by (simp add: accounts_for_def trace_defs List.map_filter_simps R)
  next
    case False
    let ?w = "case cf_readyChan cfg of Some ready \<Rightarrow> WithGate ready w | None \<Rightarrow> w"
    have R: "Register command h opts d = d\<lparr>d_handlers := AList.update command ?w (d_handlers d)\<rparr>"
      unfolding Register_def cfg_def [symmetric] Let_def w_def [symmetric]
      using False by (simp split: option.split)
    have "wf_handler (Register command h opts d) command ?w" for c k
      using w by (auto simp: wf_handler_def w_def split: option.split)
    then have "wf_handler (Register command h opts d) c k"
      if "map_of (d_handlers (Register command h opts d)) c = Some k" for c k
      using wf that wf_handler_frame [of "Register command h opts d" d "[]" c k]
      by (auto simp: R map_simps wf_dispatcher_def split: if_splits)
    with wf show ?thesis
      by (auto simp: wf_dispatcher_def R trace_defs List.map_filter_simps intro!: accounts_nothing)
  qed
qed

lemma step_run_plain:
  assumes wf: "wf_dispatcher d" and "run h e d = Some (r, d')" "plain h"
  shows "wf_dispatcher d' \<and> accounts_for d [Dispatched None e r] d'"
  using run_plain_frame [OF assms(2,3)] wf
  by (auto simp: wf_frame [of d' d] trace_defs List.map_filter_simps intro!: accounts_nothing)

lemma step_Dispatch:
  assumes wf: "wf_dispatcher d" and D: "Dispatch e d = Some (r, d')"
  shows "wf_dispatcher d' \<and> accounts_for d [Dispatched (channel_of (ev_Command e) d) e r] d'"
proof (cases "map_of (d_handlers d) (ev_Command e)")
  case None
  with D wf show ?thesis
    by (auto simp: Dispatch_def channel_of_def queued_def trace_defs List.map_filter_simps intro!: accounts_nothing)
next
  case (Some h)
  then have h: "wf_handler d (ev_Command e) h" and R: "run h e d = Some (r, d')"
    using wf D by (auto simp: wf_dispatcher_def Dispatch_def)
  consider "plain h" | ready k where "h = WithGate ready k" | a bl where "h = WithBuffer a bl"
    using h by (cases h) (auto simp: wf_handler_def)
  then show ?thesis
  proof cases
    case 1
    then have "channel_of (ev_Command e) d = None" using Some by (cases h) (auto simp: channel_of_def)
    with step_run_plain [OF wf R 1] show ?thesis by simp
  next
    case 2
    then have "plain k" "run k e d = Some (r, d')" "channel_of (ev_Command e) d = None"
      using h R Some by (auto simp: wf_handler_def channel_of_def split: if_splits)
    with step_run_plain [OF wf] show ?thesis by simp
  next
    case 3
    let ?b = "d_bufs d ! a"
    have a: "a < length (d_bufs d)" and cmd: "bu_command ?b = ev_Command e"
      and ch: "channel_of (ev_Command e) d = Some a"
      using h 3 Some by (simp_all add: wf_handler_def channel_of_def)
    have b: "wf_buf (d_closed d) ?b" using wf a by (simp add: wf_dispatcher_def)
    show ?thesis
    proof (cases "length (bu_queue ?b) < bu_cap ?b")
      case True
      let ?f = "\<lambda>b. b\<lparr>bu_queue := bu_queue b @ [e]\<rparr>"
      have r: "r = queued" and d': "d' = update_buf a ?f d" using True R 3 by (auto simp: Let_def)
      have "wf_dispatcher d'" unfolding d'
        using True b cmd by (intro wf_update_buf [OF wf a]) (auto simp: wf_buf_def held_def)
      moreover have "accounts_for d [Dispatched (Some a) e r] d'"
        using a unfolding accounts_for_def d' pending_update_buf [OF a] r
        by (auto simp: trace_defs List.map_filter_simps pending_held held_def update_buf_def)
      ultimately show ?thesis by (simp add: ch)
    next
      case False
      then have r: "r = Returns ANil (Some (queue_full (ev_Command e)))"
        and d': "d' = d\<lparr>d_dropped := bump (ev_Command e) (d_dropped d)\<rparr>"
        using R 3 cmd by (auto simp: Let_def split: if_splits)
      have "accounts_for d [Dispatched (Some a) e r] d'"
        unfolding accounts_for_def d' r
        by (auto simp: trace_defs List.map_filter_simps pending_held queued_def counter_bump)
      then show ?thesis using wf wf_frame [of d' d] by (simp add: ch d')
    qed
  qed
qed

lemma step_pass_gate:
  assumes wf: "wf_dispatcher d" and P: "pass_gate a d = Some d'"
  shows "wf_dispatcher d' \<and> accounts_for d [GatePassed a] d'"
proof -
  obtain ready where a: "a < length (d_bufs d)" and g: "bu_gate (d_bufs d ! a) = Some ready" "ready \<in> set (d_closed d)"
    and d': "d' = log_msg Info ''gate opened, processing buffered events'' (bu_command (d_bufs d ! a))
                 (update_buf a (\<lambda>b. b\<lparr>bu_open := True\<rparr>) d)"
    using P by (auto simp: pass_gate_def split: if_splits option.splits)
  let ?u = "update_buf a (\<lambda>b. b\<lparr>bu_open := True\<rparr>) d"
  have "wf_buf (d_closed d) (d_bufs d ! a)" using wf a by (simp add: wf_dispatcher_def)
  then have "wf_dispatcher ?u"
    using g by (intro wf_update_buf [OF wf a]) (auto simp: wf_buf_def held_def)
  moreover have "pending a' d' = pending a' d" for a'
  proof -
    have "pending a' d' = pending a' ?u" by (rule pending_frame) (simp add: d' log_msg_def)
    then show ?thesis by (simp add: pending_update_buf [OF a] pending_at [OF a] held_def)
  qed
  moreover have "d_dropped d' = d_dropped d" "d_processed d' = d_processed d"
    by (simp_all add: d' log_msg_def update_buf_def)
  ultimately show ?thesis
    using wf_frame [of d' ?u] by (simp add: accounts_for_def trace_defs List.map_filter_simps d' log_msg_def)
qed

lemma step_receive:
  assumes wf: "wf_dispatcher d" and R: "receive a d = Some (e, d')"
  shows "wf_dispatcher d' \<and> accounts_for d [Received a e] d'"
proof -
  obtain es where a: "a < length (d_bufs d)" and q: "bu_queue (d_bufs d ! a) = e # es"
    and c: "bu_current (d_bufs d ! a) = None" "bu_open (d_bufs d ! a)"
    and d': "d' = update_buf a (\<lambda>b. b\<lparr>bu_queue := es, bu_current := Some e\<rparr>) d"
    using R by (auto simp: receive_def split: if_splits list.splits)
  have "wf_buf (d_closed d) (d_bufs d ! a)" using wf a by (simp add: wf_dispatcher_def)
  then have "wf_dispatcher d'" unfolding d'
    using q c by (intro wf_update_buf [OF wf a]) (auto simp: wf_buf_def held_def)
  moreover have "pending a' d' = pending a' d" for a'
    using q c by (simp add: d' pending_update_buf [OF a] pending_at [OF a] held_def)
  ultimately show ?thesis
    by (simp add: accounts_for_def trace_defs List.map_filter_simps d' update_buf_def)
qed

lemma handle_Some:
  assumes wf: "wf_dispatcher d" and a: "a < length (d_bufs d)" and c: "bu_current (d_bufs d ! a) = Some e"
  obtains r d1 where "handle a d = Some (e, r, update_buf a (\<lambda>b. b\<lparr>bu_current := None\<rparr>) d1)"
    "d_handlers d1 = d_handlers d" "d_bufs d1 = d_bufs d" "d_closed d1 = d_closed d" "d_dropped d1 = d_dropped d"
    "d_processed d1 = (case r of Panics p \<Rightarrow> d_processed d | _ \<Rightarrow> bump (ev_Command e) (d_processed d))"
proof -
  have b: "wf_buf (d_closed d) (d_bufs d ! a)" using wf a by (simp add: wf_dispatcher_def)
  then have pl: "plain (bu_handler (d_bufs d ! a))" and cmd: "bu_command (d_bufs d ! a) = ev_Command e"
    using c by (auto simp: wf_buf_def held_def)
  obtain r d1 where S: "safeHandle (bu_command (d_bufs d ! a)) (bu_handler (d_bufs d ! a)) e d = Some (r, d1)"
    and fr: "d_handlers d1 = d_handlers d" "d_bufs d1 = d_bufs d" "d_closed d1 = d_closed d" "d_dropped d1 = d_dropped d"
      "d_processed d1 = (case r of Panics p \<Rightarrow> d_processed d | _ \<Rightarrow> bump (bu_command (d_bufs d ! a)) (d_processed d))"
    by (rule safeHandle_plain [OF pl])
  have "handle a d = Some (e, r, update_buf a (\<lambda>b. b\<lparr>bu_current := None\<rparr>) d1)"
    using a c S by (simp add: handle_def)
  then show thesis using fr unfolding cmd by (rule that)
qed

lemma step_handle:
  assumes wf: "wf_dispatcher d" and H: "handle a d = Some (e, r, d')"
  shows "wf_dispatcher d' \<and> accounts_for d [Handled a e r] d'"
proof -
  have a: "a < length (d_bufs d)" and c: "bu_current (d_bufs d ! a) = Some e"
    using H by (auto simp: handle_def split: if_splits option.splits)
  let ?f = "\<lambda>b. b\<lparr>bu_current := None\<rparr>"
  obtain d1 where d': "d' = update_buf a ?f d1"
    and fr: "d_handlers d1 = d_handlers d" "d_bufs d1 = d_bufs d" "d_closed d1 = d_closed d" "d_dropped d1 = d_dropped d"
      "d_processed d1 = (case r of Panics p \<Rightarrow> d_processed d | _ \<Rightarrow> bump (ev_Command e) (d_processed d))"
    by (rule handle_Some [OF wf a c]) (use H in auto)
  have wf1: "wf_dispatcher d1" using wf wf_frame [OF fr(1-3)] by simp
  have a1: "a < length (d_bufs d1)" using a fr by simp
  have b: "wf_buf (d_closed d) (d_bufs d ! a)" using wf a by (simp add: wf_dispatcher_def)
  then have "wf_dispatcher d'" unfolding d'
    using fr by (intro wf_update_buf [OF wf1 a1]) (auto simp: wf_buf_def held_def)
  moreover have "pending a' d @ accepted a' [Handled a e r] = handled a' [Handled a e r] @ pending a' d'" for a'
  proof -
    have "pending a' d' = (if a' = a then bu_queue (d_bufs d ! a) else pending a' d)"
      using fr pending_frame [OF fr(2)] by (simp add: d' pending_update_buf [OF a1] held_def)
    then show ?thesis using c by (simp add: trace_defs List.map_filter_simps pending_at [OF a] held_def)
  qed
  moreover have "counter (d_processed d') k = counter (d_processed d) k + completed k [Handled a e r]" for k
    using fr by (cases r) (auto simp: d' update_buf_def trace_defs counter_bump)
  ultimately show ?thesis
    using fr by (simp add: accounts_for_def d' update_buf_def trace_defs)
qed

lemma dstep_sound: "dstep d x d' \<Longrightarrow> wf_dispatcher d \<Longrightarrow> wf_dispatcher d' \<and> accounts_for d [x] d'"
proof (induction rule: dstep.induct)
  case (close d ready)
  then have "wf_dispatcher (d\<lparr>d_closed := ready # d_closed d\<rparr>)"
    by (auto simp: wf_dispatcher_def wf_buf_def wf_handler_def cong: wrapped.case_cong)
  then show ?case by (auto simp: trace_defs List.map_filter_simps intro!: accounts_nothing)
qed (rule step_Register step_Dispatch step_pass_gate step_receive step_handle; assumption)+

lemma druns_sound: "druns d tr d' \<Longrightarrow> wf_dispatcher d \<Longrightarrow> wf_dispatcher d' \<and> accounts_for d tr d'"
proof (induction rule: druns.induct)
  case (stop d)
  then show ?case by (auto intro: accounts_nothing)
next
  case (step d x d' xs d'')
  then show ?case using dstep_sound [of d x d'] accounts_trans [of d "[x]" d' xs d''] by auto
qed

section \<open>Draining\<close>

text \<open>
  The goroutine of an open channel gets through everything that is waiting, by itself and in
  order; it needs at most two steps for each event.
\<close>

definition of_goroutine :: "nat \<Rightarrow> action \<Rightarrow> bool" where
  "of_goroutine a x = (case x of Received c e \<Rightarrow> c = a | Handled c e r \<Rightarrow> c = a | _ \<Rightarrow> False)"

lemma finish_current:
  assumes wf: "wf_dispatcher d" and a: "a < length (d_bufs d)" and c: "bu_current (d_bufs d ! a) = Some e"
  obtains r d' where "dstep d (Handled a e r) d'" "length (d_bufs d') = length (d_bufs d)"
    "bu_current (d_bufs d' ! a) = None" "bu_queue (d_bufs d' ! a) = bu_queue (d_bufs d ! a)"
    "bu_open (d_bufs d' ! a) = bu_open (d_bufs d ! a)"
proof -
  obtain r d1 where "handle a d = Some (e, r, update_buf a (\<lambda>b. b\<lparr>bu_current := None\<rparr>) d1)"
    and "d_bufs d1 = d_bufs d"
    by (rule handle_Some [OF wf a c])
  then show thesis using a
    by (intro that [of r "update_buf a (\<lambda>b. b\<lparr>bu_current := None\<rparr>) d1"])
      (auto simp: update_buf_def intro: dstep.handle)
qed

lemma drain_idle:
  assumes "wf_dispatcher d" "a < length (d_bufs d)" "bu_open (d_bufs d ! a)"
    "bu_current (d_bufs d ! a) = None"
  shows "\<exists>tr d'. druns d tr d' \<and> (\<forall>x \<in> set tr. of_goroutine a x) \<and>
    length tr \<le> 2 * length (bu_queue (d_bufs d ! a)) \<and>
    a < length (d_bufs d') \<and> bu_current (d_bufs d' ! a) = None \<and> bu_queue (d_bufs d' ! a) = []"
  using assms
proof (induction "bu_queue (d_bufs d ! a)" arbitrary: d)
  case Nil
  then show ?case by (intro exI [of _ "[]"] exI [of _ d]) simp
next
  case (Cons e es)
  let ?d1 = "update_buf a (\<lambda>b. b\<lparr>bu_queue := es, bu_current := Some e\<rparr>) d"
  have rc: "receive a d = Some (e, ?d1)"
    using Cons.prems Cons.hyps(2) [symmetric] by (simp add: receive_def)
  have wf1: "wf_dispatcher ?d1" using step_receive [OF Cons.prems(1) rc] by simp
  have a1: "a < length (d_bufs ?d1)" "bu_current (d_bufs ?d1 ! a) = Some e" "bu_queue (d_bufs ?d1 ! a) = es"
    "bu_open (d_bufs ?d1 ! a)"
    using Cons.prems by (simp_all add: update_buf_def)
  obtain r d2 where h: "dstep ?d1 (Handled a e r) d2" "length (d_bufs d2) = length (d_bufs ?d1)"
    "bu_current (d_bufs d2 ! a) = None" "bu_queue (d_bufs d2 ! a) = bu_queue (d_bufs ?d1 ! a)"
    "bu_open (d_bufs d2 ! a) = bu_open (d_bufs ?d1 ! a)"
    by (rule finish_current [OF wf1 a1(1,2)])
  have wf2: "wf_dispatcher d2" using dstep_sound [OF h(1) wf1] by simp
  obtain tr d' where IH: "druns d2 tr d'" "\<forall>x \<in> set tr. of_goroutine a x" "length tr \<le> 2 * length es"
    "a < length (d_bufs d')" "bu_current (d_bufs d' ! a) = None" "bu_queue (d_bufs d' ! a) = []"
    using Cons.hyps(1) [of d2] wf2 h a1 by auto
  have "druns d (Received a e # Handled a e r # tr) d'"
    using dstep.receive [OF rc] h(1) IH(1) by auto
  then show ?case
    using IH Cons.hyps(2) [symmetric]
    by (intro exI [of _ "Received a e # Handled a e r # tr"] exI [of _ d']) (auto simp: of_goroutine_def)
qed

lemma drain_open:
  assumes wf: "wf_dispatcher d" and a: "a < length (d_bufs d)" and op: "bu_open (d_bufs d ! a)"
  shows "\<exists>tr d'. druns d tr d' \<and> (\<forall>x \<in> set tr. of_goroutine a x) \<and>
    length tr \<le> 2 * length (pending a d) \<and> handled a tr = pending a d \<and> pending a d' = []"
proof -
  have "\<exists>tr d'. druns d tr d' \<and> (\<forall>x \<in> set tr. of_goroutine a x) \<and> length tr \<le> 2 * length (pending a d) \<and>
    pending a d' = []"
  proof (cases "bu_current (d_bufs d ! a)")
    case None
    obtain tr d' where "druns d tr d'" "\<forall>x \<in> set tr. of_goroutine a x"
      "length tr \<le> 2 * length (bu_queue (d_bufs d ! a))" "pending a d' = []"
      using drain_idle [OF wf a op None] by (auto simp: pending_held held_def)
    then show ?thesis using None a by (intro exI [of _ tr] exI [of _ d']) (simp add: pending_at held_def)
  next
    case (Some e)
    obtain r d1 where h: "dstep d (Handled a e r) d1" "length (d_bufs d1) = length (d_bufs d)"
      "bu_current (d_bufs d1 ! a) = None" "bu_queue (d_bufs d1 ! a) = bu_queue (d_bufs d ! a)"
      "bu_open (d_bufs d1 ! a) = bu_open (d_bufs d ! a)"
      by (rule finish_current [OF wf a Some])
    have "wf_dispatcher d1" using dstep_sound [OF h(1) wf] by simp
    then obtain tr d' where "druns d1 tr d'" "\<forall>x \<in> set tr. of_goroutine a x"
      "length tr \<le> 2 * length (bu_queue (d_bufs d ! a))" "a < length (d_bufs d')"
      "bu_current (d_bufs d' ! a) = None" "bu_queue (d_bufs d' ! a) = []"
      using drain_idle [of d1 a] h a op by auto
    then show ?thesis using h(1) a Some
      by (intro exI [of _ "Handled a e r # tr"] exI [of _ d']) (auto simp: of_goroutine_def pending_at held_def)
  qed
  then obtain tr d' where t: "druns d tr d'" "\<forall>x \<in> set tr. of_goroutine a x"
    "length tr \<le> 2 * length (pending a d)" "pending a d' = []" by blast
  have "accepted a tr = []"
    using t(2) by (induction tr) (auto simp: trace_defs List.map_filter_simps of_goroutine_def split: action.splits)
  then have "handled a tr = pending a d"
    using druns_sound [OF t(1) wf] t(4) unfolding accounts_for_def by (metis append_Nil2)
  with t show ?thesis by blast
qed

section \<open>Gates\<close>

lemma gated_waits:
  assumes "wf_dispatcher d" "a < length (d_bufs d)" "bu_gate (d_bufs d ! a) = Some ready"
    "ready \<notin> set (d_closed d)"
  shows "receive a d = None \<and> handle a d = None \<and> pass_gate a d = None"
proof -
  have "wf_buf (d_closed d) (d_bufs d ! a)" using assms by (simp add: wf_dispatcher_def)
  then have "\<not> bu_open (d_bufs d ! a)" "bu_current (d_bufs d ! a) = None"
    using assms by (auto simp: wf_buf_def)
  then show ?thesis using assms by (simp add: receive_def handle_def pass_gate_def)
qed

section \<open>Properties of the world\<close>

text \<open>
  What every registered handler keeps true of the world stays true, whatever is dispatched and
  however the goroutines interleave.
\<close>

fun keeps :: "('s \<Rightarrow> bool) \<Rightarrow> 's wrapped \<Rightarrow> bool" where
  "keeps P (Direct h) = (\<forall>e w. P w \<longrightarrow> P (snd (h e w)))"
| "keeps P (WithLogging c h) = keeps P h"
| "keeps P (WithGate ready h) = keeps P h"
| "keeps P (WithBuffer a bl) = True"

definition all_keep :: "('s \<Rightarrow> bool) \<Rightarrow> 's dispatcher \<Rightarrow> bool" where
  "all_keep P d = ((\<forall>h \<in> snd ` set (d_handlers d). keeps P h) \<and> (\<forall>b \<in> set (d_bufs d). keeps P (bu_handler b)))"

lemma run_world:
  assumes "run h e d = Some (r, d')" "keeps P h" "P (d_world d)"
  shows "P (d_world d')"
  using assms
proof (induction h arbitrary: d r d')
  case (Direct h)
  then show ?case by (cases "h e (d_world d)") (auto, metis snd_conv)
next
  case (WithLogging c h)
  obtain r1 d1 where 1: "run h e (log_msg Debug ''handling event'' c d) = Some (r1, d1)"
    using WithLogging.prems(1) by (auto split: option.splits)
  have "P (d_world d1)"
    using WithLogging.IH [OF 1] WithLogging.prems by (simp add: log_msg_def)
  then show ?case using WithLogging.prems(1) 1
    by (auto simp: log_msg_def split: option.splits handler_result.splits)
qed (auto simp: Let_def update_buf_def split: if_splits)

lemma map_list_update_same: "f y = f (xs ! a) \<Longrightarrow> map f (xs[a := y]) = map f xs"
  by (cases "a < length xs") (simp_all add: map_update list_update_same_conv list_update_beyond)

lemma update_buf_handlers:
  "bu_handler (f (d_bufs d ! a)) = bu_handler (d_bufs d ! a) \<Longrightarrow>
     map bu_handler (d_bufs (update_buf a f d)) = map bu_handler (d_bufs d)"
  by (simp add: update_buf_def map_list_update_same)

lemma run_handlers:
  assumes "run h e d = Some (r, d')"
  shows "d_handlers d' = d_handlers d \<and> map bu_handler (d_bufs d') = map bu_handler (d_bufs d)"
  using assms
proof (induction h arbitrary: d r d')
  case (Direct h)
  then show ?case by (cases "h e (d_world d)") auto
next
  case (WithLogging c h)
  obtain r1 d1 where 1: "run h e (log_msg Debug ''handling event'' c d) = Some (r1, d1)"
    using WithLogging.prems(1) by (auto split: option.splits)
  then show ?case using WithLogging.IH [OF 1] WithLogging.prems(1)
    by (auto simp: log_msg_def split: option.splits handler_result.splits)
qed (auto simp: Let_def update_buf_handlers split: if_splits)

lemma all_keep_frame:
  "d_handlers d' = d_handlers d \<Longrightarrow> map bu_handler (d_bufs d') = map bu_handler (d_bufs d) \<Longrightarrow>
     all_keep P d' = all_keep P d"
proof -
  assume h: "d_handlers d' = d_handlers d" and m: "map bu_handler (d_bufs d') = map bu_handler (d_bufs d)"
  have "bu_handler ` set (d_bufs d') = bu_handler ` set (d_bufs d)"
    using arg_cong [OF m, of set] by simp
  then have "(\<forall>b \<in> set (d_bufs d'). keeps P (bu_handler b)) = (\<forall>b \<in> set (d_bufs d). keeps P (bu_handler b))"
    by (metis (no_types, lifting) image_iff)
  with h show ?thesis by (simp add: all_keep_def)
qed

lemma snd_update: "x \<in> snd ` set (AList.update k v m) \<Longrightarrow> x = v \<or> x \<in> snd ` set m"
  by (induction m) (auto split: if_splits)

lemma all_keep_Register:
  assumes "all_keep P d" "\<And>e w. P w \<Longrightarrow> P (snd (h e w))"
  shows "all_keep P (Register c h opts d)" "d_world (Register c h opts d) = d_world d"
  using assms
  by (auto simp: Register_def all_keep_def withBuffer_def Let_def
      dest!: snd_update [OF imageI [of _ _ snd]] split: option.splits if_splits)

lemma handle_frame:
  assumes "handle a d = Some (e, r, d')"
  obtains r0 d0 where "run (bu_handler (d_bufs d ! a)) e d = Some (r0, d0)" "d_world d' = d_world d0"
    "d_handlers d' = d_handlers d0" "a < length (d_bufs d)"
    "map bu_handler (d_bufs d') = map bu_handler (d_bufs d0)"
proof -
  obtain d1 where a: "a < length (d_bufs d)" and d': "d' = update_buf a (\<lambda>b. b\<lparr>bu_current := None\<rparr>) d1"
    and s: "safeHandle (bu_command (d_bufs d ! a)) (bu_handler (d_bufs d ! a)) e d = Some (r, d1)"
    using assms by (auto simp: handle_def split: if_splits option.splits)
  then obtain d0 where "run (bu_handler (d_bufs d ! a)) e d = Some (r, d0)"
    "d_world d1 = d_world d0" "d_handlers d1 = d_handlers d0" "d_bufs d1 = d_bufs d0"
    by (auto simp: safeHandle_def log_msg_def Let_def split: option.splits handler_result.splits)
  then show thesis
    using that [of r d0] a by (simp add: d' update_buf_handlers) (simp add: update_buf_def)
qed

lemma dstep_world:
  assumes "dstep d x d'" "all_keep P d" "P (d_world d)" "\<forall>c. x \<noteq> Registered c"
  shows "all_keep P d' \<and> P (d_world d')"
  using assms
proof (cases rule: dstep.cases)
  case (dispatch e r)
  show ?thesis
  proof (cases "map_of (d_handlers d) (ev_Command e)")
    case (Some h)
    then have "keeps P h" and R: "run h e d = Some (r, d')"
      using assms(2) dispatch(2) by (force simp: all_keep_def Dispatch_def dest: map_of_SomeD)+
    then show ?thesis
      using run_world [OF R] run_handlers [OF R] assms(2,3) all_keep_frame [of d' d P] by simp
  qed (use assms dispatch in \<open>simp add: Dispatch_def\<close>)
next
  case (handle a e r)
  then show ?thesis
  proof (elim handle_frame)
    fix r0 d0
    assume R: "run (bu_handler (d_bufs d ! a)) e d = Some (r0, d0)" and w: "d_world d' = d_world d0"
      "d_handlers d' = d_handlers d0" "a < length (d_bufs d)" "map bu_handler (d_bufs d') = map bu_handler (d_bufs d0)"
    have "keeps P (bu_handler (d_bufs d ! a))" using assms(2) w(3) by (simp add: all_keep_def)
    then show ?thesis
      using run_world [OF R] run_handlers [OF R] w assms(2,3) all_keep_frame [of d' d P] by simp
  qed
qed (auto simp: pass_gate_def receive_def log_msg_def update_buf_def all_keep_def
    dest!: set_update_subset_insert [THEN subsetD] split: if_splits option.splits list.splits)

lemma druns_world:
  "druns d tr d' \<Longrightarrow> all_keep P d \<Longrightarrow> P (d_world d) \<Longrightarrow> \<forall>c. Registered c \<notin> set tr \<Longrightarrow> P (d_world d')"
proof (induction rule: druns.induct)
  case (step d x d' xs d'')
  then show ?case using dstep_world [of d x d' P] by auto
qed

section \<open>The gauge\<close>

text \<open>Every command with a gauge has a channel, and only registrations change which.\<close>

definition shape :: "'s dispatcher \<Rightarrow> (string \<times> nat) list \<times> string list" where
  "shape d = (d_buffers d, map bu_command (d_bufs d))"

definition gauged :: "'s dispatcher \<Rightarrow> bool" where
  "gauged d \<longleftrightarrow> (\<forall>(c, a) \<in> set (d_buffers d). a < length (d_bufs d) \<and> bu_command (d_bufs d ! a) = c)"

lemma gauged_shape: "gauged d = (case shape d of (m, cs) \<Rightarrow> \<forall>(c, a) \<in> set m. a < length cs \<and> cs ! a = c)"
  by (auto simp: gauged_def shape_def)

lemma shape_frame [simp]: "shape (log_msg l t c d) = shape d" "shape (d\<lparr>d_processed := p\<rparr>) = shape d"
  by (simp_all add: shape_def log_msg_def)

lemma shape_update_buf:
  assumes "\<And>b. bu_command (f b) = bu_command b"
  shows "shape (update_buf a f d) = shape d"
proof (cases "a < length (d_bufs d)")
  case True
  then show ?thesis using assms by (simp add: shape_def update_buf_def map_update list_update_same_conv)
qed (simp add: shape_def update_buf_def list_update_beyond)

lemma shape_run: "run h e d = Some (r, d') \<Longrightarrow> shape d' = shape d"
proof (induction h arbitrary: d r d')
  case (Direct h)
  then show ?case by (auto simp: shape_def split: prod.splits)
next
  case (WithLogging c h)
  then show ?case by (fastforce split: option.splits handler_result.splits prod.splits)
next
  case (WithBuffer a blocking)
  then show ?case by (auto simp: Let_def shape_update_buf split: if_splits) (simp add: shape_def)
qed (auto split: if_splits)

lemma shape_safeHandle:
  assumes "safeHandle c h e d = Some (r, d')"
  shows "shape d' = shape d"
proof -
  obtain r1 d1 where 1: "run h e d = Some (r1, d1)" using assms by (cases "run h e d") (auto simp: safeHandle_def)
  have "shape d' = shape d1" using assms 1 by (auto simp: safeHandle_def Let_def split: handler_result.splits if_splits)
  then show ?thesis using shape_run [OF 1] by simp
qed

lemma shape_step: "dstep d x d' \<Longrightarrow> (\<forall>c. x \<noteq> Registered c) \<Longrightarrow> shape d' = shape d"
proof (induction rule: dstep.induct)
  case (dispatch e d r d')
  then show ?case by (auto simp: Dispatch_def dest: shape_run split: option.splits)
next
  case (pass a d d')
  then show ?case by (auto simp: pass_gate_def shape_update_buf split: if_splits option.splits)
next
  case (receive a d e d')
  then show ?case by (auto simp: receive_def shape_update_buf split: if_splits list.splits)
next
  case (handle a d e r d')
  then obtain d1 where 1: "safeHandle (bu_command (d_bufs d ! a)) (bu_handler (d_bufs d ! a)) e d = Some (r, d1)"
    "d' = update_buf a (\<lambda>b. b\<lparr>bu_current := None\<rparr>) d1" by (auto simp: handle_def split: if_splits option.splits)
  have "shape d1 = shape d" by (rule shape_safeHandle [OF 1(1)])
  then show ?case by (simp add: 1(2) shape_update_buf)
qed (auto simp: shape_def)

lemma in_set_update: "(k', v') \<in> set (AList.update k v m) \<Longrightarrow> k' = k \<and> v' = v \<or> (k', v') \<in> set m"
  by (induction m) (auto split: if_splits)

lemma gauged_Register:
  assumes "gauged d"
  shows "gauged (Register command h opts d)"
proof -
  have grown: "gauged (d\<lparr>d_bufs := d_bufs d @ [b], d_buffers := AList.update command (length (d_bufs d)) (d_buffers d), d_handlers := k\<rparr>)"
    if "bu_command b = command" for b k
    using assms that by (auto simp: gauged_def nth_append dest!: in_set_update)
  show ?thesis
    using assms grown by (auto simp: Register_def withBuffer_def Let_def split: option.split) (auto simp: gauged_def)
qed

lemma druns_gauged: "druns d tr d' \<Longrightarrow> gauged d \<Longrightarrow> gauged d'"
proof (induction rule: druns.induct)
  case (step d x d' xs d'')
  have "gauged d'"
  proof (cases "\<exists>c. x = Registered c")
    case True
    with step show ?thesis by (auto elim: dstep.cases intro: gauged_Register)
  next
    case False
    then have "shape d' = shape d" using shape_step [OF step.hyps(1)] by blast
    then show ?thesis using step.prems by (simp only: gauged_shape)
  qed
  with step show ?case by simp
qed simp

lemma gauge_bounded:
  assumes "druns (new_dispatcher w) tr d" "(c, n) \<in> set (observe_queues d)"
  shows "\<exists>b \<in> set (d_bufs d). bu_command b = c \<and> n = length (bu_queue b) \<and> n \<le> bu_cap b"
proof -
  have "gauged (new_dispatcher w)" by (simp add: gauged_def new_dispatcher_def)
  then have "gauged d" by (rule druns_gauged [OF assms(1)])
  then obtain a where a: "a < length (d_bufs d)" "bu_command (d_bufs d ! a) = c" "n = length (bu_queue (d_bufs d ! a))"
    using assms(2) by (auto simp: gauged_def observe_queues_def)
  moreover have "wf_dispatcher d" using druns_sound [OF assms(1) wf_new] by blast
  ultimately show ?thesis by (intro bexI [of _ "d_bufs d ! a"]) (auto simp: wf_dispatcher_def wf_buf_def)
qed

end
