(* ===== verification/Dispatcher_Properties.thy ===== *)
theory Dispatcher_Properties
  imports Dispatcher_Facts
begin

text \<open>
  The properties of the dispatcher over every run from its creation, with any registrations, each
  applied to a run with one buffered command.
\<close>

section \<open>A concrete run\<close>

definition count_event :: "nat handler" where
  "count_event e n = (Returns ANil None, n + 1)"

definition tick :: event where
  "tick = \<lparr>ev_Command = ''TICK'', ev_Args = [], ev_Timestamp = ZeroTime\<rparr>"

definition ready_dispatcher :: "register_option list \<Rightarrow> nat dispatcher" where
  "ready_dispatcher opts = Register ''TICK'' count_event opts (new_dispatcher 0)"

definition one_queued :: "nat dispatcher" where
  "one_queued = snd (the (Dispatch tick (ready_dispatcher [Buffered 1])))"

definition one_trace :: "action list" where
  "one_trace = [Registered ''TICK'', Dispatched (Some 0) tick queued]"

lemmas run_evals = ready_dispatcher_def one_queued_def Register_def withBuffer_def new_dispatcher_def
  Dispatch_def tick_def channel_of_def update_buf_def Let_def

lemma one_dispatch: "Dispatch tick (ready_dispatcher [Buffered 1]) = Some (queued, one_queued)"
  by (simp add: run_evals)

lemma one_run: "druns (new_dispatcher 0) one_trace one_queued"
proof -
  have "dstep (new_dispatcher 0) (Registered ''TICK'') (ready_dispatcher [Buffered 1])"
    unfolding ready_dispatcher_def by (rule dstep.register)
  moreover have "channel_of (ev_Command tick) (ready_dispatcher [Buffered 1]) = Some 0"
    by (simp add: run_evals)
  ultimately show ?thesis
    using dstep.dispatch [OF one_dispatch] by (auto simp: one_trace_def)
qed

lemma one_buffer:
  "length (d_bufs one_queued) = 1" "bu_open (d_bufs one_queued ! 0)" "pending 0 one_queued = [tick]"
  "bu_queue (d_bufs one_queued ! 0) = [tick]" "bu_cap (d_bufs one_queued ! 0) = 1"
  by (simp_all add: run_evals pending_def)

section \<open>Properties\<close>

text \<open>
  C6. No event is lost, invented, duplicated or reordered in a channel: what was accepted is what
  was handled, in the same order, followed by what is still waiting.
\<close>

theorem channels_are_faithful:
  assumes "druns (new_dispatcher w) tr d"
  shows "accepted a tr = handled a tr @ pending a d"
  using druns_sound [OF assms wf_new] by (simp add: accounts_for_def pending_def new_dispatcher_def)

theorem channels_are_faithful_witness:
  "accepted 0 one_trace = [tick] \<and> handled 0 one_trace = [] \<and> accepted 0 one_trace = handled 0 one_trace @ pending 0 one_queued"
  using channels_are_faithful [OF one_run, of 0]
  by (simp add: one_trace_def trace_defs List.map_filter_simps)

text \<open>
  C24. A channel never holds more than its capacity; a call on a full channel that does not block
  is refused and leaves the channel as it is, and a call on a full blocking channel waits. The gauge of
  the queues reports for each command the length of a channel of its own, within its capacity.
\<close>

theorem channels_are_bounded:
  assumes "druns (new_dispatcher w) tr d" "map_of (d_handlers d) (ev_Command e) = Some (WithBuffer a blocking)"
  shows "(\<forall>(c, n) \<in> set (observe_queues d). \<exists>b \<in> set (d_bufs d). bu_command b = c \<and> n = length (bu_queue b) \<and> n \<le> bu_cap b) \<and>
    length (bu_queue (d_bufs d ! a)) \<le> bu_cap (d_bufs d ! a) \<and>
    Dispatch e d =
      (if length (bu_queue (d_bufs d ! a)) < bu_cap (d_bufs d ! a) then
         Some (queued, update_buf a (\<lambda>b. b\<lparr>bu_queue := bu_queue b @ [e]\<rparr>) d)
       else if blocking then None
       else Some (Returns ANil (Some (queue_full (ev_Command e))), d\<lparr>d_dropped := bump (ev_Command e) (d_dropped d)\<rparr>))"
proof -
  have wf: "wf_dispatcher d" using druns_sound [OF assms(1) wf_new] by blast
  then have "wf_handler d (ev_Command e) (WithBuffer a blocking)"
    using assms(2) unfolding wf_dispatcher_def by blast
  then have a: "a < length (d_bufs d)" "bu_command (d_bufs d ! a) = ev_Command e"
    by (simp_all add: wf_handler_def)
  then have "wf_buf (d_closed d) (d_bufs d ! a)" using wf by (simp add: wf_dispatcher_def)
  with a assms(2) gauge_bounded [OF assms(1)] show ?thesis
    by (intro conjI) (fastforce, simp_all add: wf_buf_def Dispatch_def Let_def)
qed

theorem channels_are_bounded_witness:
  "fst (the (Dispatch tick one_queued)) = Returns ANil (Some (queue_full ''TICK''))"
proof -
  have "map_of (d_handlers one_queued) (ev_Command tick) = Some (WithBuffer 0 False)"
    by (simp add: run_evals)
  from channels_are_bounded [OF one_run this] show ?thesis by (simp add: one_buffer) (simp add: tick_def)
qed

text \<open>
  C26. Once its gate is open, or if it has none, a channel can always be drained: its goroutine
  alone, in at most two steps per event, handles everything that is waiting, in order.
\<close>

theorem open_channels_drain:
  assumes "druns (new_dispatcher w) tr d" "a < length (d_bufs d)" "bu_open (d_bufs d ! a)"
  shows "\<exists>tr' d'. druns d tr' d' \<and> (\<forall>x \<in> set tr'. of_goroutine a x) \<and>
    length tr' \<le> 2 * length (pending a d) \<and> handled a tr' = pending a d \<and> pending a d' = []"
  using drain_open [OF _ assms(2,3)] druns_sound [OF assms(1) wf_new] by blast

theorem open_channels_drain_witness:
  "\<exists>tr' d'. druns one_queued tr' d' \<and> length tr' \<le> 2 \<and> handled 0 tr' = [tick] \<and> pending 0 d' = []"
  using open_channels_drain [OF one_run, of 0] by (auto simp: one_buffer)

text \<open>
  While its gate is closed nothing of a gated channel is received or handled, and a gated
  handler without a channel makes its callers wait.
\<close>

theorem gates_hold_back:
  assumes "druns (new_dispatcher w) tr d" "ready \<notin> set (d_closed d)"
  shows "(\<forall>a < length (d_bufs d). bu_gate (d_bufs d ! a) = Some ready \<longrightarrow>
      receive a d = None \<and> handle a d = None \<and> pass_gate a d = None) \<and>
    (\<forall>e h. map_of (d_handlers d) (ev_Command e) = Some (WithGate ready h) \<longrightarrow> Dispatch e d = None)"
  using gated_waits [OF _ _ _ assms(2)] druns_sound [OF assms(1) wf_new] assms(2)
  by (auto simp: Dispatch_def)

theorem gates_hold_back_witness:
  "receive 0 (ready_dispatcher [Buffered 1, Gated 7]) = None \<and> Dispatch tick (ready_dispatcher [Gated 7]) = None"
proof -
  have r: "druns (new_dispatcher 0) [Registered ''TICK''] (ready_dispatcher opts)" for opts
    unfolding ready_dispatcher_def by (auto intro: dstep.register)
  show ?thesis
    using gates_hold_back [OF r [of "[Buffered 1, Gated 7]"], of 7] gates_hold_back [OF r [of "[Gated 7]"], of 7]
    by (simp add: run_evals)
qed

text \<open>
  The counters count: the events dropped for a command are the calls that were refused on its
  channels, the events processed those that were handled without a panic.
\<close>

theorem counters_count:
  assumes "druns (new_dispatcher w) tr d"
  shows "counter (d_dropped d) c = refused c tr \<and> counter (d_processed d) c = completed c tr"
  using druns_sound [OF assms wf_new] by (simp add: accounts_for_def new_dispatcher_def counter_def)

theorem counters_count_witness:
  "counter (d_dropped one_queued) ''TICK'' = 0 \<and> refused ''TICK'' one_trace = 0"
  using counters_count [OF one_run, of "''TICK''"] by (simp add: one_trace_def trace_defs)

text \<open>
  Whatever a handler does, a panic included, a call on a buffered command and the goroutine's
  handling of an event return: no panic reaches the caller, and the goroutine goes on.
\<close>

theorem buffered_calls_do_not_panic:
  assumes "druns (new_dispatcher w) tr d"
  shows "(\<forall>e a bl. map_of (d_handlers d) (ev_Command e) = Some (WithBuffer a bl) \<longrightarrow>
      (\<forall>r d'. Dispatch e d = Some (r, d') \<longrightarrow> (\<forall>p. r \<noteq> Panics p))) \<and>
    (\<forall>a e. a < length (d_bufs d) \<and> bu_current (d_bufs d ! a) = Some e \<longrightarrow>
      (\<exists>r d'. handle a d = Some (e, r, d') \<and> bu_current (d_bufs d' ! a) = None))"
proof -
  have wf: "wf_dispatcher d" using druns_sound [OF assms wf_new] by blast
  have "\<exists>r d'. handle a d = Some (e, r, d') \<and> bu_current (d_bufs d' ! a) = None"
    if ae: "a < length (d_bufs d)" "bu_current (d_bufs d ! a) = Some e" for a e
  proof -
    obtain r d1 where "handle a d = Some (e, r, update_buf a (\<lambda>b. b\<lparr>bu_current := None\<rparr>) d1)" "d_bufs d1 = d_bufs d"
      by (rule handle_Some [OF wf ae])
    then show ?thesis using ae by (simp add: update_buf_def)
  qed
  then show ?thesis by (auto simp: Dispatch_def Let_def queued_def split: if_splits)
qed

theorem buffered_calls_do_not_panic_witness:
  "\<forall>p. fst (the (Dispatch tick one_queued)) \<noteq> Panics p"
proof -
  have h: "map_of (d_handlers one_queued) (ev_Command tick) = Some (WithBuffer 0 False)"
    by (simp add: run_evals)
  then obtain r d' where "Dispatch tick one_queued = Some (r, d')"
    by (simp add: Dispatch_def Let_def one_buffer split: if_splits)
  with buffered_calls_do_not_panic [OF one_run] h show ?thesis by auto
qed

end
