(* ===== verification/Worker.thy ===== *)
theory Worker
  imports Dispatcher_Facts Cache Storage Parser_Entities Parser_Events
begin

text \<open>
  internal/worker: the handlers behind the recording commands (dispatch.go, worker.go). They parse
  the arguments, look entities up in the caches and call the storage backend, the parameter
  \<open>exec\<close>: what a call returns and leaves, for a backend state \<open>'b\<close>. \<open>pl\<close> is the platform the
  parser's float conversions run on, \<open>now\<close> the time it reads.
\<close>

type_synonym 'b backend_if = "backend_call \<Rightarrow> 'b \<Rightarrow> backend_result \<times> 'b"

record 'b manager =
  m_EntityCache :: entity_cache
  m_MarkerCache :: marker_cache
  m_backend :: 'b
  m_unknownHits :: "u16 list"

definition NewManager :: "entity_cache \<Rightarrow> marker_cache \<Rightarrow> 'b \<Rightarrow> 'b manager" where
  "NewManager ec mc b = \<lparr>m_EntityCache = ec, m_MarkerCache = mc, m_backend = b, m_unknownHits = []\<rparr>"

type_synonym 'b action_of = "'b manager \<Rightarrow> handler_result \<times> 'b manager"

definition ErrTooEarlyForStateAssociation :: go_err where
  "ErrTooEarlyForStateAssociation = Errorf ''too early for state association'' []"

definition fail :: "go_err \<Rightarrow> 'b action_of" where
  "fail e m = (Returns ANil (Some e), m)"

text \<open>\<open>obj, err := parse(e.Args); if err != nil { return nil, fmt.Errorf(msg, err) }; ...\<close>\<close>

fun parsed :: "string \<Rightarrow> 'a outcome \<Rightarrow> ('a \<Rightarrow> 'b action_of) \<Rightarrow> 'b action_of" where
  "parsed msg (Ok x) k m = k x m"
| "parsed msg (Err e) k m = fail (Errorf msg [ArgErr e]) m"
| "parsed msg (Panic p) k m = (Panics p, m)"

text \<open>A call of the backend whose error is wrapped, and one whose error is returned as it is.\<close>

fun result_error :: "backend_result \<Rightarrow> go_err option" where
  "result_error (Returned e) = e"
| "result_error (MarkerAdded i e) = e"

definition call :: "'b backend_if \<Rightarrow> backend_call \<Rightarrow> string \<Rightarrow> 'b action_of" where
  "call exec c msg m =
     (let (r, b) = exec c (m_backend m)
      in (Returns ANil (map_option (\<lambda>e. Errorf msg [ArgErr e]) (result_error r)), m\<lparr>m_backend := b\<rparr>))"

definition call_raw :: "'b backend_if \<Rightarrow> backend_call \<Rightarrow> 'b action_of" where
  "call_raw exec c m =
     (let (r, b) = exec c (m_backend m) in (Returns ANil (result_error r), m\<lparr>m_backend := b\<rparr>))"

definition cache :: "(entity_cache \<Rightarrow> entity_cache) \<Rightarrow> 'b manager \<Rightarrow> 'b manager" where
  "cache f m = m\<lparr>m_EntityCache := f (m_EntityCache m)\<rparr>"

section \<open>Entities\<close>

definition handleNewSoldier :: "'b backend_if \<Rightarrow> platform \<Rightarrow> gtime \<Rightarrow> event \<Rightarrow> 'b action_of" where
  "handleNewSoldier exec pl now e =
     parsed ''failed to log new soldier: %w'' (ParseSoldier pl now (ev_Args e))
       (\<lambda>obj m. call exec (CallAddSoldier obj) ''add soldier: %w'' (cache (AddSoldier obj) m))"

definition handleNewVehicle :: "'b backend_if \<Rightarrow> platform \<Rightarrow> gtime \<Rightarrow> event \<Rightarrow> 'b action_of" where
  "handleNewVehicle exec pl now e =
     parsed ''failed to log new vehicle: %w'' (ParseVehicle pl now (ev_Args e))
       (\<lambda>obj m. call exec (CallAddVehicle obj) ''add vehicle: %w'' (cache (AddVehicle obj) m))"

definition handleNewPlaced :: "'b backend_if \<Rightarrow> platform \<Rightarrow> gtime \<Rightarrow> event \<Rightarrow> 'b action_of" where
  "handleNewPlaced exec pl now e =
     parsed ''failed to parse new placed object: %w'' (ParsePlacedObject pl now (ev_Args e))
       (\<lambda>obj m. call exec (CallAddPlacedObject obj) ''add placed object: %w'' (cache (AddPlacedObject obj) m))"

definition handlePlacedEvent :: "'b backend_if \<Rightarrow> platform \<Rightarrow> gtime \<Rightarrow> event \<Rightarrow> 'b action_of" where
  "handlePlacedEvent exec pl now e =
     parsed ''failed to parse placed event: %w'' (ParsePlacedObjectEvent pl (ev_Args e))
       (\<lambda>obj m. case GetPlacedObject (poe_PlacedID obj) (m_EntityCache m) of
          None \<Rightarrow> fail (Errorf ''placed object %d not found in cache'' [ArgInt (uint (poe_PlacedID obj))]) m
        | Some _ \<Rightarrow> call exec (CallRecordPlacedObjectEvent obj) ''record placed event: %w'' m)"

text \<open>A state without group or side takes those of the cached soldier.\<close>

definition fill_state :: "soldier \<Rightarrow> soldier_state \<Rightarrow> soldier_state" where
  "fill_state soldier obj =
     (let obj = (if ss_GroupID obj = [] then obj\<lparr>ss_GroupID := s_GroupID soldier\<rparr> else obj)
      in if ss_Side obj = [] then obj\<lparr>ss_Side := s_Side soldier\<rparr> else obj)"

text \<open>A player takes a unit over: the cached soldier follows.\<close>

definition takeover :: "soldier_state \<Rightarrow> soldier \<Rightarrow> entity_cache \<Rightarrow> entity_cache" where
  "takeover obj soldier c =
     (if ss_IsPlayer obj \<and> (\<not> s_IsPlayer soldier \<or> (ss_UnitName obj \<noteq> [] \<and> s_UnitName soldier \<noteq> ss_UnitName obj)) then
        let soldier = soldier\<lparr>s_IsPlayer := True\<rparr>;
            soldier = (if ss_UnitName obj \<noteq> [] then soldier\<lparr>s_UnitName := ss_UnitName obj\<rparr> else soldier)
        in UpdateSoldier soldier c
      else c)"

definition handleSoldierState :: "'b backend_if \<Rightarrow> platform \<Rightarrow> gtime \<Rightarrow> event \<Rightarrow> 'b action_of" where
  "handleSoldierState exec pl now e =
     parsed ''failed to log soldier state: %w'' (ParseSoldierState pl now (ev_Args e))
       (\<lambda>obj m. case GetSoldier (ss_SoldierID obj) (m_EntityCache m) of
          None \<Rightarrow> fail ErrTooEarlyForStateAssociation m
        | Some soldier \<Rightarrow>
            let obj = fill_state soldier obj
            in call exec (CallRecordSoldierState obj) ''record soldier state: %w'' (cache (takeover obj soldier) m))"

definition handleVehicleState :: "'b backend_if \<Rightarrow> platform \<Rightarrow> gtime \<Rightarrow> event \<Rightarrow> 'b action_of" where
  "handleVehicleState exec pl now e =
     parsed ''failed to log vehicle state: %w'' (ParseVehicleState pl now (ev_Args e))
       (\<lambda>obj m. case GetVehicle (vs_VehicleID obj) (m_EntityCache m) of
          None \<Rightarrow> fail ErrTooEarlyForStateAssociation m
        | Some _ \<Rightarrow> call exec (CallRecordVehicleState obj) ''record vehicle state: %w'' m)"

definition handleSoldierDelete :: "'b backend_if \<Rightarrow> platform \<Rightarrow> gtime \<Rightarrow> event \<Rightarrow> 'b action_of" where
  "handleSoldierDelete exec pl now e =
     parsed ''failed to parse soldier delete: %w'' (ParseSoldierDelete pl (ev_Args e))
       (\<lambda>(eid, f). call_raw exec (CallDeleteSoldier eid f))"

definition handleVehicleDelete :: "'b backend_if \<Rightarrow> platform \<Rightarrow> gtime \<Rightarrow> event \<Rightarrow> 'b action_of" where
  "handleVehicleDelete exec pl now e =
     parsed ''failed to parse vehicle delete: %w'' (ParseVehicleDelete pl (ev_Args e))
       (\<lambda>(eid, f). call_raw exec (CallDeleteVehicle eid f))"

section \<open>Events\<close>

definition handleTimeState :: "'b backend_if \<Rightarrow> platform \<Rightarrow> gtime \<Rightarrow> event \<Rightarrow> 'b action_of" where
  "handleTimeState exec pl now e =
     parsed ''failed to log time state: %w'' (ParseTimeState pl now (ev_Args e))
       (\<lambda>obj. call exec (CallRecordTimeState obj) ''record time state: %w'')"

text \<open>Each hit goes to a soldier, else to a vehicle; a hit on an unknown entity is only logged.\<close>

definition hit_on :: "hit_part \<Rightarrow> u16 option \<Rightarrow> u16 option \<Rightarrow> projectile_hit" where
  "hit_on hp soldierID vehicleID =
     \<lparr>ph_CaptureFrame = hp_CaptureFrame hp, ph_Position = hp_Position hp, ph_SoldierID = soldierID,
      ph_VehicleID = vehicleID, ph_ComponentsHit = hp_ComponentsHit hp\<rparr>"

fun classifyHitParts :: "entity_cache \<Rightarrow> hit_part list \<Rightarrow> projectile_hit list \<times> u16 list" where
  "classifyHitParts c [] = ([], [])"
| "classifyHitParts c (hp # hps) =
     (let (hits, unknown) = classifyHitParts c hps; eid = hp_EntityID hp
      in if GetSoldier eid c \<noteq> None then (hit_on hp (Some eid) None # hits, unknown)
         else if GetVehicle eid c \<noteq> None then (hit_on hp None (Some eid) # hits, unknown)
         else (hits, eid # unknown))"

definition handleProjectileEvent :: "'b backend_if \<Rightarrow> platform \<Rightarrow> gtime \<Rightarrow> event \<Rightarrow> 'b action_of" where
  "handleProjectileEvent exec pl now e =
     parsed ''failed to log projectile event: %w'' (ParseProjectileEvent pl (ev_Args e))
       (\<lambda>p m. let (hits, unknown) = classifyHitParts (m_EntityCache m) (pp_HitParts p);
                  coreEvent = \<lparr>pe_CaptureFrame = pp_CaptureFrame p, pe_FirerObjectID = pp_FirerObjectID p,
                    pe_VehicleObjectID = pp_VehicleObjectID p, pe_WeaponDisplay = pp_WeaponDisplay p,
                    pe_MagazineDisplay = pp_MagazineDisplay p, pe_MuzzleDisplay = pp_MuzzleDisplay p,
                    pe_SimulationType = pp_SimulationType p, pe_MagazineIcon = pp_MagazineIcon p,
                    pe_Trajectory = pp_Trajectory p, pe_Hits = hits\<rparr>
              in call exec (CallRecordProjectileEvent coreEvent) ''record projectile event: %w''
                   (m\<lparr>m_unknownHits := m_unknownHits m @ unknown\<rparr>))"

definition classifyEntity :: "entity_cache \<Rightarrow> u16 \<Rightarrow> guint option \<times> guint option" where
  "classifyEntity c eid =
     (if GetSoldier eid c \<noteq> None then (Some (ucast eid), None)
      else if GetVehicle eid c \<noteq> None then (None, Some (ucast eid)) else (None, None))"

definition handleKillEvent :: "'b backend_if \<Rightarrow> platform \<Rightarrow> gtime \<Rightarrow> event \<Rightarrow> 'b action_of" where
  "handleKillEvent exec pl now e =
     parsed ''failed to log kill event: %w'' (ParseKillEvent pl now (ev_Args e))
       (\<lambda>p m. let (vs, vv) = classifyEntity (m_EntityCache m) (pk_VictimID p);
                  (ks, kv) = classifyEntity (m_EntityCache m) (pk_KillerID p);
                  coreEvent = \<lparr>ke_ID = 0, ke_Time = pk_Time p, ke_CaptureFrame = pk_CaptureFrame p,
                    ke_VictimSoldierID = vs, ke_VictimVehicleID = vv, ke_KillerSoldierID = ks,
                    ke_KillerVehicleID = kv, ke_WeaponVehicle = pk_WeaponVehicle p,
                    ke_WeaponName = pk_WeaponName p, ke_WeaponMagazine = pk_WeaponMagazine p,
                    ke_EventText = pk_EventText p, ke_Distance = pk_Distance p\<rparr>
              in call exec (CallRecordKillEvent coreEvent) ''record kill event: %w'' m)"

definition handleGeneralEvent :: "'b backend_if \<Rightarrow> platform \<Rightarrow> gtime \<Rightarrow> event \<Rightarrow> 'b action_of" where
  "handleGeneralEvent exec pl now e =
     parsed ''failed to log general event: %w'' (ParseGeneralEvent pl now (ev_Args e))
       (\<lambda>obj. call exec (CallRecordGeneralEvent obj) ''record general event: %w'')"

definition handleSectorEvent :: "'b backend_if \<Rightarrow> platform \<Rightarrow> gtime \<Rightarrow> event \<Rightarrow> 'b action_of" where
  "handleSectorEvent exec pl now e =
     parsed ''failed to parse sector event: %w'' (ParseSectorEvent pl now (ev_Args e))
       (\<lambda>obj. call exec (CallRecordSectorEvent obj) ''record sector event: %w'')"

definition handleEndMissionEvent :: "'b backend_if \<Rightarrow> platform \<Rightarrow> gtime \<Rightarrow> event \<Rightarrow> 'b action_of" where
  "handleEndMissionEvent exec pl now e =
     parsed ''failed to parse end mission event: %w'' (ParseEndMissionEvent pl now (ev_Args e))
       (\<lambda>obj. call exec (CallRecordEndMissionEvent obj) ''record end mission event: %w'')"

text \<open>The IDs of senders and sources are looked up by their low 16 bits and recorded whole.\<close>

definition no_soldier :: "string \<Rightarrow> guint \<Rightarrow> go_err" where
  "no_soldier msg eid = Errorf msg [ArgInt (uint eid)]"

definition sender_missing :: "entity_cache \<Rightarrow> guint option \<Rightarrow> guint option" where
  "sender_missing c sender = (case sender of
     None \<Rightarrow> None | Some eid \<Rightarrow> if GetSoldier (ucast eid) c = None then Some eid else None)"

definition handleChatEvent :: "'b backend_if \<Rightarrow> platform \<Rightarrow> gtime \<Rightarrow> event \<Rightarrow> 'b action_of" where
  "handleChatEvent exec pl now e =
     parsed ''failed to log chat event: %w'' (ParseChatEvent pl now (ev_Args e))
       (\<lambda>obj m. case sender_missing (m_EntityCache m) (ce_SoldierID obj) of
          Some eid \<Rightarrow> fail (no_soldier ''could not find soldier with ocap id %d for chat event'' eid) m
        | None \<Rightarrow> call exec (CallRecordChatEvent obj) ''record chat event: %w'' m)"

definition handleRadioEvent :: "'b backend_if \<Rightarrow> platform \<Rightarrow> gtime \<Rightarrow> event \<Rightarrow> 'b action_of" where
  "handleRadioEvent exec pl now e =
     parsed ''failed to log radio event: %w'' (ParseRadioEvent pl now (ev_Args e))
       (\<lambda>obj m. case sender_missing (m_EntityCache m) (re_SoldierID obj) of
          Some eid \<Rightarrow> fail (no_soldier ''could not find soldier with ocap id %d for radio event'' eid) m
        | None \<Rightarrow> call exec (CallRecordRadioEvent obj) ''record radio event: %w'' m)"

definition handleTelemetryEvent :: "'b backend_if \<Rightarrow> platform \<Rightarrow> gtime \<Rightarrow> event \<Rightarrow> 'b action_of" where
  "handleTelemetryEvent exec pl now e =
     parsed ''failed to parse telemetry event: %w'' (ParseTelemetryEvent pl now (ev_Args e))
       (\<lambda>obj. call exec (CallRecordTelemetryEvent obj) ''record telemetry event: %w'')"

definition source_missing :: "entity_cache \<Rightarrow> guint option \<Rightarrow> u16 option" where
  "source_missing c source = (case source of
     None \<Rightarrow> None
   | Some eid \<Rightarrow> let sourceID = ucast eid
       in if GetSoldier sourceID c = None \<and> GetVehicle sourceID c = None then Some sourceID else None)"

definition handleAce3DeathEvent :: "'b backend_if \<Rightarrow> platform \<Rightarrow> gtime \<Rightarrow> event \<Rightarrow> 'b action_of" where
  "handleAce3DeathEvent exec pl now e =
     parsed ''failed to log ace3 death event: %w'' (ParseAce3DeathEvent pl now (ev_Args e))
       (\<lambda>obj m.
          if GetSoldier (ucast (ad_SoldierID obj)) (m_EntityCache m) = None then
            fail (no_soldier ''could not find soldier with ocap id %d for ace3 death event'' (ad_SoldierID obj)) m
          else (case source_missing (m_EntityCache m) (ad_LastDamageSourceID obj) of
              Some sourceID \<Rightarrow> fail (Errorf ''could not find entity with ocap id %d for ace3 death last damage source''
                [ArgInt (uint sourceID)]) m
            | None \<Rightarrow> call exec (CallRecordAce3DeathEvent obj) ''record ace3 death event: %w'' m))"

definition handleAce3UnconsciousEvent :: "'b backend_if \<Rightarrow> platform \<Rightarrow> gtime \<Rightarrow> event \<Rightarrow> 'b action_of" where
  "handleAce3UnconsciousEvent exec pl now e =
     parsed ''failed to log ace3 unconscious event: %w'' (ParseAce3UnconsciousEvent pl (ev_Args e))
       (\<lambda>obj m.
          if GetSoldier (ucast (au_SoldierID obj)) (m_EntityCache m) = None then
            fail (no_soldier ''could not find soldier with ocap id %d for ace3 unconscious event'' (au_SoldierID obj)) m
          else call exec (CallRecordAce3UnconsciousEvent obj) ''record ace3 unconscious event: %w'' m)"

section \<open>Markers and focus\<close>

fun added_ID :: "backend_result \<Rightarrow> guint" where
  "added_ID (MarkerAdded i e) = i"
| "added_ID (Returned e) = 0"

definition handleMarkerCreate :: "'b backend_if \<Rightarrow> platform \<Rightarrow> gtime \<Rightarrow> event \<Rightarrow> 'b action_of" where
  "handleMarkerCreate exec pl now e =
     parsed ''failed to create marker: %w'' (ParseMarkerCreate pl now (ev_Args e))
       (\<lambda>mk m. let (r, b) = exec (CallAddMarker mk) (m_backend m); m = m\<lparr>m_backend := b\<rparr>
          in case result_error r of
               Some err \<Rightarrow> fail (Errorf ''add marker: %w'' [ArgErr err]) m
             | None \<Rightarrow> (Returns ANil None,
                  m\<lparr>m_MarkerCache := Set (mk_MarkerName mk) (added_ID r) (m_MarkerCache m)\<rparr>))"

definition move_state :: "guint \<Rightarrow> marker_move \<Rightarrow> marker_state" where
  "move_state markerID p =
     \<lparr>ms_ID = 0, ms_MarkerID = markerID, ms_Time = mm_Time p, ms_CaptureFrame = mm_CaptureFrame p,
      ms_Position = mm_Position p, ms_Direction = mm_Direction p, ms_Alpha = mm_Alpha p,
      ms_Text = mm_Text p, ms_Color = mm_Color p, ms_Size = mm_Size p, ms_MarkerType = mm_MarkerType p,
      ms_Brush = mm_Brush p, ms_Shape = mm_Shape p\<rparr>"

definition handleMarkerMove :: "'b backend_if \<Rightarrow> platform \<Rightarrow> gtime \<Rightarrow> event \<Rightarrow> 'b action_of" where
  "handleMarkerMove exec pl now e =
     parsed ''failed to log marker move: %w'' (ParseMarkerMove pl now (ev_Args e))
       (\<lambda>p m. case Get (mm_MarkerName p) (m_MarkerCache m) of
          None \<Rightarrow> fail (Errorf ''marker %q not found in cache'' [ArgStr (mm_MarkerName p)]) m
        | Some markerID \<Rightarrow>
            call exec (CallRecordMarkerState (move_state markerID p)) ''record marker state: %w'' m)"

definition handleMarkerDelete :: "'b backend_if \<Rightarrow> platform \<Rightarrow> gtime \<Rightarrow> event \<Rightarrow> 'b action_of" where
  "handleMarkerDelete exec pl now e =
     parsed ''failed to delete marker: %w'' (ParseMarkerDelete pl (ev_Args e))
       (\<lambda>dm. call exec (CallDeleteMarker dm) ''delete marker: %w'')"

definition handleFocusStart :: "'b backend_if \<Rightarrow> platform \<Rightarrow> gtime \<Rightarrow> event \<Rightarrow> 'b action_of" where
  "handleFocusStart exec pl now e =
     parsed ''failed to parse focus start: %w'' (ParseFocusStart pl (ev_Args e))
       (\<lambda>f. call_raw exec (CallSetFocusStart f))"

definition handleFocusEnd :: "'b backend_if \<Rightarrow> platform \<Rightarrow> gtime \<Rightarrow> event \<Rightarrow> 'b action_of" where
  "handleFocusEnd exec pl now e =
     parsed ''failed to parse focus end: %w'' (ParseFocusEnd pl (ev_Args e))
       (\<lambda>f. call_raw exec (CallSetFocusEnd f))"

section \<open>Registration\<close>

text \<open>\<open>clock e\<close> is the time read while the event \<open>e\<close> is handled.\<close>

definition worker_handlers ::
  "'b backend_if \<Rightarrow> platform \<Rightarrow> (event \<Rightarrow> gtime) \<Rightarrow>
     (string \<times> 'b manager handler \<times> register_option list) list" where
  "worker_handlers exec pl clock =
     map (\<lambda>(command, h, opts). (command, \<lambda>e. h exec pl (clock e) e, opts))
      [('':SOLDIER:CREATE:'', handleNewSoldier, [Logged]),
       ('':VEHICLE:CREATE:'', handleNewVehicle, [Logged]),
       ('':SOLDIER:STATE:'', handleSoldierState, [Buffered 10000, Logged]),
       ('':VEHICLE:STATE:'', handleVehicleState, [Buffered 10000, Logged]),
       ('':TIME:STATE:'', handleTimeState, [Buffered 100, Logged]),
       ('':EVENT:PROJECTILE:'', handleProjectileEvent, [Buffered 5000, Logged]),
       ('':EVENT:KILL:'', handleKillEvent, [Buffered 2000, Logged]),
       ('':EVENT:GENERAL:'', handleGeneralEvent, [Buffered 1000, Logged]),
       ('':EVENT:SECTOR:'', handleSectorEvent, [Buffered 1000, Logged]),
       ('':EVENT:ENDMISSION:'', handleEndMissionEvent, [Buffered 100, Logged]),
       ('':EVENT:CHAT:'', handleChatEvent, [Buffered 1000, Logged]),
       ('':EVENT:RADIO:'', handleRadioEvent, [Buffered 1000, Logged]),
       ('':TELEMETRY:FRAME:'', handleTelemetryEvent, [Buffered 100, Logged]),
       ('':ACE3:DEATH:'', handleAce3DeathEvent, [Buffered 1000, Logged]),
       ('':ACE3:UNCONSCIOUS:'', handleAce3UnconsciousEvent, [Buffered 1000, Logged]),
       ('':PLACED:CREATE:'', handleNewPlaced, [Logged]),
       ('':PLACED:EVENT:'', handlePlacedEvent, [Buffered 1000, Logged]),
       ('':SOLDIER:DELETE:'', handleSoldierDelete, [Buffered 500, Logged]),
       ('':VEHICLE:DELETE:'', handleVehicleDelete, [Buffered 500, Logged]),
       ('':MARKER:CREATE:'', handleMarkerCreate, [Logged]),
       ('':MARKER:STATE:'', handleMarkerMove, [Buffered 1000, Logged]),
       ('':MARKER:DELETE:'', handleMarkerDelete, [Buffered 500, Logged]),
       ('':MISSION:FOCUS_START:'', handleFocusStart, [Logged]),
       ('':MISSION:FOCUS_END:'', handleFocusEnd, [Logged])]"

definition RegisterHandlers ::
  "'b backend_if \<Rightarrow> platform \<Rightarrow> (event \<Rightarrow> gtime) \<Rightarrow> 'b manager dispatcher \<Rightarrow> 'b manager dispatcher" where
  "RegisterHandlers exec pl clock d =
     fold (\<lambda>(command, h, opts). Register command h opts) (worker_handlers exec pl clock) d"

end
