(* ===== verification/Worker_Facts.thy ===== *)
theory Worker_Facts
  imports Worker Memory_Facts
begin

text \<open>
  The worker over its backend. A backend that keeps an invariant in every call keeps it under
  every handler, and so under every run of the dispatcher the handlers are registered with. With the
  memory backend the caches and the backend agree on what is known, so that what a handler
  accepts is recorded and not dropped.
\<close>

section \<open>The contract of a backend\<close>

lemmas handler_defs =
  handleNewSoldier_def handleNewVehicle_def handleNewPlaced_def handlePlacedEvent_def
  handleSoldierState_def handleVehicleState_def handleSoldierDelete_def handleVehicleDelete_def
  handleTimeState_def handleProjectileEvent_def handleKillEvent_def handleGeneralEvent_def
  handleSectorEvent_def handleEndMissionEvent_def handleChatEvent_def handleRadioEvent_def
  handleTelemetryEvent_def handleAce3DeathEvent_def handleAce3UnconsciousEvent_def
  handleMarkerCreate_def handleMarkerMove_def handleMarkerDelete_def handleFocusStart_def handleFocusEnd_def

text \<open>Calls that start or end a recording; no handler makes them.\<close>

definition lifecycle :: "backend_call \<Rightarrow> bool" where
  "lifecycle c = (case c of CallStartMission m w \<Rightarrow> True | CallEndMission \<Rightarrow> True | CallInit \<Rightarrow> True | CallClose \<Rightarrow> True | _ \<Rightarrow> False)"

lemma lifecycle_simps [simp]:
  "\<not> lifecycle (CallAddSoldier s)" "\<not> lifecycle (CallAddVehicle v)" "\<not> lifecycle (CallAddMarker m)"
  "\<not> lifecycle (CallDeleteSoldier i f)" "\<not> lifecycle (CallDeleteVehicle i f)"
  "\<not> lifecycle (CallRecordSoldierState s1)" "\<not> lifecycle (CallRecordVehicleState s2)"
  "\<not> lifecycle (CallRecordMarkerState s3)" "\<not> lifecycle (CallDeleteMarker d)"
  "\<not> lifecycle (CallRecordProjectileEvent e2)" "\<not> lifecycle (CallRecordGeneralEvent e3)"
  "\<not> lifecycle (CallRecordSectorEvent e4)" "\<not> lifecycle (CallRecordEndMissionEvent e5)"
  "\<not> lifecycle (CallRecordKillEvent e7)" "\<not> lifecycle (CallRecordChatEvent e8)"
  "\<not> lifecycle (CallRecordRadioEvent e9)" "\<not> lifecycle (CallRecordTelemetryEvent e10)"
  "\<not> lifecycle (CallRecordTimeState e11)" "\<not> lifecycle (CallRecordAce3DeathEvent e12)"
  "\<not> lifecycle (CallRecordAce3UnconsciousEvent e13)" "\<not> lifecycle (CallAddPlacedObject p)"
  "\<not> lifecycle (CallRecordPlacedObjectEvent e14)" "\<not> lifecycle (CallSetFocusStart f)" "\<not> lifecycle (CallSetFocusEnd f)"
  "lifecycle (CallStartMission ms w)" "lifecycle CallEndMission" "lifecycle CallInit" "lifecycle CallClose"
  by (simp_all add: lifecycle_def)

text \<open>What all handlers of a list keep, registering them keeps.\<close>

lemma all_keep_Registers:
  assumes "\<forall>(c, h, opts) \<in> set hs. \<forall>e m. P m \<longrightarrow> P (snd (h e m))" "all_keep P d"
  shows "all_keep P (fold (\<lambda>(c, h, opts). Register c h opts) hs d) \<and>
    d_world (fold (\<lambda>(c, h, opts). Register c h opts) hs d) = d_world d"
  using assms
proof (induction hs arbitrary: d)
  case (Cons x hs)
  obtain c h opts where x: "x = (c, h, opts)" by (cases x)
  show ?case
    using Cons.IH [of "Register c h opts d"] Cons.prems all_keep_Register [of P d h c opts] by (simp add: x)
qed simp

locale backend_contract =
  fixes exec :: "backend_call \<Rightarrow> 'b \<Rightarrow> backend_result \<times> 'b"
    and inv :: "'b \<Rightarrow> bool"
  assumes exec_inv: "inv b \<Longrightarrow> \<not> lifecycle c \<Longrightarrow> inv (snd (exec c b))"
begin

definition safe :: "'b manager \<Rightarrow> bool" where
  "safe m = inv (m_backend m)"

lemma safe_parsed:
  "(\<And>x m. safe m \<Longrightarrow> safe (snd (k x m))) \<Longrightarrow> safe m \<Longrightarrow> safe (snd (parsed msg r k m))"
  by (cases r) (auto simp: fail_def)

lemma safe_call: "safe m \<Longrightarrow> \<not> lifecycle c \<Longrightarrow> safe (snd (call exec c msg m))"
  using exec_inv [of "m_backend m" c] by (auto simp: call_def safe_def split: prod.split)

lemma safe_call_raw: "safe m \<Longrightarrow> \<not> lifecycle c \<Longrightarrow> safe (snd (call_raw exec c m))"
  using exec_inv [of "m_backend m" c] by (auto simp: call_raw_def safe_def split: prod.split)

lemma safe_frame: "safe (cache f m) = safe m" "safe (m\<lparr>m_unknownHits := u\<rparr>) = safe m" "safe m \<Longrightarrow> safe (snd (fail e m))"
  by (simp_all add: safe_def cache_def fail_def)

lemma safe_marker_create: "safe m \<Longrightarrow> safe (snd (handleMarkerCreate exec pl now e m))"
  unfolding handleMarkerCreate_def
proof (erule safe_parsed [rotated])
  fix mk and m :: "'b manager" assume "safe m"
  then have "inv (snd (exec (CallAddMarker mk) (m_backend m)))" by (simp add: safe_def exec_inv)
  then show "safe (snd (let (r, b) = exec (CallAddMarker mk) (m_backend m); m = m\<lparr>m_backend := b\<rparr>
      in case result_error r of
           Some err \<Rightarrow> fail (Errorf ''add marker: %w'' [ArgErr err]) m
         | None \<Rightarrow> (Returns ANil None,
              m\<lparr>m_MarkerCache := Set (mk_MarkerName mk) (added_ID r) (m_MarkerCache m)\<rparr>)))"
    by (auto simp: safe_def fail_def Let_def split: prod.split option.split)
qed

lemma safe_handlers:
  assumes "(c, h, opts) \<in> set (worker_handlers exec pl clock)" "safe m"
  shows "safe (snd (h e m))"
  using assms
  by (auto simp: worker_handlers_def handler_defs(1-19,21-) safe_frame Let_def safe_marker_create
      intro!: safe_parsed safe_call safe_call_raw split: option.split prod.split)

text \<open>The invariant holds through every run of a dispatcher with the worker's handlers.\<close>

lemma all_keep_RegisterHandlers:
  assumes "all_keep safe d"
  shows "all_keep safe (RegisterHandlers exec pl clock d)"
    "d_world (RegisterHandlers exec pl clock d) = d_world d"
proof -
  have "\<forall>(c, h, opts) \<in> set (worker_handlers exec pl clock). \<forall>e m. safe m \<longrightarrow> safe (snd (h e m))"
    using safe_handlers by blast
  from all_keep_Registers [OF this assms]
  show "all_keep safe (RegisterHandlers exec pl clock d)"
    "d_world (RegisterHandlers exec pl clock d) = d_world d"
    unfolding RegisterHandlers_def by blast+
qed

lemma safe_run:
  assumes "druns (RegisterHandlers exec pl clock (new_dispatcher m)) tr d" "safe m" "\<forall>c. Registered c \<notin> set tr"
  shows "safe (d_world d)"
proof (rule druns_world [OF assms(1) _ _ assms(3)])
  have "all_keep safe (new_dispatcher m)" by (simp add: all_keep_def new_dispatcher_def)
  from all_keep_RegisterHandlers [OF this]
  show "all_keep safe (RegisterHandlers exec pl clock (new_dispatcher m))"
    "safe (d_world (RegisterHandlers exec pl clock (new_dispatcher m)))"
    using assms(2) by (auto simp: new_dispatcher_def)
qed

end

section \<open>The memory backend\<close>

text \<open>A call that does not return leaves the caller waiting; no call of the worker is one.\<close>

definition mem_if :: "export_env \<Rightarrow> backend backend_if" where
  "mem_if env c b = (case mem_exec env c b of Some r \<Rightarrow> r | None \<Rightarrow> (Returned None, b))"

lemma mem_exec_returns: "\<not> lifecycle c \<Longrightarrow> mem_exec env c b \<noteq> None"
  by (cases c) (auto simp: ok_def lifecycle_def split: prod.split)

interpretation memory: backend_contract "mem_if env" wf_backend for env
proof
  fix b c assume "wf_backend b" "\<not> lifecycle c"
  then show "wf_backend (snd (mem_if env c b))"
    using mem_exec_returns [of c env b] wf_exec [of env c b] by (auto simp: mem_if_def)
qed

section \<open>What the caches know, the backend knows\<close>

definition marker_id :: "backend \<Rightarrow> string \<Rightarrow> guint option" where
  "marker_id b n = map_option (\<lambda>a. mk_ID (mr_Marker (b_heap b ! a))) (map_of (b_markers b) n)"

record view =
  known_soldiers :: "u16 \<Rightarrow> bool"
  known_vehicles :: "u16 \<Rightarrow> bool"
  known_placed :: "u16 \<Rightarrow> bool"
  known_markers :: "string \<Rightarrow> guint option"

definition backend_view :: "backend \<Rightarrow> view" where
  "backend_view b = \<lparr>known_soldiers = \<lambda>k. find_soldier k b \<noteq> None, known_vehicles = \<lambda>k. find_vehicle k b \<noteq> None,
     known_placed = \<lambda>k. find_placed k b \<noteq> None, known_markers = marker_id b\<rparr>"

definition cache_view :: "'b manager \<Rightarrow> view" where
  "cache_view m = \<lparr>known_soldiers = \<lambda>k. GetSoldier k (m_EntityCache m) \<noteq> None,
     known_vehicles = \<lambda>k. GetVehicle k (m_EntityCache m) \<noteq> None,
     known_placed = \<lambda>k. GetPlacedObject k (m_EntityCache m) \<noteq> None,
     known_markers = \<lambda>n. Get n (m_MarkerCache m)\<rparr>"

text \<open>Calls that register nothing leave the view alone.\<close>

definition quiet :: "backend_call \<Rightarrow> bool" where
  "quiet c = (\<not> lifecycle c \<and> (case c of CallAddSoldier s \<Rightarrow> False | CallAddVehicle v \<Rightarrow> False
     | CallAddMarker m \<Rightarrow> False | CallAddPlacedObject p \<Rightarrow> False | _ \<Rightarrow> True))"

lemma marker_id_update:
  assumes "\<And>r. mk_ID (mr_Marker (f r)) = mk_ID (mr_Marker r)"
  shows "marker_id (update_marker a f b) = marker_id b"
proof (cases a)
  case (Some x)
  then show ?thesis
    using assms by (cases "x < length (b_heap b)")
      (auto simp: marker_id_def update_marker_def nth_list_update fun_eq_iff list_update_beyond
        intro!: map_option_cong)
qed (simp add: update_marker_def)

lemma focus_heap:
  "marker_id (snd (mem_SetFocusStart f b)) = marker_id b" "marker_id (snd (mem_SetFocusEnd f b)) = marker_id b"
  by (simp_all add: marker_id_def focus_frame fun_eq_iff)

lemma view_quiet:
  assumes "quiet c"
  shows "backend_view (snd (mem_if env c b)) = backend_view b"
proof -
  note finds = find_soldier_def find_vehicle_def find_placed_def
  have "marker_id (snd (mem_if env c b)) = marker_id b"
    using assms
    by (cases c; simp add: quiet_def mem_if_def ok_def mem_RecordMarkerState_def mem_DeleteMarker_def
        marker_id_update focus_heap case_prod_beta)
      (simp_all add: marker_id_def mem_defs fun_eq_iff)
  moreover have "(find_soldier k (snd (mem_if env c b)) = None) = (find_soldier k b = None)" for k
    using assms
    by (cases c; simp add: quiet_def mem_if_def ok_def case_prod_beta finds mem_defs focus_frame marker_frame map_simps)
  moreover have "(find_vehicle k (snd (mem_if env c b)) = None) = (find_vehicle k b = None)" for k
    using assms
    by (cases c; simp add: quiet_def mem_if_def ok_def case_prod_beta finds mem_defs focus_frame marker_frame map_simps)
  moreover have "(find_placed k (snd (mem_if env c b)) = None) = (find_placed k b = None)" for k
    using assms
    by (cases c; simp add: quiet_def mem_if_def ok_def case_prod_beta finds mem_defs focus_frame marker_frame map_simps)
  ultimately show ?thesis by (simp add: backend_view_def)
qed

text \<open>Registering something makes it known, and nothing else.\<close>

lemma view_adds:
  "backend_view (snd (mem_if env (CallAddSoldier s) b)) =
     (backend_view b)\<lparr>known_soldiers := (known_soldiers (backend_view b))(s_ID s := True)\<rparr>"
  "backend_view (snd (mem_if env (CallAddVehicle v) b)) =
     (backend_view b)\<lparr>known_vehicles := (known_vehicles (backend_view b))(v_ID v := True)\<rparr>"
  "backend_view (snd (mem_if env (CallAddPlacedObject p) b)) =
     (backend_view b)\<lparr>known_placed := (known_placed (backend_view b))(po_ID p := True)\<rparr>"
  by (auto simp: backend_view_def mem_if_def ok_def mem_defs find_soldier_def find_vehicle_def
      find_placed_def marker_id_def map_simps fun_eq_iff)

lemma view_AddMarker:
  assumes "wf_backend b" "mem_if env (CallAddMarker mk) b = (r, b')"
  shows "result_error r = None" "backend_view b' = (backend_view b)\<lparr>known_markers :=
     (known_markers (backend_view b))(mk_MarkerName mk \<mapsto> added_ID r)\<rparr>"
proof -
  have r: "r = MarkerAdded (fst (mem_AddMarker mk b)) None" "b' = snd (mem_AddMarker mk b)"
    using assms(2) by (simp_all add: mem_if_def case_prod_beta)
  then show "result_error r = None" by simp
  have "a < length (b_heap b)" if "map_of (b_markers b) n = Some a" for n a
    using assms(1) map_of_SomeD [OF that] by (auto simp: wf_backend_def wf_markers_def)
  then have "marker_id b' = (marker_id b)(mk_MarkerName mk \<mapsto> added_ID r)"
    by (auto simp: r marker_id_def mem_AddMarker_def Let_def map_simps nth_append fun_eq_iff intro!: map_option_cong)
  then show "backend_view b' = (backend_view b)\<lparr>known_markers :=
     (known_markers (backend_view b))(mk_MarkerName mk \<mapsto> added_ID r)\<rparr>"
    by (simp add: backend_view_def) (simp add: r mem_AddMarker_def Let_def find_soldier_def find_vehicle_def find_placed_def)
qed

section \<open>Handlers keep the caches and the backend in step\<close>

lemma wf_mem_if: "wf_backend b \<Longrightarrow> \<not> lifecycle c \<Longrightarrow> wf_backend (snd (mem_if env c b))"
  by (rule memory.exec_inv)

lemma quiet_not_lifecycle: "quiet c \<Longrightarrow> \<not> lifecycle c"
  by (simp add: quiet_def)

lemma quiet_simps [simp]:
  "quiet (CallDeleteSoldier i f)" "quiet (CallDeleteVehicle i f)"
  "quiet (CallRecordSoldierState s1)" "quiet (CallRecordVehicleState s2)"
  "quiet (CallRecordMarkerState s3)" "quiet (CallDeleteMarker d)"
  "quiet (CallRecordProjectileEvent e2)" "quiet (CallRecordGeneralEvent e3)"
  "quiet (CallRecordSectorEvent e4)" "quiet (CallRecordEndMissionEvent e5)"
  "quiet (CallRecordKillEvent e7)" "quiet (CallRecordChatEvent e8)"
  "quiet (CallRecordRadioEvent e9)" "quiet (CallRecordTelemetryEvent e10)"
  "quiet (CallRecordTimeState e11)" "quiet (CallRecordAce3DeathEvent e12)"
  "quiet (CallRecordAce3UnconsciousEvent e13)"
  "quiet (CallRecordPlacedObjectEvent e14)" "quiet (CallSetFocusStart f)" "quiet (CallSetFocusEnd f)"
  by (simp_all add: quiet_def)

lemma takeover_view:
  assumes g: "GetSoldier k (m_EntityCache m) = Some s" and ke: "cached_soldiers.keyed (m_EntityCache m)"
  shows "cached_soldiers.keyed (takeover obj s (m_EntityCache m))"
    "cache_view (cache (takeover obj s) m) = cache_view m"
proof -
  let ?c = "takeover obj s (m_EntityCache m)"
  have k: "s_ID s = k" using g ke by (auto simp: cached_soldiers.keyed_def)
  show "cached_soldiers.keyed ?c"
    using ke k by (auto simp: cached_soldiers.keyed_def takeover_def Let_def split: if_splits)
  have "GetVehicle j ?c = GetVehicle j (m_EntityCache m)" "GetPlacedObject j ?c = GetPlacedObject j (m_EntityCache m)" for j
    by (simp_all add: takeover_def Let_def)
  moreover have "(GetSoldier j ?c = None) = (GetSoldier j (m_EntityCache m) = None)" for j
    using g k by (auto simp: takeover_def Let_def)
  ultimately show "cache_view (cache (takeover obj s) m) = cache_view m" by (simp add: cache_def cache_view_def)
qed

text \<open>
  A relation between what the backend knows and what the caches know. Whatever the relation, if learning the
  same thing on both sides keeps it, every handler keeps it.
\<close>

locale view_relation =
  fixes R :: "view \<Rightarrow> view \<Rightarrow> bool"
  assumes soldiers_known: "R v w \<Longrightarrow>
      R (v\<lparr>known_soldiers := (known_soldiers v)(k := True)\<rparr>) (w\<lparr>known_soldiers := (known_soldiers w)(k := True)\<rparr>)"
    and vehicles_known: "R v w \<Longrightarrow>
      R (v\<lparr>known_vehicles := (known_vehicles v)(k := True)\<rparr>) (w\<lparr>known_vehicles := (known_vehicles w)(k := True)\<rparr>)"
    and placed_known: "R v w \<Longrightarrow>
      R (v\<lparr>known_placed := (known_placed v)(k := True)\<rparr>) (w\<lparr>known_placed := (known_placed w)(k := True)\<rparr>)"
    and markers_known: "R v w \<Longrightarrow>
      R (v\<lparr>known_markers := (known_markers v)(n \<mapsto> i)\<rparr>) (w\<lparr>known_markers := (known_markers w)(n \<mapsto> i)\<rparr>)"
begin

definition related :: "backend manager \<Rightarrow> bool" where
  "related m = (wf_backend (m_backend m) \<and> cached_soldiers.keyed (m_EntityCache m) \<and>
     R (backend_view (m_backend m)) (cache_view m))"

lemma related_parsed:
  "(\<And>x m. r = Ok x \<Longrightarrow> related m \<Longrightarrow> related (snd (k x m))) \<Longrightarrow> related m \<Longrightarrow> related (snd (parsed msg r k m))"
  by (cases r) (auto simp: fail_def)

lemma related_fail: "related m \<Longrightarrow> related (snd (fail e m))"
  by (simp add: fail_def)

lemma related_call:
  assumes "related m" "quiet c"
  shows "related (snd (call (mem_if env) c msg m))" "related (snd (call_raw (mem_if env) c m))"
  using assms view_quiet [OF assms(2), of env "m_backend m"]
    wf_mem_if [OF _ quiet_not_lifecycle [OF assms(2)], of "m_backend m" env]
  by (auto simp: related_def call_def call_raw_def cache_view_def case_prod_beta)

lemma related_register:
  assumes "related m"
  shows "related (snd (call (mem_if env) (CallAddSoldier s) msg (cache (AddSoldier s) m)))"
    "related (snd (call (mem_if env) (CallAddVehicle v) msg (cache (AddVehicle v) m)))"
    "related (snd (call (mem_if env) (CallAddPlacedObject p) msg (cache (AddPlacedObject p) m)))"
proof -
  have wf: "wf_backend (m_backend m)" and ke: "cached_soldiers.keyed (m_EntityCache m)"
    and v: "R (backend_view (m_backend m)) (cache_view m)"
    using assms by (simp_all add: related_def)
  have ke': "cached_soldiers.keyed (AddVehicle v (m_EntityCache m))"
    "cached_soldiers.keyed (AddPlacedObject p (m_EntityCache m))"
    using ke by (simp_all add: cached_soldiers.keyed_def)
  have views:
    "cache_view (snd (call (mem_if env) (CallAddSoldier s) msg (cache (AddSoldier s) m))) =
       (cache_view m)\<lparr>known_soldiers := (known_soldiers (cache_view m))(s_ID s := True)\<rparr>"
    "cache_view (snd (call (mem_if env) (CallAddVehicle v) msg (cache (AddVehicle v) m))) =
       (cache_view m)\<lparr>known_vehicles := (known_vehicles (cache_view m))(v_ID v := True)\<rparr>"
    "cache_view (snd (call (mem_if env) (CallAddPlacedObject p) msg (cache (AddPlacedObject p) m))) =
       (cache_view m)\<lparr>known_placed := (known_placed (cache_view m))(po_ID p := True)\<rparr>"
    by (simp_all add: call_def cache_def case_prod_beta) (simp_all add: cache_view_def fun_eq_iff)
  have backends: "m_backend (snd (call (mem_if env) c msg (cache f m))) = snd (mem_if env c (m_backend m))"
    "m_EntityCache (snd (call (mem_if env) c msg (cache f m))) = f (m_EntityCache m)" for c f
    by (simp_all add: call_def cache_def case_prod_beta)
  show "related (snd (call (mem_if env) (CallAddSoldier s) msg (cache (AddSoldier s) m)))"
    using cached_soldiers.keyed_add [OF ke] soldiers_known [OF v]
    unfolding related_def views backends view_adds by (simp add: wf_mem_if [OF wf])
  show "related (snd (call (mem_if env) (CallAddVehicle v) msg (cache (AddVehicle v) m)))"
    using ke' vehicles_known [OF v]
    unfolding related_def views backends view_adds by (simp add: wf_mem_if [OF wf])
  show "related (snd (call (mem_if env) (CallAddPlacedObject p) msg (cache (AddPlacedObject p) m)))"
    using ke' placed_known [OF v]
    unfolding related_def views backends view_adds by (simp add: wf_mem_if [OF wf])
qed

lemma related_takeover:
  assumes "related m" "GetSoldier k (m_EntityCache m) = Some s"
  shows "related (cache (takeover obj s) m)"
  using assms takeover_view [OF assms(2)] by (simp add: related_def) (simp add: cache_def)

lemma related_unknownHits: "related (m\<lparr>m_unknownHits := u\<rparr>) = related m"
  by (simp add: related_def cache_view_def)

lemma related_marker_create:
  assumes "related m"
  shows "related (snd (handleMarkerCreate (mem_if env) pl now e m))"
  unfolding handleMarkerCreate_def
proof (rule related_parsed [OF _ assms])
  fix mk and m :: "backend manager" assume c: "related m"
  obtain r b where x: "mem_if env (CallAddMarker mk) (m_backend m) = (r, b)" by fastforce
  have wf: "wf_backend (m_backend m)" and v: "R (backend_view (m_backend m)) (cache_view m)"
    using c by (simp_all add: related_def)
  have "wf_backend b" using wf_mem_if [OF wf, of "CallAddMarker mk" env] x by simp
  moreover note view_AddMarker [OF wf x]
  moreover have "cache_view (m\<lparr>m_backend := b, m_MarkerCache := Set (mk_MarkerName mk) i (m_MarkerCache m)\<rparr>) =
      (cache_view m)\<lparr>known_markers := (known_markers (cache_view m))(mk_MarkerName mk \<mapsto> i)\<rparr>" for i
    by (simp add: cache_view_def fun_eq_iff)
  ultimately show "related (snd (let (r, b) = mem_if env (CallAddMarker mk) (m_backend m); m = m\<lparr>m_backend := b\<rparr>
      in case result_error r of
           Some err \<Rightarrow> fail (Errorf ''add marker: %w'' [ArgErr err]) m
         | None \<Rightarrow> (Returns ANil None,
              m\<lparr>m_MarkerCache := Set (mk_MarkerName mk) (added_ID r) (m_MarkerCache m)\<rparr>)))"
    using c markers_known [OF v] by (simp add: x related_def)
qed

lemma related_soldier_state:
  assumes "related m"
  shows "related (snd (handleSoldierState (mem_if env) pl now e m))"
  unfolding handleSoldierState_def Let_def
  by (rule related_parsed [OF _ assms])
    (auto intro!: related_fail related_call related_takeover split: option.split)

lemma related_creates:
  assumes "related m"
  shows "related (snd (handleNewSoldier (mem_if env) pl now e m))"
    "related (snd (handleNewVehicle (mem_if env) pl now e m))"
    "related (snd (handleNewPlaced (mem_if env) pl now e m))"
  unfolding handleNewSoldier_def handleNewVehicle_def handleNewPlaced_def
  by (rule related_parsed [OF related_register(1) assms], assumption)
    (rule related_parsed [OF related_register(2) assms], assumption,
     rule related_parsed [OF related_register(3) assms], assumption)

lemma related_handlers:
  assumes "(c, h, opts) \<in> set (worker_handlers (mem_if env) pl clock)" "related m"
  shows "related (snd (h e m))"
  using assms
  by (auto simp: worker_handlers_def handler_defs(4,6-19,21-) Let_def related_unknownHits
      related_marker_create related_soldier_state related_creates
      intro!: related_parsed related_call related_fail split: option.split prod.split)

end

text \<open>Two relations: both know the same, and the caches know at least what the backend knows.\<close>

interpretation agree: view_relation "(=)"
  by unfold_locales simp_all

definition view_le :: "view \<Rightarrow> view \<Rightarrow> bool" where
  "view_le v w = ((\<forall>k. known_soldiers v k \<longrightarrow> known_soldiers w k) \<and> (\<forall>k. known_vehicles v k \<longrightarrow> known_vehicles w k) \<and>
     (\<forall>k. known_placed v k \<longrightarrow> known_placed w k) \<and> (\<forall>n i. known_markers v n = Some i \<longrightarrow> known_markers w n = Some i))"

interpretation covered: view_relation view_le
  by unfold_locales (auto simp: view_le_def)

definition coherent :: "backend manager \<Rightarrow> bool" where
  "coherent m = agree.related m"

lemmas coherent_unfold = coherent_def agree.related_def

lemma coherentD:
  assumes "coherent m"
  shows "wf_backend (m_backend m)" "cached_soldiers.keyed (m_EntityCache m)"
    "(find_soldier k (m_backend m) = None) = (GetSoldier k (m_EntityCache m) = None)"
    "(find_vehicle k (m_backend m) = None) = (GetVehicle k (m_EntityCache m) = None)"
    "(find_placed k (m_backend m) = None) = (GetPlacedObject k (m_EntityCache m) = None)"
    "marker_id (m_backend m) n = Get n (m_MarkerCache m)"
  using assms unfolding coherent_unfold backend_view_def cache_view_def by (auto simp: fun_eq_iff simp del: not_None_eq)

lemma coherent_start:
  "coherent (NewManager NewEntityCache NewMarkerCache (mem_StartMission ms w b))"
  unfolding coherent_unfold
  using wf_StartMission [of ms w b]
  by (simp add: NewManager_def cache_view_def backend_view_def cached_soldiers.keyed_def)
    (simp add: find_soldier_def find_vehicle_def find_placed_def marker_id_def
      mem_StartMission_def resetCollections_def fun_eq_iff)

lemma coherent_run:
  assumes "druns (RegisterHandlers (mem_if env) pl clock (new_dispatcher m)) tr d" "coherent m"
    "\<forall>c. Registered c \<notin> set tr"
  shows "coherent (d_world d)"
proof -
  have "\<forall>(c, h, opts) \<in> set (worker_handlers (mem_if env) pl clock). \<forall>e m. coherent m \<longrightarrow> coherent (snd (h e m))"
    using agree.related_handlers unfolding coherent_def by blast
  moreover have "all_keep coherent (new_dispatcher m)" by (simp add: all_keep_def new_dispatcher_def)
  ultimately have "all_keep coherent (RegisterHandlers (mem_if env) pl clock (new_dispatcher m))"
    "d_world (RegisterHandlers (mem_if env) pl clock (new_dispatcher m)) = d_world (new_dispatcher m)"
    unfolding RegisterHandlers_def by (blast dest: all_keep_Registers)+
  then show ?thesis using druns_world [OF assms(1) _ _ assms(3)] assms(2) by (simp add: new_dispatcher_def)
qed

section \<open>What a handler records\<close>

lemma soldier_state_recorded:
  assumes c: "coherent m" and p: "ParseSoldierState pl now (ev_Args e) = Ok st"
    and g: "GetSoldier (ss_SoldierID st) (m_EntityCache m) = Some s"
  obtains r m' where "handleSoldierState (mem_if env) pl now e m = (Returns ANil None, m')"
    "find_soldier (ss_SoldierID st) (m_backend m) = Some r"
    "find_soldier (ss_SoldierID st) (m_backend m') = Some (r\<lparr>sr_States := sr_States r @ [fill_state s st]\<rparr>)"
    "\<And>k. k \<noteq> ss_SoldierID st \<Longrightarrow> find_soldier k (m_backend m') = find_soldier k (m_backend m)"
proof -
  have "find_soldier (ss_SoldierID st) (m_backend m) \<noteq> None"
    using coherentD(3) [OF c] g by simp
  then obtain r where r: "find_soldier (ss_SoldierID st) (m_backend m) = Some r" by blast
  have fill: "ss_SoldierID (fill_state s st) = ss_SoldierID st" by (simp add: fill_state_def Let_def)
  have x: "handleSoldierState (mem_if env) pl now e m =
      (Returns ANil None, (cache (takeover (fill_state s st) s) m)\<lparr>m_backend := mem_RecordSoldierState (fill_state s st) (m_backend m)\<rparr>)"
    by (simp add: handleSoldierState_def p g call_def mem_if_def ok_def cache_def Let_def)
  show thesis
    by (rule that [OF x r]) (simp_all add: soldier_states.lookup_record fill r)
qed

lemma unknown_soldier_state:
  assumes "ParseSoldierState pl now (ev_Args e) = Ok st" "GetSoldier (ss_SoldierID st) (m_EntityCache m) = None"
  shows "handleSoldierState exec pl now e m = (Returns ANil (Some ErrTooEarlyForStateAssociation), m)"
  using assms by (simp add: handleSoldierState_def fail_def)

lemma marker_move_recorded:
  assumes c: "coherent m" and small: "length (b_heap (m_backend m)) < 2 ^ 64"
    and p: "ParseMarkerMove pl now (ev_Args e) = Ok mv" and g: "Get (mm_MarkerName mv) (m_MarkerCache m) = Some i"
    and h: "handleMarkerMove (mem_if env) pl now e m = (res, m')"
  shows "res = Returns ANil None" and "\<exists>r. map_of (exported_markers (m_backend m)) (mm_MarkerName mv) = Some r \<and>
    map_of (exported_markers (m_backend m')) (mm_MarkerName mv) = Some (r\<lparr>mr_States := mr_States r @ [move_state i mv]\<rparr>)"
proof -
  have h': "res = Returns ANil None" "m_backend m' = mem_RecordMarkerState (move_state i mv) (m_backend m)"
    using h by (auto simp: handleMarkerMove_def p g call_def mem_if_def ok_def)
  then show "res = Returns ANil None" by simp
  have em: "map_of (exported_markers c) n = map_option ((!) (b_heap c)) (map_of (b_markers c) n)" for c n
    by (simp add: exported_markers_def buildMissionDataUnlocked_def map_of_map)
  have "marker_id (m_backend m) (mm_MarkerName mv) = Some i"
    using coherentD(6) [OF c] g by simp
  then obtain r where r: "map_of (exported_markers (m_backend m)) (mm_MarkerName mv) = Some r" "mk_ID (mr_Marker r) = i"
    by (auto simp: marker_id_def em)
  have "wf_markers (m_backend m)" using c by (simp add: coherent_unfold wf_backend_def)
  have at: "map_of (map (\<lambda>(n, r). (n, f r)) xs) n = map_option f (map_of xs n)"
    for f :: "marker_record \<Rightarrow> marker_record" and xs and n :: string
    by (induction xs) auto
  from record_marker_state [OF \<open>wf_markers (m_backend m)\<close> small] r show
    "\<exists>r. map_of (exported_markers (m_backend m)) (mm_MarkerName mv) = Some r \<and>
      map_of (exported_markers (m_backend m')) (mm_MarkerName mv) = Some (r\<lparr>mr_States := mr_States r @ [move_state i mv]\<rparr>)"
    by (simp add: h' at) (simp add: move_state_def)
qed

lemma classifyHitParts_known:
  "ph \<in> set (fst (classifyHitParts c hps)) \<Longrightarrow>
     (\<exists>i. ph_SoldierID ph = Some i \<and> ph_VehicleID ph = None \<and> GetSoldier i c \<noteq> None) \<or>
     (\<exists>i. ph_SoldierID ph = None \<and> ph_VehicleID ph = Some i \<and> GetSoldier i c = None \<and> GetVehicle i c \<noteq> None)"
  by (induction hps) (auto simp: hit_on_def Let_def case_prod_beta split: if_splits)

lemma classifyHitParts_complete:
  "length (fst (classifyHitParts c hps)) + length (snd (classifyHitParts c hps)) = length hps"
  by (induction hps) (auto simp: Let_def case_prod_beta)

end
