(* ===== verification/Worker_Properties.thy ===== *)
theory Worker_Properties
  imports Worker_Facts Memory_Properties Parser_Properties
begin

text \<open>
  The properties of the worker together with the dispatcher that calls it and the memory backend
  it records in, each applied to a concrete recording.
\<close>

section \<open>A concrete recording\<close>

text \<open>One soldier and one marker have been created.\<close>

definition fresh_manager :: "backend manager" where
  "fresh_manager = NewManager NewEntityCache NewMarkerCache started"

definition manned :: "u16 \<Rightarrow> backend manager" where
  "manned i = snd (call (mem_if quiet_env) (CallAddSoldier (example_soldier i)) []
     (cache (AddSoldier (example_soldier i)) fresh_manager))"

definition marked :: "backend manager" where
  "marked = fresh_manager\<lparr>m_backend := snd (mem_AddMarker (example_marker ''base'') started),
     m_MarkerCache := Set ''base'' (fst (mem_AddMarker (example_marker ''base'') started)) NewMarkerCache\<rparr>"

lemma coherent_fresh: "coherent fresh_manager"
  unfolding fresh_manager_def started_def by (rule coherent_start)

lemma coherent_manned: "coherent (manned i)"
  unfolding manned_def coherent_def
  by (rule agree.related_register(1)) (rule coherent_fresh [unfolded coherent_def])

lemma coherent_marked: "coherent marked"
proof -
  have wf: "wf_backend started" by (rule wf_started)
  have x: "mem_if quiet_env (CallAddMarker (example_marker ''base'')) started =
      (MarkerAdded (fst (mem_AddMarker (example_marker ''base'') started)) None,
       snd (mem_AddMarker (example_marker ''base'') started))"
    by (simp add: mem_if_def case_prod_beta)
  have "wf_backend (snd (mem_AddMarker (example_marker ''base'') started))"
    using wf_mem_if [OF wf, of "CallAddMarker (example_marker ''base'')" quiet_env] by (simp add: x)
  moreover note view_AddMarker(2) [OF wf x]
  ultimately show ?thesis
    using coherent_fresh
    by (simp add: coherent_unfold marked_def fresh_manager_def NewManager_def)
      (simp add: cache_view_def backend_view_def fun_eq_iff example_marker_def)
qed

lemma manned_soldier: "GetSoldier i (m_EntityCache (manned i)) = Some (example_soldier i)"
  by (simp add: manned_def call_def mem_if_def ok_def cache_def fresh_manager_def NewManager_def example_soldier_def)

lemma marked_marker: "Get ''base'' (m_MarkerCache marked) = Some 1"
  by (simp add: marked_def mem_AddMarker_def Let_def backend_evals)

definition state_message :: event where
  "state_message = \<lparr>ev_Command = '':SOLDIER:STATE:'',
     ev_Args = state_args None 4 None 3 [(None, 0), (None, 0)] (example_state 3 4), ev_Timestamp = ZeroTime\<rparr>"

lemma parse_state_message:
  "\<exists>st. ParseSoldierState zero_platform ZeroTime (ev_Args state_message) = Ok st \<and> ss_SoldierID st = 3"
  using ParseSoldierState_roundtrip_aux [of 4 3 "[(None, 0), (None, 0)]" "example_state 3 4" zero_platform ZeroTime None None]
  by (simp add: state_message_def state_texts_def example_state_def coord_ok_def bare_ends_def)

definition move_message :: event where
  "move_message = \<lparr>ev_Command = '':MARKER:STATE:'',
     ev_Args = [sqf_quote ''base'', int_text None 7, ''['' @ pos_text [(None, 1), (None, 2)] @ '']''] @ replicate 8 [],
     ev_Timestamp = ZeroTime\<rparr>"

lemma parse_move_message:
  "\<exists>mv. ParseMarkerMove zero_platform ZeroTime (ev_Args move_message) = Ok mv \<and> mm_MarkerName mv = ''base''"
proof -
  let ?cs = "[(None, 1), (None, 2)]"
  have "\<forall>c \<in> set ?cs. coord_ok c" "2 \<le> length ?cs" by (simp_all add: coord_ok_def)
  note pos = fix_arg_pos_text [OF this(1)] strip_brackets_pos_text [OF this(1)] Position3DFromString_pos_text [OF this(2,1)]
  show ?thesis
    using pos by (simp add: ParseMarkerMove_def move_message_def fix_data_def fix_arg_quote bare_ends_def arg_texts idx_def
        eval_nat_numeral)
qed

section \<open>Properties\<close>


definition create_message :: event where
  "create_message = \<lparr>ev_Command = '':SOLDIER:CREATE:'', ev_Args = soldier_args None 1 None 3 (example_soldier 3),
     ev_Timestamp = ZeroTime\<rparr>"

lemma create_soldier:
  "handleNewSoldier (mem_if quiet_env) zero_platform now create_message m =
     (Returns ANil None, snd (handleNewSoldier (mem_if quiet_env) zero_platform now create_message m)) \<and>
   GetSoldier 3 (m_EntityCache (snd (handleNewSoldier (mem_if quiet_env) zero_platform now create_message m))) \<noteq> None"
  using ParseSoldier_roundtrip_aux [of 1 3 "example_soldier 3" zero_platform now None None]
  by (simp add: handleNewSoldier_def create_message_def soldier_texts_def example_soldier_def bare_ends_def
      call_def mem_if_def ok_def cache_def)


text \<open>
  A state of a soldier that is known to the worker is recorded: the call succeeds and the
  state, with group and side filled in, is appended to that soldier's states and to no other's.
\<close>

theorem known_soldier_state_recorded:
  assumes "coherent m" "ParseSoldierState pl now (ev_Args e) = Ok st"
    "GetSoldier (ss_SoldierID st) (m_EntityCache m) = Some s"
  shows "\<exists>r m'. handleSoldierState (mem_if env) pl now e m = (Returns ANil None, m') \<and>
    find_soldier (ss_SoldierID st) (m_backend m) = Some r \<and>
    find_soldier (ss_SoldierID st) (m_backend m') = Some (r\<lparr>sr_States := sr_States r @ [fill_state s st]\<rparr>) \<and>
    (\<forall>k. k \<noteq> ss_SoldierID st \<longrightarrow> find_soldier k (m_backend m') = find_soldier k (m_backend m))"
  using soldier_state_recorded [OF assms, of env] by metis

theorem known_soldier_state_recorded_witness:
  "\<exists>m'. handleSoldierState (mem_if quiet_env) zero_platform ZeroTime state_message (manned 3) = (Returns ANil None, m') \<and>
     find_soldier 3 (m_backend m') \<noteq> find_soldier 3 (m_backend (manned 3))"
proof -
  obtain st where st: "ParseSoldierState zero_platform ZeroTime (ev_Args state_message) = Ok st" "ss_SoldierID st = 3"
    using parse_state_message by blast
  with known_soldier_state_recorded [OF coherent_manned st(1), of 3 "example_soldier 3" quiet_env] manned_soldier
  obtain r m' where "handleSoldierState (mem_if quiet_env) zero_platform ZeroTime state_message (manned 3) = (Returns ANil None, m')"
    "find_soldier 3 (m_backend (manned 3)) = Some r"
    "find_soldier 3 (m_backend m') = Some (r\<lparr>sr_States := sr_States r @ [fill_state (example_soldier 3) st]\<rparr>)"
    by auto
  moreover have "r\<lparr>sr_States := sr_States r @ [fill_state (example_soldier 3) st]\<rparr> \<noteq> r"
    by (auto dest!: arg_cong [where f = sr_States])
  ultimately show ?thesis by simp
qed

text \<open>
  A state of a soldier or a vehicle that has not been created is refused with the error "too
  early for state association", whatever the backend, and changes nothing.
\<close>

theorem early_states_refused:
  "(ParseSoldierState pl now (ev_Args e) = Ok st \<and> GetSoldier (ss_SoldierID st) (m_EntityCache m) = None \<longrightarrow>
     handleSoldierState exec pl now e m = (Returns ANil (Some ErrTooEarlyForStateAssociation), m)) \<and>
   (ParseVehicleState pl now (ev_Args e) = Ok vs \<and> GetVehicle (vs_VehicleID vs) (m_EntityCache m) = None \<longrightarrow>
     handleVehicleState exec pl now e m = (Returns ANil (Some ErrTooEarlyForStateAssociation), m))"
  by (simp add: handleSoldierState_def handleVehicleState_def fail_def)

theorem early_states_refused_witness:
  "handleSoldierState (mem_if quiet_env) zero_platform ZeroTime state_message fresh_manager =
     (Returns ANil (Some ErrTooEarlyForStateAssociation), fresh_manager)"
proof -
  obtain st where "ParseSoldierState zero_platform ZeroTime (ev_Args state_message) = Ok st"
    using parse_state_message by blast
  moreover have "GetSoldier k (m_EntityCache fresh_manager) = None" for k
    by (simp add: fresh_manager_def NewManager_def)
  ultimately show ?thesis using early_states_refused [of zero_platform ZeroTime state_message] by blast
qed

text \<open>
  A move of a marker that was created is appended to the states of the marker the exports list
  under that name, also when markers of that name were created before.
\<close>

theorem known_marker_move_recorded:
  assumes "coherent m" "length (b_heap (m_backend m)) < 2 ^ 64"
    "ParseMarkerMove pl now (ev_Args e) = Ok mv" "Get (mm_MarkerName mv) (m_MarkerCache m) = Some i"
  shows "\<exists>m' r. handleMarkerMove (mem_if env) pl now e m = (Returns ANil None, m') \<and>
    map_of (exported_markers (m_backend m)) (mm_MarkerName mv) = Some r \<and>
    map_of (exported_markers (m_backend m')) (mm_MarkerName mv) = Some (r\<lparr>mr_States := mr_States r @ [move_state i mv]\<rparr>)"
  using marker_move_recorded [OF assms, of env] by (metis surj_pair)

theorem known_marker_move_recorded_witness:
  "\<exists>m' r. handleMarkerMove (mem_if quiet_env) zero_platform ZeroTime move_message marked = (Returns ANil None, m') \<and>
     map_of (exported_markers (m_backend m')) ''base'' = Some r \<and> mr_States r \<noteq> []"
proof -
  obtain mv where mv: "ParseMarkerMove zero_platform ZeroTime (ev_Args move_message) = Ok mv" "mm_MarkerName mv = ''base''"
    using parse_move_message by blast
  have "length (b_heap (m_backend marked)) < 2 ^ 64"
    by (simp add: marked_def mem_AddMarker_def Let_def backend_evals)
  from known_marker_move_recorded [OF coherent_marked this mv(1), of 1 quiet_env] show ?thesis
    by (auto simp: mv(2) marked_marker)
qed

text \<open>
  A projectile is recorded with each of its hits attributed to exactly one entity that exists,
  to a soldier if there is one with that ID and else to a vehicle; the other hits are reported as
  unknown, and none is lost.
\<close>

theorem projectile_hits_attributed:
  assumes "ParseProjectileEvent pl (ev_Args e) = Ok p" "handleProjectileEvent (mem_if env) pl now e m = (res, m')"
  shows "res = Returns ANil None \<and>
    (\<exists>ev unknown. b_projectileEvents (m_backend m') = b_projectileEvents (m_backend m) @ [ev] \<and>
      pe_FirerObjectID ev = pp_FirerObjectID p \<and> pe_Trajectory ev = pp_Trajectory p \<and>
      m_unknownHits m' = m_unknownHits m @ unknown \<and>
      length (pe_Hits ev) + length unknown = length (pp_HitParts p) \<and>
      (\<forall>h \<in> set (pe_Hits ev).
        (\<exists>i. ph_SoldierID h = Some i \<and> ph_VehicleID h = None \<and> GetSoldier i (m_EntityCache m) \<noteq> None) \<or>
        (\<exists>i. ph_SoldierID h = None \<and> ph_VehicleID h = Some i \<and> GetSoldier i (m_EntityCache m) = None \<and>
          GetVehicle i (m_EntityCache m) \<noteq> None)))"
  using assms(2) classifyHitParts_known [of _ "m_EntityCache m" "pp_HitParts p"]
    classifyHitParts_complete [of "m_EntityCache m" "pp_HitParts p"]
  by (auto simp: handleProjectileEvent_def assms(1) call_def mem_if_def ok_def mem_RecordProjectileEvent_def
      Let_def case_prod_beta)

definition shot_message :: event where
  "shot_message = \<lparr>ev_Command = '':EVENT:PROJECTILE:'',
     ev_Args = [''0'', [], ''0'', ''-1'', [], [], [], ''MX'', [], ''MX'', [], ''6.5'', [], [], ''[]'', [],
       ''[[0,[],'' @ sqf_quote ''0,0'' @ '',0]]'', ''shotBullet'', [], []],
     ev_Timestamp = ZeroTime\<rparr>"

lemma parse_shot_message:
  "case ParseProjectileEvent zero_platform (ev_Args shot_message) of
     Ok p \<Rightarrow> map hp_EntityID (pp_HitParts p) = [0] | _ \<Rightarrow> False"
  by code_simp

theorem projectile_hits_attributed_witness:
  "\<exists>m' ev. handleProjectileEvent (mem_if quiet_env) zero_platform ZeroTime shot_message (manned 0) = (Returns ANil None, m') \<and>
     b_projectileEvents (m_backend m') = [ev] \<and> length (pe_Hits ev) + length (m_unknownHits m') = 1"
proof -
  obtain p where p: "ParseProjectileEvent zero_platform (ev_Args shot_message) = Ok p" "map hp_EntityID (pp_HitParts p) = [0]"
    using parse_shot_message by (auto split: outcome.splits)
  have "length (pp_HitParts p) = 1" using arg_cong [OF p(2), of length] by simp
  moreover have "b_projectileEvents (m_backend (manned 0)) = []" "m_unknownHits (manned 0) = []"
    by (simp_all add: manned_def call_def mem_if_def ok_def cache_def fresh_manager_def NewManager_def backend_evals)
  ultimately show ?thesis
    using projectile_hits_attributed [OF p(1), of quiet_env ZeroTime "manned 0"]
    by (cases "handleProjectileEvent (mem_if quiet_env) zero_platform ZeroTime shot_message (manned 0)") auto
qed

end
