(* ===== verification/Json_Text.thy ===== *)
theory Json_Text
  imports GoJson
begin

text \<open>
  encoding/json the other way: the text of a value, as \<open>json.Marshal\<close> and \<open>json.Encoder\<close> write it. Numbers are the
  shortest decimals that \<open>ParseFloat\<close> reads back as the same float32 or float64, as package strconv finds them.
\<close>

section \<open>Strings\<close>

definition hex_digits :: "nat \<Rightarrow> nat \<Rightarrow> string" where
  "hex_digits k n = map (\<lambda>i. ''0123456789abcdef'' ! (n div 16 ^ i mod 16)) (rev [0 ..< k])"

definition escaped :: "(char \<times> string) list" where
  "escaped = [(dquote, [CHR 0x5C, dquote]), (CHR 0x5C, [CHR 0x5C, CHR 0x5C]), (CHR 0x08, CHR 0x5C # ''b''),
     (CHR 0x0C, CHR 0x5C # ''f''), (CHR 0x0A, CHR 0x5C # ''n''), (CHR 0x0D, CHR 0x5C # ''r''),
     (CHR 0x09, CHR 0x5C # ''t'')]"

text \<open>
  A string is valid UTF-8 afterwards, and the characters that HTML or JavaScript would read are written as
  escapes.
\<close>

definition json_escaped :: "char \<Rightarrow> string" where
  "json_escaped c = (case map_of escaped c of
     Some s \<Rightarrow> s
   | None \<Rightarrow> if byte c < 32 \<or> c \<in> {CHR ''<'', CHR ''>'', CHR ''&''}
       then CHR 0x5C # CHR ''u'' # hex_digits 4 (byte c) else [c])"

definition line_separators :: "string list" where
  "line_separators = [[CHR 0xE2, CHR 0x80, CHR 0xA8], [CHR 0xE2, CHR 0x80, CHR 0xA9]]"

function json_string :: "string \<Rightarrow> string" where
  "json_string s =
     (if s = [] then []
      else if byte (hd s) < 128 then json_escaped (hd s) @ json_string (tl s)
      else let n = utf8_len s in
        if n = 0 then CHR 0x5C # ''ufffd'' @ json_string (tl s)
        else if take n s \<in> set line_separators
          then CHR 0x5C # ''u202'' @ hex_digits 1 (byte (last (take n s)) mod 16) @ json_string (drop n s)
        else take n s @ json_string (drop n s))"
  by pat_completeness auto
termination
  by (relation "measure length") auto

declare json_string.simps [simp del]

section \<open>Numbers\<close>

text \<open>The exponent \<open>k\<close> with \<open>10 ^ k \<le> q < 10 ^ (k + 1)\<close>, for positive \<open>q\<close>.\<close>

function ndigits :: "int \<Rightarrow> int" where
  "ndigits n = (if n \<le> 0 then 0 else 1 + ndigits (n div 10))"
  by pat_completeness auto
termination
  by (relation "measure nat") auto

declare ndigits.simps [simp del]

definition ilog10 :: "rat \<Rightarrow> int" where
  "ilog10 q = (case quotient_of q of (a, b) \<Rightarrow>
     let k = ndigits a - ndigits b in if 10 powi k \<le> q then k else k - 1)"

text \<open>
  \<open>try_digits F q e\<close>: the decimals with exponent \<open>e\<close> next to \<open>q\<close>; one of them, if it is rounded back to \<open>q\<close>, and the closer
  one if both are, the even one if both are as close.
\<close>

definition reads_back :: "float_fmt \<Rightarrow> rat \<Rightarrow> int \<Rightarrow> int \<Rightarrow> bool" where
  "reads_back F q d e = (round_abs F False (of_int d * 10 powi e) = FNum q)"

definition try_digits :: "float_fmt \<Rightarrow> rat \<Rightarrow> int \<Rightarrow> int option" where
  "try_digits F q e =
     (let x = q / 10 powi e; d = \<lfloor>x\<rfloor>; down = reads_back F q d e; up = reads_back F q (d + 1) e
      in if of_int d = x then (if down then Some d else None)
         else if down \<and> up then Some (round_half_even x)
         else if down then Some d else if up then Some (d + 1) else None)"

text \<open>
  From the first digit on, one digit more at a time. A float64 or float32 is a multiple of \<open>2 ^ -1074\<close>, which has
  no more than 1074 digits after the point, so the last try succeeds.
\<close>

fun shortest :: "float_fmt \<Rightarrow> rat \<Rightarrow> nat \<Rightarrow> int \<Rightarrow> int \<times> int" where
  "shortest F q 0 e = (\<lfloor>q / 10 powi e\<rfloor>, e)"
| "shortest F q (Suc n) e = (case try_digits F q e of Some d \<Rightarrow> (d, e) | None \<Rightarrow> shortest F q n (e - 1))"

function strip_zeros :: "int \<Rightarrow> int \<Rightarrow> int \<times> int" where
  "strip_zeros d e = (if 0 < d \<and> d mod 10 = 0 then strip_zeros (d div 10) (e + 1) else (d, e))"
  by pat_completeness auto
termination
  by (relation "measure (\<lambda>(d, e). nat d)") auto

declare strip_zeros.simps [simp del]

text \<open>The digits, as a number, and the exponent of the last one.\<close>

definition float_digits :: "float_fmt \<Rightarrow> rat \<Rightarrow> int \<times> int" where
  "float_digits F q =
     (let e = ilog10 q; (d, e) = shortest F q (nat (e + 1074)) e in strip_zeros d e)"

text \<open>The formats \<open>'f'\<close> and \<open>'e'\<close> of \<open>strconv.AppendFloat\<close>; the encoder drops the zero before an exponent of one digit.\<close>

definition fixed_text :: "int \<Rightarrow> int \<Rightarrow> string" where
  "fixed_text d e =
     (let ds = format_nonneg d; p = int (length ds) + e
      in if 0 \<le> e then ds @ replicate (nat e) CHR ''0''
         else if p \<le> 0 then ''0.'' @ replicate (nat (- p)) CHR ''0'' @ ds
         else take (nat p) ds @ ''.'' @ drop (nat p) ds)"

definition exp_text :: "int \<Rightarrow> int \<Rightarrow> string" where
  "exp_text d e =
     (let ds = format_nonneg d; x = int (length ds) + e - 1
      in [hd ds] @ (if tl ds = [] then [] else ''.'' @ tl ds) @ ''e'' @ (if x < 0 then ''-'' else ''+'') @ format_nonneg \<bar>x\<bar>)"

definition abs_text :: "float_fmt \<Rightarrow> rat \<Rightarrow> string" where
  "abs_text F q =
     (if q = 0 then ''0''
      else let (d, e) = float_digits F q
        in if q < rat_of (round_abs F False (1 / 10 ^ 6)) \<or> rat_of (round_abs F False (10 ^ 21)) \<le> q then exp_text d e else fixed_text d e)"

definition float_text :: "float_fmt \<Rightarrow> f64 \<Rightarrow> string" where
  "float_text F x = (if neg_f64 x then ''-'' else []) @ abs_text F \<bar>rat_of x\<bar>"

section \<open>Values\<close>

text \<open>
  The keys of a map are sorted. A nil slice and an empty one are the same value of \<open>any\<close>; no handler returns a
  nil slice, and no row of an export holds one.
\<close>

definition json_key :: "string \<Rightarrow> string" where
  "json_key key = dquote # json_string key @ [dquote]"

definition array_text :: "string list \<Rightarrow> string" where
  "array_text vs = ''['' @ join '','' vs @ '']''"

definition object_text :: "(string \<times> string) list \<Rightarrow> string" where
  "object_text members = ''{'' @ join '','' (map (\<lambda>(k, v). json_key k @ '':'' @ v) members) @ ''}''"

fun json_text :: "any \<Rightarrow> string" where
  "json_text ANil = ''null''"
| "json_text (ABool b) = (if b then ''true'' else ''false'')"
| "json_text (AInt i) = format_int i"
| "json_text (AUint i) = format_int i"
| "json_text (AFloat x) = float_text binary64 x"
| "json_text (AFloat32 x) = float_text binary32 x"
| "json_text (AString s) = json_key s"
| "json_text (ASlice xs) = array_text (map json_text xs)"
| "json_text (AMap m) = object_text (sort_key fst (map (\<lambda>(k, x). (k, json_text x)) m))"

end
