(* ===== verification/A3_Interface.thy ===== *)
theory A3_Interface
  imports Dispatcher Export_Stream Json_Text Util
begin

text \<open>
  pkg/a3interface: the calls of the game and the answers it gets (rvextension.go), and the messages sent
  to it (extensioncallback.go). What the standard library prints where its own tables decide is the
  parameter \<open>texts\<close>: the details of an encoding/json error, the quoted form
  of text that is not ASCII, and the panic values that are not described by the model.
\<close>

section \<open>What fmt prints\<close>

record texts =
  tx_json :: "json_kind \<Rightarrow> string"
  tx_quote :: "string \<Rightarrow> string"
  tx_panic :: "panic \<Rightarrow> string"

text \<open>\<open>strconv.Quote\<close>.\<close>

definition ascii_quoted :: "char \<Rightarrow> string" where
  "ascii_quoted c = (case map_of ((CHR 0x07, CHR 0x5C # ''a'') # (CHR 0x0B, CHR 0x5C # ''v'') # escaped) c of
     Some s \<Rightarrow> s
   | None \<Rightarrow> if byte c < 32 \<or> byte c = 127 then CHR 0x5C # CHR ''x'' # hex_digits 2 (byte c) else [c])"

definition go_quote :: "texts \<Rightarrow> string \<Rightarrow> string" where
  "go_quote T s =
     (if \<forall>c \<in> set s. byte c < 128 then dquote # concat (map ascii_quoted s) @ [dquote] else tx_quote T s)"

fun panic_text :: "texts \<Rightarrow> panic \<Rightarrow> string" where
  "panic_text T (IndexOutOfRange i n) =
     ''runtime error: index out of range ['' @ format_int (int i) @ ''] with length '' @ format_int (int n)"
| "panic_text T NilDereference = ''runtime error: invalid memory address or nil pointer dereference''"
| "panic_text T p = tx_panic T p"

text \<open>
  \<open>fmt.Sprintf\<close> for the verbs the code uses, each of one letter: the arguments are functions from the verb
  to the text. No call has too many arguments.
\<close>

fun sprintf :: "string \<Rightarrow> (char \<Rightarrow> string) list \<Rightarrow> string" where
  "sprintf [] args = []"
| "sprintf (c # cs) args =
     (if c \<noteq> CHR ''%'' then c # sprintf cs args
      else case cs of
          [] \<Rightarrow> ''%!(NOVERB)''
        | v # cs \<Rightarrow> (case args of
              [] \<Rightarrow> ''%!'' @ [v] @ ''(MISSING)'' @ sprintf cs []
            | a # as \<Rightarrow> a v @ sprintf cs as))"

fun err_text :: "texts \<Rightarrow> go_err \<Rightarrow> string"
  and arg_text :: "texts \<Rightarrow> err_arg \<Rightarrow> char \<Rightarrow> string"
where
  "err_text T (Errorf f args) = sprintf f (map (arg_text T) args)"
| "err_text T (NumError fn s k) = ''strconv.'' @ fn @ '': parsing '' @ go_quote T s @
     (case k of ErrSyntax \<Rightarrow> '': invalid syntax'' | ErrRange \<Rightarrow> '': value out of range'')"
| "err_text T (JSONError k) = tx_json T k"
| "arg_text T (ArgStr s) v = (if v = CHR ''q'' then go_quote T s else s)"
| "arg_text T (ArgInt i) v = format_int i"
| "arg_text T (ArgErr e) v = err_text T e"
| "arg_text T (ArgPanic p) v = panic_text T p"

definition marshal :: "any \<Rightarrow> string outcome" where
  "marshal v = (if any_ok v then Ok (json_text v) else unsupported)"

section \<open>Answers\<close>

text \<open>The first parameter, the command, is not used.\<close>

definition formatDispatchResponse :: "texts \<Rightarrow> string \<Rightarrow> any \<Rightarrow> go_err option \<Rightarrow> string" where
  "formatDispatchResponse T command result err = (case err of
     Some e \<Rightarrow> ''['' @ [dquote] @ ''error'' @ [dquote] @ '', '' @ [dquote] @ err_text T e @ [dquote] @ '']''
   | None \<Rightarrow> (case result of
         ANil \<Rightarrow> ''['' @ [dquote] @ ''ok'' @ [dquote] @ '']''
       | AString v \<Rightarrow> ''['' @ [dquote] @ ''ok'' @ [dquote] @ '', '' @ [dquote] @ v @ [dquote] @ '']''
       | v \<Rightarrow> (case marshal v of
             Ok json \<Rightarrow> ''['' @ [dquote] @ ''ok'' @ [dquote] @ '', '' @ json @ '']''
           | Err e \<Rightarrow> ''['' @ [dquote] @ ''error'' @ [dquote] @ '', '' @ [dquote] @ ''failed to encode: ''
               @ err_text T e @ [dquote] @ '']''
           | Panic p \<Rightarrow> [])))"

text \<open>
  \<open>C.CString\<close> and \<open>strlen\<close>: the text ends at its first zero byte. What is copied into the game's buffer of
  \<open>outputsize\<close> bytes includes the final zero byte if there is room for it.
\<close>

definition c_string :: "string \<Rightarrow> string" where
  "c_string s = takeWhile (\<lambda>c. c \<noteq> CHR 0x00) s"

definition replyToSyncArmaCall :: "string \<Rightarrow> nat \<Rightarrow> string" where
  "replyToSyncArmaCall response outputsize =
     (let result = c_string response; size = length result + 1;
          size = (if size > outputsize then outputsize else size)
      in take size (result @ [CHR 0x00]))"

definition error_reply :: "string \<Rightarrow> string" where
  "error_reply text = ''['' @ [dquote] @ ''error'' @ [dquote] @ '', '' @ [dquote] @ text @ [dquote] @ '']''"

definition ok_reply :: "string \<Rightarrow> string" where
  "ok_reply text = ''['' @ [dquote] @ ''ok'' @ [dquote] @ '', '' @ [dquote] @ text @ [dquote] @ '']''"

definition recoverPanic :: "texts \<Rightarrow> string \<Rightarrow> panic \<Rightarrow> string" where
  "recoverPanic T funcName p = error_reply (''panic in '' @ funcName @ '': '' @ panic_text T p)"

section \<open>Calls\<close>

record 's config_struct =
  rvExtensionVersion :: string
  cfg_dispatcher :: "'s dispatcher option"

definition Init :: "'s config_struct \<Rightarrow> 's config_struct" where
  "Init c = c\<lparr>rvExtensionVersion := ''No version set''\<rparr>"

definition SetVersion :: "string \<Rightarrow> 's config_struct \<Rightarrow> 's config_struct" where
  "SetVersion version c = c\<lparr>rvExtensionVersion := version\<rparr>"

definition SetDispatcher :: "'s dispatcher \<Rightarrow> 's config_struct \<Rightarrow> 's config_struct" where
  "SetDispatcher d c = c\<lparr>cfg_dispatcher := Some d\<rparr>"

definition GetDispatcher :: "'s config_struct \<Rightarrow> 's dispatcher option" where
  "GetDispatcher c = cfg_dispatcher c"

definition RVExtensionVersion :: "'s config_struct \<Rightarrow> nat \<Rightarrow> string" where
  "RVExtensionVersion c outputsize = replyToSyncArmaCall (rvExtensionVersion c) outputsize"

text \<open>
  The answer to a call, and the dispatcher after it; \<open>None\<close> while the call waits, at a gate or on a full
  blocking channel. \<open>nanos\<close> is the clock, \<open>now\<close> the time of the event. The dispatcher pointer may be nil.
\<close>

definition answer :: "texts \<Rightarrow> string \<Rightarrow> string \<Rightarrow> event \<Rightarrow> 's dispatcher \<Rightarrow> (string \<times> 's dispatcher) option" where
  "answer T funcName command e d = (case Dispatch e d of
     None \<Rightarrow> None
   | Some (Panics p, d) \<Rightarrow> Some (recoverPanic T funcName p, d)
   | Some (Returns v err, d) \<Rightarrow> Some (formatDispatchResponse T command v err, d))"

definition RVExtension ::
  "texts \<Rightarrow> int \<Rightarrow> gtime \<Rightarrow> string \<Rightarrow> nat \<Rightarrow> 's dispatcher option \<Rightarrow> (string \<times> 's dispatcher option) option" where
  "RVExtension T nanos now input outputsize dispatcher =
     (let command = c_string input; commandSubstr = hd (split_char CHR ''|'' command);
          reply = (\<lambda>s. replyToSyncArmaCall s outputsize);
          no_handler = Some (reply (error_reply (''no handler registered for '' @ command)), dispatcher)
      in if command = '':SYS:TIMESTAMP:'' then Some (reply (ok_reply (format_int nanos)), dispatcher)
         else (case dispatcher of
             None \<Rightarrow> no_handler
           | Some d \<Rightarrow>
               let dispatchCommand =
                     (if \<not> HasHandler command d \<and> HasHandler commandSubstr d then commandSubstr else command)
               in if HasHandler dispatchCommand d then
                    map_option (\<lambda>(s, d). (reply s, Some d))
                      (answer T ''RVExtension'' dispatchCommand
                        \<lparr>ev_Command = dispatchCommand, ev_Args = [command], ev_Timestamp = now\<rparr> d)
                  else no_handler))"

text \<open>\<open>argv\<close> are the C strings of the array the game passes, \<open>argc\<close> of them.\<close>

definition parseArgsFromC :: "string list \<Rightarrow> string list" where
  "parseArgsFromC argv = map c_string argv"

definition RVExtensionArgs ::
  "texts \<Rightarrow> int \<Rightarrow> gtime \<Rightarrow> string \<Rightarrow> string list \<Rightarrow> nat \<Rightarrow> 's dispatcher option \<Rightarrow>
     (string \<times> 's dispatcher option) option" where
  "RVExtensionArgs T nanos now input argv outputsize dispatcher =
     (let command = c_string input; args = parseArgsFromC argv;
          reply = (\<lambda>s. replyToSyncArmaCall s outputsize);
          no_handler = Some (reply (error_reply (''no handler registered for '' @ command)), dispatcher)
      in if command = '':SYS:TIMESTAMP:'' then Some (reply (ok_reply (format_int nanos)), dispatcher)
         else (case dispatcher of
             None \<Rightarrow> no_handler
           | Some d \<Rightarrow>
               if HasHandler command d then
                 map_option (\<lambda>(s, d). (reply s, Some d))
                   (answer T ''RVExtensionArgs'' command
                     \<lparr>ev_Command = command, ev_Args = args, ev_Timestamp = now\<rparr> d)
               else no_handler))"

section \<open>Callbacks\<close>

definition escape_data :: "string \<Rightarrow> string" where
  "escape_data v =
     (let escapedData = replace_all [dquote] [dquote, dquote] v;
          escapedData = replace_all [CHR 0x27] [CHR 0x27, CHR 0x27] escapedData;
          escapedData = replace_all ''['' ''('' escapedData;
          escapedData = replace_all '']'' '')'' escapedData
      in dquote # escapedData @ [dquote])"

record callback =
  cb_name :: string
  cb_function :: string
  cb_data :: string

text \<open>
  What is known of the two places a callback can go to: whether the game has registered its function (the pointer is
  not null), and whether a test has installed its sink, which comes first.
\<close>

record callbacks =
  extensionCallbackFnc :: bool
  callbackSink :: bool

definition no_callbacks :: callbacks where
  "no_callbacks = \<lparr>extensionCallbackFnc = False, callbackSink = False\<rparr>"

definition SetCallbackSinkForTest :: "bool \<Rightarrow> callbacks \<Rightarrow> callbacks" where
  "SetCallbackSinkForTest sink S = S\<lparr>callbackSink := sink\<rparr>"

definition RVExtensionRegisterCallback :: "bool \<Rightarrow> callbacks \<Rightarrow> callbacks" where
  "RVExtensionRegisterCallback fnc S = S\<lparr>extensionCallbackFnc := fnc\<rparr>"

text \<open>A callback as the game's C function reads it; the sink gets the arguments, escaped in place.\<close>

datatype sent = ToGame callback | ToSink string string "string list"

definition runExtensionCallback :: "string \<Rightarrow> string \<Rightarrow> string \<Rightarrow> callback" where
  "runExtensionCallback name function data =
     \<lparr>cb_name = c_string name, cb_function = c_string function, cb_data = c_string data\<rparr>"

definition WriteArmaCallback :: "callbacks \<Rightarrow> string \<Rightarrow> string \<Rightarrow> string list \<Rightarrow> sent outcome" where
  "WriteArmaCallback S extensionName functionName data =
     (let data = map escape_data data; a3Message = ''['' @ join '','' data @ '']''
      in if callbackSink S then Ok (ToSink extensionName functionName data)
         else if extensionCallbackFnc S then Ok (ToGame (runExtensionCallback extensionName functionName a3Message))
         else Err (Errorf ''callback function not set'' []))"

end
