(* ===== verification/A3_Properties.thy ===== *)
theory A3_Properties
  imports A3_Interface Parser_Base
begin

text \<open>
  What the game can read of the answers and callbacks. SQF reads an array of strings in double quotes, in
  which a quote is doubled; \<open>sqf_array\<close> is that reader, the specification of both directions.
\<close>

section \<open>Reading an array of strings\<close>

fun sqf_string :: "string \<Rightarrow> (string \<times> string) option" where
  "sqf_string [] = None"
| "sqf_string (c # cs) =
     (if c \<noteq> dquote then map_option (\<lambda>(a, r). (c # a, r)) (sqf_string cs)
      else case cs of
          [] \<Rightarrow> Some ([], [])
        | d # ds \<Rightarrow> if d = dquote then map_option (\<lambda>(a, r). (dquote # a, r)) (sqf_string ds) else Some ([], cs))"

lemma sqf_string_shorter: "sqf_string s = Some (a, r) \<Longrightarrow> length r < length s"
  by (induction s arbitrary: a rule: sqf_string.induct)
    (force split: if_splits list.splits simp: less_Suc_eq)+

definition skip_spaces :: "string \<Rightarrow> string" where
  "skip_spaces s = dropWhile (\<lambda>c. c = CHR 0x20) s"

function sqf_items :: "string \<Rightarrow> string list option" where
  "sqf_items s = (case skip_spaces s of
     [] \<Rightarrow> None
   | c # cs \<Rightarrow> if c \<noteq> dquote then None
       else case sqf_string cs of
           None \<Rightarrow> None
         | Some (a, r) \<Rightarrow> (case r of
               [] \<Rightarrow> None
             | d # ds \<Rightarrow> if d = CHR '','' then map_option ((#) a) (sqf_items ds)
                        else if d = CHR '']'' \<and> ds = [] then Some [a] else None))"
  by pat_completeness auto
termination
proof (relation "measure length")
  fix s c cs x a r d ds
  assume "skip_spaces s = c # cs" "sqf_string cs = Some x" "(a, r) = x" "r = d # ds"
  then have "length ds < length cs" "length cs < length s"
    using sqf_string_shorter [of cs a r] length_dropWhile_le [of "\<lambda>c. c = CHR 0x20" s]
    by (auto simp: skip_spaces_def)
  then show "(ds, s) \<in> measure length" by simp
qed simp

declare sqf_items.simps [simp del]

definition sqf_array :: "string \<Rightarrow> string list option" where
  "sqf_array s = (case s of
     [] \<Rightarrow> None
   | c # cs \<Rightarrow> if c \<noteq> CHR ''['' then None else if cs = '']'' then Some [] else sqf_items cs)"

lemma sqf_string_escape: "r = [] \<or> hd r \<noteq> dquote \<Longrightarrow> sqf_string (sqf_escape s @ dquote # r) = Some (s, r)"
  by (induction s) (auto split: list.split)

lemma sqf_items_quoted:
  "skip_spaces s = sqf_quote a @ r \<Longrightarrow> r = [] \<or> hd r \<noteq> dquote \<Longrightarrow>
    sqf_items s = (case r of
        [] \<Rightarrow> None
      | d # ds \<Rightarrow> if d = CHR '','' then map_option ((#) a) (sqf_items ds)
                 else if d = CHR '']'' \<and> ds = [] then Some [a] else None)"
  by (subst sqf_items.simps) (simp add: sqf_quote_def sqf_string_escape)

lemma skip_quote: "skip_spaces (sqf_quote a @ r) = sqf_quote a @ r"
  by (simp add: skip_spaces_def sqf_quote_def)

lemma sqf_items_join:
  "xs \<noteq> [] \<Longrightarrow> sqf_items (join '','' (map sqf_quote xs) @ '']'') = Some xs"
proof (induction xs)
  case (Cons x xs)
  then show ?case by (cases xs) (simp_all add: sqf_items_quoted [OF skip_quote])
qed simp

lemma sqf_array_join: "sqf_array (''['' @ join '','' (map sqf_quote xs) @ '']'') = Some xs"
proof (cases xs)
  case (Cons x ys)
  have "join '','' (map sqf_quote xs) @ '']'' \<noteq> '']''"
    by (cases ys) (simp_all add: Cons sqf_quote_def)
  then show ?thesis using sqf_items_join [of xs] Cons by (simp add: sqf_array_def)
qed (simp add: sqf_array_def)

section \<open>Callbacks\<close>

text \<open>What becomes of an argument: apostrophes are doubled, brackets become parentheses.\<close>

definition clean_char :: "char \<Rightarrow> string" where
  "clean_char c = (if c = CHR 0x27 then [CHR 0x27, CHR 0x27]
     else if c = CHR ''['' then ''('' else if c = CHR '']'' then '')'' else [c])"

definition clean :: "string \<Rightarrow> string" where
  "clean v = concat (map clean_char v)"

lemma replace_char: "replace_all [c] new s = concat (map (\<lambda>x. if x = c then new else [x]) s)"
proof (induction s)
  case (Cons x s)
  then show ?case by (subst replace_all.simps) (auto simp: has_prefix_def)
qed simp

lemma escape_data_quote: "escape_data v = sqf_quote (clean v)"
  unfolding escape_data_def Let_def replace_char sqf_quote_def sqf_escape_def clean_def
  by (induction v) (simp_all add: clean_char_def)

lemma c_string_no_null: "CHR 0x00 \<notin> set s \<Longrightarrow> c_string s = s"
  by (auto simp: c_string_def takeWhile_eq_all_conv)

lemma set_join: "c \<in> set (join sep xs) \<Longrightarrow> c \<in> set sep \<or> (\<exists>x \<in> set xs. c \<in> set x)"
  by (induction sep xs rule: join.induct) auto

lemma null_clean: "CHR 0x00 \<in> set (sqf_quote (clean v)) \<Longrightarrow> CHR 0x00 \<in> set v"
  by (induction v) (auto simp: sqf_quote_def sqf_escape_def clean_def clean_char_def split: if_splits)

section \<open>Answers\<close>

lemma reply_quotes: "error_reply t = ''['' @ sqf_quote ''error'' @ '', '' @ [dquote] @ t @ [dquote] @ '']''"
  by (simp add: error_reply_def sqf_quote_def)

lemma format_error: "formatDispatchResponse T c v (Some e) = error_reply (err_text T e)"
  by (simp add: formatDispatchResponse_def error_reply_def)

lemma sqf_error_reply:
  "sqf_array (error_reply t) = map_option ((#) ''error'') (sqf_items (dquote # t @ [dquote] @ '']''))"
proof -
  have "skip_spaces (CHR 0x20 # s) = skip_spaces s" for s by (simp add: skip_spaces_def)
  then have "sqf_items (CHR 0x20 # s) = sqf_items s" for s by (simp add: sqf_items.simps [of "CHR 0x20 # s"] sqf_items.simps [of s])
  then show ?thesis
    by (simp add: sqf_array_def reply_quotes sqf_items_quoted [OF skip_quote])
qed

lemma sqf_error_reply_plain: "dquote \<notin> set t \<Longrightarrow> sqf_array (error_reply t) = Some [''error'', t]"
  using sqf_items_join [of "[t]"] by (simp add: sqf_error_reply sqf_quote_def sqf_escape_no_quote)

lemma sqf_string_prefix: "dquote \<notin> set p \<Longrightarrow> sqf_string (p @ s) = map_option (\<lambda>(a, r). (p @ a, r)) (sqf_string s)"
  by (induction p) (auto simp: option.map_comp comp_def split_def option.map_ident)

lemma ascii_quoted_head:
  "x \<noteq> CHR '','' \<Longrightarrow> x \<noteq> CHR '']'' \<Longrightarrow>
     \<exists>y ys. ascii_quoted x = y # ys \<and> y \<noteq> dquote \<and> y \<noteq> CHR '','' \<and> y \<noteq> CHR '']''"
  unfolding ascii_quoted_def escaped_def by simp

text \<open>The error of a parser for an argument that is no number.\<close>

definition unread_number :: "go_err \<Rightarrow> bool" where
  "unread_number e = (\<exists>p s k. e = Errorf (p @ ''%w'') [ArgErr (NumError ''ParseFloat'' s k)] \<and>
     CHR ''%'' \<notin> set p \<and> dquote \<notin> set p \<and> s \<noteq> [] \<and> (\<forall>c \<in> set s. byte c < 128) \<and>
     hd s \<noteq> CHR '','' \<and> hd s \<noteq> CHR '']'')"

section \<open>Properties\<close>

text \<open>
  C31. Once the game has registered its function, it reads back from a callback the arguments it was sent with, apart from what the code
  replaces: apostrophes are doubled and brackets become parentheses, so that an argument never ends the
  array. Arguments without these characters arrive as they are, quotes included. Before that there is an error.
\<close>

theorem callbacks_read_back:
  assumes "\<not> callbackSink S" "\<forall>v \<in> set data. CHR 0x00 \<notin> set v"
  shows "(\<exists>cb. WriteArmaCallback (RVExtensionRegisterCallback True S) name function data = Ok (ToGame cb) \<and>
      sqf_array (cb_data cb) = Some (map clean data)) \<and>
    (\<forall>v \<in> set data. set v \<inter> {CHR 0x27, CHR ''['', CHR '']''} = {} \<longrightarrow> clean v = v) \<and>
    WriteArmaCallback no_callbacks name function data = Err (Errorf ''callback function not set'' [])"
proof -
  have "escape_data = sqf_quote \<circ> clean" by (simp add: escape_data_quote fun_eq_iff)
  moreover have "CHR 0x00 \<notin> set (''['' @ join '','' (map sqf_quote (map clean data)) @ '']'')"
    using assms(2) by (auto dest!: set_join null_clean)
  moreover have "clean v = v" if "set v \<inter> {CHR 0x27, CHR ''['', CHR '']''} = {}" for v
    using that by (induction v) (auto simp: clean_def clean_char_def)
  ultimately show ?thesis
    using sqf_array_join [of "map clean data"] assms(1)
    by (auto simp: WriteArmaCallback_def RVExtensionRegisterCallback_def runExtensionCallback_def no_callbacks_def c_string_no_null)
qed

theorem callbacks_read_back_witness:
  "\<exists>cb. WriteArmaCallback (RVExtensionRegisterCallback True no_callbacks) ''ocap_recorder'' '':MISSION:SAVED:''
      [''ok'', ''a'' @ [dquote] @ ''b[1]''] = Ok (ToGame cb) \<and>
    sqf_array (cb_data cb) = Some [''ok'', ''a'' @ [dquote] @ ''b(1)'']"
  using callbacks_read_back [of no_callbacks "[''ok'', ''a'' @ [dquote] @ ''b[1]'']" "''ocap_recorder''" "'':MISSION:SAVED:''"]
  by (simp add: clean_def clean_char_def no_callbacks_def)

text \<open>
  C38. An answer never writes past the game's buffer. It ends with the zero byte if it fits; a longer one is cut
  off, without any zero byte.
\<close>

theorem answers_fit_the_buffer:
  assumes "RVExtensionArgs T nanos now input argv outputsize d = Some (out, d')
    \<or> RVExtension T nanos now input outputsize d = Some (out, d')"
  shows "length out \<le> outputsize \<and> (\<exists>response. CHR 0x00 \<notin> set response \<and>
    out = (if length response < outputsize then response @ [CHR 0x00] else take outputsize response))"
proof -
  obtain response where "out = replyToSyncArmaCall response outputsize"
    using assms
    by (auto simp: RVExtensionArgs_def RVExtension_def Let_def split: if_splits option.splits)
  moreover have "CHR 0x00 \<notin> set (c_string response)" by (auto simp: c_string_def dest: set_takeWhileD)
  ultimately show ?thesis
    by (auto simp: replyToSyncArmaCall_def Let_def not_less intro!: exI [of _ "c_string response"])
qed

definition plain_texts :: texts where
  "plain_texts = \<lparr>tx_json = \<lambda>_. ''json'', tx_quote = \<lambda>s. s, tx_panic = \<lambda>_. ''panic''\<rparr>"

theorem answers_fit_the_buffer_witness:
  "\<exists>out. RVExtensionArgs plain_texts 12 ZeroTime '':SYS:TIMESTAMP:'' [] 6 (None :: unit dispatcher option) = Some (out, None) \<and>
     length out \<le> 6 \<and> out = take 6 (ok_reply (format_int 12))"
proof -
  have "c_string '':SYS:TIMESTAMP:'' = '':SYS:TIMESTAMP:''" by (simp add: c_string_def)
  then have r: "RVExtensionArgs plain_texts 12 ZeroTime '':SYS:TIMESTAMP:'' [] 6 (None :: unit dispatcher option) =
      Some (replyToSyncArmaCall (ok_reply (format_int 12)) 6, None)"
    by (simp add: RVExtensionArgs_def)
  moreover have "replyToSyncArmaCall (ok_reply (format_int 12)) 6 = take 6 (ok_reply (format_int 12))"
    by code_simp
  ultimately show ?thesis using answers_fit_the_buffer [OF disjI1 [OF r]] by blast
qed



text \<open>
  The game reads an error answer as the array of "error" and the text if the text holds no quote. But the
  text is not escaped: the answer to a number that cannot be read, which quotes the argument, is no
  array the game can read, unless the argument is empty or begins like the end of an element.
\<close>

theorem error_answers:
  "(dquote \<notin> set (err_text T e) \<longrightarrow>
      sqf_array (formatDispatchResponse T c v (Some e)) = Some [''error'', err_text T e]) \<and>
   (unread_number e \<longrightarrow> sqf_array (formatDispatchResponse T c v (Some e)) = None)"
proof (intro conjI impI)
  assume "unread_number e"
  then obtain p x s k where e: "e = Errorf (p @ ''%w'') [ArgErr (NumError ''ParseFloat'' (x # s) k)]"
    "\<forall>y \<in> set (x # s). byte y < 128" "CHR ''%'' \<notin> set p" "dquote \<notin> set p" "x \<noteq> CHR '',''" "x \<noteq> CHR '']''"
    by (auto simp: unread_number_def neq_Nil_conv)
  have sp: "CHR ''%'' \<notin> set q \<Longrightarrow> sprintf (q @ ''%w'') [a] = q @ a (CHR ''w'')" for q a
    by (induction q) auto
  define q where "q = p @ ''strconv.ParseFloat: parsing ''"
  obtain z where z: "err_text T e = q @ dquote # ascii_quoted x @ z"
    using e by (simp add: sp go_quote_def q_def)
  obtain y ys where y: "ascii_quoted x = y # ys" "y \<noteq> dquote" "y \<noteq> CHR '',''" "y \<noteq> CHR '']''"
    using ascii_quoted_head [OF e(5,6)] by blast
  have "dquote \<notin> set q" using e(4) by (simp add: q_def)
  then have "sqf_string ((q @ dquote # y # ys @ z) @ [dquote] @ '']'') = Some (q, y # ys @ z @ [dquote] @ '']'')"
    using y(2) by (simp add: sqf_string_prefix)
  moreover have "skip_spaces (dquote # u) = dquote # u" for u by (simp add: skip_spaces_def)
  ultimately show "sqf_array (formatDispatchResponse T c v (Some e)) = None"
    using y by (subst format_error, subst sqf_error_reply, subst sqf_items.simps) (simp add: z)
qed (simp add: format_error sqf_error_reply_plain)

theorem error_answers_witness:
  "sqf_array (formatDispatchResponse plain_texts ''MARK'' ANil (Some (Errorf ''queue full: %s'' [ArgStr ''MARK'']))) =
     Some [''error'', ''queue full: MARK''] \<and>
   sqf_array (formatDispatchResponse plain_texts '':SOLDIER:CREATE:'' ANil
     (Some (Errorf ''error converting join frame to uint: %w'' [ArgErr (NumError ''ParseFloat'' ''abc'' ErrSyntax)]))) = None"
proof -
  have "err_text plain_texts (Errorf ''queue full: %s'' [ArgStr ''MARK'']) = ''queue full: MARK''" by simp
  moreover have "unread_number (Errorf ''error converting join frame to uint: %w''
      [ArgErr (NumError ''ParseFloat'' ''abc'' ErrSyntax)])"
    unfolding unread_number_def
    by (intro exI [of _ "''error converting join frame to uint: ''"] exI [of _ "''abc''"] exI [of _ ErrSyntax]) simp
  ultimately show ?thesis
    using error_answers [of plain_texts "Errorf ''queue full: %s'' [ArgStr ''MARK'']" "''MARK''" ANil]
      error_answers [of plain_texts "Errorf ''error converting join frame to uint: %w''
        [ArgErr (NumError ''ParseFloat'' ''abc'' ErrSyntax)]" "'':SOLDIER:CREATE:''" ANil]
    by simp
qed

end
