(* ===== verification/Mission_Save.thy ===== *)
theory Mission_Save
  imports Memory A3_Interface
begin

text \<open>
  cmd/ocap_recorder/mission_save.go: the save of a mission, which runs in a goroutine of its own while the game
  goes on calling. A worker is where it is in \<open>runMissionSaveWorker\<close>: between its calls of the backend other
  goroutines may call the backend too, so each of those calls is a step. The backend is any \<open>'b\<close>, given by
  \<open>backend_ops\<close>; the HTTP upload is the environment's answer. A call that does not return is \<open>None\<close>.
\<close>

datatype save_end = Ended | EndFailed go_err | EndPanicked panic

record 'b backend_ops =
  op_EndMission :: "'b \<Rightarrow> (save_end \<times> 'b) option"
  op_Uploadable :: "(('b \<Rightarrow> string) \<times> ('b \<Rightarrow> upload_metadata)) option"

text \<open>The variables of the worker that the report is made from.\<close>

record save_vars =
  sv_savedPath :: string
  sv_endErr :: "go_err option"
  sv_uploadErr :: "go_err option"
  sv_panicInfo :: string

definition no_vars :: save_vars where
  "no_vars = \<lparr>sv_savedPath = [], sv_endErr = None, sv_uploadErr = None, sv_panicInfo = []\<rparr>"

datatype save_pc =
    Ending bool
  | ReadingPath bool
  | ReadingMeta save_vars
  | Uploading save_vars upload_metadata
  | Reporting save_vars
  | Clearing

record save_state =
  sv_inFlight :: bool
  sv_workers :: "save_pc list"
  sv_sent :: "string list list"
  sv_uploads :: "(string \<times> upload_metadata) list"

definition new_save_state :: save_state where
  "new_save_state = \<lparr>sv_inFlight = False, sv_workers = [], sv_sent = [], sv_uploads = []\<rparr>"

section \<open>The handler\<close>

text \<open>
  \<open>present\<close>: a storage backend is configured; \<open>client\<close>: an API client is. The compare-and-swap is one step.
\<close>

definition triggerMissionSave :: "bool \<Rightarrow> bool \<Rightarrow> save_state \<Rightarrow> handler_result \<times> save_state" where
  "triggerMissionSave present client s =
     (if \<not> present then (Returns ANil (Some (Errorf ''no storage backend configured'' [])), s)
      else if sv_inFlight s then (Returns ANil (Some (Errorf ''save already in progress'' [])), s)
      else (queued, s\<lparr>sv_inFlight := True, sv_workers := sv_workers s @ [Ending client]\<rparr>))"

section \<open>The worker\<close>

definition report :: "texts \<Rightarrow> save_vars \<Rightarrow> string list" where
  "report T v =
     (if sv_panicInfo v \<noteq> [] then [''error'', sv_panicInfo v]
      else case sv_endErr v of
          Some e \<Rightarrow> [''error'', err_text T e]
        | None \<Rightarrow> (case sv_uploadErr v of
              Some e \<Rightarrow> [''partial'', sv_savedPath v, err_text T e]
            | None \<Rightarrow> [''ok'', sv_savedPath v]))"

text \<open>
  One step of a worker: where it is next, \<open>None\<close> when it is gone, and the backend. \<open>client\<close>: an API client is
  configured; \<open>up\<close> is what its upload returns.
\<close>

fun worker_step ::
  "'b backend_ops \<Rightarrow> texts \<Rightarrow> go_err option \<Rightarrow> save_pc \<Rightarrow> 'b \<Rightarrow> (save_pc option \<times> 'b) option" where
  "worker_step ops T up (Ending client) b = (case op_EndMission ops b of
     None \<Rightarrow> None
   | Some (EndPanicked p, b) \<Rightarrow>
       Some (Some (Reporting (no_vars\<lparr>sv_panicInfo := ''panic during mission save: '' @ panic_text T p\<rparr>)), b)
   | Some (EndFailed e, b) \<Rightarrow> Some (Some (Reporting (no_vars\<lparr>sv_endErr := Some e\<rparr>)), b)
   | Some (Ended, b) \<Rightarrow> Some (Some (if op_Uploadable ops \<noteq> None then ReadingPath client else Reporting no_vars), b))"
| "worker_step ops T up (ReadingPath client) b = (case op_Uploadable ops of
     None \<Rightarrow> Some (Some (Reporting no_vars), b)
   | Some (path, meta) \<Rightarrow>
       let v = no_vars\<lparr>sv_savedPath := path b\<rparr>
       in Some (Some (if client \<and> path b \<noteq> [] then ReadingMeta v else Reporting v), b))"
| "worker_step ops T up (ReadingMeta v) b = (case op_Uploadable ops of
     None \<Rightarrow> Some (Some (Reporting v), b)
   | Some (path, meta) \<Rightarrow> Some (Some (Uploading v (meta b)), b))"
| "worker_step ops T up (Uploading v meta) b = Some (Some (Reporting (v\<lparr>sv_uploadErr := up\<rparr>)), b)"
| "worker_step ops T up (Reporting v) b = Some (Some Clearing, b)"
| "worker_step ops T up Clearing b = Some (None, b)"

text \<open>The same step on the shared state: what the worker sends, uploads and clears.\<close>

definition save_effect :: "texts \<Rightarrow> save_pc \<Rightarrow> save_state \<Rightarrow> save_state" where
  "save_effect T pc s = (case pc of
     Uploading v meta \<Rightarrow> s\<lparr>sv_uploads := sv_uploads s @ [(sv_savedPath v, meta)]\<rparr>
   | Reporting v \<Rightarrow> s\<lparr>sv_sent := sv_sent s @ [report T v]\<rparr>
   | Clearing \<Rightarrow> s\<lparr>sv_inFlight := False\<rparr>
   | _ \<Rightarrow> s)"

definition runMissionSaveWorker ::
  "'b backend_ops \<Rightarrow> texts \<Rightarrow> go_err option \<Rightarrow> nat \<Rightarrow> save_state \<times> 'b \<Rightarrow> (save_state \<times> 'b) option" where
  "runMissionSaveWorker ops T up i sb = (case sb of (s, b) \<Rightarrow>
     if i < length (sv_workers s) then
       (case worker_step ops T up (sv_workers s ! i) b of
           None \<Rightarrow> None
         | Some (pc', b') \<Rightarrow>
             let s' = save_effect T (sv_workers s ! i) s
             in Some (s'\<lparr>sv_workers := (case pc' of
                     Some pc \<Rightarrow> (sv_workers s)[i := pc]
                   | None \<Rightarrow> take i (sv_workers s) @ drop (Suc i) (sv_workers s))\<rparr>, b'))
     else None)"

section \<open>Runs\<close>

text \<open>
  The handler is called, a worker goes on, or another goroutine calls the backend.
\<close>

datatype save_action =
    Triggered handler_result
  | Worked nat save_pc
  | Elsewhere

inductive sstep ::
  "'b backend_ops \<Rightarrow> texts \<Rightarrow> save_state \<times> 'b \<Rightarrow> save_action \<Rightarrow> save_state \<times> 'b \<Rightarrow> bool"
  for ops T where
  trigger: "triggerMissionSave present client s = (r, s') \<Longrightarrow> sstep ops T (s, b) (Triggered r) (s', b)"
| work: "runMissionSaveWorker ops T up i (s, b) = Some sb \<Longrightarrow>
    sstep ops T (s, b) (Worked i (sv_workers s ! i)) sb"
| elsewhere: "sstep ops T (s, b) Elsewhere (s, b')"

inductive sruns ::
  "'b backend_ops \<Rightarrow> texts \<Rightarrow> save_state \<times> 'b \<Rightarrow> save_action list \<Rightarrow> save_state \<times> 'b \<Rightarrow> bool"
  for ops T where
  stop: "sruns ops T sb [] sb"
| step: "sstep ops T sb x sb' \<Longrightarrow> sruns ops T sb' xs sb'' \<Longrightarrow> sruns ops T sb (x # xs) sb''"

inductive_simps sruns_simps [simp]: "sruns ops T sb [] sb'" "sruns ops T sb (x # xs) sb'"
inductive_cases sstep_worked: "sstep ops T sb (Worked i pc) sb'"
inductive_cases sstep_triggered: "sstep ops T sb (Triggered r) sb'"
inductive_cases sstep_elsewhere: "sstep ops T sb Elsewhere sb'"

text \<open>The calls that were accepted, and the reports sent.\<close>

definition accepted_saves :: "save_action list \<Rightarrow> nat" where
  "accepted_saves tr = length (filter (\<lambda>x. x = Triggered queued) tr)"

section \<open>The memory backend\<close>

text \<open>Its \<open>EndMission\<close> turns panics into errors itself.\<close>

definition memory_ops :: "export_env \<Rightarrow> backend backend_ops" where
  "memory_ops env = \<lparr>op_EndMission = \<lambda>b. map_option (\<lambda>(e, b). (case e of None \<Rightarrow> Ended | Some e \<Rightarrow> EndFailed e, b)) (mem_EndMission env b),
     op_Uploadable = Some (mem_GetExportedFilePath, mem_GetExportMetadata)\<rparr>"

section \<open>One save at a time\<close>

definition single_flight :: "save_state \<Rightarrow> bool" where
  "single_flight s = (length (sv_workers s) = (if sv_inFlight s then 1 else 0))"

text \<open>A worker that has not sent its report yet.\<close>

definition unreported :: "save_state \<Rightarrow> nat" where
  "unreported s = length (filter (\<lambda>pc. pc \<noteq> Clearing) (sv_workers s))"

lemma single_flight_new: "single_flight new_save_state" "unreported new_save_state = 0"
  by (simp_all add: single_flight_def new_save_state_def unreported_def)

lemma single_flight_cases:
  assumes "single_flight s"
  obtains "\<not> sv_inFlight s" "sv_workers s = []" | pc where "sv_inFlight s" "sv_workers s = [pc]"
  using assms by (auto simp: single_flight_def length_Suc_conv split: if_splits)

lemma trigger_single_flight:
  assumes "single_flight s" "triggerMissionSave present client s = (r, s')"
  shows "single_flight s' \<and> sv_sent s' = sv_sent s \<and>
    unreported s' = unreported s + (if r = queued then 1 else 0)"
  using assms by (auto simp: triggerMissionSave_def single_flight_def queued_def unreported_def split: if_splits)

lemma save_effect_frame [simp]: "sv_workers (save_effect T pc s) = sv_workers s"
  by (simp add: save_effect_def split: save_pc.split)

lemma worker_step_next:
  assumes "worker_step ops T up pc b = Some (pc', b')"
  shows "(pc' = None) = (pc = Clearing)" "(pc' = Some Clearing) = (\<exists>v. pc = Reporting v)"
  using assms
  by (cases pc; force simp: Let_def split: option.splits save_end.splits prod.splits if_splits)+

lemma worker_single_flight:
  assumes s: "single_flight s" and w: "runMissionSaveWorker ops T up i (s, b) = Some (s', b')"
  shows "single_flight s' \<and> length (sv_sent s') + unreported s' = length (sv_sent s) + unreported s"
  using s
proof (cases rule: single_flight_cases)
  case (2 pc)
  then obtain pc' where pc': "i = 0" "worker_step ops T up pc b = Some (pc', b')"
    "s' = (save_effect T pc s)\<lparr>sv_workers := (case pc' of Some q \<Rightarrow> [q] | None \<Rightarrow> [])\<rparr>"
    using w by (auto simp: runMissionSaveWorker_def Let_def split: option.splits if_splits)
  show ?thesis
    using worker_step_next [OF pc'(2)] 2 pc'(3)
    by (cases pc; cases pc') (auto simp: single_flight_def unreported_def save_effect_def)
qed (use w in \<open>simp add: runMissionSaveWorker_def\<close>)

lemma sruns_sound:
  assumes "sruns ops T sb tr sb'" "single_flight (fst sb)"
  shows "single_flight (fst sb') \<and>
    length (sv_sent (fst sb')) + unreported (fst sb') = length (sv_sent (fst sb)) + unreported (fst sb) + accepted_saves tr"
  using assms
proof (induction rule: sruns.induct)
  case (step sb x sb1 xs sb2)
  have "single_flight (fst sb1) \<and> length (sv_sent (fst sb1)) + unreported (fst sb1) =
      length (sv_sent (fst sb)) + unreported (fst sb) + accepted_saves [x]"
    using step.hyps(1) step.prems
  proof cases
    case (trigger present client s r s' b)
    then show ?thesis using trigger_single_flight [of s present client r s'] step.prems by (simp add: accepted_saves_def)
  next
    case (work up i s b)
    then show ?thesis
      using worker_single_flight [of s ops T up i b "fst sb1" "snd sb1"] step.prems
      by (simp add: accepted_saves_def)
  qed (use step.prems in \<open>simp add: accepted_saves_def\<close>)
  then show ?case using step.IH by (simp add: accepted_saves_def)
qed (simp add: accepted_saves_def)

section \<open>The worker finishes\<close>

definition by_worker :: "save_action \<Rightarrow> bool" where
  "by_worker x = (case x of Worked i pc \<Rightarrow> True | _ \<Rightarrow> False)"

text \<open>How many steps a worker has left.\<close>

fun steps_left :: "save_pc \<Rightarrow> nat" where
  "steps_left (Ending c) = 6"
| "steps_left (ReadingPath c) = 5"
| "steps_left (ReadingMeta v) = 4"
| "steps_left (Uploading v m) = 3"
| "steps_left (Reporting v) = 2"
| "steps_left Clearing = 1"

lemma steps_left_pos [simp]: "0 < steps_left pc"
  by (cases pc) simp_all

lemma worker_step_returns:
  "(\<exists>c. pc = Ending c \<Longrightarrow> op_EndMission ops b \<noteq> None) \<Longrightarrow> worker_step ops T up pc b \<noteq> None"
  by (cases pc) (auto simp: Let_def split: option.split save_end.split prod.split)

lemma worker_step_left:
  "worker_step ops T up pc b = Some (Some pc', b') \<Longrightarrow> steps_left pc' < steps_left pc \<and> (\<forall>c. pc' \<noteq> Ending c)"
  by (cases pc) (auto simp: Let_def split: option.splits save_end.splits prod.splits if_splits)

lemma step_alone:
  assumes "sv_workers s = [pc]" "worker_step ops T up pc b = Some (pc', b')"
  shows "sstep ops T (s, b) (Worked 0 pc)
    ((save_effect T pc s)\<lparr>sv_workers := (case pc' of Some q \<Rightarrow> [q] | None \<Rightarrow> [])\<rparr>, b')"
  using sstep.work [of ops T up 0 s b] assms
  by (simp add: runMissionSaveWorker_def Let_def split: option.splits)

lemma worker_finishes:
  assumes "single_flight s" "sv_workers s = [pc]" "\<exists>c. pc = Ending c \<Longrightarrow> op_EndMission ops b \<noteq> None"
  shows "\<exists>tr s' b'. sruns ops T (s, b) tr (s', b') \<and> (\<forall>x \<in> set tr. by_worker x) \<and>
    length tr \<le> steps_left pc \<and> sv_workers s' = []"
  using assms
proof (induction "steps_left pc" arbitrary: pc s b rule: less_induct)
  case less
  have "worker_step ops T None pc b \<noteq> None"
    by (rule worker_step_returns) (rule less.prems(3))
  then obtain pc' b1 where w: "worker_step ops T None pc b = Some (pc', b1)" by auto
  let ?s1 = "(save_effect T pc s)\<lparr>sv_workers := (case pc' of Some q \<Rightarrow> [q] | None \<Rightarrow> [])\<rparr>"
  have st: "sstep ops T (s, b) (Worked 0 pc) (?s1, b1)" by (rule step_alone [OF less.prems(2) w])
  show ?case
  proof (cases pc')
    case None
    then show ?thesis
      using st by (intro exI [of _ "[Worked 0 pc]"] exI [of _ ?s1] exI [of _ b1])
        (auto simp: by_worker_def Suc_le_eq)
  next
    case (Some q)
    have q: "steps_left q < steps_left pc" "\<forall>c. q \<noteq> Ending c" by (rule worker_step_left [OF w [unfolded Some], THEN conjunct1], rule worker_step_left [OF w [unfolded Some], THEN conjunct2])
    have "single_flight ?s1"
      using less.prems(1,2) Some worker_step_next(1) [OF w] by (cases pc) (auto simp: single_flight_def save_effect_def)
    then obtain tr s' b' where "sruns ops T (?s1, b1) tr (s', b')" "\<forall>x \<in> set tr. by_worker x"
      "length tr \<le> steps_left q" "sv_workers s' = []"
      using less.hyps [OF q(1), of ?s1 b1] q(2) Some by auto
    with st q(1) show ?thesis
      by (intro exI [of _ "Worked 0 pc # tr"] exI [of _ s'] exI [of _ b']) (auto simp: by_worker_def)
  qed
qed

text \<open>A backend whose end of a mission does not return keeps the worker, and the flag, for ever.\<close>

lemma worker_stuck: "op_EndMission ops b = None \<Longrightarrow> sv_workers s = [Ending c] \<Longrightarrow>
    runMissionSaveWorker ops T up i (s, b) = None"
  by (simp add: runMissionSaveWorker_def)

end
