(* ===== verification/Lifecycle.thy ===== *)
theory Lifecycle
  imports Worker_Facts Parser_Mission Mission_Save
begin

text \<open>
  cmd/ocap_recorder: the global state of the library, the commands that are there from the start (main.go) and
  the setting up of the storage (storage.go). A goroutine that a handler starts is kept in
  \<open>x_spawned\<close> until it runs. \<open>ext_env\<close> holds what is fixed when the library is loaded: build variables,
  paths, configuration, and the environment of the parser and the export. What \<open>init\<close> does with files and
  logging is in \<open>Startup\<close>. The worker handlers of a storage that is set up again while buffers of the first are
  still read would share nothing with it; the model has one storage.
\<close>

record storage_config =
  sc_Type :: string
  sc_Memory :: memory_config

record ext_env =
  xe_BuildVersion :: string
  xe_BuildCommit :: string
  xe_BuildDate :: string
  xe_ArmaDir :: string
  xe_ModulePath :: string
  xe_OcapLogFilePath :: string
  xe_defaultTag :: string
  xe_storage :: storage_config
  xe_serverUrl :: string
  xe_storageReady :: nat
  xe_platform :: platform
  xe_clock :: "event \<Rightarrow> gtime"
  xe_export :: export_env
  xe_texts :: texts

datatype goroutine = GoInitExtension | GoInitStorage | GoInitAPIClient

record ext =
  x_manager :: "backend manager"
  x_storageBackend :: bool
  x_parserService :: bool
  x_addonVersion :: string
  x_apiClient :: bool
  x_save :: save_state
  x_callbacks :: "(string \<times> string list) list"
  x_spawned :: "goroutine list"

text \<open>The backend of the manager is read only once \<open>x_storageBackend\<close> says that there is one.\<close>

definition new_ext :: "ext_env \<Rightarrow> ext" where
  "new_ext E = \<lparr>x_manager = NewManager NewEntityCache NewMarkerCache (mem_New (sc_Memory (xe_storage E))),
     x_storageBackend = False, x_parserService = True, x_addonVersion = ''unknown'', x_apiClient = False,
     x_save = new_save_state, x_callbacks = [], x_spawned = [GoInitAPIClient]\<rparr>"

definition writeCallback :: "string \<Rightarrow> string list \<Rightarrow> ext \<Rightarrow> ext" where
  "writeCallback function data x = x\<lparr>x_callbacks := x_callbacks x @ [(function, data)]\<rparr>"

definition spawn :: "goroutine \<Rightarrow> ext \<Rightarrow> ext" where
  "spawn g x = x\<lparr>x_spawned := x_spawned x @ [g]\<rparr>"

section \<open>Handlers\<close>

text \<open>The mission as the backend gets it.\<close>

definition complete_mission :: "ext_env \<Rightarrow> ext \<Rightarrow> mission \<Rightarrow> mission" where
  "complete_mission E x m =
     (let m = m\<lparr>mi_AddonVersion := x_addonVersion x, mi_ExtensionVersion := xe_BuildVersion E\<rparr>
      in if mi_Tag m = [] then m\<lparr>mi_Tag := xe_defaultTag E\<rparr> else m)"

definition reset_caches :: "backend manager \<Rightarrow> backend manager" where
  "reset_caches m = m\<lparr>m_MarkerCache := ResetMarkers (m_MarkerCache m), m_EntityCache := Reset (m_EntityCache m)\<rparr>"

definition start_backend :: "bool \<Rightarrow> mission \<Rightarrow> world \<Rightarrow> backend manager \<Rightarrow> backend manager" where
  "start_backend present mi w m = (if present then m\<lparr>m_backend := mem_StartMission mi w (m_backend m)\<rparr> else m)"

definition handleNewMission :: "ext_env \<Rightarrow> ext handler" where
  "handleNewMission E e x =
     (if \<not> x_parserService x then (Returns ANil None, x)
      else case ParseMission (xe_platform E) (xe_clock E e) (ev_Args e) of
          Err err \<Rightarrow> (Returns ANil (Some err), x)
        | Panic p \<Rightarrow> (Panics p, x)
        | Ok (m, w) \<Rightarrow>
            let x' = x\<lparr>x_manager := start_backend (x_storageBackend x) (complete_mission E x m) w
                  (reset_caches (x_manager x))\<rparr>
            in (Returns ANil None, writeCallback '':MISSION:OK:'' [''OK''] x'))"

definition handleMissionSave :: "ext handler" where
  "handleMissionSave e x =
     (let (r, s) = triggerMissionSave (x_storageBackend x) (x_apiClient x) (x_save x) in (r, x\<lparr>x_save := s\<rparr>))"

definition handleAddonVersion :: "ext handler" where
  "handleAddonVersion e x =
     (Returns ANil None, if 0 < length (ev_Args e) then x\<lparr>x_addonVersion := fix_arg (ev_Args e ! 0)\<rparr> else x)"

definition answers :: "any \<Rightarrow> ext handler" where
  "answers v e x = (Returns v None, x)"

definition lifecycle_handlers :: "ext_env \<Rightarrow> (string \<times> ext handler \<times> register_option list) list" where
  "lifecycle_handlers E =
     [('':SYS:INIT:'', \<lambda>e x. (Returns ANil None, spawn GoInitExtension x), []),
      ('':STORAGE:INIT:'', \<lambda>e x. (Returns ANil None, spawn GoInitStorage x), []),
      ('':SYS:VERSION:'', answers (ASlice [AString (xe_BuildVersion E), AString (xe_BuildCommit E), AString (xe_BuildDate E)]), []),
      ('':SYS:DIR:ARMA:'', answers (AString (xe_ArmaDir E)), []),
      ('':SYS:DIR:MODULE:'', answers (AString (xe_ModulePath E)), []),
      ('':SYS:DIR:LOG:'', answers (AString (xe_OcapLogFilePath E)), []),
      ('':SYS:ADDON_VERSION:'', handleAddonVersion, []),
      ('':SYS:LOG:'', answers ANil, []),
      ('':MISSION:START:'', handleNewMission E, [Buffered 1, Blocking, Gated (xe_storageReady E)]),
      ('':MISSION:SAVE:'', handleMissionSave, [])]"

definition registerLifecycleHandlers :: "ext_env \<Rightarrow> ext dispatcher \<Rightarrow> ext dispatcher" where
  "registerLifecycleHandlers E d = fold (\<lambda>(command, h, opts). Register command h opts) (lifecycle_handlers E) d"

section \<open>Goroutines\<close>

definition initExtension :: "ext_env \<Rightarrow> ext \<Rightarrow> ext" where
  "initExtension E x = writeCallback '':SYS:VERSION:'' [xe_BuildVersion E] (writeCallback '':SYS:READY:'' [] x)"

definition initAPIClient :: "ext_env \<Rightarrow> ext \<Rightarrow> ext" where
  "initAPIClient E x = (if xe_serverUrl E = [] then x else x\<lparr>x_apiClient := True\<rparr>)"

definition createStorageBackend :: "storage_config \<Rightarrow> backend outcome" where
  "createStorageBackend cfg =
     (if sc_Type cfg = ''memory'' then Ok (mem_New (sc_Memory cfg))
      else if sc_Type cfg = ''postgres'' then Err (Errorf ''postgres storage type not fully supported yet'' [])
      else if sc_Type cfg = ''sqlite'' then Err (Errorf ''sqlite storage type not fully supported yet'' [])
      else if sc_Type cfg = ''websocket'' then Err (Errorf ''websocket storage type not fully supported yet'' [])
      else Err (Errorf ''unknown storage type %q'' [ArgStr (sc_Type cfg)]))"

text \<open>A handler of the worker works on the caches and the backend.\<close>

definition on_manager :: "backend manager handler \<Rightarrow> ext handler" where
  "on_manager h e x = (let (r, m) = h e (x_manager x) in (r, x\<lparr>x_manager := m\<rparr>))"

definition manager_handlers :: "ext_env \<Rightarrow> (string \<times> ext handler \<times> register_option list) list" where
  "manager_handlers E = map (\<lambda>(command, h, opts). (command, on_manager h, opts))
     (worker_handlers (mem_if (xe_export E)) (xe_platform E) (xe_clock E))"

definition initStorage :: "ext_env \<Rightarrow> ext dispatcher \<Rightarrow> go_err option \<times> ext dispatcher" where
  "initStorage E d = (case createStorageBackend (xe_storage E) of
     Ok b \<Rightarrow>
       let x = d_world d; m = (x_manager x)\<lparr>m_backend := b\<rparr>;
           d = d\<lparr>d_world := x\<lparr>x_storageBackend := True, x_manager := m\<rparr>\<rparr>;
           d = fold (\<lambda>(command, h, opts). Register command h opts) (manager_handlers E) d;
           d = d\<lparr>d_world := writeCallback '':STORAGE:OK:'' [sc_Type (xe_storage E)] (d_world d)\<rparr>
       in (None, if xe_storageReady E \<in> set (d_closed d) then d
                 else d\<lparr>d_closed := xe_storageReady E # d_closed d\<rparr>)
   | Err e \<Rightarrow> (Some e, d)
   | Panic p \<Rightarrow> (None, d))"

text \<open>\<open>strings.TrimRight(s, "/")\<close>, then the scheme; \<open>strings.Replace(s, old, new, 1)\<close>.\<close>

definition replace_first :: "string \<Rightarrow> string \<Rightarrow> string \<Rightarrow> string" where
  "replace_first old new s = (case cut old s of Some (a, b) \<Rightarrow> a @ new @ b | None \<Rightarrow> s)"

definition httpToWS :: "string \<Rightarrow> string" where
  "httpToWS httpURL =
     (let s = trim_right_char CHR ''/'' httpURL; s = replace_first ''https://'' ''wss://'' s
      in replace_first ''http://'' ''ws://'' s)"

section \<open>The system\<close>

text \<open>
  The game's calls and the goroutines of buffers, the goroutines started by handlers, and the save worker.
  Commands are registered only by \<open>initStorage\<close>, and the gate is closed only there.
\<close>

definition new_system :: "ext_env \<Rightarrow> ext dispatcher" where
  "new_system E = registerLifecycleHandlers E (new_dispatcher (new_ext E))"

definition take_goroutine :: "goroutine \<Rightarrow> ext dispatcher \<Rightarrow> ext dispatcher" where
  "take_goroutine g d = d\<lparr>d_world := (d_world d)\<lparr>x_spawned := remove1 g (x_spawned (d_world d))\<rparr>\<rparr>"

datatype sys_action =
    Stepped action
  | RanGoroutine goroutine
  | SaveStepped

inductive sys_step :: "ext_env \<Rightarrow> ext dispatcher \<Rightarrow> sys_action \<Rightarrow> ext dispatcher \<Rightarrow> bool" for E where
  dispatcher: "dstep d x d' \<Longrightarrow> (\<forall>c. x \<noteq> Registered c) \<Longrightarrow> (\<forall>g. x \<noteq> GateClosed g) \<Longrightarrow> sys_step E d (Stepped x) d'"
| init_extension: "GoInitExtension \<in> set (x_spawned (d_world d)) \<Longrightarrow>
    sys_step E d (RanGoroutine GoInitExtension)
      ((take_goroutine GoInitExtension d)\<lparr>d_world := initExtension E (d_world (take_goroutine GoInitExtension d))\<rparr>)"
| init_storage: "GoInitStorage \<in> set (x_spawned (d_world d)) \<Longrightarrow>
    sys_step E d (RanGoroutine GoInitStorage) (snd (initStorage E (take_goroutine GoInitStorage d)))"
| init_client: "GoInitAPIClient \<in> set (x_spawned (d_world d)) \<Longrightarrow>
    sys_step E d (RanGoroutine GoInitAPIClient)
      ((take_goroutine GoInitAPIClient d)\<lparr>d_world := initAPIClient E (d_world (take_goroutine GoInitAPIClient d))\<rparr>)"
| save: "runMissionSaveWorker (memory_ops (xe_export E)) (xe_texts E) up i
      (x_save (d_world d), m_backend (x_manager (d_world d))) = Some (s, b) \<Longrightarrow>
    sys_step E d SaveStepped (d\<lparr>d_world := (d_world d)\<lparr>x_save := s,
      x_manager := (x_manager (d_world d))\<lparr>m_backend := b\<rparr>\<rparr>\<rparr>)"

inductive sys_runs :: "ext_env \<Rightarrow> ext dispatcher \<Rightarrow> sys_action list \<Rightarrow> ext dispatcher \<Rightarrow> bool" for E where
  stop: "sys_runs E d [] d"
| step: "sys_step E d x d' \<Longrightarrow> sys_runs E d' xs d'' \<Longrightarrow> sys_runs E d (x # xs) d''"

inductive_simps sys_runs_simps [simp]: "sys_runs E d [] d'" "sys_runs E d (x # xs) d'"

end
