(* ===== verification/Lifecycle_Facts.thy ===== *)
theory Lifecycle_Facts
  imports Lifecycle
begin

text \<open>
  The invariant of the running system: what holds after every interleaving of the game's calls, the goroutines
  of the buffers, the goroutines that handlers start and the save of a mission.
\<close>

section \<open>The gate of a buffer stays\<close>

definition gates_of :: "'s dispatcher \<Rightarrow> (string \<times> nat option) list" where
  "gates_of d = map (\<lambda>b. (bu_command b, bu_gate b)) (d_bufs d)"

lemma gates_update_buf:
  assumes "\<And>b. bu_command (f b) = bu_command b" "\<And>b. bu_gate (f b) = bu_gate b"
  shows "gates_of (update_buf a f d) = gates_of d"
  by (simp add: gates_of_def update_buf_def map_list_update_same assms)

lemma gates_run: "run h e d = Some (r, d') \<Longrightarrow> gates_of d' = gates_of d"
proof (induction h arbitrary: d r d')
  case (Direct h)
  then show ?case by (auto simp: gates_of_def split: prod.splits)
next
  case (WithLogging c h)
  obtain r1 d1 where 1: "run h e (log_msg Debug ''handling event'' c d) = Some (r1, d1)"
    using WithLogging.prems by (auto split: option.splits)
  then show ?case using WithLogging.IH [OF 1] WithLogging.prems
    by (auto simp: log_msg_def gates_of_def split: option.splits handler_result.splits)
next
  case (WithBuffer a bl)
  then show ?case
    using gates_update_buf [of "\<lambda>b. b\<lparr>bu_queue := bu_queue b @ [e]\<rparr>" a d]
    by (auto simp: Let_def gates_of_def split: if_splits)
qed (auto split: if_splits)

lemma gates_dstep:
  assumes "dstep d x d'" "\<forall>c. x \<noteq> Registered c"
  shows "gates_of d' = gates_of d"
  using assms(1)
proof (cases rule: dstep.cases)
  case (dispatch e r)
  then show ?thesis using gates_run by (auto simp: Dispatch_def split: option.splits)
next
  case (handle a e r)
  then obtain r1 d1 where "run (bu_handler (d_bufs d ! a)) e d = Some (r1, d1)"
    "gates_of d' = gates_of (update_buf a (\<lambda>b. b\<lparr>bu_current := None\<rparr>) d1)"
    by (auto simp: handle_def safeHandle_def Let_def log_msg_def gates_of_def update_buf_def
        split: if_splits option.splits handler_result.splits)
  then show ?thesis using gates_run gates_update_buf [of "\<lambda>b. b\<lparr>bu_current := None\<rparr>" a d1] by simp
next
  case (pass a)
  then show ?thesis using gates_update_buf [of "\<lambda>b. b\<lparr>bu_open := True\<rparr>" a d]
    by (auto simp: pass_gate_def log_msg_def gates_of_def split: if_splits option.splits)
next
  case (receive a e)
  then obtain es where "d' = update_buf a (\<lambda>b. b\<lparr>bu_queue := es, bu_current := Some e\<rparr>) d"
    by (auto simp: receive_def split: if_splits list.splits)
  then show ?thesis using gates_update_buf [of "\<lambda>b. b\<lparr>bu_queue := es, bu_current := Some e\<rparr>" a d] by simp
qed (use assms(2) in \<open>auto simp: gates_of_def\<close>)

text \<open>So do the handlers.\<close>

lemma all_keep_dstep:
  assumes "dstep d x d'" "\<forall>c. x \<noteq> Registered c"
  shows "all_keep P d' = all_keep P d"
  using assms(1)
proof (cases rule: dstep.cases)
  case (dispatch e r)
  then have "d_handlers d' = d_handlers d \<and> map bu_handler (d_bufs d') = map bu_handler (d_bufs d)"
    using run_handlers [of _ e d r d'] by (auto simp: Dispatch_def split: option.splits)
  then show ?thesis using all_keep_frame by blast
next
  case (handle a e r)
  then show ?thesis
    by (elim handle_frame) (intro all_keep_frame, simp_all add: run_handlers)
next
  case (pass a)
  then show ?thesis using update_buf_handlers [of "\<lambda>b. b\<lparr>bu_open := True\<rparr>" d a]
    by (intro all_keep_frame) (auto simp: pass_gate_def log_msg_def update_buf_def split: if_splits option.splits)
next
  case (receive a e)
  then obtain es where "d' = update_buf a (\<lambda>b. b\<lparr>bu_queue := es, bu_current := Some e\<rparr>) d"
    by (auto simp: receive_def split: if_splits list.splits)
  then show ?thesis using update_buf_handlers [of "\<lambda>b. b\<lparr>bu_queue := es, bu_current := Some e\<rparr>" d a]
    by (intro all_keep_frame) simp_all
qed (use assms(2) in \<open>auto intro!: all_keep_frame\<close>)

text \<open>Only the closing of a gate adds to the closed ones.\<close>

lemma closed_run: "run h e d = Some (r, d') \<Longrightarrow> d_closed d' = d_closed d"
proof (induction h arbitrary: d r d')
  case (WithLogging c h)
  obtain r1 d1 where 1: "run h e (log_msg Debug ''handling event'' c d) = Some (r1, d1)"
    using WithLogging.prems by (auto split: option.splits)
  then show ?case using WithLogging.IH [OF 1] WithLogging.prems
    by (auto simp: log_msg_def split: option.splits handler_result.splits)
qed (auto simp: Let_def update_buf_def split: if_splits prod.splits)

lemma closed_Register: "d_closed (Register c h opts d) = d_closed d"
  by (auto simp: Register_def withBuffer_def Let_def split: option.split)

lemma closed_dstep:
  assumes "dstep d x d'" "\<forall>g. x \<noteq> GateClosed g"
  shows "d_closed d' = d_closed d"
  using assms(1)
proof (cases rule: dstep.cases)
  case (handle a e r)
  then show ?thesis using closed_run
    by (fastforce simp: handle_def safeHandle_def Let_def log_msg_def update_buf_def
        split: if_splits option.splits handler_result.splits)
qed (use assms(2) closed_run in \<open>auto simp: Dispatch_def closed_Register pass_gate_def receive_def log_msg_def
    update_buf_def split: if_splits option.splits list.splits\<close>)

lemma gates_Register:
  "gates_of (Register c h opts d) = gates_of d \<or> (\<exists>g. gates_of (Register c h opts d) = gates_of d @ [(c, g)])"
  by (auto simp: Register_def withBuffer_def Let_def gates_of_def split: option.split)

text \<open>The buffers of a command all have the same gate.\<close>

definition gated :: "string \<Rightarrow> nat \<Rightarrow> 's dispatcher \<Rightarrow> bool" where
  "gated c ready d = (\<forall>g. (c, g) \<in> set (gates_of d) \<longrightarrow> g = Some ready)"

lemma gated_Registers:
  "gated c ready d \<Longrightarrow> c \<notin> fst ` set hs \<Longrightarrow> gated c ready (fold (\<lambda>(c, h, opts). Register c h opts) hs d)"
proof (induction hs arbitrary: d)
  case (Cons x hs)
  obtain c' h opts where x: "x = (c', h, opts)" by (cases x)
  have "gated c ready (Register c' h opts d)"
    using gates_Register [of c' h opts d] Cons.prems x by (auto simp: gated_def)
  then show ?case using Cons x by simp
qed simp

lemma gated_handled:
  assumes "wf_dispatcher d" "gated c ready d" "handle a d = Some (e, r, d')" "ev_Command e = c"
  shows "ready \<in> set (d_closed d)"
proof -
  have a: "a < length (d_bufs d)" and cur: "bu_current (d_bufs d ! a) = Some e"
    using assms(3) by (auto simp: handle_def split: if_splits option.splits)
  then have b: "wf_buf (d_closed d) (d_bufs d ! a)" using assms(1) by (simp add: wf_dispatcher_def)
  then have "bu_command (d_bufs d ! a) = c" using cur assms(4) by (simp add: wf_buf_def held_def)
  moreover have "(bu_command (d_bufs d ! a), bu_gate (d_bufs d ! a)) \<in> set (gates_of d)"
    using a by (simp add: gates_of_def)
  ultimately have "bu_gate (d_bufs d ! a) = Some ready" using assms(2) by (simp add: gated_def)
  then show ?thesis using b cur by (simp add: wf_buf_def)
qed

section \<open>What handlers keep\<close>

text \<open>Every relation of views holds after wf; the trivial one is the well-formedness alone.\<close>

interpretation anyview: view_relation "\<lambda>v w. True"
  by unfold_locales simp_all

definition ext_ok :: "ext \<Rightarrow> bool" where
  "ext_ok x = (single_flight (x_save x) \<and> anyview.related (x_manager x) \<and>
     (x_storageBackend x \<longrightarrow> covered.related (x_manager x)))"

lemma covered_empty:
  assumes "wf_backend b" "cached_soldiers.keyed (m_EntityCache m)" "b_soldiers b = []" "b_vehicles b = []"
    "b_placed b = []" "b_markers b = []"
  shows "covered.related (m\<lparr>m_backend := b\<rparr>)"
  using assms by (simp add: covered.related_def)
    (simp add: view_le_def backend_view_def find_soldier_def find_vehicle_def find_placed_def marker_id_def)

lemma related_frame:
  "covered.related m \<Longrightarrow> anyview.related m" "anyview.related m \<Longrightarrow> wf_backend (m_backend m)"
  "anyview.related m \<Longrightarrow> cached_soldiers.keyed (m_EntityCache m)"
  by (simp_all add: covered.related_def anyview.related_def)

lemma mission_ok:
  assumes "ext_ok x"
  shows "ext_ok (snd (handleNewMission E e x))"
proof (cases "x_parserService x")
  case True
  show ?thesis
  proof (cases "ParseMission (xe_platform E) (xe_clock E e) (ev_Args e)")
    case (Ok mw)
    let ?m = "reset_caches (x_manager x)"
    have keyed: "cached_soldiers.keyed (m_EntityCache ?m)"
      by (simp add: reset_caches_def cached_soldiers.keyed_def)
    have wf: "wf_backend (m_backend ?m)"
      using assms related_frame(2) [of "x_manager x"] by (simp add: ext_ok_def reset_caches_def)
    have "covered.related (?m\<lparr>m_backend := mem_StartMission mi w b\<rparr>)" for mi w b
      by (rule covered_empty [OF wf_StartMission keyed]) (simp_all add: mem_StartMission_def resetCollections_def)
    moreover have "anyview.related ?m" using wf keyed by (simp add: anyview.related_def)
    ultimately show ?thesis using assms Ok True related_frame(1)
      by (cases mw) (auto simp: handleNewMission_def ext_ok_def start_backend_def writeCallback_def Let_def)
  qed (use assms True in \<open>simp_all add: handleNewMission_def\<close>)
qed (use assms in \<open>simp add: handleNewMission_def\<close>)

lemma save_ok: "ext_ok x \<Longrightarrow> ext_ok (snd (handleMissionSave e x))"
  using trigger_single_flight [of "x_save x" "x_storageBackend x" "x_apiClient x"]
  by (auto simp: handleMissionSave_def ext_ok_def split: prod.split)

lemma lifecycle_ok: "(c, h, opts) \<in> set (lifecycle_handlers E) \<Longrightarrow> ext_ok x \<Longrightarrow> ext_ok (snd (h e x))"
  using mission_ok [of x E e] save_ok [of x e]
  by (auto simp: lifecycle_handlers_def spawn_def answers_def handleAddonVersion_def ext_ok_def)

lemma manager_ok:
  assumes "(c, h, opts) \<in> set (manager_handlers E)" "ext_ok x"
  shows "ext_ok (snd (h e x))"
proof -
  obtain g where g: "h = on_manager g"
    "(c, g, opts) \<in> set (worker_handlers (mem_if (xe_export E)) (xe_platform E) (xe_clock E))"
    using assms(1) by (auto simp: manager_handlers_def)
  then show ?thesis
    using assms(2) covered.related_handlers [OF g(2)] anyview.related_handlers [OF g(2)]
    by (auto simp: on_manager_def ext_ok_def split: prod.split) (metis snd_conv)+
qed

text \<open>No handler takes the backend away.\<close>

lemma handlers_keep_backend:
  "(c, h, opts) \<in> set (lifecycle_handlers E) \<Longrightarrow> x_storageBackend x \<Longrightarrow> x_storageBackend (snd (h e x))"
  "(c, h, opts) \<in> set (manager_handlers E) \<Longrightarrow> x_storageBackend x \<Longrightarrow> x_storageBackend (snd (h e x))"
  by (auto simp: lifecycle_handlers_def manager_handlers_def on_manager_def spawn_def answers_def
      handleAddonVersion_def handleNewMission_def handleMissionSave_def writeCallback_def Let_def
      split: outcome.split prod.split)

section \<open>The invariant\<close>

definition sys_inv :: "ext_env \<Rightarrow> ext dispatcher \<Rightarrow> bool" where
  "sys_inv E d = (wf_dispatcher d \<and> all_keep ext_ok d \<and> all_keep x_storageBackend d \<and> ext_ok (d_world d) \<and>
     gated '':MISSION:START:'' (xe_storageReady E) d \<and>
     (xe_storageReady E \<in> set (d_closed d) \<longrightarrow> x_storageBackend (d_world d)))"

lemma wf_Registers: "wf_dispatcher d \<Longrightarrow> wf_dispatcher (fold (\<lambda>(c, h, opts). Register c h opts) hs d)"
  by (induction hs arbitrary: d) (auto simp: step_Register split: prod.splits)

lemma closed_Registers: "d_closed (fold (\<lambda>(c, h, opts). Register c h opts) hs d) = d_closed d"
  by (induction hs arbitrary: d) (auto simp: closed_Register split: prod.splits)

lemma ext_ok_new: "ext_ok (new_ext E)"
  by (simp add: ext_ok_def new_ext_def single_flight_new anyview.related_def NewManager_def wf_New
      cached_soldiers.keyed_def)

lemma sys_inv_new: "sys_inv E (new_system E)"
proof -
  let ?d = "new_dispatcher (new_ext E)"
  have "all_keep P ?d" for P by (simp add: all_keep_def new_dispatcher_def)
  note keep = all_keep_Registers [OF _ this, of "lifecycle_handlers E"]
  have "\<forall>(c, h, opts) \<in> set (lifecycle_handlers E). \<forall>e m. ext_ok m \<longrightarrow> ext_ok (snd (h e m))"
    "\<forall>(c, h, opts) \<in> set (lifecycle_handlers E). \<forall>e m. x_storageBackend m \<longrightarrow> x_storageBackend (snd (h e m))"
    using lifecycle_ok handlers_keep_backend(1) by blast+
  from keep [OF this(1)] keep [OF this(2)]
  have "all_keep ext_ok (new_system E)" "all_keep x_storageBackend (new_system E)" "d_world (new_system E) = new_ext E"
    unfolding new_system_def registerLifecycleHandlers_def by (simp_all add: new_dispatcher_def)
  moreover have "wf_dispatcher (new_system E)"
    unfolding new_system_def registerLifecycleHandlers_def by (intro wf_Registers wf_new)
  moreover have "gated '':MISSION:START:'' (xe_storageReady E) (new_system E)"
    by (simp add: new_system_def registerLifecycleHandlers_def lifecycle_handlers_def Register_def withBuffer_def
        Let_def new_dispatcher_def gated_def gates_of_def)
  moreover have "d_closed (new_system E) = []"
    unfolding new_system_def registerLifecycleHandlers_def closed_Registers by (simp add: new_dispatcher_def)
  ultimately show ?thesis by (simp add: sys_inv_def ext_ok_new)
qed

lemma sys_inv_world:
  assumes "sys_inv E d" "ext_ok x" "x_storageBackend (d_world d) \<Longrightarrow> x_storageBackend x"
  shows "sys_inv E (d\<lparr>d_world := x\<rparr>)"
  using assms wf_frame [of "d\<lparr>d_world := x\<rparr>" d]
  by (auto simp: sys_inv_def gated_def gates_of_def all_keep_def)

lemma ext_ok_frame: "ext_ok x \<Longrightarrow> ext_ok (initExtension E x)" "ext_ok x \<Longrightarrow> ext_ok (initAPIClient E x)"
  by (simp_all add: ext_ok_def initExtension_def writeCallback_def initAPIClient_def)

lemma sys_inv_take: "sys_inv E d \<Longrightarrow> sys_inv E (take_goroutine g d)"
  unfolding take_goroutine_def by (rule sys_inv_world) (auto simp: sys_inv_def ext_ok_def)

lemma wf_closed: "wf_dispatcher d \<Longrightarrow> wf_dispatcher (d\<lparr>d_closed := g # d_closed d\<rparr>)"
  using dstep_sound [OF dstep.close] by blast

lemma sys_inv_initStorage:
  assumes "sys_inv E d"
  shows "sys_inv E (snd (initStorage E d))"
proof (cases "createStorageBackend (xe_storage E)")
  case (Ok b)
  then have b: "b = mem_New (sc_Memory (xe_storage E))" by (simp add: createStorageBackend_def split: if_splits)
  let ?x = "(d_world d)\<lparr>x_storageBackend := True, x_manager := (x_manager (d_world d))\<lparr>m_backend := b\<rparr>\<rparr>"
  let ?d0 = "d\<lparr>d_world := ?x\<rparr>"
  let ?d1 = "fold (\<lambda>(c, h, opts). Register c h opts) (manager_handlers E) ?d0"
  have "covered.related ((x_manager (d_world d))\<lparr>m_backend := b\<rparr>)"
    using assms by (intro covered_empty) (simp_all add: b wf_New sys_inv_def ext_ok_def related_frame, simp_all add: mem_New_def)
  then have x: "ext_ok ?x" using assms related_frame(1) by (simp add: sys_inv_def ext_ok_def)
  have d0: "sys_inv E ?d0" by (rule sys_inv_world [OF assms x]) simp
  have "\<forall>(c, h, opts) \<in> set (manager_handlers E). \<forall>e m. ext_ok m \<longrightarrow> ext_ok (snd (h e m))"
    "\<forall>(c, h, opts) \<in> set (manager_handlers E). \<forall>e m. x_storageBackend m \<longrightarrow> x_storageBackend (snd (h e m))"
    using manager_ok handlers_keep_backend(2) by blast+
  note keep = this [THEN all_keep_Registers, of ?d0]
  have w: "d_world ?d1 = ?x" using keep(1) d0 by (simp add: sys_inv_def)
  have "'':MISSION:START:'' \<notin> fst ` set (manager_handlers E)"
    by (simp add: manager_handlers_def worker_handlers_def)
  then have d1: "sys_inv E ?d1"
    using keep d0 wf_Registers [of ?d0 "manager_handlers E"]
      gated_Registers [of "'':MISSION:START:''" "xe_storageReady E" ?d0 "manager_handlers E"]
    by (simp add: sys_inv_def closed_Registers)
  let ?d2 = "?d1\<lparr>d_world := writeCallback '':STORAGE:OK:'' [sc_Type (xe_storage E)] ?x\<rparr>"
  have d2: "sys_inv E ?d2"
    by (rule sys_inv_world [OF d1]) (use x in \<open>simp_all add: writeCallback_def ext_ok_def\<close>)
  then have "sys_inv E (?d2\<lparr>d_closed := xe_storageReady E # d_closed ?d2\<rparr>)"
    using wf_closed [of ?d2 "xe_storageReady E"]
    by (auto simp: sys_inv_def gated_def gates_of_def all_keep_def writeCallback_def)
  with d2 show ?thesis using Ok w by (simp add: initStorage_def Let_def)
qed (use assms in \<open>simp_all add: initStorage_def\<close>)

lemma worker_step_wf:
  "worker_step (memory_ops env) T up pc b = Some (pc', b') \<Longrightarrow> wf_backend b \<Longrightarrow> wf_backend b'"
  by (cases pc) (auto simp: memory_ops_def Let_def split: option.splits save_end.splits prod.splits intro: wf_EndMission)

lemma worker_step_backend:
  assumes "worker_step (memory_ops env) T up pc b = Some (pc', b')"
  shows "b' = b \<or> (\<exists>e. mem_EndMission env b = Some (e, b'))"
  using assms
  by (cases pc) (auto simp: memory_ops_def Let_def split: option.splits save_end.splits prod.splits)

lemma view_ended:
  assumes "mem_EndMission env b = Some (e, b')"
  shows "b' = b \<or> (b_soldiers b' = [] \<and> b_vehicles b' = [] \<and> b_placed b' = [] \<and> b_markers b' = [])"
  using assms
  by (auto simp: mem_EndMission_def Let_def clear_mission_def resetCollections_def split: if_splits option.splits outcome.splits)

lemma runMissionSaveWorker_backend:
  assumes "runMissionSaveWorker (memory_ops env) T up i (s, b) = Some (s', b')"
  shows "b' = b \<or> (\<exists>e. mem_EndMission env b = Some (e, b'))"
  using assms worker_step_backend
  by (fastforce simp: runMissionSaveWorker_def Let_def split: if_splits option.splits)

lemma sys_inv_save:
  assumes "sys_inv E d" and w: "runMissionSaveWorker (memory_ops (xe_export E)) T up i
      (x_save (d_world d), m_backend (x_manager (d_world d))) = Some (s, b)"
  shows "sys_inv E (d\<lparr>d_world := (d_world d)\<lparr>x_save := s, x_manager := (x_manager (d_world d))\<lparr>m_backend := b\<rparr>\<rparr>\<rparr>)"
proof (rule sys_inv_world [OF assms(1)])
  let ?x = "d_world d" and ?m = "x_manager (d_world d)"
  have x: "ext_ok ?x" using assms(1) by (simp add: sys_inv_def)
  have sf: "single_flight s" using worker_single_flight [OF _ w] x by (simp add: ext_ok_def)
  have "b = m_backend ?m \<or> wf_backend b \<and> b_soldiers b = [] \<and> b_vehicles b = [] \<and> b_placed b = [] \<and> b_markers b = []"
    using runMissionSaveWorker_backend [OF w] view_ended wf_EndMission x related_frame(2)
    unfolding ext_ok_def by metis
  then have "?m\<lparr>m_backend := b\<rparr> = ?m \<or> covered.related (?m\<lparr>m_backend := b\<rparr>)"
    using covered_empty [of b ?m] x related_frame(3) by (auto simp: ext_ok_def)
  then show "ext_ok (?x\<lparr>x_save := s, x_manager := ?m\<lparr>m_backend := b\<rparr>\<rparr>)"
    using x sf related_frame(1) by (auto simp: ext_ok_def)
qed simp

lemma sys_step_inv: "sys_step E d x d' \<Longrightarrow> sys_inv E d \<Longrightarrow> sys_inv E d'"
proof (induction rule: sys_step.induct)
  case (dispatcher d x d')
  have "all_keep ext_ok d' \<and> ext_ok (d_world d')"
    by (rule dstep_world) (use dispatcher in \<open>auto simp: sys_inv_def\<close>)
  moreover have "x_storageBackend (d_world d')" if "x_storageBackend (d_world d)"
    by (rule dstep_world [THEN conjunct2]) (use dispatcher that in \<open>auto simp: sys_inv_def\<close>)
  moreover have "all_keep x_storageBackend d'" using all_keep_dstep dispatcher by (blast intro: sys_inv_def [THEN iffD1, THEN conjunct2, THEN conjunct2, THEN conjunct1])
  moreover have "d_closed d' = d_closed d" using closed_dstep dispatcher by blast
  moreover have "gates_of d' = gates_of d" using gates_dstep dispatcher by blast
  moreover have "wf_dispatcher d'" using dstep_sound dispatcher by (blast intro: sys_inv_def [THEN iffD1, THEN conjunct1])
  ultimately show ?case using dispatcher by (auto simp: sys_inv_def gated_def)
next
  case (init_extension d)
  then have i: "sys_inv E (take_goroutine GoInitExtension d)" by (intro sys_inv_take)
  show ?case by (rule sys_inv_world [OF i ext_ok_frame(1)])
      (use i in \<open>auto simp: sys_inv_def initExtension_def writeCallback_def\<close>)
next
  case (init_storage d)
  then show ?case by (intro sys_inv_initStorage sys_inv_take)
next
  case (init_client d)
  then have i: "sys_inv E (take_goroutine GoInitAPIClient d)" by (intro sys_inv_take)
  show ?case by (rule sys_inv_world [OF i ext_ok_frame(2)]) (use i in \<open>auto simp: sys_inv_def initAPIClient_def\<close>)
next
  case (save d up i s b)
  then show ?case by (intro sys_inv_save)
qed

lemma sys_runs_inv: "sys_runs E d tr d' \<Longrightarrow> sys_inv E d \<Longrightarrow> sys_inv E d'"
  by (induction rule: sys_runs.induct) (auto intro: sys_step_inv)

text \<open>Registering other commands leaves a command and the buffers there are.\<close>

lemma Register_frame:
  "c' \<noteq> c \<Longrightarrow> map_of (d_handlers (Register c' h opts d)) c = map_of (d_handlers d) c"
  "\<exists>bs. d_bufs (Register c' h opts d) = d_bufs d @ bs"
  by (auto simp: Register_def withBuffer_def Let_def map_simps split: option.split)

lemma Registers_frame:
  "c \<notin> fst ` set hs \<Longrightarrow> map_of (d_handlers (fold (\<lambda>(c, h, opts). Register c h opts) hs d)) c = map_of (d_handlers d) c"
  "\<exists>bs. d_bufs (fold (\<lambda>(c, h, opts). Register c h opts) hs d) = d_bufs d @ bs"
proof (induction hs arbitrary: d)
  case (Cons x hs)
  obtain c' h opts where x: "x = (c', h, opts)" by (cases x)
  { case 1 then show ?case using Cons.IH(1) [of "Register c' h opts d"] Register_frame(1) [of c' c h opts d] by (auto simp: x) }
  { case 2 show ?case using Cons.IH(2) [of "Register c' h opts d"] Register_frame(2) [of c' h opts d] by (auto simp: x) }
qed simp_all

lemma initStorage_frame:
  assumes "createStorageBackend (xe_storage E) = Ok b"
  shows "map_of (d_handlers (snd (initStorage E d))) '':MISSION:START:'' = map_of (d_handlers d) '':MISSION:START:''"
    "\<exists>bs. d_bufs (snd (initStorage E d)) = d_bufs d @ bs"
    "xe_storageReady E \<in> set (d_closed (snd (initStorage E d)))"
    "x_storageBackend (d_world (snd (initStorage E d)))"
proof -
  let ?x = "(d_world d)\<lparr>x_storageBackend := True, x_manager := (x_manager (d_world d))\<lparr>m_backend := b\<rparr>\<rparr>"
  define r where "r = fold (\<lambda>(c, h, opts). Register c h opts) (manager_handlers E) (d\<lparr>d_world := ?x\<rparr>)"
  have s: "snd (initStorage E d) = (let d = r\<lparr>d_world := writeCallback '':STORAGE:OK:'' [sc_Type (xe_storage E)] (d_world r)\<rparr>
      in if xe_storageReady E \<in> set (d_closed d) then d else d\<lparr>d_closed := xe_storageReady E # d_closed d\<rparr>)"
    by (simp add: initStorage_def assms Let_def r_def)
  have "d_world (fold (\<lambda>(c, h, opts). Register c h opts) hs d) = d_world d"
    for hs :: "(string \<times> ext handler \<times> register_option list) list" and d
    by (induction hs arbitrary: d) (auto simp: Register_def withBuffer_def Let_def split: option.split)
  then have "d_world r = ?x" by (simp add: r_def)
  moreover have "'':MISSION:START:'' \<notin> fst ` set (manager_handlers E)"
    by (simp add: manager_handlers_def worker_handlers_def)
  ultimately show "map_of (d_handlers (snd (initStorage E d))) '':MISSION:START:'' = map_of (d_handlers d) '':MISSION:START:''"
    "\<exists>bs. d_bufs (snd (initStorage E d)) = d_bufs d @ bs"
    "xe_storageReady E \<in> set (d_closed (snd (initStorage E d)))"
    "x_storageBackend (d_world (snd (initStorage E d)))"
    using Registers_frame(1) [of "'':MISSION:START:''" "manager_handlers E" "d\<lparr>d_world := ?x\<rparr>"]
      Registers_frame(2) [where d = "d\<lparr>d_world := ?x\<rparr>" and hs = "manager_handlers E"]
    unfolding s r_def [symmetric] by (simp_all add: Let_def writeCallback_def)
qed

section \<open>The stretches of a save\<close>

lemma sruns_append: "sruns ops T sb xs sb' \<Longrightarrow> sruns ops T sb' ys sb'' \<Longrightarrow> sruns ops T sb (xs @ ys) sb''"
  by (induction rule: sruns.induct) auto

text \<open>A single save, under way and over.\<close>

definition in_flight :: "save_pc \<Rightarrow> save_state" where
  "in_flight pc = \<lparr>sv_inFlight = True, sv_workers = [pc], sv_sent = [], sv_uploads = []\<rparr>"

definition landed :: "string list \<Rightarrow> (string \<times> upload_metadata) list \<Rightarrow> save_state" where
  "landed sent uploads = \<lparr>sv_inFlight = False, sv_workers = [], sv_sent = [sent], sv_uploads = uploads\<rparr>"

lemma save_run:
  assumes "worker_step ops T up pc b = Some (Some pc', b')" "save_effect T pc (in_flight pc) = in_flight pc"
  shows "sruns ops T (in_flight pc, b) [Worked 0 pc] (in_flight pc', b')"
  using step_alone [OF _ assms(1), of "in_flight pc"] assms(2) by (simp add: in_flight_def)

lemma ended_run:
  assumes "mem_EndMission env b = Some (e, b')"
  shows "sruns (memory_ops env) T (in_flight (Ending True), b) [Worked 0 (Ending True)]
    (in_flight (case e of None \<Rightarrow> ReadingPath True | Some err \<Rightarrow> Reporting (no_vars\<lparr>sv_endErr := Some err\<rparr>)), b')"
  by (rule save_run [where up = None]; cases e) (simp_all add: assms memory_ops_def save_effect_def)

lemma path_run:
  "sruns (memory_ops env) T (in_flight (ReadingPath True), b) [Worked 0 (ReadingPath True)]
    (in_flight (if mem_GetExportedFilePath b \<noteq> [] then ReadingMeta (no_vars\<lparr>sv_savedPath := mem_GetExportedFilePath b\<rparr>)
       else Reporting (no_vars\<lparr>sv_savedPath := mem_GetExportedFilePath b\<rparr>)), b)"
  by (rule save_run [where up = None]) (simp_all add: memory_ops_def save_effect_def Let_def)

lemma report_run_from:
  assumes "s = (in_flight (Reporting v))\<lparr>sv_uploads := u\<rparr>"
  shows "sruns ops T (s, b) [Worked 0 (Reporting v), Worked 0 Clearing] (landed (report T v) u, b)"
proof -
  let ?s = "\<lparr>sv_inFlight = True, sv_workers = [Clearing], sv_sent = [report T v], sv_uploads = u\<rparr>"
  have 1: "sruns ops T (s, b) [Worked 0 (Reporting v)] (?s, b)"
    using step_alone [of s "Reporting v" ops T None b "Some Clearing" b] by (simp add: assms in_flight_def save_effect_def)
  have 2: "sruns ops T (?s, b) [Worked 0 Clearing] (landed (report T v) u, b)"
    using step_alone [of ?s Clearing ops T None b None b] by (simp add: save_effect_def landed_def)
  from sruns_append [OF 1 2] show ?thesis by (simp del: sruns_simps)
qed

lemma report_run:
  "sruns ops T (in_flight (Reporting v), b) [Worked 0 (Reporting v), Worked 0 Clearing] (landed (report T v) [], b)"
  by (rule report_run_from) (simp add: in_flight_def)

lemma upload_run:
  "\<exists>tr. sruns (memory_ops env) T (in_flight (ReadingMeta v), b) tr
    (landed (report T (v\<lparr>sv_uploadErr := up\<rparr>)) [(sv_savedPath v, mem_GetExportMetadata b)], b)"
proof -
  let ?u = "Uploading v (mem_GetExportMetadata b)" and ?r = "Reporting (v\<lparr>sv_uploadErr := up\<rparr>)"
  let ?s = "(in_flight ?r)\<lparr>sv_uploads := [(sv_savedPath v, mem_GetExportMetadata b)]\<rparr>"
  have 1: "sruns (memory_ops env) T (in_flight (ReadingMeta v), b) [Worked 0 (ReadingMeta v)] (in_flight ?u, b)"
    by (rule save_run [where up = None]) (simp_all add: memory_ops_def save_effect_def)
  have 2: "sruns (memory_ops env) T (in_flight ?u, b) [Worked 0 ?u] (?s, b)"
    using step_alone [of "in_flight ?u" ?u "memory_ops env" T up b "Some ?r" b] by (simp add: in_flight_def save_effect_def)
  note 3 = report_run_from [OF refl, where u = "[(sv_savedPath v, mem_GetExportMetadata b)]"]
  from sruns_append [OF sruns_append [OF 1 2] 3] show ?thesis by (rule exI)
qed

lemma elsewhere_run: "sruns ops T (s, b) [Elsewhere] (s, b')"
  by (auto intro: sstep.elsewhere)

end
