(* ===== verification/Lifecycle_Properties.thy ===== *)
theory Lifecycle_Properties
  imports Lifecycle_Facts Worker_Properties A3_Properties
begin

text \<open>
  The properties of the running system and of the save of a mission, each applied to a concrete environment.
\<close>

section \<open>A concrete environment\<close>

definition lone_env :: ext_env where
  "lone_env = \<lparr>xe_BuildVersion = ''5.0.0'', xe_BuildCommit = ''abc'', xe_BuildDate = ''today'', xe_ArmaDir = ''/arma'',
     xe_ModulePath = ''/arma/ocap'', xe_OcapLogFilePath = ''/arma/log'', xe_defaultTag = ''Op'',
     xe_storage = \<lparr>sc_Type = ''memory'', sc_Memory = \<lparr>mc_OutputDir = ''out'', mc_CompressOutput = False\<rparr>\<rparr>,
     xe_serverUrl = [], xe_storageReady = 0, xe_platform = zero_platform, xe_clock = \<lambda>_. ZeroTime,
     xe_export = quiet_env, xe_texts = plain_texts\<rparr>"

definition command_event :: "string \<Rightarrow> string list \<Rightarrow> event" where
  "command_event c args = \<lparr>ev_Command = c, ev_Args = args, ev_Timestamp = ZeroTime\<rparr>"

lemma new_system_handlers:
  "map_of (d_handlers (new_system E)) '':STORAGE:INIT:'' = Some (Direct (\<lambda>e x. (Returns ANil None, spawn GoInitStorage x)))"
  "map_of (d_handlers (new_system E)) '':MISSION:START:'' = Some (WithBuffer 0 True)"
  "d_bufs (new_system E) = [\<lparr>bu_command = '':MISSION:START:'', bu_cap = 1, bu_queue = [],
     bu_gate = Some (xe_storageReady E), bu_open = False, bu_current = None, bu_handler = Direct (handleNewMission E)\<rparr>]"
  "d_closed (new_system E) = []" "d_world (new_system E) = new_ext E"
  by (simp_all add: new_system_def registerLifecycleHandlers_def lifecycle_handlers_def Register_def withBuffer_def
      Let_def new_dispatcher_def)

text \<open>The addon sets the storage up.\<close>

definition set_up :: "ext dispatcher" where
  "set_up = snd (initStorage lone_env ((new_system lone_env)\<lparr>d_world := (new_ext lone_env)\<lparr>x_spawned := [GoInitAPIClient]\<rparr>\<rparr>))"

definition set_up_trace :: "sys_action list" where
  "set_up_trace = [Stepped (Dispatched None (command_event '':STORAGE:INIT:'' []) (Returns ANil None)),
     RanGoroutine GoInitStorage]"

lemma set_up_run: "sys_runs lone_env (new_system lone_env) set_up_trace set_up"
proof -
  let ?e = "command_event '':STORAGE:INIT:'' []"
  let ?d = "(new_system lone_env)\<lparr>d_world := spawn GoInitStorage (new_ext lone_env)\<rparr>"
  have "Dispatch ?e (new_system lone_env) = Some (Returns ANil None, ?d)"
    by (simp add: Dispatch_def command_event_def new_system_handlers)
  from dstep.dispatch [OF this]
  have "dstep (new_system lone_env) (Dispatched None ?e (Returns ANil None)) ?d"
    by (simp add: channel_of_def command_event_def new_system_handlers)
  then have 1: "sys_step lone_env (new_system lone_env) (Stepped (Dispatched None ?e (Returns ANil None))) ?d"
    by (intro sys_step.dispatcher) simp_all
  have "take_goroutine GoInitStorage ?d = (new_system lone_env)\<lparr>d_world := (new_ext lone_env)\<lparr>x_spawned := [GoInitAPIClient]\<rparr>\<rparr>"
    by (simp add: take_goroutine_def spawn_def new_ext_def)
  then have 2: "sys_step lone_env ?d (RanGoroutine GoInitStorage) set_up"
    using sys_step.init_storage [of ?d lone_env] by (simp add: set_up_def spawn_def)
  from 1 2 show ?thesis by (auto simp: set_up_trace_def)
qed

lemma set_up_frame:
  "map_of (d_handlers set_up) '':MISSION:START:'' = Some (WithBuffer 0 True)"
  "\<exists>bs. d_bufs set_up = d_bufs (new_system lone_env) @ bs" "0 \<in> set (d_closed set_up)"
  "x_storageBackend (d_world set_up)"
proof -
  have "createStorageBackend (xe_storage lone_env) = Ok (mem_New (sc_Memory (xe_storage lone_env)))"
    by (simp add: createStorageBackend_def lone_env_def)
  note f = initStorage_frame [OF this, of "(new_system lone_env)\<lparr>d_world := (new_ext lone_env)\<lparr>x_spawned := [GoInitAPIClient]\<rparr>\<rparr>",
      folded set_up_def]
  have "xe_storageReady lone_env = 0" by (simp add: lone_env_def)
  with f show "map_of (d_handlers set_up) '':MISSION:START:'' = Some (WithBuffer 0 True)"
    "\<exists>bs. d_bufs set_up = d_bufs (new_system lone_env) @ bs" "0 \<in> set (d_closed set_up)" "x_storageBackend (d_world set_up)"
    by (simp_all add: new_system_handlers)
qed

section \<open>The running system\<close>



text \<open>
  C15. A mission is started only when the storage is ready: whenever the handler of :MISSION:START: runs there
  is a storage backend, however early the game sent the command.
\<close>

theorem missions_wait_for_storage:
  assumes "sys_runs E (new_system E) tr d" "handle a d = Some (e, r, d')" "ev_Command e = '':MISSION:START:''"
  shows "x_storageBackend (d_world d)"
proof -
  have "sys_inv E d" by (rule sys_runs_inv [OF assms(1) sys_inv_new])
  then show ?thesis using gated_handled [of d "'':MISSION:START:''" "xe_storageReady E" a e r d'] assms(2,3)
    by (auto simp: sys_inv_def)
qed

lemma sys_runs_append: "sys_runs E d xs d' \<Longrightarrow> sys_runs E d' ys d'' \<Longrightarrow> sys_runs E d (xs @ ys) d''"
  by (induction rule: sys_runs.induct) auto

lemma sys_dstep:
  "dstep d x d' \<Longrightarrow> \<forall>c. x \<noteq> Registered c \<Longrightarrow> \<forall>g. x \<noteq> GateClosed g \<Longrightarrow> sys_runs E d' xs d'' \<Longrightarrow>
     sys_runs E d (Stepped x # xs) d''"
  by (auto intro: sys_step.dispatcher)

theorem missions_wait_for_storage_witness:
  "\<exists>tr d e r d'. sys_runs lone_env (new_system lone_env) tr d \<and> handle 0 d = Some (e, r, d') \<and>
     ev_Command e = '':MISSION:START:'' \<and> x_storageBackend (d_world d)"
proof -
  let ?e = "command_event '':MISSION:START:'' [''[]'', ''{}'']"
  obtain bs where bs: "d_bufs set_up = \<lparr>bu_command = '':MISSION:START:'', bu_cap = 1, bu_queue = [],
     bu_gate = Some 0, bu_open = False, bu_current = None, bu_handler = Direct (handleNewMission lone_env)\<rparr> # bs"
    using set_up_frame(2) by (auto simp: new_system_handlers lone_env_def)
  let ?d1 = "update_buf 0 (\<lambda>b. b\<lparr>bu_queue := bu_queue b @ [?e]\<rparr>) set_up"
  have 1: "Dispatch ?e set_up = Some (queued, ?d1)"
    by (simp add: Dispatch_def command_event_def set_up_frame(1) bs Let_def)
  have "0 \<in> set (d_closed ?d1)" using set_up_frame(3) by simp
  then obtain d2 where 2: "pass_gate 0 ?d1 = Some d2" "d_bufs d2 = (d_bufs ?d1)[0 := (d_bufs ?d1 ! 0)\<lparr>bu_open := True\<rparr>]"
    by (auto simp: pass_gate_def bs update_buf_def log_msg_def)
  then obtain d3 where 3: "receive 0 d2 = Some (?e, d3)" "d_bufs d3 = (d_bufs d2)[0 := (d_bufs d2 ! 0)\<lparr>bu_queue := [], bu_current := Some ?e\<rparr>]"
    by (auto simp: receive_def bs update_buf_def)
  have "dstep set_up (Dispatched (channel_of (ev_Command ?e) set_up) ?e queued) ?d1" "dstep ?d1 (GatePassed 0) d2"
    "dstep d2 (Received 0 ?e) d3"
    using 1 2 3 by (auto intro: dstep.intros)
  then obtain tr where tr: "sys_runs lone_env (new_system lone_env) tr d3"
    using set_up_run by (meson sys_dstep sys_runs_append sys_runs.stop action.distinct)
  then have "wf_dispatcher d3" using sys_runs_inv [OF _ sys_inv_new] by (auto simp: sys_inv_def)
  moreover have "0 < length (d_bufs d3)" "bu_current (d_bufs d3 ! 0) = Some ?e" by (simp_all add: 2 3 bs update_buf_def)
  ultimately obtain r d4 where 4: "handle 0 d3 = Some (?e, r, d4)"
    by (rule handle_Some)
  with tr missions_wait_for_storage [OF tr 4] show ?thesis by (force simp: command_event_def)
qed

section \<open>Saves\<close>


definition saving :: "bool \<Rightarrow> save_state" where
  "saving client = in_flight (Ending client)"

lemma trigger_new: "triggerMissionSave True client new_save_state = (queued, saving client)"
  by (simp add: triggerMissionSave_def new_save_state_def saving_def in_flight_def)



lemma saving_flight: "single_flight (saving c)" "sv_inFlight (saving c)"
  by (simp_all add: single_flight_def saving_def in_flight_def)



text \<open>A recording with a working disk ends well.\<close>

definition finished :: backend where
  "finished = snd (the (mem_EndMission quiet_env recorded))"

lemma recorded_ends:
  "mem_EndMission quiet_env recorded = Some (None, finished)" "b_mission finished = None"
  "mem_GetExportedFilePath finished = ''out/Night_Op__1_20250101_120000.json''"
  using end_mission_writes [OF wf_recorded recorded_mission(1) recorded_Build recorded_doc_ok recorded_shape quiet_disk]
  by (auto simp: finished_def recorded_file)




text \<open>
  After the end of a mission the caches still know its soldiers: until the next :MISSION:START:, the state of
  one of them is accepted without an error, and recorded nowhere.
\<close>

theorem states_after_save_lost:
  assumes "mem_EndMission env (m_backend m) = Some (e, b)" "b_mission (m_backend m) \<noteq> None"
    "ParseSoldierState pl now (ev_Args ev) = Ok st" "GetSoldier (ss_SoldierID st) (m_EntityCache m) = Some s"
  shows "fst (handleSoldierState (mem_if env') pl now ev (m\<lparr>m_backend := b\<rparr>)) = Returns ANil None \<and>
    m_backend (snd (handleSoldierState (mem_if env') pl now ev (m\<lparr>m_backend := b\<rparr>))) = b"
proof -
  have "b_soldiers b = []" using view_ended [OF assms(1)] end_mission_clears [OF assms(1,2)]
    by (auto simp: buildMissionDataUnlocked_def mem_New_def)
  moreover from this have "mem_RecordSoldierState st' b = b" for st'
    by (simp add: mem_RecordSoldierState_def modify_at_def)
  ultimately show ?thesis
    using assms(3,4) by (simp add: handleSoldierState_def parsed.simps Let_def call_def mem_if_def ok_def cache_def)
qed

theorem states_after_save_lost_witness:
  "\<exists>env e b. mem_EndMission env (m_backend (manned 3)) = Some (e, b) \<and>
    m_backend (snd (handleSoldierState (mem_if quiet_env) zero_platform ZeroTime state_message
      ((manned 3)\<lparr>m_backend := b\<rparr>))) = b"
proof -
  let ?env = "quiet_env\<lparr>env_mkdir := Some (Errorf ''no space'' [])\<rparr>"
  have m: "b_mission (m_backend (manned 3)) = Some example_mission"
    by (simp add: manned_def call_def mem_if_def ok_def cache_def fresh_manager_def NewManager_def mem_AddSoldier_def
        backend_evals)
  then obtain e b where x: "mem_EndMission ?env (m_backend (manned 3)) = Some (e, b)"
    by (simp add: mem_EndMission_def exportJSON_def Let_def)
  obtain st where st: "ParseSoldierState zero_platform ZeroTime (ev_Args state_message) = Ok st" "ss_SoldierID st = 3"
    using parse_state_message by blast
  from states_after_save_lost [OF x _ st(1), of "example_soldier 3" quiet_env] m manned_soldier [of 3] x
  show ?thesis by (auto simp: st(2))
qed

end
