(* ===== verification/Websocket_Connection.thy ===== *)
theory Websocket_Connection
  imports GoJson
begin

text \<open>
  internal/storage/websocket/connection.go: a connection that is dialled again when it breaks. \<open>'m\<close> is a
  message, the bytes of the code. A goroutine is where it is in its loop; between its accesses to what is
  shared (the mutex, a channel, the network) the others run. Connections of the websocket library are
  numbered in the order they are dialled; \<open>co_wire\<close> is what was written on them. What the network answers,
  and which ready case a \<open>select\<close> takes, is a \<open>choice\<close>. \<open>co_done\<close> is \<open>closed\<close>, and \<open>done\<close> closed. Durations are
  in seconds. The URL and its parsing are part of the dialling, which is the environment's.
\<close>

definition sendChSize :: nat where "sendChSize = 10000"
definition ackChSize :: nat where "ackChSize = 16"
definition maxReconnect :: nat where "maxReconnect = 10"
definition maxBackoff :: nat where "maxBackoff = 30"

datatype 'm conn_goroutine =
    WriteSelect | WriteGot 'm | WriteTo nat 'm
  | ReadLock | ReadFrom nat
  | ReconnectStart | ReconnectLock | Attempt nat nat | Dial nat nat | Replay nat nat nat "'m option" | ReconnectDone
  | Waiting string

record 'm connection =
  co_conn :: "nat option"
  co_sendCh :: "'m list"
  co_ackCh :: "string list"
  co_done :: bool
  co_reconnecting :: bool
  co_cachedStartMsg :: "'m option"
  co_dials :: nat
  co_shut :: "nat list"
  co_wire :: "(nat \<times> 'm) list"
  co_running :: "'m conn_goroutine list"

definition newConnection :: "'m connection" where
  "newConnection = \<lparr>co_conn = None, co_sendCh = [], co_ackCh = [], co_done = False, co_reconnecting = False,
     co_cachedStartMsg = None, co_dials = 0, co_shut = [], co_wire = [], co_running = []\<rparr>"

text \<open>The environment's \<open>dialOnce\<close> worked: the new connection.\<close>

definition dial :: "'m connection \<Rightarrow> 'm connection" where
  "dial c = c\<lparr>co_conn := Some (co_dials c), co_dials := co_dials c + 1, co_running := co_running c @ [WriteSelect, ReadLock]\<rparr>"

text \<open>What a step did with a message, or which answer a caller got.\<close>

datatype 'm fate =
    Nothing
  | Accepted 'm | Dropped 'm
  | Wrote nat 'm | Unsent 'm | Failed nat 'm
  | Replayed nat 'm
  | Answered string "go_err option"

text \<open>
  \<open>Go\<close>: the operation works; \<open>Fail\<close>: it fails; \<open>Quit\<close>: the case of \<open>done\<close>; \<open>Got\<close>: these bytes
  come in; \<open>Timeout\<close>: the timer fires.
\<close>

datatype choice = Go | Fail | Quit | Got string | Timeout

section \<open>Acks\<close>

text \<open>
  \<open>json.Unmarshal\<close> into an \<open>AckMessage\<close>: the members are stored in the order of the text, whatever the case
  of their names; others are skipped, and a value that is no string is an error.
\<close>

record ack_message =
  ack_Type :: string
  ack_For :: string

definition store_member :: "string \<times> json \<Rightarrow> ack_message \<times> bool \<Rightarrow> ack_message \<times> bool" where
  "store_member m ab = (case ab of (ack, bad) \<Rightarrow>
     let name = map lower_byte (fst m) in
     if name \<noteq> ''type'' \<and> name \<noteq> ''for'' then (ack, bad)
     else case snd m of
         JStr s \<Rightarrow> (if name = ''type'' then ack\<lparr>ack_Type := s\<rparr> else ack\<lparr>ack_For := s\<rparr>, bad)
       | JNull \<Rightarrow> (ack, bad)
       | _ \<Rightarrow> (ack, True))"

definition decode_ack :: "json \<Rightarrow> ack_message \<times> bool" where
  "decode_ack j = (let zero = \<lparr>ack_Type = [], ack_For = []\<rparr> in case j of
     JObj ms \<Rightarrow> fold store_member ms (zero, False)
   | JNull \<Rightarrow> (zero, False)
   | _ \<Rightarrow> (zero, True))"

text \<open>The message an ack acknowledges; \<open>None\<close> is anything that is not an ack.\<close>

definition ack_for :: "string \<Rightarrow> string option" where
  "ack_for message = (case unmarshal decode_ack \<lparr>ack_Type = [], ack_For = []\<rparr> message of (ack, err) \<Rightarrow>
     if err \<noteq> None then None else if ack_Type ack = ''ack'' then Some (ack_For ack) else None)"

section \<open>Callers\<close>

definition send :: "'m \<Rightarrow> 'm connection \<Rightarrow> 'm fate \<times> 'm connection" where
  "send data c =
     (if length (co_sendCh c) < sendChSize then (Accepted data, c\<lparr>co_sendCh := co_sendCh c @ [data]\<rparr>)
      else (Dropped data, c))"

text \<open>The caller then waits, as a goroutine of its own.\<close>

definition sendAndWait :: "'m \<Rightarrow> string \<Rightarrow> 'm connection \<Rightarrow> 'm fate \<times> 'm connection" where
  "sendAndWait data ackFor c =
     (let (f, c) = send data c in (f, c\<lparr>co_running := co_running c @ [Waiting ackFor]\<rparr>))"

definition close :: "'m connection \<Rightarrow> 'm connection" where
  "close c =
     (if co_done c then c
      else c\<lparr>co_done := True, co_conn := None,
        co_shut := (case co_conn c of Some k \<Rightarrow> k # co_shut c | None \<Rightarrow> co_shut c)\<rparr>)"

section \<open>Loops\<close>

text \<open>
  One step of a goroutine: what it did, the goroutines in its place, and the rest. A write on a
  connection that was closed does not work; a read may still find something buffered.
\<close>

fun writeLoop :: "choice \<Rightarrow> 'm conn_goroutine \<Rightarrow> 'm connection \<Rightarrow> ('m fate \<times> 'm conn_goroutine list \<times> 'm connection) option" where
  "writeLoop Quit WriteSelect c = (if co_done c then Some (Nothing, [], c) else None)"
| "writeLoop Go WriteSelect c = (case co_sendCh c of
     [] \<Rightarrow> None
   | m # ms \<Rightarrow> Some (Nothing, [WriteGot m], c\<lparr>co_sendCh := ms\<rparr>))"
| "writeLoop Go (WriteGot m) c = (case co_conn c of
     None \<Rightarrow> Some (Unsent m, [WriteSelect], c)
   | Some k \<Rightarrow> Some (Nothing, [WriteTo k m], c))"
| "writeLoop Go (WriteTo k m) c =
     (if k \<in> set (co_shut c) then None
      else Some (Wrote k m, [WriteSelect], c\<lparr>co_wire := co_wire c @ [(k, m)]\<rparr>))"
| "writeLoop Fail (WriteTo k m) c = Some (Failed k m, [ReconnectStart], c)"
| "writeLoop _ _ _ = None"

fun readLoop :: "choice \<Rightarrow> 'm conn_goroutine \<Rightarrow> 'm connection \<Rightarrow> ('m fate \<times> 'm conn_goroutine list \<times> 'm connection) option" where
  "readLoop Go ReadLock c = (case co_conn c of
     None \<Rightarrow> Some (Nothing, [], c)
   | Some k \<Rightarrow> Some (Nothing, [ReadFrom k], c))"
| "readLoop Fail (ReadFrom k) c = Some (Nothing, if co_done c then [] else [ReconnectStart], c)"
| "readLoop (Got msg) (ReadFrom k) c =
     Some (Nothing, [ReadLock], case ack_for msg of
         Some t \<Rightarrow> if length (co_ackCh c) < ackChSize then c\<lparr>co_ackCh := co_ackCh c @ [t]\<rparr> else c
       | None \<Rightarrow> c)"
| "readLoop _ _ _ = None"

text \<open>
  \<open>Attempt n b\<close> is the head of the loop; \<open>Dial n b\<close> sleeps and dials. A replay that fails closes the connection,
  which stays the one of \<open>co_conn\<close>, and does not change the backoff.
\<close>

fun reconnect :: "choice \<Rightarrow> 'm conn_goroutine \<Rightarrow> 'm connection \<Rightarrow> ('m fate \<times> 'm conn_goroutine list \<times> 'm connection) option" where
  "reconnect Go ReconnectStart c =
     (if co_reconnecting c then Some (Nothing, [], c)
      else Some (Nothing, [ReconnectLock], c\<lparr>co_reconnecting := True\<rparr>))"
| "reconnect Go ReconnectLock c =
     (if co_done c then Some (Nothing, [ReconnectDone], c)
      else Some (Nothing, [Attempt 1 1], c\<lparr>co_conn := None,
        co_shut := (case co_conn c of Some k \<Rightarrow> k # co_shut c | None \<Rightarrow> co_shut c)\<rparr>))"
| "reconnect Go (Attempt n b) c =
     Some (Nothing, [if n \<le> maxReconnect \<and> \<not> co_done c then Dial n b else ReconnectDone], c)"
| "reconnect Fail (Dial n b) c = Some (Nothing, [Attempt (n + 1) (min (b * 2) maxBackoff)], c)"
| "reconnect Go (Dial n b) c = Some (Nothing, [Replay n b (co_dials c) (co_cachedStartMsg c)],
     c\<lparr>co_conn := Some (co_dials c), co_dials := co_dials c + 1\<rparr>)"
| "reconnect Go (Replay n b k cached) c = (case cached of
     None \<Rightarrow> Some (Nothing, [WriteSelect, ReadLock, ReconnectDone], c)
   | Some m \<Rightarrow>
       if k \<in> set (co_shut c) then None
       else Some (Replayed k m, [WriteSelect, ReadLock, ReconnectDone], c\<lparr>co_wire := co_wire c @ [(k, m)]\<rparr>))"
| "reconnect Fail (Replay n b k cached) c =
     (if cached = None then None else Some (Nothing, [Attempt (n + 1) b], c\<lparr>co_shut := k # co_shut c\<rparr>))"
| "reconnect Go ReconnectDone c = Some (Nothing, [], c\<lparr>co_reconnecting := False\<rparr>)"
| "reconnect _ _ _ = None"

fun awaitAck :: "choice \<Rightarrow> 'm conn_goroutine \<Rightarrow> 'm connection \<Rightarrow> ('m fate \<times> 'm conn_goroutine list \<times> 'm connection) option" where
  "awaitAck Go (Waiting ackFor) c = (case co_ackCh c of
     [] \<Rightarrow> None
   | t # ts \<Rightarrow>
       if t = ackFor then Some (Answered ackFor None, [], c\<lparr>co_ackCh := ts\<rparr>)
       else Some (Nothing, [Waiting ackFor], c\<lparr>co_ackCh := ts\<rparr>))"
| "awaitAck Timeout (Waiting ackFor) c =
     Some (Answered ackFor (Some (Errorf ''timeout waiting for ack of %q'' [ArgStr ackFor])), [], c)"
| "awaitAck Quit (Waiting ackFor) c =
     (if co_done c then
        Some (Answered ackFor (Some (Errorf ''connection closed while waiting for ack of %q'' [ArgStr ackFor])), [], c)
      else None)"
| "awaitAck _ _ _ = None"

definition go :: "choice \<Rightarrow> 'm conn_goroutine \<Rightarrow> 'm connection \<Rightarrow> ('m fate \<times> 'm conn_goroutine list \<times> 'm connection) option" where
  "go ch g c = (case g of
     WriteSelect \<Rightarrow> writeLoop ch g c | WriteGot m \<Rightarrow> writeLoop ch g c | WriteTo k m \<Rightarrow> writeLoop ch g c
   | ReadLock \<Rightarrow> readLoop ch g c | ReadFrom k \<Rightarrow> readLoop ch g c
   | Waiting t \<Rightarrow> awaitAck ch g c
   | _ \<Rightarrow> reconnect ch g c)"

section \<open>Runs\<close>

inductive cstep :: "'m connection \<Rightarrow> 'm fate \<Rightarrow> 'm connection \<Rightarrow> bool" where
  run: "co_running c = gs @ g # hs \<Longrightarrow> go ch g c = Some (f, gs', c') \<Longrightarrow>
    cstep c f (c'\<lparr>co_running := gs @ gs' @ hs\<rparr>)"
| send: "send m c = (f, c') \<Longrightarrow> cstep c f c'"
| wait: "sendAndWait m t c = (f, c') \<Longrightarrow> cstep c f c'"
| cache: "cstep c Nothing (c\<lparr>co_cachedStartMsg := m\<rparr>)"
| close: "cstep c Nothing (close c)"

text \<open>Runs through states that all satisfy \<open>P\<close>.\<close>

inductive cruns :: "('m connection \<Rightarrow> bool) \<Rightarrow> 'm connection \<Rightarrow> 'm fate list \<Rightarrow> 'm connection \<Rightarrow> bool" for P where
  stop: "P c \<Longrightarrow> cruns P c [] c"
| step: "P c \<Longrightarrow> cstep c f c' \<Longrightarrow> cruns P c' fs c'' \<Longrightarrow> cruns P c (f # fs) c''"

inductive_simps cruns_simps [simp]: "cruns P c [] c'" "cruns P c (f # fs) c'"

text \<open>What became of the messages of a run.\<close>

definition taken_in :: "'m fate list \<Rightarrow> 'm list" where
  "taken_in fs = List.map_filter (\<lambda>f. case f of Accepted m \<Rightarrow> Some m | _ \<Rightarrow> None) fs"

definition passed_on :: "'m fate list \<Rightarrow> 'm list" where
  "passed_on fs = List.map_filter (\<lambda>f. case f of Wrote k m \<Rightarrow> Some m | Unsent m \<Rightarrow> Some m | Failed k m \<Rightarrow> Some m | _ \<Rightarrow> None) fs"

text \<open>What the write loops have in hand.\<close>

fun in_hand :: "'m conn_goroutine \<Rightarrow> 'm list" where
  "in_hand (WriteGot m) = [m]"
| "in_hand (WriteTo k m) = [m]"
| "in_hand _ = []"

fun writing :: "'m conn_goroutine \<Rightarrow> bool" where
  "writing WriteSelect = True"
| "writing (WriteGot m) = True"
| "writing (WriteTo k m) = True"
| "writing _ = False"

fun reconnects :: "'m conn_goroutine \<Rightarrow> bool" where
  "reconnects ReconnectLock = True"
| "reconnects (Attempt n b) = True"
| "reconnects (Dial n b) = True"
| "reconnects (Replay n b k m) = True"
| "reconnects ReconnectDone = True"
| "reconnects _ = False"

end
