(* ===== verification/Websocket_Facts.thy ===== *)
theory Websocket_Facts
  imports Websocket_Connection "HOL-Library.Multiset"
begin

text \<open>
  What every interleaving of the connection's goroutines keeps: the bounds of its channels, one reconnection
  at a time with bounded attempts, no message made up or written twice, and, as long as there is only one write
  loop, the order of the messages.
\<close>

section \<open>Steps\<close>

definition held_by :: "'m conn_goroutine list \<Rightarrow> 'm list" where
  "held_by gs = concat (map in_hand gs)"

lemma held_by_simps [simp]: "held_by [] = []" "held_by (g # gs) = in_hand g @ held_by gs"
  "held_by (gs @ hs) = held_by gs @ held_by hs"
  by (simp_all add: held_by_def)

lemma sent_frame:
  assumes "send m c = (f, c')"
  shows "f = Accepted m \<and> length (co_sendCh c) < sendChSize \<and> c' = c\<lparr>co_sendCh := co_sendCh c @ [m]\<rparr> \<or>
    f = Dropped m \<and> sendChSize \<le> length (co_sendCh c) \<and> c' = c"
  using assms by (auto simp: send_def split: if_splits)

lemma waits_frame:
  assumes "sendAndWait m t c = (f, c')"
  obtains c1 where "send m c = (f, c1)" "c' = c1\<lparr>co_running := co_running c1 @ [Waiting t]\<rparr>"
  using assms by (auto simp: sendAndWait_def split: prod.splits)

lemmas loop_splits = if_splits option.splits list.splits

text \<open>One step of a goroutine, by what it was.\<close>

lemma go_cases:
  assumes "go ch g c = Some (f, gs', c')"
  obtains "writing g" "writeLoop ch g c = Some (f, gs', c')"
  | "g = ReadLock \<or> (\<exists>k. g = ReadFrom k)" "readLoop ch g c = Some (f, gs', c')"
  | "g = ReconnectStart \<or> reconnects g" "reconnect ch g c = Some (f, gs', c')"
  | t where "g = Waiting t" "awaitAck ch g c = Some (f, gs', c')"
  using assms by (cases g) (auto simp: go_def)

lemma go_frame:
  assumes "go ch g c = Some (f, gs', c')"
  shows "co_running c' = co_running c" "co_cachedStartMsg c' = co_cachedStartMsg c" "co_done c' = co_done c"
proof -
  have "co_running c' = co_running c \<and> co_cachedStartMsg c' = co_cachedStartMsg c \<and> co_done c' = co_done c"
    using assms
  proof (cases rule: go_cases)
    case 1
    then show ?thesis by (cases g; cases ch) (auto split: loop_splits)
  next
    case 2
    then show ?thesis by (cases g; cases ch) (auto split: loop_splits)
  next
    case 3
    then show ?thesis by (cases g; cases ch) (auto split: loop_splits)
  next
    case (4 t)
    then show ?thesis by (cases ch) (auto split: loop_splits)
  qed
  then show "co_running c' = co_running c" "co_cachedStartMsg c' = co_cachedStartMsg c" "co_done c' = co_done c"
    by simp_all
qed

section \<open>Messages\<close>

text \<open>What a step takes in and passes on, against what the queue and the write loops hold.\<close>

lemmas fate_defs = taken_in_def passed_on_def

lemma fates_append: "taken_in (fs @ gs) = taken_in fs @ taken_in gs" "passed_on (fs @ gs) = passed_on fs @ passed_on gs"
  by (simp_all add: fate_defs List.map_filter_def)

lemma fates_Cons: "taken_in (f # fs) = taken_in [f] @ taken_in fs" "passed_on (f # fs) = passed_on [f] @ passed_on fs"
  using fates_append [of "[f]" fs] by simp_all

lemma fates_simps [simp]: "taken_in [] = []" "passed_on [] = []"
  by (simp_all add: fate_defs List.map_filter_simps)

lemma go_messages:
  assumes "go ch g c = Some (f, gs', c')"
  shows "in_hand g @ co_sendCh c = passed_on [f] @ held_by gs' @ co_sendCh c'" "taken_in [f] = []"
proof -
  have "in_hand g @ co_sendCh c = passed_on [f] @ held_by gs' @ co_sendCh c' \<and> taken_in [f] = []"
    using assms
  proof (cases rule: go_cases)
    case 1
    then show ?thesis
      by (cases g; cases ch) (auto simp: fate_defs List.map_filter_simps split: loop_splits)
  next
    case 2
    then show ?thesis by (cases g; cases ch) (auto simp: fate_defs List.map_filter_simps split: loop_splits)
  next
    case 3
    then show ?thesis by (cases g; cases ch) (auto simp: fate_defs List.map_filter_simps split: loop_splits)
  next
    case (4 t)
    then show ?thesis by (cases ch) (auto simp: fate_defs List.map_filter_simps split: loop_splits)
  qed
  then show "in_hand g @ co_sendCh c = passed_on [f] @ held_by gs' @ co_sendCh c'" "taken_in [f] = []" by simp_all
qed

definition outstanding :: "'m connection \<Rightarrow> 'm multiset" where
  "outstanding c = mset (held_by (co_running c)) + mset (co_sendCh c)"

lemma cstep_messages:
  assumes "cstep c f c'"
  shows "mset (taken_in [f]) + outstanding c = mset (passed_on [f]) + outstanding c'"
  using assms
proof cases
  case (run gs g hs ch gs' c1)
  have "mset (in_hand g) + mset (co_sendCh c) = mset (passed_on [f]) + (mset (held_by gs') + mset (co_sendCh c1))"
    using arg_cong [OF go_messages(1) [OF run(3)], of mset] by (simp only: mset_append)
  then show ?thesis
    using go_messages(2) [OF run(3)] run(1,2) by (simp add: outstanding_def)
next
  case (send m)
  then show ?thesis using sent_frame [OF send(1)]
    by (auto simp: outstanding_def fate_defs List.map_filter_simps)
next
  case (wait m t)
  then show ?thesis by (elim waits_frame) (auto dest!: sent_frame simp: outstanding_def fate_defs List.map_filter_simps)
qed (auto simp: outstanding_def fate_defs List.map_filter_simps close_def)

lemma cruns_messages:
  "cruns P c fs c' \<Longrightarrow> mset (taken_in fs) + outstanding c = mset (passed_on fs) + outstanding c'"
proof (induction rule: cruns.induct)
  case (step c f c' fs c'')
  have *: "mset (taken_in [f]) + outstanding c = mset (passed_on [f]) + outstanding c'"
    by (rule cstep_messages [OF step.hyps(2)])
  have "mset (taken_in (f # fs)) + outstanding c = (mset (taken_in [f]) + outstanding c) + mset (taken_in fs)"
    by (simp only: fates_Cons(1) [of f fs] mset_append ac_simps)
  also have "\<dots> = mset (passed_on [f]) + (mset (taken_in fs) + outstanding c')"
    unfolding * by (simp only: ac_simps)
  also have "\<dots> = mset (passed_on [f]) + (mset (passed_on fs) + outstanding c'')"
    by (simp only: step.IH)
  finally show ?case by (simp only: fates_Cons(2) [of f fs] mset_append ac_simps)
qed simp

text \<open>With one write loop at most, what it holds is older than what is queued.\<close>

definition one_writer :: "'m connection \<Rightarrow> bool" where
  "one_writer c = (length (filter writing (co_running c)) \<le> 1)"

lemma not_writing: "\<not> writing g \<Longrightarrow> in_hand g = []"
  by (cases g) simp_all

lemma no_writing: "filter writing gs = [] \<Longrightarrow> held_by gs = []"
  by (induction gs) (auto simp: not_writing split: if_splits)

lemma cstep_order:
  assumes "cstep c f c'" "one_writer c"
  shows "held_by (co_running c) @ co_sendCh c @ taken_in [f] = passed_on [f] @ held_by (co_running c') @ co_sendCh c'"
  using assms(1)
proof cases
  case (run gs g hs ch gs' c1)
  note m = go_messages [OF run(3)] and fr = go_frame(1) [OF run(3)]
  show ?thesis
  proof (cases "writing g")
    case True
    then have "filter writing gs = []" "filter writing hs = []"
      using assms(2) run(2) by (auto simp: one_writer_def)
    then have "held_by gs = []" "held_by hs = []" by (auto intro: no_writing)
    then show ?thesis using m run(1,2) fr by simp
  next
    case False
    have "passed_on [f] = [] \<and> held_by gs' = [] \<and> co_sendCh c1 = co_sendCh c"
      using run(3) False
    proof (cases rule: go_cases)
      case 2
      then show ?thesis by (cases g; cases ch) (auto simp: fate_defs List.map_filter_simps split: loop_splits)
    next
      case 3
      then show ?thesis by (cases g; cases ch) (auto simp: fate_defs List.map_filter_simps split: loop_splits)
    next
      case (4 t)
      then show ?thesis by (cases ch) (auto simp: fate_defs List.map_filter_simps split: loop_splits)
    qed simp
    then show ?thesis using m run(1,2) fr not_writing [OF False] by simp
  qed
next
  case (send m)
  then show ?thesis using sent_frame [OF send(1)] by (auto simp: fate_defs List.map_filter_simps)
next
  case (wait m t)
  then show ?thesis by (elim waits_frame) (auto dest!: sent_frame simp: fate_defs List.map_filter_simps)
qed (auto simp: fate_defs List.map_filter_simps close_def)

lemma cruns_order:
  "cruns one_writer c fs c' \<Longrightarrow>
     held_by (co_running c) @ co_sendCh c @ taken_in fs = passed_on fs @ held_by (co_running c') @ co_sendCh c'"
proof (induction rule: cruns.induct)
  case (step c f c' fs c'')
  have "held_by (co_running c) @ co_sendCh c @ taken_in (f # fs) =
      (held_by (co_running c) @ co_sendCh c @ taken_in [f]) @ taken_in fs"
    using fates_Cons(1) [of f fs] by simp
  also have "\<dots> = passed_on [f] @ (held_by (co_running c') @ co_sendCh c' @ taken_in fs)"
    using cstep_order [OF step.hyps(2,1)] by simp
  finally show ?case using step.IH fates_Cons(2) [of f fs] by simp
qed simp

section \<open>Bounds\<close>

text \<open>A reconnection in progress is within its attempts and its longest pause.\<close>

definition backoff_at :: "nat \<Rightarrow> nat \<Rightarrow> bool" where
  "backoff_at n b = (\<exists>j < n. b = min (2 ^ j) maxBackoff)"

lemma backoff_at: "backoff_at (Suc 0) (Suc 0)" "backoff_at n b \<Longrightarrow> backoff_at (Suc n) b"
  "backoff_at n b \<Longrightarrow> backoff_at (Suc n) (min (b * 2) maxBackoff)"
proof -
  show "backoff_at (Suc 0) (Suc 0)" by (simp add: backoff_at_def maxBackoff_def)
  show "backoff_at n b \<Longrightarrow> backoff_at (Suc n) b" by (auto simp: backoff_at_def intro: less_SucI)
  have "min (min (2 ^ j) maxBackoff * 2) maxBackoff = min (2 ^ Suc j) maxBackoff" for j
    by (simp add: maxBackoff_def min_def)
  then show "backoff_at n b \<Longrightarrow> backoff_at (Suc n) (min (b * 2) maxBackoff)"
    unfolding backoff_at_def by (metis Suc_less_eq)
qed

fun in_bounds :: "'m conn_goroutine \<Rightarrow> bool" where
  "in_bounds (Attempt n b) = (1 \<le> n \<and> n \<le> maxReconnect + 1 \<and> backoff_at n b)"
| "in_bounds (Dial n b) = (1 \<le> n \<and> n \<le> maxReconnect \<and> backoff_at n b)"
| "in_bounds (Replay n b k m) = (1 \<le> n \<and> n \<le> maxReconnect \<and> backoff_at n b)"
| "in_bounds g = True"

definition conn_inv :: "'m connection \<Rightarrow> bool" where
  "conn_inv c = (length (co_sendCh c) \<le> sendChSize \<and> length (co_ackCh c) \<le> ackChSize \<and>
     length (filter reconnects (co_running c)) = (if co_reconnecting c then 1 else 0) \<and>
     (\<forall>g \<in> set (co_running c). in_bounds g))"

lemma go_bounds:
  assumes "go ch g c = Some (f, gs', c')" "in_bounds g"
  shows "\<forall>h \<in> set gs'. in_bounds h"
  using assms(1)
proof (cases rule: go_cases)
  case 3
  then show ?thesis using assms(2)
    by (cases g; cases ch) (auto simp: backoff_at maxReconnect_def split: loop_splits)
next
  case 1
  then show ?thesis by (cases g; cases ch) (auto split: loop_splits)
next
  case 2
  then show ?thesis by (cases g; cases ch) (auto split: loop_splits)
next
  case (4 t)
  then show ?thesis by (cases ch) (auto split: loop_splits)
qed

lemma go_reconnecting:
  assumes "go ch g c = Some (f, gs', c')" "reconnects g \<Longrightarrow> co_reconnecting c"
  shows "length (filter reconnects gs') + (if co_reconnecting c then 1 else 0) =
    length (filter reconnects [g]) + (if co_reconnecting c' then 1 else 0)"
    "length (co_ackCh c) \<le> ackChSize \<Longrightarrow> length (co_ackCh c') \<le> ackChSize"
    "length (co_sendCh c') \<le> length (co_sendCh c)"
proof -
  have "length (filter reconnects gs') + (if co_reconnecting c then 1 else 0) =
      length (filter reconnects [g]) + (if co_reconnecting c' then 1 else 0) \<and>
    (length (co_ackCh c) \<le> ackChSize \<longrightarrow> length (co_ackCh c') \<le> ackChSize) \<and>
    length (co_sendCh c') \<le> length (co_sendCh c)"
    using assms(1)
  proof (cases rule: go_cases)
    case 1
    then show ?thesis by (cases g; cases ch) (auto split: loop_splits)
  next
    case 2
    then show ?thesis by (cases g; cases ch) (auto split: loop_splits)
  next
    case 3
    then show ?thesis using assms(2) by (cases g; cases ch) (auto split: loop_splits)
  next
    case (4 t)
    then show ?thesis by (cases ch) (auto split: loop_splits)
  qed
  then show "length (filter reconnects gs') + (if co_reconnecting c then 1 else 0) =
    length (filter reconnects [g]) + (if co_reconnecting c' then 1 else 0)"
    "length (co_ackCh c) \<le> ackChSize \<Longrightarrow> length (co_ackCh c') \<le> ackChSize"
    "length (co_sendCh c') \<le> length (co_sendCh c)" by blast+
qed

lemma cstep_inv:
  assumes "cstep c f c'" "conn_inv c"
  shows "conn_inv c'"
  using assms(1)
proof cases
  case (run gs g hs ch gs' c1)
  have "reconnects g \<Longrightarrow> co_reconnecting c" using assms(2) run(2) by (auto simp: conn_inv_def split: if_splits)
  note r = go_reconnecting [OF run(3) this]
  have "in_bounds g" using assms(2) run(2) by (simp add: conn_inv_def)
  then have b: "\<forall>h \<in> set gs'. in_bounds h" by (rule go_bounds [OF run(3)])
  show ?thesis using assms(2) r b run(1,2)
    by (auto simp: conn_inv_def split: if_splits)
next
  case (send m)
  then show ?thesis using sent_frame [OF send(1)] assms(2) by (auto simp: conn_inv_def)
next
  case (wait m t)
  then show ?thesis using assms(2) by (elim waits_frame) (auto dest!: sent_frame simp: conn_inv_def)
qed (use assms(2) in \<open>auto simp: conn_inv_def close_def\<close>)

lemma cruns_inv: "cruns P c fs c' \<Longrightarrow> conn_inv c \<Longrightarrow> conn_inv c'"
  by (induction rule: cruns.induct) (auto intro: cstep_inv)

lemma conn_inv_dial: "conn_inv (dial newConnection)"
  by (simp add: conn_inv_def dial_def newConnection_def)

end
