(* ===== verification/Websocket_Backend.thy ===== *)
theory Websocket_Backend
  imports Websocket_Connection Export_Stream Storage
begin

text \<open>
  internal/storage/websocket/websocket.go and pkg/streaming/messages.go: the backend that sends every call to the
  web server. A message is the envelope before it is encoded: the call stands for its payload.
  \<open>encoding/json\<close> accepts every payload without a float that is NaN or infinite (times before the year 10000
  are assumed). Calls that wait for an ack return when the connection answers.
\<close>

section \<open>Messages\<close>

fun message_type :: "backend_call \<Rightarrow> string" where
  "message_type (CallStartMission m w) = ''start_mission''"
| "message_type CallEndMission = ''end_mission''"
| "message_type (CallAddSoldier s) = ''add_soldier''"
| "message_type (CallAddVehicle v) = ''add_vehicle''"
| "message_type (CallAddMarker m) = ''add_marker''"
| "message_type (CallDeleteSoldier i f) = ''delete_soldier''"
| "message_type (CallDeleteVehicle i f) = ''delete_vehicle''"
| "message_type (CallRecordSoldierState s) = ''soldier_state''"
| "message_type (CallRecordVehicleState v) = ''vehicle_state''"
| "message_type (CallRecordMarkerState s) = ''marker_state''"
| "message_type (CallDeleteMarker m) = ''delete_marker''"
| "message_type (CallRecordFiredEvent e) = ''fired_event''"
| "message_type (CallRecordProjectileEvent e) = ''projectile_event''"
| "message_type (CallRecordGeneralEvent e) = ''general_event''"
| "message_type (CallRecordSectorEvent e) = ''sector_event''"
| "message_type (CallRecordEndMissionEvent e) = ''end_mission_event''"
| "message_type (CallRecordHitEvent e) = ''hit_event''"
| "message_type (CallRecordKillEvent e) = ''kill_event''"
| "message_type (CallRecordChatEvent e) = ''chat_event''"
| "message_type (CallRecordRadioEvent e) = ''radio_event''"
| "message_type (CallRecordTelemetryEvent e) = ''telemetry''"
| "message_type (CallRecordTimeState t) = ''time_state''"
| "message_type (CallRecordAce3DeathEvent e) = ''ace3_death''"
| "message_type (CallRecordAce3UnconsciousEvent e) = ''ace3_unconscious''"
| "message_type (CallAddPlacedObject p) = ''add_placed''"
| "message_type (CallRecordPlacedObjectEvent e) = ''placed_event''"
| "message_type (CallSetFocusStart f) = ''mission_focus_start''"
| "message_type (CallSetFocusEnd f) = ''mission_focus_end''"
| "message_type CallInit = []"
| "message_type CallClose = []"

definition AllMessageTypes :: "string list" where
  "AllMessageTypes = [''start_mission'', ''end_mission'', ''add_soldier'', ''add_vehicle'', ''add_marker'',
     ''soldier_state'', ''vehicle_state'', ''marker_state'', ''delete_marker'', ''delete_soldier'', ''delete_vehicle'',
     ''fired_event'', ''projectile_event'', ''general_event'', ''sector_event'', ''end_mission_event'',
     ''hit_event'', ''kill_event'', ''chat_event'', ''radio_event'',
     ''telemetry'', ''time_state'', ''ace3_death'', ''ace3_unconscious'',
     ''add_placed'', ''placed_event'', ''mission_focus_start'', ''mission_focus_end'']"

text \<open>Every message has a type of the protocol, and no type is listed twice.\<close>

lemma message_types: "c \<noteq> CallInit \<Longrightarrow> c \<noteq> CallClose \<Longrightarrow> message_type c \<in> set AllMessageTypes"
  by (cases c) (simp_all add: AllMessageTypes_def)

lemma message_types_distinct: "distinct AllMessageTypes"
  by code_simp

record envelope =
  env_Type :: string
  env_Payload :: backend_call

text \<open>The floats of a payload.\<close>

definition pos_floats :: "position3D \<Rightarrow> f64 list" where
  "pos_floats p = [pos3_X p, pos3_Y p, pos3_Z p]"

definition telemetry_floats :: "telemetry_event \<Rightarrow> f64 list" where
  "telemetry_floats e = (let w = tel_Weather e in
     [tel_FpsAverage e, tel_FpsMin e, wea_Fog w, wea_Overcast w, wea_Rain w, wea_Humidity w, wea_Waves w, wea_WindDir w,
      wea_WindStr w, wea_Gusts w, wea_Lightnings w, wea_MoonIntensity w, wea_MoonPhase w, wea_SunOrMoon w]
     @ concat (map (\<lambda>p. [net_Ping p, net_BW p, net_Desync p]) (tel_Players e)))"

fun payload_floats :: "backend_call \<Rightarrow> f64 list" where
  "payload_floats (CallStartMission m w) =
     [mi_CaptureDelay m, w_WorldSize w, w_Latitude w, w_Longitude w] @ pos_floats (w_Location w)"
| "payload_floats (CallAddMarker m) = [mk_Direction m, mk_Alpha m] @ pos_floats (mk_Position m)
     @ concat (map (\<lambda>p. [pos2_X p, pos2_Y p]) (mk_Polyline m))"
| "payload_floats (CallRecordSoldierState s) = pos_floats (ss_Position s)"
| "payload_floats (CallRecordVehicleState v) =
     [vs_Fuel v, vs_Damage v, vs_TurretAzimuth v, vs_TurretElevation v] @ pos_floats (vs_Position v)"
| "payload_floats (CallRecordMarkerState s) = [ms_Direction s, ms_Alpha s] @ pos_floats (ms_Position s)"
| "payload_floats (CallRecordFiredEvent e) = pos_floats (fe_StartPos e) @ pos_floats (fe_EndPos e)"
| "payload_floats (CallRecordProjectileEvent e) =
     concat (map (\<lambda>p. pos_floats (tp_Position p)) (pe_Trajectory e)) @ concat (map (\<lambda>h. pos_floats (ph_Position h)) (pe_Hits e))"
| "payload_floats (CallRecordSectorEvent e) = [sec_PosX e, sec_PosY e, sec_PosZ e]"
| "payload_floats (CallRecordHitEvent e) = [he_Distance e]"
| "payload_floats (CallRecordKillEvent e) = [ke_Distance e]"
| "payload_floats (CallRecordRadioEvent e) = [re_Frequency e]"
| "payload_floats (CallRecordTelemetryEvent e) = telemetry_floats e"
| "payload_floats (CallRecordTimeState t) = [ts_TimeMultiplier t, ts_MissionTime t]"
| "payload_floats (CallAddPlacedObject p) = pos_floats (po_Position p)"
| "payload_floats (CallRecordPlacedObjectEvent e) = pos_floats (poe_Position e)"
| "payload_floats _ = []"

fun payload_values :: "backend_call \<Rightarrow> any list" where
  "payload_values (CallAddSoldier s) = s_SquadParams s"
| "payload_values (CallRecordGeneralEvent e) = map snd (ge_ExtraData e)"
| "payload_values _ = []"

definition payload_ok :: "backend_call \<Rightarrow> bool" where
  "payload_ok c = ((\<forall>x \<in> set (payload_floats c). finite_f64 x) \<and> (\<forall>v \<in> set (payload_values c). any_ok v))"

definition marshalEnvelope :: "backend_call \<Rightarrow> envelope outcome" where
  "marshalEnvelope c =
     (if payload_ok c then Ok \<lparr>env_Type = message_type c, env_Payload = c\<rparr>
      else Err (Errorf ''marshal %s payload: %w'' [ArgStr (message_type c), ArgErr (JSONError UnsupportedValue)]))"

section \<open>The backend\<close>

record websocket =
  wb_conn :: "envelope connection"
  wb_nextMarkerID :: guint

definition ws_New :: websocket where
  "ws_New = \<lparr>wb_conn = newConnection, wb_nextMarkerID = 0\<rparr>"

text \<open>A method has returned, or waits for an ack of a type.\<close>

datatype ws_result = Done backend_result | Awaits string

definition sendEnvelope :: "backend_call \<Rightarrow> websocket \<Rightarrow> go_err option \<times> websocket" where
  "sendEnvelope c b = (case marshalEnvelope c of
     Ok e \<Rightarrow> (None, b\<lparr>wb_conn := snd (send e (wb_conn b))\<rparr>)
   | Err e \<Rightarrow> (Some e, b)
   | Panic p \<Rightarrow> (None, b))"

definition sendEnvelopeAndWait :: "backend_call \<Rightarrow> websocket \<Rightarrow> ws_result \<times> websocket" where
  "sendEnvelopeAndWait c b = (case marshalEnvelope c of
     Ok e \<Rightarrow> (Awaits (message_type c), b\<lparr>wb_conn := snd (sendAndWait e (message_type c) (wb_conn b))\<rparr>)
   | Err e \<Rightarrow> (Done (Returned (Some e)), b)
   | Panic p \<Rightarrow> (Done (Returned None), b))"

definition ws_StartMission :: "mission \<Rightarrow> world \<Rightarrow> websocket \<Rightarrow> ws_result \<times> websocket" where
  "ws_StartMission m w b = (case marshalEnvelope (CallStartMission m w) of
     Ok e \<Rightarrow>
       let c = (wb_conn b)\<lparr>co_cachedStartMsg := Some e\<rparr>
       in (Awaits ''start_mission'', b\<lparr>wb_conn := snd (sendAndWait e ''start_mission'' c)\<rparr>)
   | Err e \<Rightarrow> (Done (Returned (Some e)), b)
   | Panic p \<Rightarrow> (Done (Returned None), b))"

text \<open>What \<open>EndMission\<close> does once the wait is over, with or without an error.\<close>

definition ws_mission_ended :: "websocket \<Rightarrow> websocket" where
  "ws_mission_ended b = b\<lparr>wb_conn := (wb_conn b)\<lparr>co_cachedStartMsg := None\<rparr>, wb_nextMarkerID := 0\<rparr>"

definition ws_AddMarker :: "marker \<Rightarrow> websocket \<Rightarrow> backend_result \<times> websocket" where
  "ws_AddMarker m b =
     (let i = wb_nextMarkerID b + 1;
          (err, b) = sendEnvelope (CallAddMarker (m\<lparr>mk_ID := i\<rparr>)) (b\<lparr>wb_nextMarkerID := i\<rparr>)
      in (MarkerAdded i err, b))"

text \<open>\<open>Init\<close> with a dial that works; with one that fails nothing changes but the error.\<close>

fun ws_exec :: "backend_call \<Rightarrow> websocket \<Rightarrow> ws_result \<times> websocket" where
  "ws_exec CallInit b = (Done (Returned None), b\<lparr>wb_conn := dial (wb_conn b)\<rparr>)"
| "ws_exec CallClose b = (Done (Returned None), b\<lparr>wb_conn := close (wb_conn b)\<rparr>)"
| "ws_exec (CallStartMission m w) b = ws_StartMission m w b"
| "ws_exec CallEndMission b = sendEnvelopeAndWait CallEndMission b"
| "ws_exec (CallAddMarker m) b = (let (r, b) = ws_AddMarker m b in (Done r, b))"
| "ws_exec c b = (let (err, b) = sendEnvelope c b in (Done (Returned err), b))"

end
