(* ===== verification/Websocket_Properties.thy ===== *)
theory Websocket_Properties
  imports Websocket_Facts Websocket_Backend Memory_Properties Worker_Facts
begin

text \<open>
  The properties of the websocket connection and its backend. A concrete run is a list of commands, which
  \<open>perform\<close> carries out.
\<close>

section \<open>Concrete runs\<close>

datatype 'm command = Run nat choice | Sends 'm | Waits 'm string | Caches "'m option" | Closes

fun perform :: "'m command list \<Rightarrow> 'm connection \<Rightarrow> ('m fate list \<times> 'm connection) option" where
  "perform [] c = Some ([], c)"
| "perform (Run i ch # xs) c =
     (if i < length (co_running c) then
        (case go ch (co_running c ! i) c of
           None \<Rightarrow> None
         | Some (f, gs, c') \<Rightarrow>
             map_option (\<lambda>(fs, c). (f # fs, c))
               (perform xs (c'\<lparr>co_running := take i (co_running c) @ gs @ drop (Suc i) (co_running c)\<rparr>)))
      else None)"
| "perform (Sends m # xs) c = (case send m c of (f, c) \<Rightarrow> map_option (\<lambda>(fs, c). (f # fs, c)) (perform xs c))"
| "perform (Waits m t # xs) c = (case sendAndWait m t c of (f, c) \<Rightarrow> map_option (\<lambda>(fs, c). (f # fs, c)) (perform xs c))"
| "perform (Caches m # xs) c = map_option (\<lambda>(fs, c). (Nothing # fs, c)) (perform xs (c\<lparr>co_cachedStartMsg := m\<rparr>))"
| "perform (Closes # xs) c = map_option (\<lambda>(fs, c). (Nothing # fs, c)) (perform xs (close c))"

lemma perform_sound: "perform xs c = Some (fs, c') \<Longrightarrow> cruns (\<lambda>_. True) c fs c'"
proof (induction xs c arbitrary: fs c' rule: perform.induct)
  case (2 i ch xs c)
  then obtain f gs c1 fs1 where g: "i < length (co_running c)" "go ch (co_running c ! i) c = Some (f, gs, c1)"
    "perform xs (c1\<lparr>co_running := take i (co_running c) @ gs @ drop (Suc i) (co_running c)\<rparr>) = Some (fs1, c')" "fs = f # fs1"
    by (auto split: if_splits option.splits)
  have "co_running c = take i (co_running c) @ co_running c ! i # drop (Suc i) (co_running c)"
    using g(1) by (rule id_take_nth_drop)
  then have "cstep c f (c1\<lparr>co_running := take i (co_running c) @ gs @ drop (Suc i) (co_running c)\<rparr>)"
    by (rule cstep.run) (rule g(2))
  then show ?case using 2 g by auto
next
  case (3 m xs c)
  obtain f c1 where s: "send m c = (f, c1)" by fastforce
  then obtain fs1 where "perform xs c1 = Some (fs1, c')" "fs = f # fs1" using 3(2) by auto
  then show ?case using cruns.step [OF TrueI cstep.send [OF s]] 3(1) s by simp
next
  case (4 m t xs c)
  obtain f c1 where s: "sendAndWait m t c = (f, c1)" by fastforce
  then obtain fs1 where "perform xs c1 = Some (fs1, c')" "fs = f # fs1" using 4(2) by auto
  then show ?case using cruns.step [OF TrueI cstep.wait [OF s]] 4(1) s by simp
next
  case (5 m xs c)
  then show ?case using cruns.step [OF TrueI cstep.cache] by fastforce
next
  case (6 xs c)
  then show ?case using cruns.step [OF TrueI cstep.close] by fastforce
qed simp

lemmas run_evals = dial_def newConnection_def go_def send_def sendAndWait_def close_def sendChSize_def ackChSize_def
  maxReconnect_def maxBackoff_def

section \<open>Properties of the connection\<close>

text \<open>
  C13. However callers, write loops, read loops and reconnections interleave, and whatever the network does: every
  message that was taken into the queue is accounted for exactly once, as written, as lost to a broken
  connection, in the hands of a write loop, or still queued; none is made up or written twice, except for
  the replay of start_mission. The queue holds at most 10000 messages, and 16 acks wait at most.
\<close>

theorem messages_accounted_for:
  fixes c :: "'m connection"
  assumes "cruns (\<lambda>_. True) (dial newConnection) fs c"
  shows "mset (taken_in fs) = mset (passed_on fs) + mset (held_by (co_running c)) + mset (co_sendCh c) \<and>
    length (co_sendCh c) \<le> 10000 \<and> length (co_ackCh c) \<le> 16"
proof -
  have "outstanding (dial newConnection :: 'm connection) = {#}" by (simp add: outstanding_def dial_def newConnection_def)
  then have "mset (taken_in fs) = mset (passed_on fs) + (mset (held_by (co_running c)) + mset (co_sendCh c))"
    using cruns_messages [OF assms] by (simp add: outstanding_def)
  moreover have "conn_inv c" using cruns_inv [OF assms conn_inv_dial] .
  ultimately show ?thesis by (simp add: conn_inv_def sendChSize_def ackChSize_def ac_simps)
qed

theorem messages_accounted_for_witness:
  "\<exists>fs c. cruns (\<lambda>_. True) (dial newConnection) fs c \<and> taken_in fs = [1, 2 :: nat] \<and>
     mset (passed_on fs) + mset (held_by (co_running c)) + mset (co_sendCh c) = {#1, 2#}"
proof -
  let ?xs = "[Sends (1 :: nat), Sends 2, Run 0 Go, Run 0 Go, Run 0 Fail]"
  obtain fs c where p: "perform ?xs (dial newConnection) = Some (fs, c)" "taken_in fs = [1, 2]"
    by (simp add: run_evals fate_defs List.map_filter_simps)
  from messages_accounted_for [OF perform_sound [OF p(1)]] perform_sound [OF p(1)] p(2) show ?thesis
    by (intro exI [of _ fs] exI [of _ c]) simp
qed

text \<open>
  C35. As long as there is only one write loop, messages keep their order: what has been written or lost, what the
  write loop has in hand and what is queued is together the sequence of the messages taken in.
\<close>

theorem one_writer_keeps_order:
  assumes "cruns one_writer (dial newConnection) fs c"
  shows "taken_in fs = passed_on fs @ held_by (co_running c) @ co_sendCh c"
  using cruns_order [OF assms] by (simp add: dial_def newConnection_def)

theorem one_writer_keeps_order_witness:
  "\<exists>fs c. cruns one_writer (dial newConnection) fs c \<and> taken_in fs = [1, 2 :: nat] \<and>
     passed_on fs @ held_by (co_running c) @ co_sendCh c = [1, 2]"
proof -
  let ?c1 = "(dial newConnection)\<lparr>co_sendCh := [1 :: nat]\<rparr>" and ?c2 = "(dial newConnection)\<lparr>co_sendCh := [1 :: nat, 2]\<rparr>"
  have "cstep (dial newConnection) (Accepted 1) ?c1" "cstep ?c1 (Accepted 2) ?c2"
    by (rule cstep.send; simp add: run_evals)+
  moreover have "one_writer (dial newConnection)" "one_writer ?c1" "one_writer ?c2"
    by (simp_all add: one_writer_def dial_def newConnection_def)
  ultimately have r: "cruns one_writer (dial newConnection) [Accepted 1, Accepted 2] ?c2" by auto
  from one_writer_keeps_order [OF r] r show ?thesis
    by (intro exI [of _ "[Accepted 1, Accepted 2]"] exI [of _ ?c2]) (simp add: fate_defs List.map_filter_simps)
qed

text \<open>
  There need not be only one: when the read loop notices a broken connection first, the reconnection starts a
  second write loop beside the first one. Then both can be about to write on the same connection, which
  the websocket library does not allow, and a later message can overtake an earlier one.
\<close>

theorem write_loops_overlap:
  "(\<exists>fs c k. cruns (\<lambda>_. True) (dial newConnection) fs c \<and> WriteTo k (1 :: nat) \<in> set (co_running c) \<and>
      WriteTo k 2 \<in> set (co_running c)) \<and>
   (\<exists>fs c k. cruns (\<lambda>_. True) (dial newConnection) fs c \<and> taken_in fs = [1 :: nat, 2] \<and> co_wire c = [(k, 2), (k, 1)])"
proof -
  let ?re = "[Run 1 Go, Run 1 Fail, Run 1 Go, Run 1 Go, Run 1 Go, Run 1 Go, Run 1 Go] :: nat command list"
  let ?xs = "?re @ [Sends 1, Sends 2, Run 0 Go, Run 1 Go, Run 0 Go, Run 1 Go]"
  obtain fs c where 1: "perform ?xs (dial newConnection) = Some (fs, c)"
    "WriteTo 1 1 \<in> set (co_running c)" "WriteTo 1 2 \<in> set (co_running c)"
    by (simp add: run_evals)
  obtain fs' c' where 2: "perform (?xs @ [Run 1 Go, Run 0 Go]) (dial newConnection) = Some (fs', c')"
    "taken_in fs' = [1, 2]" "co_wire c' = [(1, 2), (1, 1)]"
    by (simp add: run_evals fate_defs List.map_filter_simps)
  show ?thesis using perform_sound [OF 1(1)] 1(2,3) perform_sound [OF 2(1)] 2(2,3) by blast
qed



text \<open>
  After ten attempts that failed the recording is lost without a sign: nothing reconnects again, and from then on
  every call still returns without an error, but nothing is ever written.
\<close>

lemma idle_stays:
  assumes "cstep c f c'" "\<forall>g \<in> set (co_running c). \<exists>t. g = Waiting t"
  shows "(\<forall>g \<in> set (co_running c'). \<exists>t. g = Waiting t) \<and> co_wire c' = co_wire c"
  using assms(1)
proof cases
  case (run gs g hs ch gs' c1)
  then obtain t where "g = Waiting t" using assms(2) by auto
  then have "awaitAck ch (Waiting t) c = Some (f, gs', c1)" using run(3) by (simp add: go_def)
  then show ?thesis using assms(2) run(1,2) by (cases ch) (auto split: loop_splits)
next
  case (send m)
  then show ?thesis using sent_frame [OF send(1)] assms(2) by auto
next
  case (wait m t)
  then show ?thesis using assms(2) by (elim waits_frame) (auto dest!: sent_frame)
qed (use assms(2) in \<open>auto simp: close_def\<close>)

lemma idle_run:
  "cruns P c fs c' \<Longrightarrow> \<forall>g \<in> set (co_running c). \<exists>t. g = Waiting t \<Longrightarrow> co_wire c' = co_wire c"
  by (induction rule: cruns.induct) (auto dest: idle_stays)

theorem recording_lost_when_reconnecting_fails:
  "\<exists>fs (c :: nat connection). cruns (\<lambda>_. True) (dial newConnection) fs c \<and> \<not> co_done c \<and> \<not> co_reconnecting c \<and>
     co_conn c = None \<and> (\<forall>fs' c'. cruns (\<lambda>_. True) c fs' c' \<longrightarrow> co_wire c' = co_wire c)"
proof -
  let ?tries = "concat (replicate 10 [Run 0 Go, Run 0 Fail]) :: nat command list"
  let ?xs = "[Sends 1, Run 0 Go, Run 0 Go, Run 0 Fail, Run 0 Go, Run 0 Go] @ ?tries @ [Run 0 Go, Run 0 Go, Run 0 Go]"
  have "perform ?xs (dial newConnection) \<noteq> None" by (simp add: run_evals eval_nat_numeral)
  then obtain fs c where p: "perform ?xs (dial newConnection) = Some (fs, c)" by auto
  have "\<not> co_done c \<and> \<not> co_reconnecting c \<and> co_conn c = None \<and> co_running c = []"
    using p by (simp add: run_evals eval_nat_numeral) auto
  then show ?thesis using perform_sound [OF p] idle_run [of "\<lambda>_. True" c]
    by (intro exI [of _ fs] exI [of _ c]) auto
qed

definition end_mission_ack :: string where
  "end_mission_ack = (let q = (\<lambda>s. dquote # s @ [dquote]) in
     ''{'' @ q ''type'' @ '':'' @ q ''ack'' @ '', '' @ q ''for'' @ '':'' @ q ''end_mission'' @ ''}'')"

lemma ack_end_mission: "ack_for end_mission_ack = Some ''end_mission''"
  by code_simp

text \<open>
  A call that waits takes any ack for its type: when an earlier call timed out and its ack came late, the next
  call returns without an error at once, with its own message still in the queue.
\<close>

theorem stale_ack_accepted:
  "\<exists>fs c. cruns (\<lambda>_. True) (dial newConnection) fs c \<and>
     fs ! 2 = Answered ''end_mission'' (Some (Errorf ''timeout waiting for ack of %q'' [ArgStr ''end_mission''])) \<and>
     last fs = Answered ''end_mission'' None \<and> co_sendCh c = [2 :: nat] \<and> map snd (co_wire c) = [1]"
proof -
  let ?xs = "[Waits 1 ''end_mission'', Run 0 Go, Run 2 Timeout, Run 0 Go, Run 0 Go, Run 1 Go,
    Run 1 (Got end_mission_ack), Waits 2 ''end_mission'', Run 2 Go] :: nat command list"
  obtain fs c where p: "perform ?xs (dial newConnection) = Some (fs, c)"
    "fs ! 2 = Answered ''end_mission'' (Some (Errorf ''timeout waiting for ack of %q'' [ArgStr ''end_mission'']))"
    "last fs = Answered ''end_mission'' None" "co_sendCh c = [2]" "map snd (co_wire c) = [1]"
    by (simp add: run_evals ack_end_mission)
  show ?thesis by (intro exI conjI, rule perform_sound [OF p(1)]) (simp_all add: p(2-))
qed

section \<open>Properties of the backend\<close>

text \<open>A call of a recording that the websocket backend can send and the memory backend accepts.\<close>

definition sendable :: "backend_call \<Rightarrow> bool" where
  "sendable c = (\<not> lifecycle c \<and> payload_ok c \<and> (\<forall>f. c \<noteq> CallSetFocusStart f \<and> c \<noteq> CallSetFocusEnd f))"

lemma payload_ok_ID: "payload_ok (CallAddMarker (m\<lparr>mk_ID := i\<rparr>)) = payload_ok (CallAddMarker m)"
  by (simp add: payload_ok_def)

lemma ws_answers:
  assumes "sendable c" "wb_nextMarkerID w = b_nextMarkerID b"
  shows "fst (ws_exec c w) = Done (fst (mem_if env c b))"
    "wb_nextMarkerID (snd (ws_exec c w)) = b_nextMarkerID (snd (mem_if env c b))"
proof -
  have "b_nextMarkerID (snd (mem_if env c b)) = b_nextMarkerID b" if "\<forall>m. c \<noteq> CallAddMarker m"
    using assms(1) that
    by (cases c) (simp_all add: sendable_def mem_if_def ok_def mem_defs focus_frame update_marker_def case_prod_beta split: option.split)
  moreover have "fst (mem_if env c b) = Returned None" if "\<forall>m. c \<noteq> CallAddMarker m"
    using assms(1) that by (cases c) (simp_all add: sendable_def mem_if_def ok_def case_prod_beta)
  moreover have "fst (ws_exec c w) = Done (Returned None) \<and> wb_nextMarkerID (snd (ws_exec c w)) = wb_nextMarkerID w"
    if "\<forall>m. c \<noteq> CallAddMarker m"
    using assms(1) that by (cases c) (simp_all add: sendable_def sendEnvelope_def marshalEnvelope_def)
  ultimately show "fst (ws_exec c w) = Done (fst (mem_if env c b))"
    "wb_nextMarkerID (snd (ws_exec c w)) = b_nextMarkerID (snd (mem_if env c b))"
    using assms
    by (cases "\<forall>m. c \<noteq> CallAddMarker m";
        auto simp: ws_AddMarker_def mem_if_def ok_def mem_AddMarker_def Let_def sendEnvelope_def marshalEnvelope_def
          sendable_def payload_ok_ID)+
qed

text \<open>Calls one after the other.\<close>

fun ws_answer_list :: "backend_call list \<Rightarrow> websocket \<Rightarrow> ws_result list" where
  "ws_answer_list [] w = []"
| "ws_answer_list (c # cs) w = fst (ws_exec c w) # ws_answer_list cs (snd (ws_exec c w))"

fun mem_answer_list :: "export_env \<Rightarrow> backend_call list \<Rightarrow> backend \<Rightarrow> backend_result list" where
  "mem_answer_list env [] b = []"
| "mem_answer_list env (c # cs) b = fst (mem_if env c b) # mem_answer_list env cs (snd (mem_if env c b))"

text \<open>
  C18. For the calls of a recording the websocket backend answers as the memory backend does, marker IDs included, as
  long as no payload holds a float that is NaN or infinite, whatever is queued: the worker cannot tell them
  apart. Only frames of the focus, which the memory backend checks and the websocket backend does not, are left out.
\<close>

theorem backends_answer_alike:
  assumes "\<forall>c \<in> set cs. \<not> lifecycle c \<and> payload_ok c \<and> (\<forall>f. c \<noteq> CallSetFocusStart f \<and> c \<noteq> CallSetFocusEnd f)"
    "wb_nextMarkerID w = b_nextMarkerID b"
  shows "ws_answer_list cs w = map Done (mem_answer_list env cs b)"
  using assms
proof (induction cs arbitrary: w b)
  case (Cons c cs)
  then have "sendable c" by (simp add: sendable_def)
  note a = ws_answers [OF this, of w b env]
  show ?case using Cons a by simp
qed simp

theorem backends_answer_alike_witness:
  "ws_answer_list [CallAddMarker (example_marker ''base''), CallAddSoldier (example_soldier 3), CallAddMarker (example_marker ''flag'')] ws_New =
     [Done (MarkerAdded 1 None), Done (Returned None), Done (MarkerAdded 2 None)]"
proof -
  let ?cs = "[CallAddMarker (example_marker ''base''), CallAddSoldier (example_soldier 3), CallAddMarker (example_marker ''flag'')]"
  have "\<forall>c \<in> set ?cs. \<not> lifecycle c \<and> payload_ok c \<and> (\<forall>f. c \<noteq> CallSetFocusStart f \<and> c \<noteq> CallSetFocusEnd f)"
    by (simp add: payload_ok_def example_marker_def example_soldier_def pos_floats_def origin_def finite_f64_def)
      (simp add: zero_f64_def)
  from backends_answer_alike [OF this, of ws_New started quiet_env] show ?thesis
    by (simp del: ws_exec.simps add: ws_New_def mem_if_def ok_def mem_AddMarker_def Let_def case_prod_beta backend_evals)
qed

text \<open>
  A call with a float that is NaN or infinite in its payload returns an error and sends nothing; every other call
  puts exactly one message, of the call's own type, behind the others into a queue that is not full.
\<close>

theorem one_message_per_call:
  assumes "\<not> lifecycle c"
  shows "(payload_ok c \<longrightarrow> length (co_sendCh (wb_conn w)) < sendChSize \<longrightarrow>
      (\<exists>e. env_Type e = message_type c \<and> message_type (env_Payload e) = message_type c \<and>
        co_sendCh (wb_conn (snd (ws_exec c w))) = co_sendCh (wb_conn w) @ [e])) \<and>
    (\<not> payload_ok c \<longrightarrow> wb_conn (snd (ws_exec c w)) = wb_conn w \<and>
      (\<exists>e i. fst (ws_exec c w) = Done (Returned (Some e)) \<or> fst (ws_exec c w) = Done (MarkerAdded i (Some e))))"
proof (cases "\<exists>m. c = CallAddMarker m")
  case True
  then show ?thesis
    by (auto simp: ws_AddMarker_def sendEnvelope_def marshalEnvelope_def payload_ok_ID send_def Let_def)
next
  case False
  then have "ws_exec c w = (let (err, b) = sendEnvelope c w in (Done (Returned err), b))"
    using assms by (cases c) simp_all
  then show ?thesis by (auto simp: sendEnvelope_def marshalEnvelope_def send_def)
qed

theorem one_message_per_call_witness:
  "map env_Type (co_sendCh (wb_conn (snd (ws_exec (CallSetFocusEnd 9) ws_New)))) = [''mission_focus_end'']"
proof -
  have "payload_ok (CallSetFocusEnd 9)" by (simp add: payload_ok_def)
  then obtain e where "env_Type e = ''mission_focus_end''"
    "co_sendCh (wb_conn (snd (ws_exec (CallSetFocusEnd 9) ws_New))) = co_sendCh (wb_conn ws_New) @ [e]"
    using one_message_per_call [of "CallSetFocusEnd 9" ws_New] by (auto simp: ws_New_def newConnection_def sendChSize_def)
  then show ?thesis by (simp add: ws_New_def newConnection_def)
qed

end
