(* ===== verification/DB_Rows.thy ===== *)
theory DB_Rows
  imports Storage A3_Interface
begin

text \<open>
  internal/model/model.go and internal/model/convert/to_gorm.go: the rows of the database and the conversions
  to them. A row has the columns the conversions and the writer fill; associations of gorm (\<open>Mission\<close>,
  \<open>Soldier\<close>, ...) and its time stamps are left out, and so are columns that nobody fills. \<open>sql.NullInt32\<close> is an
  option of a 32-bit word; a geometry is the coordinates it is made of, in the order given to the library.
\<close>

type_synonym int32 = "32 word"

record geom_point =
  gp_X :: f64
  gp_Y :: f64
  gp_Z :: f64

definition position3DToPoint :: "position3D \<Rightarrow> geom_point" where
  "position3DToPoint p = \<lparr>gp_X = pos3_X p, gp_Y = pos3_Y p, gp_Z = pos3_Z p\<rparr>"

definition polylineToLineString :: "polyline \<Rightarrow> f64 list" where
  "polylineToLineString p = concat (map (\<lambda>pt. [pos2_X pt, pos2_Y pt]) p)"

definition nullInt32 :: "('a :: len) word option \<Rightarrow> int32 option" where
  "nullInt32 i = map_option (\<lambda>i. ucast i) i"

text \<open>\<open>data, _ := json.Marshal(v)\<close>: nil when it cannot be encoded.\<close>

definition json_column :: "any \<Rightarrow> string" where
  "json_column v = (case marshal v of Ok s \<Rightarrow> s | _ \<Rightarrow> [])"

definition componentsToJSON :: "string list \<Rightarrow> string" where
  "componentsToJSON cs = (if cs = [] then ''[]'' else json_column (ASlice (map AString cs)))"

section \<open>Soldiers and vehicles\<close>

record db_soldier =
  dso_MissionID :: guint
  dso_ObjectID :: u16
  dso_JoinTime :: gtime
  dso_JoinFrame :: guint
  dso_OcapType :: string
  dso_UnitName :: string
  dso_GroupID :: string
  dso_Side :: string
  dso_IsPlayer :: bool
  dso_RoleDescription :: string
  dso_SquadParams :: string
  dso_PlayerUID :: string
  dso_ClassName :: string
  dso_DisplayName :: string

definition CoreToSoldier :: "soldier \<Rightarrow> db_soldier" where
  "CoreToSoldier s = \<lparr>dso_MissionID = 0, dso_ObjectID = s_ID s, dso_JoinTime = s_JoinTime s,
     dso_JoinFrame = s_JoinFrame s, dso_OcapType = s_OcapType s, dso_UnitName = s_UnitName s,
     dso_GroupID = s_GroupID s, dso_Side = s_Side s, dso_IsPlayer = s_IsPlayer s,
     dso_RoleDescription = s_RoleDescription s,
     dso_SquadParams = (if s_SquadParams s \<noteq> [] then json_column (ASlice (s_SquadParams s)) else ''[]''),
     dso_PlayerUID = s_PlayerUID s, dso_ClassName = s_ClassName s, dso_DisplayName = s_DisplayName s\<rparr>"

record db_vehicle =
  dve_MissionID :: guint
  dve_ObjectID :: u16
  dve_JoinTime :: gtime
  dve_JoinFrame :: guint
  dve_OcapType :: string
  dve_ClassName :: string
  dve_DisplayName :: string
  dve_Customization :: string
  dve_Side :: string

definition CoreToVehicle :: "vehicle \<Rightarrow> db_vehicle" where
  "CoreToVehicle v = \<lparr>dve_MissionID = 0, dve_ObjectID = v_ID v, dve_JoinTime = v_JoinTime v, dve_JoinFrame = v_JoinFrame v,
     dve_OcapType = v_OcapType v, dve_ClassName = v_ClassName v, dve_DisplayName = v_DisplayName v,
     dve_Customization = v_Customization v, dve_Side = v_Side v\<rparr>"

record db_soldier_state =
  dss_ID :: guint
  dss_Time :: gtime
  dss_MissionID :: guint
  dss_CaptureFrame :: guint
  dss_SoldierObjectID :: u16
  dss_Position :: geom_point
  dss_ElevationASL :: f32
  dss_Bearing :: u16
  dss_Lifestate :: u8
  dss_InVehicle :: bool
  dss_InVehicleObjectID :: "int32 option"
  dss_VehicleRole :: string
  dss_UnitName :: string
  dss_IsPlayer :: bool
  dss_CurrentRole :: string
  dss_HasStableVitals :: bool
  dss_IsDraggedCarried :: bool
  dss_Stance :: string
  dss_GroupID :: string
  dss_Side :: string
  dss_Scores :: soldier_scores

definition CoreToSoldierState :: "soldier_state \<Rightarrow> db_soldier_state" where
  "CoreToSoldierState s = \<lparr>dss_ID = 0, dss_Time = ss_Time s, dss_MissionID = 0, dss_CaptureFrame = ss_CaptureFrame s,
     dss_SoldierObjectID = ss_SoldierID s, dss_Position = position3DToPoint (ss_Position s),
     dss_ElevationASL = to_f32 (pos3_Z (ss_Position s)), dss_Bearing = ss_Bearing s, dss_Lifestate = ss_Lifestate s,
     dss_InVehicle = ss_InVehicle s, dss_InVehicleObjectID = nullInt32 (ss_InVehicleObjectID s),
     dss_VehicleRole = ss_VehicleRole s, dss_UnitName = ss_UnitName s, dss_IsPlayer = ss_IsPlayer s,
     dss_CurrentRole = ss_CurrentRole s, dss_HasStableVitals = ss_HasStableVitals s,
     dss_IsDraggedCarried = ss_IsDraggedCarried s, dss_Stance = ss_Stance s, dss_GroupID = ss_GroupID s,
     dss_Side = ss_Side s, dss_Scores = ss_Scores s\<rparr>"

record db_vehicle_state =
  dvs_ID :: guint
  dvs_Time :: gtime
  dvs_MissionID :: guint
  dvs_CaptureFrame :: guint
  dvs_VehicleObjectID :: u16
  dvs_Position :: geom_point
  dvs_ElevationASL :: f32
  dvs_Bearing :: u16
  dvs_IsAlive :: bool
  dvs_Crew :: string
  dvs_Fuel :: f32
  dvs_Damage :: f32
  dvs_Locked :: bool
  dvs_EngineOn :: bool
  dvs_Side :: string
  dvs_VectorDir :: string
  dvs_VectorUp :: string
  dvs_TurretAzimuth :: f32
  dvs_TurretElevation :: f32

definition CoreToVehicleState :: "vehicle_state \<Rightarrow> db_vehicle_state" where
  "CoreToVehicleState v = \<lparr>dvs_ID = 0, dvs_Time = vs_Time v, dvs_MissionID = 0, dvs_CaptureFrame = vs_CaptureFrame v,
     dvs_VehicleObjectID = vs_VehicleID v, dvs_Position = position3DToPoint (vs_Position v),
     dvs_ElevationASL = to_f32 (pos3_Z (vs_Position v)), dvs_Bearing = vs_Bearing v, dvs_IsAlive = vs_IsAlive v,
     dvs_Crew = vs_Crew v, dvs_Fuel = vs_Fuel v, dvs_Damage = vs_Damage v, dvs_Locked = vs_Locked v,
     dvs_EngineOn = vs_EngineOn v, dvs_Side = vs_Side v, dvs_VectorDir = vs_VectorDir v, dvs_VectorUp = vs_VectorUp v,
     dvs_TurretAzimuth = vs_TurretAzimuth v, dvs_TurretElevation = vs_TurretElevation v\<rparr>"

section \<open>Markers and placed objects\<close>

record db_marker =
  dma_ID :: guint
  dma_Time :: gtime
  dma_MissionID :: guint
  dma_CaptureFrame :: guint
  dma_MarkerName :: string
  dma_Direction :: f32
  dma_MarkerType :: string
  dma_Text :: string
  dma_OwnerID :: int
  dma_Color :: string
  dma_Size :: string
  dma_Side :: string
  dma_Position :: geom_point
  dma_Polyline :: "f64 list"
  dma_Shape :: string
  dma_Alpha :: f32
  dma_Brush :: string
  dma_IsDeleted :: bool

definition CoreToMarker :: "marker \<Rightarrow> db_marker" where
  "CoreToMarker m = \<lparr>dma_ID = mk_ID m, dma_Time = mk_Time m, dma_MissionID = 0, dma_CaptureFrame = mk_CaptureFrame m,
     dma_MarkerName = mk_MarkerName m, dma_Direction = mk_Direction m, dma_MarkerType = mk_MarkerType m,
     dma_Text = mk_Text m, dma_OwnerID = mk_OwnerID m, dma_Color = mk_Color m, dma_Size = mk_Size m,
     dma_Side = mk_Side m, dma_Position = position3DToPoint (mk_Position m),
     dma_Polyline = polylineToLineString (mk_Polyline m), dma_Shape = mk_Shape m, dma_Alpha = mk_Alpha m,
     dma_Brush = mk_Brush m, dma_IsDeleted = mk_IsDeleted m\<rparr>"

record db_marker_state =
  dms_ID :: guint
  dms_Time :: gtime
  dms_MissionID :: guint
  dms_MarkerID :: guint
  dms_CaptureFrame :: guint
  dms_Position :: "geom_point option"
  dms_Direction :: f32
  dms_Alpha :: f32
  dms_Text :: string
  dms_Color :: string
  dms_Size :: string
  dms_MarkerType :: string
  dms_Brush :: string
  dms_Shape :: string

text \<open>The zero \<open>geom.Point\<close>, which \<open>DeleteMarker\<close> leaves, is the empty point.\<close>

definition CoreToMarkerState :: "marker_state \<Rightarrow> db_marker_state" where
  "CoreToMarkerState s = \<lparr>dms_ID = ms_ID s, dms_Time = ms_Time s, dms_MissionID = 0, dms_MarkerID = ms_MarkerID s,
     dms_CaptureFrame = ms_CaptureFrame s, dms_Position = Some (position3DToPoint (ms_Position s)),
     dms_Direction = ms_Direction s, dms_Alpha = ms_Alpha s, dms_Text = ms_Text s, dms_Color = ms_Color s,
     dms_Size = ms_Size s, dms_MarkerType = ms_MarkerType s, dms_Brush = ms_Brush s, dms_Shape = ms_Shape s\<rparr>"

record db_placed_object =
  dpo_MissionID :: guint
  dpo_ObjectID :: u16
  dpo_JoinTime :: gtime
  dpo_JoinFrame :: guint
  dpo_ClassName :: string
  dpo_DisplayName :: string
  dpo_PositionX :: f64
  dpo_PositionY :: f64
  dpo_PositionZ :: f64
  dpo_OwnerID :: u16
  dpo_Side :: string
  dpo_Weapon :: string
  dpo_MagazineIcon :: string

definition CoreToPlacedObject :: "placed_object \<Rightarrow> db_placed_object" where
  "CoreToPlacedObject p = \<lparr>dpo_MissionID = 0, dpo_ObjectID = po_ID p, dpo_JoinTime = po_JoinTime p,
     dpo_JoinFrame = po_JoinFrame p, dpo_ClassName = po_ClassName p, dpo_DisplayName = po_DisplayName p,
     dpo_PositionX = pos3_X (po_Position p), dpo_PositionY = pos3_Y (po_Position p),
     dpo_PositionZ = pos3_Z (po_Position p), dpo_OwnerID = po_OwnerID p, dpo_Side = po_Side p,
     dpo_Weapon = po_Weapon p, dpo_MagazineIcon = po_MagazineIcon p\<rparr>"

record db_placed_object_event =
  dpe_ID :: guint
  dpe_MissionID :: guint
  dpe_PlacedObjectID :: u16
  dpe_EventType :: string
  dpe_PositionX :: f64
  dpe_PositionY :: f64
  dpe_PositionZ :: f64
  dpe_HitEntityID :: "guint option"
  dpe_CaptureFrame :: guint

definition CoreToPlacedObjectEvent :: "placed_object_event \<Rightarrow> db_placed_object_event" where
  "CoreToPlacedObjectEvent e = \<lparr>dpe_ID = 0, dpe_MissionID = 0, dpe_PlacedObjectID = poe_PlacedID e,
     dpe_EventType = poe_EventType e, dpe_PositionX = pos3_X (poe_Position e), dpe_PositionY = pos3_Y (poe_Position e),
     dpe_PositionZ = pos3_Z (poe_Position e), dpe_HitEntityID = map_option (\<lambda>i. ucast i) (poe_HitEntityID e),
     dpe_CaptureFrame = poe_CaptureFrame e\<rparr>"

section \<open>Projectiles\<close>

record db_projectile_hit =
  dph_MissionID :: guint
  dph_ObjectID :: u16
  dph_CaptureFrame :: guint
  dph_Position :: geom_point
  dph_ComponentsHit :: string

record db_projectile_event =
  dpr_ID :: guint
  dpr_MissionID :: guint
  dpr_FirerObjectID :: u16
  dpr_VehicleObjectID :: "int32 option"
  dpr_CaptureFrame :: guint
  dpr_Positions :: "f64 list option"
  dpr_WeaponDisplay :: string
  dpr_MagazineDisplay :: string
  dpr_MuzzleDisplay :: string
  dpr_SimulationType :: string
  dpr_MagazineIcon :: string
  dpr_HitSoldiers :: "db_projectile_hit list"
  dpr_HitVehicles :: "db_projectile_hit list"

definition projectile_hit_row :: "projectile_hit \<Rightarrow> u16 \<Rightarrow> db_projectile_hit" where
  "projectile_hit_row h i = \<lparr>dph_MissionID = 0, dph_ObjectID = i, dph_CaptureFrame = ph_CaptureFrame h,
     dph_Position = position3DToPoint (ph_Position h), dph_ComponentsHit = componentsToJSON (ph_ComponentsHit h)\<rparr>"

definition CoreToProjectileEvent :: "projectile_event \<Rightarrow> db_projectile_event" where
  "CoreToProjectileEvent e = \<lparr>dpr_ID = 0, dpr_MissionID = 0, dpr_FirerObjectID = pe_FirerObjectID e,
     dpr_VehicleObjectID = nullInt32 (pe_VehicleObjectID e), dpr_CaptureFrame = pe_CaptureFrame e,
     dpr_Positions = (if 2 \<le> length (pe_Trajectory e) then
         Some (concat (map (\<lambda>tp. [pos3_X (tp_Position tp), pos3_Y (tp_Position tp), pos3_Z (tp_Position tp),
           f64_of_u64 (tp_FrameNum tp)]) (pe_Trajectory e)))
       else None),
     dpr_WeaponDisplay = pe_WeaponDisplay e, dpr_MagazineDisplay = pe_MagazineDisplay e,
     dpr_MuzzleDisplay = pe_MuzzleDisplay e, dpr_SimulationType = pe_SimulationType e, dpr_MagazineIcon = pe_MagazineIcon e,
     dpr_HitSoldiers = List.map_filter (\<lambda>h. map_option (projectile_hit_row h) (ph_SoldierID h)) (pe_Hits e),
     dpr_HitVehicles = List.map_filter (\<lambda>h. map_option (projectile_hit_row h) (ph_VehicleID h)) (pe_Hits e)\<rparr>"

section \<open>Events\<close>

record db_general_event =
  dge_ID :: guint
  dge_Time :: gtime
  dge_MissionID :: guint
  dge_CaptureFrame :: guint
  dge_Name :: string
  dge_Message :: string
  dge_ExtraData :: string

definition CoreToGeneralEvent :: "general_event \<Rightarrow> db_general_event" where
  "CoreToGeneralEvent e = \<lparr>dge_ID = ge_ID e, dge_Time = ge_Time e, dge_MissionID = 0,
     dge_CaptureFrame = ge_CaptureFrame e, dge_Name = ge_Name e, dge_Message = ge_Message e,
     dge_ExtraData = (if ge_ExtraData e \<noteq> [] then json_column (AMap (ge_ExtraData e)) else ''{}'')\<rparr>"

record db_kill_event =
  dke_ID :: guint
  dke_Time :: gtime
  dke_MissionID :: guint
  dke_CaptureFrame :: guint
  dke_VictimSoldierObjectID :: "int32 option"
  dke_VictimVehicleObjectID :: "int32 option"
  dke_KillerSoldierObjectID :: "int32 option"
  dke_KillerVehicleObjectID :: "int32 option"
  dke_WeaponVehicle :: string
  dke_WeaponName :: string
  dke_WeaponMagazine :: string
  dke_EventText :: string
  dke_Distance :: f32

definition CoreToKillEvent :: "kill_event \<Rightarrow> db_kill_event" where
  "CoreToKillEvent e = \<lparr>dke_ID = ke_ID e, dke_Time = ke_Time e, dke_MissionID = 0, dke_CaptureFrame = ke_CaptureFrame e,
     dke_VictimSoldierObjectID = nullInt32 (ke_VictimSoldierID e), dke_VictimVehicleObjectID = nullInt32 (ke_VictimVehicleID e),
     dke_KillerSoldierObjectID = nullInt32 (ke_KillerSoldierID e), dke_KillerVehicleObjectID = nullInt32 (ke_KillerVehicleID e),
     dke_WeaponVehicle = ke_WeaponVehicle e, dke_WeaponName = ke_WeaponName e, dke_WeaponMagazine = ke_WeaponMagazine e,
     dke_EventText = ke_EventText e, dke_Distance = ke_Distance e\<rparr>"

record db_chat_event =
  dce_ID :: guint
  dce_Time :: gtime
  dce_MissionID :: guint
  dce_SoldierObjectID :: "int32 option"
  dce_CaptureFrame :: guint
  dce_Channel :: string
  dce_FromName :: string
  dce_SenderName :: string
  dce_Message :: string
  dce_PlayerUID :: string

definition CoreToChatEvent :: "chat_event \<Rightarrow> db_chat_event" where
  "CoreToChatEvent e = \<lparr>dce_ID = ce_ID e, dce_Time = ce_Time e, dce_MissionID = 0,
     dce_SoldierObjectID = nullInt32 (ce_SoldierID e), dce_CaptureFrame = ce_CaptureFrame e, dce_Channel = ce_Channel e,
     dce_FromName = ce_FromName e, dce_SenderName = ce_SenderName e, dce_Message = ce_Message e,
     dce_PlayerUID = ce_PlayerUID e\<rparr>"

record db_radio_event =
  dre_ID :: guint
  dre_Time :: gtime
  dre_MissionID :: guint
  dre_SoldierObjectID :: "int32 option"
  dre_CaptureFrame :: guint
  dre_Radio :: string
  dre_RadioType :: string
  dre_StartEnd :: string
  dre_Channel :: int8
  dre_IsAdditional :: bool
  dre_Frequency :: f32
  dre_Code :: string

definition CoreToRadioEvent :: "radio_event \<Rightarrow> db_radio_event" where
  "CoreToRadioEvent e = \<lparr>dre_ID = re_ID e, dre_Time = re_Time e, dre_MissionID = 0,
     dre_SoldierObjectID = nullInt32 (re_SoldierID e), dre_CaptureFrame = re_CaptureFrame e, dre_Radio = re_Radio e,
     dre_RadioType = re_RadioType e, dre_StartEnd = re_StartEnd e, dre_Channel = re_Channel e,
     dre_IsAdditional = re_IsAdditional e, dre_Frequency = re_Frequency e, dre_Code = re_Code e\<rparr>"

record db_fps_event =
  dfe_Time :: gtime
  dfe_MissionID :: guint
  dfe_CaptureFrame :: guint
  dfe_FpsAverage :: f32
  dfe_FpsMin :: f32

record db_ace3_death_event =
  dad_ID :: guint
  dad_Time :: gtime
  dad_MissionID :: guint
  dad_CaptureFrame :: guint
  dad_SoldierObjectID :: u16
  dad_Reason :: string
  dad_LastDamageSourceObjectID :: "int32 option"

definition CoreToAce3DeathEvent :: "ace3_death_event \<Rightarrow> db_ace3_death_event" where
  "CoreToAce3DeathEvent e = \<lparr>dad_ID = ad_ID e, dad_Time = ad_Time e, dad_MissionID = 0, dad_CaptureFrame = ad_CaptureFrame e,
     dad_SoldierObjectID = ucast (ad_SoldierID e), dad_Reason = ad_Reason e,
     dad_LastDamageSourceObjectID = nullInt32 (ad_LastDamageSourceID e)\<rparr>"

record db_ace3_unconscious_event =
  dau_ID :: guint
  dau_Time :: gtime
  dau_MissionID :: guint
  dau_CaptureFrame :: guint
  dau_SoldierObjectID :: u16
  dau_IsUnconscious :: bool

definition CoreToAce3UnconsciousEvent :: "ace3_unconscious_event \<Rightarrow> db_ace3_unconscious_event" where
  "CoreToAce3UnconsciousEvent e = \<lparr>dau_ID = au_ID e, dau_Time = au_Time e, dau_MissionID = 0,
     dau_CaptureFrame = au_CaptureFrame e, dau_SoldierObjectID = ucast (au_SoldierID e),
     dau_IsUnconscious = au_IsUnconscious e\<rparr>"

section \<open>Mission and world\<close>

record db_addon =
  dao_ID :: guint
  dao_Name :: string
  dao_WorkshopID :: string

record db_world =
  dwo_ID :: guint
  dwo_Author :: string
  dwo_WorkshopID :: string
  dwo_DisplayName :: string
  dwo_WorldName :: string
  dwo_WorldNameOriginal :: string
  dwo_WorldSize :: f32
  dwo_Latitude :: f32
  dwo_Longitude :: f32
  dwo_Location :: geom_point

record db_mission =
  dmi_ID :: guint
  dmi_MissionName :: string
  dmi_BriefingName :: string
  dmi_MissionNameSource :: string
  dmi_OnLoadName :: string
  dmi_Author :: string
  dmi_ServerName :: string
  dmi_ServerProfile :: string
  dmi_StartTime :: gtime
  dmi_WorldID :: guint
  dmi_World :: "db_world option"
  dmi_CaptureDelay :: f32
  dmi_AddonVersion :: string
  dmi_ExtensionVersion :: string
  dmi_ExtensionBuild :: string
  dmi_OcapRecorderExtensionVersion :: string
  dmi_Tag :: string
  dmi_Addons :: "db_addon list"
  dmi_PlayableSlots :: playable_slots
  dmi_SideFriendly :: side_friendly

definition CoreToMission :: "mission \<Rightarrow> db_mission" where
  "CoreToMission m = \<lparr>dmi_ID = 0, dmi_MissionName = mi_MissionName m, dmi_BriefingName = mi_BriefingName m,
     dmi_MissionNameSource = mi_MissionNameSource m, dmi_OnLoadName = mi_OnLoadName m, dmi_Author = mi_Author m,
     dmi_ServerName = mi_ServerName m, dmi_ServerProfile = mi_ServerProfile m, dmi_StartTime = mi_StartTime m,
     dmi_WorldID = mi_WorldID m, dmi_World = None, dmi_CaptureDelay = mi_CaptureDelay m,
     dmi_AddonVersion = mi_AddonVersion m, dmi_ExtensionVersion = mi_ExtensionVersion m,
     dmi_ExtensionBuild = mi_ExtensionBuild m, dmi_OcapRecorderExtensionVersion = mi_OcapRecorderExtensionVersion m,
     dmi_Tag = mi_Tag m,
     dmi_Addons = map (\<lambda>a. \<lparr>dao_ID = 0, dao_Name = ao_Name a, dao_WorkshopID = ao_WorkshopID a\<rparr>) (mi_Addons m),
     dmi_PlayableSlots = mi_PlayableSlots m, dmi_SideFriendly = mi_SideFriendly m\<rparr>"

definition CoreToWorld :: "world \<Rightarrow> db_world" where
  "CoreToWorld w = \<lparr>dwo_ID = 0, dwo_Author = w_Author w, dwo_WorkshopID = w_WorkshopID w, dwo_DisplayName = w_DisplayName w,
     dwo_WorldName = w_WorldName w, dwo_WorldNameOriginal = w_WorldNameOriginal w, dwo_WorldSize = w_WorldSize w,
     dwo_Latitude = w_Latitude w, dwo_Longitude = w_Longitude w, dwo_Location = position3DToPoint (w_Location w)\<rparr>"

text \<open>\<open>CoreToTimeState\<close>, which nobody calls.\<close>

record db_time_state =
  dts_Time :: gtime
  dts_MissionID :: guint
  dts_CaptureFrame :: guint
  dts_SystemTimeUTC :: string
  dts_MissionDate :: string
  dts_TimeMultiplier :: f32
  dts_MissionTime :: f32

definition CoreToTimeState :: "time_state \<Rightarrow> db_time_state" where
  "CoreToTimeState t = \<lparr>dts_Time = ts_Time t, dts_MissionID = 0, dts_CaptureFrame = ts_CaptureFrame t,
     dts_SystemTimeUTC = ts_SystemTimeUTC t, dts_MissionDate = ts_MissionDate t,
     dts_TimeMultiplier = ts_TimeMultiplier t, dts_MissionTime = ts_MissionTime t\<rparr>"

end
