(* ===== verification/Postgres.thy ===== *)
theory Postgres
  imports DB_Rows Queue Cache
begin

text \<open>
  internal/storage/postgres/postgres.go: the backend that queues rows and writes them in the background, one table
  after the other, and internal/storage/sqlite/sqlite.go, which embeds it. What gorm and the database answer is
  \<open>db_env\<close> and, for the writer, \<open>db_answer\<close>. A queue of the struct \<open>queues\<close> is found under its field's name.
  The writer is a goroutine: between taking the rows of a queue and putting them back or committing them,
  calls go on. \<open>pg_tables\<close> holds the committed rows, as they were given to \<open>Create\<close>.
\<close>

datatype queue_kind =
    Soldiers | Vehicles | Markers | SoldierStates | VehicleStates | MarkerStates
  | ProjectileEvents | GeneralEvents | KillEvents | ChatEvents | RadioEvents | FpsEvents
  | Ace3DeathEvents | Ace3UnconsciousEvents | PlacedObjects | PlacedObjectEvents

datatype db_row =
    RowSoldier db_soldier | RowVehicle db_vehicle | RowMarker db_marker
  | RowSoldierState db_soldier_state | RowVehicleState db_vehicle_state | RowMarkerState db_marker_state
  | RowProjectileEvent db_projectile_event | RowGeneralEvent db_general_event | RowKillEvent db_kill_event
  | RowChatEvent db_chat_event | RowRadioEvent db_radio_event | RowFpsEvent db_fps_event
  | RowAce3DeathEvent db_ace3_death_event | RowAce3UnconsciousEvent db_ace3_unconscious_event
  | RowPlacedObject db_placed_object | RowPlacedObjectEvent db_placed_object_event

datatype 'a lookup = Found 'a | NotFound | LookupFailed go_err

record db_env =
  de_connect :: "go_err option"
  de_has_info :: bool
  de_info_migrate :: "go_err option"
  de_info_create :: "go_err option"
  de_name :: string
  de_postgis :: "go_err option"
  de_migrate :: "go_err option"
  de_find_addon :: "string \<Rightarrow> db_addon lookup"
  de_create_addon :: "db_addon \<Rightarrow> go_err + guint"
  de_world :: "db_world \<Rightarrow> go_err + db_world"
  de_create_mission :: "db_mission \<Rightarrow> go_err + guint"
  de_create_marker :: "db_marker \<Rightarrow> go_err + guint"
  de_now :: gtime

text \<open>Where the writer is.\<close>

datatype writer =
    NotStarted | Looping | Cycle guint "queue_kind list" | InTx guint queue_kind "db_row list" "queue_kind list" | Stopped

record postgres =
  pg_db :: bool
  pg_MarkerCache :: marker_cache
  pg_queues :: "queue_kind \<Rightarrow> db_row queue"
  pg_missionID :: guint
  pg_stopChan :: "bool option"
  pg_dbReady :: bool
  pg_writer :: writer
  pg_tables :: "db_row list"

definition newQueues :: "queue_kind \<Rightarrow> db_row queue" where
  "newQueues = (\<lambda>_. New)"

text \<open>Before \<open>Init\<close> there are no queues, and a call would panic; the model is used from \<open>Init\<close> on.\<close>

definition pg_New :: "bool \<Rightarrow> marker_cache \<Rightarrow> postgres" where
  "pg_New db cache = \<lparr>pg_db = db, pg_MarkerCache = cache, pg_queues = newQueues, pg_missionID = 0,
     pg_stopChan = None, pg_dbReady = False, pg_writer = NotStarted, pg_tables = []\<rparr>"

section \<open>Lifecycle\<close>

definition setupDB :: "db_env \<Rightarrow> go_err option" where
  "setupDB E =
     (if \<not> de_has_info E \<and> de_info_migrate E \<noteq> None then
        Some (Errorf ''failed to auto-migrate OcapInfo: %w'' [ArgErr (the (de_info_migrate E))])
      else if \<not> de_has_info E \<and> de_info_create E \<noteq> None then
        Some (Errorf ''failed to create ocap_info entry: %w'' [ArgErr (the (de_info_create E))])
      else if de_name E = ''postgres'' \<and> de_postgis E \<noteq> None then
        Some (Errorf ''failed to create PostGIS Extension: %w'' [ArgErr (the (de_postgis E))])
      else map_option (\<lambda>e. Errorf ''failed to migrate schema: %w'' [ArgErr e]) (de_migrate E))"

definition pg_Init :: "db_env \<Rightarrow> postgres \<Rightarrow> go_err option \<times> postgres" where
  "pg_Init E b =
     (let b = b\<lparr>pg_queues := newQueues, pg_stopChan := Some False\<rparr> in
      if \<not> pg_db b \<and> de_connect E \<noteq> None then
        (Some (Errorf ''failed to connect to postgres: %w'' [ArgErr (the (de_connect E))]), b)
      else let b = b\<lparr>pg_db := True\<rparr> in
        (case setupDB E of
           Some e \<Rightarrow> (Some (Errorf ''failed to setup DB: %w'' [ArgErr e]), b)
         | None \<Rightarrow> (None, b\<lparr>pg_dbReady := True, pg_writer := Looping\<rparr>)))"

text \<open>\<open>close\<close> of a closed channel panics.\<close>

definition pg_Close :: "postgres \<Rightarrow> postgres outcome" where
  "pg_Close b = (case pg_stopChan b of
     None \<Rightarrow> Ok b
   | Some False \<Rightarrow> Ok (b\<lparr>pg_stopChan := Some True\<rparr>)
   | Some True \<Rightarrow> Panic (OtherPanic ''close of closed channel''))"

fun get_or_create :: "db_env \<Rightarrow> db_addon list \<Rightarrow> go_err + db_addon list" where
  "get_or_create E [] = Inr []"
| "get_or_create E (a # as) = (case de_find_addon E (dao_Name a) of
     LookupFailed e \<Rightarrow> Inl (Errorf ''failed to find addon %s: %w'' [ArgStr (dao_Name a), ArgErr e])
   | Found row \<Rightarrow> map_sum id (\<lambda>rows. row # rows) (get_or_create E as)
   | NotFound \<Rightarrow> (case de_create_addon E a of
         Inl e \<Rightarrow> Inl (Errorf ''failed to create addon %s: %w'' [ArgStr (dao_Name a), ArgErr e])
       | Inr i \<Rightarrow> map_sum id (\<lambda>rows. a\<lparr>dao_ID := i\<rparr> # rows) (get_or_create E as)))"

text \<open>The IDs the database gave the mission and the world are assigned to what the pointers point to.\<close>

definition pg_StartMission :: "db_env \<Rightarrow> mission \<Rightarrow> world \<Rightarrow> postgres \<Rightarrow> go_err option \<times> (mission \<times> world) \<times> postgres" where
  "pg_StartMission E m w b =
     (if \<not> pg_db b then (None, (m, w), b)
      else let gm = CoreToMission m in
        case get_or_create E (dmi_Addons gm) of
          Inl e \<Rightarrow> (Some e, (m, w), b)
        | Inr addons \<Rightarrow> (case de_world E (CoreToWorld w) of
              Inl e \<Rightarrow> (Some (Errorf ''failed to get or insert world: %w'' [ArgErr e]), (m, w), b)
            | Inr gw \<Rightarrow> (case de_create_mission E (gm\<lparr>dmi_Addons := addons, dmi_World := Some gw\<rparr>) of
                  Inl e \<Rightarrow> (Some (Errorf ''failed to insert new mission: %w'' [ArgErr e]), (m, w), b)
                | Inr i \<Rightarrow> (None, (m\<lparr>mi_ID := i\<rparr>, w\<lparr>w_ID := dwo_ID gw\<rparr>), b\<lparr>pg_missionID := i\<rparr>))))"

definition SetMissionID :: "guint \<Rightarrow> postgres \<Rightarrow> postgres" where
  "SetMissionID i b = b\<lparr>pg_missionID := i\<rparr>"

section \<open>Recording\<close>

definition enqueue :: "queue_kind \<Rightarrow> db_row \<Rightarrow> postgres \<Rightarrow> postgres" where
  "enqueue k r b = b\<lparr>pg_queues := (pg_queues b)(k := Push [r] (pg_queues b k))\<rparr>"

definition pg_AddMarker :: "db_env \<Rightarrow> marker \<Rightarrow> postgres \<Rightarrow> backend_result \<times> postgres" where
  "pg_AddMarker E m b =
     (if pg_db b then
        let row = (CoreToMarker m)\<lparr>dma_MissionID := pg_missionID b\<rparr> in
        (case de_create_marker E row of
           Inl e \<Rightarrow> (MarkerAdded 0 (Some (Errorf ''failed to insert marker: %w'' [ArgErr e])), b)
         | Inr i \<Rightarrow> (MarkerAdded i None, b\<lparr>pg_tables := pg_tables b @ [RowMarker (row\<lparr>dma_ID := i\<rparr>)]\<rparr>))
      else (MarkerAdded 0 None, b))"

fun mark_deleted :: "guint \<Rightarrow> db_row \<Rightarrow> db_row" where
  "mark_deleted i (RowMarker m) = RowMarker (if dma_ID m = i then m\<lparr>dma_IsDeleted := True\<rparr> else m)"
| "mark_deleted i r = r"

definition pg_DeleteMarker :: "db_env \<Rightarrow> delete_marker \<Rightarrow> postgres \<Rightarrow> postgres" where
  "pg_DeleteMarker E dm b = (case Get (dm_Name dm) (pg_MarkerCache b) of
     None \<Rightarrow> b
   | Some i \<Rightarrow>
       let b = enqueue MarkerStates (RowMarkerState \<lparr>dms_ID = 0, dms_Time = de_now E, dms_MissionID = 0, dms_MarkerID = i,
             dms_CaptureFrame = dm_EndFrame dm, dms_Position = None, dms_Direction = 0, dms_Alpha = 0, dms_Text = [],
             dms_Color = [], dms_Size = [], dms_MarkerType = [], dms_Brush = [], dms_Shape = []\<rparr>) b
       in if pg_db b then b\<lparr>pg_tables := map (mark_deleted i) (pg_tables b)\<rparr> else b)"

definition sector_as_general :: "sector_event \<Rightarrow> general_event" where
  "sector_as_general e = \<lparr>ge_ID = sec_ID e, ge_Time = sec_Time e, ge_CaptureFrame = sec_CaptureFrame e, ge_Name = sec_Name e,
     ge_Message = sec_ObjectType e @ '','' @ sec_UnitName e @ '','' @ sec_Side e, ge_ExtraData = []\<rparr>"

definition end_mission_as_general :: "end_mission_event \<Rightarrow> general_event" where
  "end_mission_as_general e = \<lparr>ge_ID = eme_ID e, ge_Time = eme_Time e, ge_CaptureFrame = eme_CaptureFrame e,
     ge_Name = ''endMission'', ge_Message = eme_Side e @ '' '' @ eme_Message e, ge_ExtraData = []\<rparr>"

definition fps_row :: "telemetry_event \<Rightarrow> db_fps_event" where
  "fps_row e = \<lparr>dfe_Time = tel_Time e, dfe_MissionID = 0, dfe_CaptureFrame = tel_CaptureFrame e,
     dfe_FpsAverage = tel_FpsAverage e, dfe_FpsMin = tel_FpsMin e\<rparr>"

text \<open>The calls a worker makes; those of the lifecycle have definitions of their own.\<close>

fun pg_exec_more :: "backend_call \<Rightarrow> postgres \<Rightarrow> backend_result \<times> postgres" where
  "pg_exec_more (CallRecordTelemetryEvent e) b = (Returned None, enqueue FpsEvents (RowFpsEvent (fps_row e)) b)"
| "pg_exec_more (CallRecordAce3DeathEvent e) b =
     (Returned None, enqueue Ace3DeathEvents (RowAce3DeathEvent (CoreToAce3DeathEvent e)) b)"
| "pg_exec_more (CallRecordAce3UnconsciousEvent e) b =
     (Returned None, enqueue Ace3UnconsciousEvents (RowAce3UnconsciousEvent (CoreToAce3UnconsciousEvent e)) b)"
| "pg_exec_more (CallAddPlacedObject p) b = (Returned None, enqueue PlacedObjects (RowPlacedObject (CoreToPlacedObject p)) b)"
| "pg_exec_more (CallRecordPlacedObjectEvent e) b =
     (Returned None, enqueue PlacedObjectEvents (RowPlacedObjectEvent (CoreToPlacedObjectEvent e)) b)"
| "pg_exec_more c b = (Returned None, b)"

text \<open>All of them; those that \<open>pg_exec_more\<close> does not know either have nothing to do.\<close>

fun pg_exec :: "db_env \<Rightarrow> backend_call \<Rightarrow> postgres \<Rightarrow> backend_result \<times> postgres" where
  "pg_exec E (CallAddSoldier s) b = (Returned None, enqueue Soldiers (RowSoldier (CoreToSoldier s)) b)"
| "pg_exec E (CallAddVehicle v) b = (Returned None, enqueue Vehicles (RowVehicle (CoreToVehicle v)) b)"
| "pg_exec E (CallAddMarker m) b = pg_AddMarker E m b"
| "pg_exec E (CallRecordSoldierState s) b = (Returned None, enqueue SoldierStates (RowSoldierState (CoreToSoldierState s)) b)"
| "pg_exec E (CallRecordVehicleState v) b = (Returned None, enqueue VehicleStates (RowVehicleState (CoreToVehicleState v)) b)"
| "pg_exec E (CallRecordMarkerState s) b = (Returned None, enqueue MarkerStates (RowMarkerState (CoreToMarkerState s)) b)"
| "pg_exec E (CallDeleteMarker dm) b = (Returned None, pg_DeleteMarker E dm b)"
| "pg_exec E (CallRecordProjectileEvent e) b =
     (Returned None, enqueue ProjectileEvents (RowProjectileEvent (CoreToProjectileEvent e)) b)"
| "pg_exec E (CallRecordGeneralEvent e) b =
     (Returned None, enqueue GeneralEvents (RowGeneralEvent (CoreToGeneralEvent e)) b)"
| "pg_exec E (CallRecordSectorEvent e) b =
     (Returned None, enqueue GeneralEvents (RowGeneralEvent (CoreToGeneralEvent (sector_as_general e))) b)"
| "pg_exec E (CallRecordEndMissionEvent e) b =
     (Returned None, enqueue GeneralEvents (RowGeneralEvent (CoreToGeneralEvent (end_mission_as_general e))) b)"
| "pg_exec E (CallRecordKillEvent e) b = (Returned None, enqueue KillEvents (RowKillEvent (CoreToKillEvent e)) b)"
| "pg_exec E (CallRecordChatEvent e) b = (Returned None, enqueue ChatEvents (RowChatEvent (CoreToChatEvent e)) b)"
| "pg_exec E (CallRecordRadioEvent e) b = (Returned None, enqueue RadioEvents (RowRadioEvent (CoreToRadioEvent e)) b)"
| "pg_exec E c b = pg_exec_more c b"

text \<open>sqlite.go: projectiles are dropped, everything else is the embedded backend's.\<close>

fun sqlite_exec :: "db_env \<Rightarrow> backend_call \<Rightarrow> postgres \<Rightarrow> backend_result \<times> postgres" where
  "sqlite_exec E (CallRecordProjectileEvent e) b = (Returned None, b)"
| "sqlite_exec E c b = pg_exec E c b"

section \<open>The writer\<close>

fun stamp :: "guint \<Rightarrow> db_row \<Rightarrow> db_row" where
  "stamp i (RowSoldier r) = RowSoldier (r\<lparr>dso_MissionID := i\<rparr>)"
| "stamp i (RowVehicle r) = RowVehicle (r\<lparr>dve_MissionID := i\<rparr>)"
| "stamp i (RowMarker r) = RowMarker (r\<lparr>dma_MissionID := i\<rparr>)"
| "stamp i (RowSoldierState r) = RowSoldierState (r\<lparr>dss_MissionID := i\<rparr>)"
| "stamp i (RowVehicleState r) = RowVehicleState (r\<lparr>dvs_MissionID := i\<rparr>)"
| "stamp i (RowMarkerState r) = RowMarkerState (r\<lparr>dms_MissionID := i\<rparr>)"
| "stamp i (RowProjectileEvent r) = RowProjectileEvent (r\<lparr>dpr_MissionID := i,
     dpr_HitSoldiers := map (\<lambda>h. h\<lparr>dph_MissionID := i\<rparr>) (dpr_HitSoldiers r),
     dpr_HitVehicles := map (\<lambda>h. h\<lparr>dph_MissionID := i\<rparr>) (dpr_HitVehicles r)\<rparr>)"
| "stamp i (RowGeneralEvent r) = RowGeneralEvent (r\<lparr>dge_MissionID := i\<rparr>)"
| "stamp i (RowKillEvent r) = RowKillEvent (r\<lparr>dke_MissionID := i\<rparr>)"
| "stamp i (RowChatEvent r) = RowChatEvent (r\<lparr>dce_MissionID := i\<rparr>)"
| "stamp i (RowRadioEvent r) = RowRadioEvent (r\<lparr>dre_MissionID := i\<rparr>)"
| "stamp i (RowFpsEvent r) = RowFpsEvent (r\<lparr>dfe_MissionID := i\<rparr>)"
| "stamp i (RowAce3DeathEvent r) = RowAce3DeathEvent (r\<lparr>dad_MissionID := i\<rparr>)"
| "stamp i (RowAce3UnconsciousEvent r) = RowAce3UnconsciousEvent (r\<lparr>dau_MissionID := i\<rparr>)"
| "stamp i (RowPlacedObject r) = RowPlacedObject (r\<lparr>dpo_MissionID := i\<rparr>)"
| "stamp i (RowPlacedObjectEvent r) = RowPlacedObjectEvent (r\<lparr>dpe_MissionID := i\<rparr>)"

definition write_order :: "queue_kind list" where
  "write_order = [Soldiers, Vehicles, Markers, SoldierStates, VehicleStates, MarkerStates, ProjectileEvents, GeneralEvents,
     KillEvents, ChatEvents, RadioEvents, FpsEvents, Ace3DeathEvents, Ace3UnconsciousEvents, PlacedObjects, PlacedObjectEvents]"

text \<open>\<open>onSuccess\<close> of the markers, which sees the IDs the database gave them.\<close>

fun cache_marker :: "db_row \<Rightarrow> guint \<Rightarrow> marker_cache \<Rightarrow> marker_cache" where
  "cache_marker (RowMarker m) i c = (if i \<noteq> 0 then Set (dma_MarkerName m) i c else c)"
| "cache_marker r i c = c"

text \<open>
  The answer to \<open>Create\<close> and \<open>Commit\<close>. The error of \<open>Commit\<close> is not looked at. \<open>db_fate\<close> is what became of the rows.
\<close>

datatype db_answer = Committed "guint list" | CommitFailed "guint list" | CreateFailed go_err

datatype db_fate = Idle | Queued queue_kind db_row | Wrote queue_kind "db_row list" | Lost queue_kind "db_row list" | Requeued queue_kind

fun writeQueue :: "db_answer \<Rightarrow> queue_kind \<Rightarrow> db_row list \<Rightarrow> postgres \<Rightarrow> db_fate \<times> postgres" where
  "writeQueue (CreateFailed e) k rows b = (Requeued k, b\<lparr>pg_queues := (pg_queues b)(k := Push rows (pg_queues b k))\<rparr>)"
| "writeQueue (Committed ids) k rows b = (Wrote k rows,
     b\<lparr>pg_tables := pg_tables b @ rows,
       pg_MarkerCache := fold (\<lambda>(r, i). cache_marker r i) (zip rows ids) (pg_MarkerCache b)\<rparr>)"
| "writeQueue (CommitFailed ids) k rows b = (Lost k rows,
     b\<lparr>pg_MarkerCache := fold (\<lambda>(r, i). cache_marker r i) (zip rows ids) (pg_MarkerCache b)\<rparr>)"

fun startDBWriters :: "db_answer \<Rightarrow> postgres \<Rightarrow> (db_fate \<times> postgres) option" where
  "startDBWriters ans b = (case pg_writer b of
     Looping \<Rightarrow> Some (Idle, b\<lparr>pg_writer :=
       (if pg_stopChan b = Some True then Stopped else if pg_dbReady b then Cycle (pg_missionID b) write_order else Looping)\<rparr>)
   | Cycle i [] \<Rightarrow> Some (Idle, b\<lparr>pg_writer := Looping\<rparr>)
   | Cycle i (k # ks) \<Rightarrow>
       (if Empty (pg_queues b k) then Some (Idle, b\<lparr>pg_writer := Cycle i ks\<rparr>)
        else let (items, q) = GetAndEmpty (pg_queues b k)
             in Some (Idle, b\<lparr>pg_queues := (pg_queues b)(k := q), pg_writer := InTx i k (map (stamp i) items) ks\<rparr>))
   | InTx i k rows ks \<Rightarrow>
       let (f, b) = writeQueue ans k rows b in Some (f, b\<lparr>pg_writer := Cycle i ks\<rparr>)
   | _ \<Rightarrow> None)"

section \<open>Runs\<close>

text \<open>The row a call queues.\<close>

fun queued_row :: "db_env \<Rightarrow> backend_call \<Rightarrow> postgres \<Rightarrow> db_fate" where
  "queued_row E c b = (let b' = snd (pg_exec E c b) in
     case filter (\<lambda>k. length (items (pg_queues b k)) < length (items (pg_queues b' k))) write_order of
       [] \<Rightarrow> Idle
     | k # _ \<Rightarrow> Queued k (last (items (pg_queues b' k))))"

inductive pstep :: "postgres \<Rightarrow> db_fate \<Rightarrow> postgres \<Rightarrow> bool" where
  call: "pg_exec E c b = (r, b') \<Longrightarrow> pstep b (queued_row E c b) b'"
| start: "pg_StartMission E m w b = (r, mw, b') \<Longrightarrow> pstep b Idle b'"
| set_ID: "pstep b Idle (SetMissionID i b)"
| close: "pg_Close b = Ok b' \<Longrightarrow> pstep b Idle b'"
| writer: "startDBWriters ans b = Some (f, b') \<Longrightarrow> pstep b f b'"

text \<open>Runs through states that all satisfy \<open>P\<close>.\<close>

inductive pruns :: "(postgres \<Rightarrow> bool) \<Rightarrow> postgres \<Rightarrow> db_fate list \<Rightarrow> postgres \<Rightarrow> bool" for P where
  stop: "P b \<Longrightarrow> pruns P b [] b"
| step: "P b \<Longrightarrow> pstep b f b' \<Longrightarrow> pruns P b' fs b'' \<Longrightarrow> pruns P b (f # fs) b''"

inductive_simps pruns_simps [simp]: "pruns P b [] b'" "pruns P b (f # fs) b'"

end
