(* ===== verification/Postgres_Facts.thy ===== *)
theory Postgres_Facts
  imports Postgres "HOL-Library.Multiset"
begin

text \<open>
  What every interleaving of the calls with the writer of the database backend keeps: rows are neither lost nor
  doubled except by a commit that fails, each kind in order as long as the database accepts it, and a
  cycle with a working database empties all queues in the order of the tables.
\<close>

section \<open>Stamps\<close>

text \<open>A row stamped again is as if it had been stamped only the last time.\<close>

locale stamping =
  fixes put :: "guint \<Rightarrow> 'r \<Rightarrow> 'r"
  assumes put_put: "put i (put j r) = put i r"
begin

definition erased :: "'r \<Rightarrow> 'r" where
  "erased r = put 0 r"

lemma erased_put [simp]: "erased (put i r) = erased r"
  by (simp add: erased_def put_put)

lemma erased_map_put [simp]: "map erased (map (put i) rs) = map erased rs"
  by (simp add: comp_def)

lemma put_erased: "put i (erased r) = put i r"
  by (simp add: erased_def put_put)

end

interpretation row: stamping stamp
proof
  show "stamp i (stamp j r) = stamp i r" for i j r
    by (cases r) (simp_all add: comp_def)
qed

text \<open>A row without its mission.\<close>

definition content :: "db_row \<Rightarrow> db_row" where
  "content r = stamp 0 r"

lemma content_stamp [simp]: "content (stamp i r) = content r"
  using row.erased_put [of i r] by (simp add: content_def row.erased_def)

lemma content_stamps [simp]: "map content (map (stamp i) rs) = map content rs"
  by (simp add: comp_def)

section \<open>Rows of a kind\<close>

definition queued_in :: "queue_kind \<Rightarrow> db_fate list \<Rightarrow> db_row list" where
  "queued_in k fs = List.map_filter (\<lambda>f. case f of Queued j r \<Rightarrow> if j = k then Some (content r) else None | _ \<Rightarrow> None) fs"

definition batches :: "queue_kind \<Rightarrow> db_fate list \<Rightarrow> db_row list list" where
  "batches k fs = List.map_filter (\<lambda>f. case f of
     Wrote j rows \<Rightarrow> if j = k then Some (map content rows) else None
   | Lost j rows \<Rightarrow> if j = k then Some (map content rows) else None
   | _ \<Rightarrow> None) fs"

definition in_tx :: "queue_kind \<Rightarrow> postgres \<Rightarrow> db_row list" where
  "in_tx k b = (case pg_writer b of InTx i j rows ks \<Rightarrow> if j = k then map content rows else [] | _ \<Rightarrow> [])"

definition waiting :: "queue_kind \<Rightarrow> postgres \<Rightarrow> db_row list" where
  "waiting k b = map content (items (pg_queues b k))"

lemmas row_fate_defs = queued_in_def batches_def

lemma row_fates_simps [simp]: "queued_in k [] = []" "batches k [] = []"
  by (simp_all add: row_fate_defs List.map_filter_simps)

lemma row_fates_Cons: "queued_in k (f # fs) = queued_in k [f] @ queued_in k fs" "batches k (f # fs) = batches k [f] @ batches k fs"
  by (simp_all add: row_fate_defs List.map_filter_def)

section \<open>Steps\<close>

text \<open>A call queues one row or none.\<close>

lemma queued_enqueue:
  assumes "pg_queues (snd (pg_exec E c b)) = (pg_queues b)(k := Push [r] (pg_queues b k))"
  shows "queued_row E c b = Queued k r"
proof -
  have "filter (\<lambda>j. length (items (pg_queues b j)) < length (items (((pg_queues b)(k := Push [r] (pg_queues b k))) j))) write_order = [k]"
    by (cases k) (simp_all add: write_order_def Push_def)
  then show ?thesis using assms by (simp add: Let_def Push_def)
qed

lemma queued_none:
  assumes "pg_queues (snd (pg_exec E c b)) = pg_queues b"
  shows "queued_row E c b = Idle"
  using assms by (simp add: Let_def)

definition pushed :: "postgres \<Rightarrow> postgres \<Rightarrow> bool" where
  "pushed b b' \<longleftrightarrow> (\<exists>k x. pg_queues b' = (pg_queues b)(k := Push [x] (pg_queues b k)))"

lemma pushed_enqueue [simp]: "pushed b (enqueue k x b)" "pushed b (enqueue k x b\<lparr>pg_tables := t\<rparr>)"
  by (auto simp: pushed_def enqueue_def)

lemma exec_pushes:
  assumes "pg_exec E c b = (r, b')"
  shows "pg_queues b' = pg_queues b \<or> pushed b b'"
  using assms
  by (cases c) (auto simp: pg_AddMarker_def pg_DeleteMarker_def Let_def split: option.splits if_splits sum.splits)

lemma exec_cases:
  assumes "pg_exec E c b = (r, b')"
  obtains "pg_queues b' = pg_queues b" "queued_row E c b = Idle"
  | k x where "pg_queues b' = (pg_queues b)(k := Push [x] (pg_queues b k))" "queued_row E c b = Queued k x"
  using exec_pushes [OF assms] that queued_none [of E c b] queued_enqueue [of E c b] assms
  by (auto simp: pushed_def)

lemma exec_frame:
  assumes "pg_exec E c b = (r, b')"
  shows "pg_writer b' = pg_writer b" "pg_stopChan b' = pg_stopChan b" "pg_missionID b' = pg_missionID b" "pg_dbReady b' = pg_dbReady b"
proof -
  have "pg_writer b' = pg_writer b \<and> pg_stopChan b' = pg_stopChan b \<and> pg_missionID b' = pg_missionID b \<and> pg_dbReady b' = pg_dbReady b"
    using assms
    by (cases c) (auto simp: enqueue_def pg_AddMarker_def pg_DeleteMarker_def Let_def split: option.splits if_splits sum.splits)
  then show "pg_writer b' = pg_writer b" "pg_stopChan b' = pg_stopChan b" "pg_missionID b' = pg_missionID b" "pg_dbReady b' = pg_dbReady b"
    by simp_all
qed

lemma start_frame:
  assumes "pg_StartMission E m w b = (r, mw, b')"
  shows "b' = b \<or> (\<exists>i. b' = b\<lparr>pg_missionID := i\<rparr>)"
  using assms by (auto simp: pg_StartMission_def Let_def split: if_splits sum.splits)

text \<open>The writer's step, by what it does to a kind.\<close>

lemma writer_order:
  assumes "startDBWriters ans b = Some (f, b')" "f \<noteq> Requeued k"
  shows "in_tx k b @ waiting k b = concat (batches k [f]) @ in_tx k b' @ waiting k b'" "queued_in k [f] = []"
proof -
  have "in_tx k b @ waiting k b = concat (batches k [f]) @ in_tx k b' @ waiting k b' \<and> queued_in k [f] = []"
  proof (cases "pg_writer b")
    case (Cycle i ks)
    then show ?thesis using assms
      by (cases ks) (auto simp: in_tx_def waiting_def row_fate_defs List.map_filter_simps Let_def GetAndEmpty_def
          split: if_splits)
  next
    case (InTx i j rows ks)
    then show ?thesis using assms
      by (cases ans) (auto simp: in_tx_def waiting_def row_fate_defs List.map_filter_simps Push_def)
  qed (use assms in \<open>auto simp: in_tx_def waiting_def row_fate_defs List.map_filter_simps\<close>)
  then show "in_tx k b @ waiting k b = concat (batches k [f]) @ in_tx k b' @ waiting k b'" "queued_in k [f] = []" by simp_all
qed

lemma writer_requeue:
  assumes "startDBWriters ans b = Some (Requeued k, b')"
  shows "mset (in_tx k b) + mset (waiting k b) = mset (in_tx k b') + mset (waiting k b')"
    "queued_in k [Requeued k] = []" "batches k [Requeued k] = []"
proof -
  show "mset (in_tx k b) + mset (waiting k b) = mset (in_tx k b') + mset (waiting k b')"
    using assms
    by (cases "pg_writer b"; cases ans) (auto simp: in_tx_def waiting_def Push_def Let_def split: if_splits list.splits prod.splits)
qed (simp_all add: row_fate_defs List.map_filter_simps)

lemma pstep_order:
  assumes "pstep b f b'" "f \<noteq> Requeued k"
  shows "in_tx k b @ waiting k b @ queued_in k [f] = concat (batches k [f]) @ in_tx k b' @ waiting k b'"
  using assms(1)
proof cases
  case (call E c r)
  from call(2) show ?thesis
  proof (cases rule: exec_cases)
    case (2 j x)
    then show ?thesis using exec_frame(1) [OF call(2)] call(1)
      by (auto simp: in_tx_def waiting_def row_fate_defs List.map_filter_simps Push_def)
  qed (use exec_frame(1) [OF call(2)] call(1) in \<open>simp add: in_tx_def waiting_def row_fate_defs List.map_filter_simps\<close>)
next
  case (start E m w r mw)
  then show ?thesis using start_frame [OF start(2)]
    by (auto simp: in_tx_def waiting_def row_fate_defs List.map_filter_simps)
next
  case close
  then show ?thesis
    by (auto simp: pg_Close_def in_tx_def waiting_def row_fate_defs List.map_filter_simps split: option.splits bool.splits)
next
  case (writer ans)
  then show ?thesis using writer_order [OF writer assms(2)] by simp
qed (simp add: SetMissionID_def in_tx_def waiting_def row_fate_defs List.map_filter_simps)

lemma pstep_rows:
  assumes "pstep b f b'"
  shows "mset (queued_in k [f]) + (mset (in_tx k b) + mset (waiting k b)) =
    mset (concat (batches k [f])) + (mset (in_tx k b') + mset (waiting k b'))"
proof (cases "f = Requeued k")
  case True
  from assms show ?thesis
  proof cases
    case (call E c r)
    then show ?thesis using True by (elim exec_cases) auto
  next
    case (writer ans)
    then show ?thesis using writer_requeue [of ans b k b'] True by simp
  qed (use True in simp_all)
next
  case False
  have "mset (in_tx k b @ waiting k b @ queued_in k [f]) = mset (concat (batches k [f]) @ in_tx k b' @ waiting k b')"
    using pstep_order [OF assms False] by simp
  then show ?thesis by (simp only: mset_append ac_simps)
qed

lemma pruns_rows:
  "pruns P b fs b' \<Longrightarrow> mset (queued_in k fs) + (mset (in_tx k b) + mset (waiting k b)) =
     mset (concat (batches k fs)) + (mset (in_tx k b') + mset (waiting k b'))"
proof (induction rule: pruns.induct)
  case (step b f b' fs b'')
  let ?o = "\<lambda>b. mset (in_tx k b) + mset (waiting k b)"
  have "mset (queued_in k (f # fs)) + ?o b = (mset (queued_in k [f]) + ?o b) + mset (queued_in k fs)"
    by (simp only: row_fates_Cons(1) [of k f fs] mset_append ac_simps)
  also have "\<dots> = mset (concat (batches k [f])) + (mset (queued_in k fs) + ?o b')"
    unfolding pstep_rows [OF step.hyps(2)] by (simp only: ac_simps)
  also have "\<dots> = mset (concat (batches k [f])) + (mset (concat (batches k fs)) + ?o b'')" by (simp only: step.IH)
  finally show ?case by (simp only: row_fates_Cons(2) [of k f fs] concat_append mset_append ac_simps)
qed simp

lemma pruns_order:
  "pruns P b fs b' \<Longrightarrow> Requeued k \<notin> set fs \<Longrightarrow>
     in_tx k b @ waiting k b @ queued_in k fs = concat (batches k fs) @ in_tx k b' @ waiting k b'"
proof (induction rule: pruns.induct)
  case (step b f b' fs b'')
  have "in_tx k b @ waiting k b @ queued_in k (f # fs) = (in_tx k b @ waiting k b @ queued_in k [f]) @ queued_in k fs"
    using row_fates_Cons(1) [of k f fs] by simp
  also have "\<dots> = concat (batches k [f]) @ (in_tx k b' @ waiting k b' @ queued_in k fs)"
    using pstep_order [OF step.hyps(2), of k] step.prems by auto
  finally show ?case using step.IH step.prems row_fates_Cons(2) [of k f fs] by simp
qed simp

section \<open>A cycle\<close>

text \<open>The writer alone, on a database that accepts everything.\<close>

lemma pruns_append: "pruns P b xs b' \<Longrightarrow> pruns P b' ys b'' \<Longrightarrow> pruns P b (xs @ ys) b''"
  by (induction rule: pruns.induct) auto

lemma cycle_run:
  assumes "pg_writer b = Cycle i ks" "distinct ks"
  shows "\<exists>fs b'. pruns (\<lambda>_. True) b fs b' \<and> pg_writer b' = Looping \<and> length fs \<le> 2 * length ks + 1 \<and>
    pg_tables b' = pg_tables b @ concat (map (\<lambda>k. map (stamp i) (items (pg_queues b k))) ks) \<and>
    (\<forall>k. items (pg_queues b' k) = (if k \<in> set ks then [] else items (pg_queues b k)))"
  using assms
proof (induction ks arbitrary: b)
  case Nil
  then have "pstep b Idle (b\<lparr>pg_writer := Looping\<rparr>)" by (intro pstep.writer [of undefined]) simp
  then show ?case by (intro exI [of _ "[Idle]"] exI [of _ "b\<lparr>pg_writer := Looping\<rparr>"]) auto
next
  case (Cons k ks)
  show ?case
  proof (cases "Empty (pg_queues b k)")
    case True
    let ?b = "b\<lparr>pg_writer := Cycle i ks\<rparr>"
    have 1: "pstep b Idle ?b" using Cons.prems True by (intro pstep.writer [of undefined]) simp
    obtain fs b' where "pruns (\<lambda>_. True) ?b fs b'" "pg_writer b' = Looping" "length fs \<le> 2 * length ks + 1"
      "pg_tables b' = pg_tables b @ concat (map (\<lambda>k. map (stamp i) (items (pg_queues b k))) ks)"
      "\<forall>k. items (pg_queues b' k) = (if k \<in> set ks then [] else items (pg_queues b k))"
      using Cons.IH [of ?b] Cons.prems(2) by auto
    with 1 True show ?thesis by (intro exI [of _ "Idle # fs"] exI [of _ b']) (auto simp: Empty_def)
  next
    case False
    let ?rows = "map (stamp i) (items (pg_queues b k))"
    let ?b1 = "b\<lparr>pg_queues := (pg_queues b)(k := (pg_queues b k)\<lparr>items := []\<rparr>), pg_writer := InTx i k ?rows ks\<rparr>"
    let ?b2 = "?b1\<lparr>pg_tables := pg_tables b @ ?rows, pg_writer := Cycle i ks\<rparr>"
    have 1: "pstep b Idle ?b1"
      using Cons.prems False by (intro pstep.writer [of undefined]) (simp add: GetAndEmpty_def)
    have 2: "pstep ?b1 (Wrote k ?rows) ?b2" by (intro pstep.writer [of "Committed []"]) simp
    have same: "map (\<lambda>k. map (stamp i) (items (pg_queues ?b2 k))) ks = map (\<lambda>k. map (stamp i) (items (pg_queues b k))) ks"
      using Cons.prems(2) by auto
    obtain fs b' where run: "pruns (\<lambda>_. True) ?b2 fs b'" "pg_writer b' = Looping" "length fs \<le> 2 * length ks + 1"
      "pg_tables b' = pg_tables ?b2 @ concat (map (\<lambda>k. map (stamp i) (items (pg_queues ?b2 k))) ks)"
      "\<forall>k. items (pg_queues b' k) = (if k \<in> set ks then [] else items (pg_queues ?b2 k))"
      using Cons.IH [of ?b2] Cons.prems(2) by auto
    have "pg_tables b' = pg_tables b @ concat (map (\<lambda>k. map (stamp i) (items (pg_queues b k))) (k # ks))"
      using run(4) unfolding same by simp
    moreover have "\<forall>j. items (pg_queues b' j) = (if j \<in> set (k # ks) then [] else items (pg_queues b j))"
      using run(5) by simp
    moreover have "pruns (\<lambda>_. True) b (Idle # Wrote k ?rows # fs) b'"
      by (rule pruns.step [OF _ 1 pruns.step [OF _ 2 run(1)]]) simp_all
    moreover note run(2,3)
    ultimately show ?thesis
      by (intro exI [of _ "Idle # Wrote k ?rows # fs"] exI [of _ b'] conjI) simp_all
  qed
qed

section \<open>Tables\<close>

fun row_kind :: "db_row \<Rightarrow> queue_kind" where
  "row_kind (RowSoldier r) = Soldiers"
| "row_kind (RowVehicle r) = Vehicles"
| "row_kind (RowMarker r) = Markers"
| "row_kind (RowSoldierState r) = SoldierStates"
| "row_kind (RowVehicleState r) = VehicleStates"
| "row_kind (RowMarkerState r) = MarkerStates"
| "row_kind (RowProjectileEvent r) = ProjectileEvents"
| "row_kind (RowGeneralEvent r) = GeneralEvents"
| "row_kind (RowKillEvent r) = KillEvents"
| "row_kind (RowChatEvent r) = ChatEvents"
| "row_kind (RowRadioEvent r) = RadioEvents"
| "row_kind (RowFpsEvent r) = FpsEvents"
| "row_kind (RowAce3DeathEvent r) = Ace3DeathEvents"
| "row_kind (RowAce3UnconsciousEvent r) = Ace3UnconsciousEvents"
| "row_kind (RowPlacedObject r) = PlacedObjects"
| "row_kind (RowPlacedObjectEvent r) = PlacedObjectEvents"

lemma row_kind_stamp [simp]: "row_kind (stamp i r) = row_kind r"
  by (cases r) simp_all

text \<open>The committed rows of a kind, without their missions.\<close>

definition table :: "queue_kind \<Rightarrow> postgres \<Rightarrow> db_row list" where
  "table k b = map content (filter (\<lambda>r. row_kind r = k) (pg_tables b))"

definition lost :: "queue_kind \<Rightarrow> db_fate list \<Rightarrow> db_row list" where
  "lost k fs = concat (List.map_filter (\<lambda>f. case f of
     Lost j rows \<Rightarrow> if j = k then Some (map content rows) else None | _ \<Rightarrow> None) fs)"

definition committed :: "queue_kind \<Rightarrow> db_fate list \<Rightarrow> db_row list" where
  "committed k fs = concat (List.map_filter (\<lambda>f. case f of
     Wrote j rows \<Rightarrow> if j = k then Some (map content rows) else None | _ \<Rightarrow> None) fs)"

lemma batches_split: "mset (concat (batches k fs)) = mset (committed k fs) + mset (lost k fs)"
  by (induction fs) (auto simp: batches_def committed_def lost_def List.map_filter_simps split: db_fate.splits)

lemma batches_committed: "lost k fs = [] \<Longrightarrow> concat (batches k fs) = committed k fs"
  by (induction fs) (auto simp: batches_def committed_def lost_def List.map_filter_simps split: db_fate.splits if_splits)

text \<open>The queues and the transaction hold rows of their kind.\<close>

definition kinded :: "postgres \<Rightarrow> bool" where
  "kinded b \<longleftrightarrow> (\<forall>k. \<forall>r \<in> set (items (pg_queues b k)). row_kind r = k) \<and>
     (case pg_writer b of InTx i j rows ks \<Rightarrow> \<forall>r \<in> set rows. row_kind r = j | _ \<Rightarrow> True)"

definition pushed_kind :: "postgres \<Rightarrow> postgres \<Rightarrow> bool" where
  "pushed_kind b b' \<longleftrightarrow> (\<forall>k. \<forall>r \<in> set (items (pg_queues b' k)). r \<in> set (items (pg_queues b k)) \<or> row_kind r = k)"

lemma pushed_kind_enqueue [simp]:
  "row_kind x = k \<Longrightarrow> pushed_kind b (enqueue k x b)"
  "row_kind x = k \<Longrightarrow> pushed_kind b (enqueue k x b\<lparr>pg_tables := t\<rparr>)"
  "pushed_kind b b" "pushed_kind b (b\<lparr>pg_tables := t\<rparr>)"
  by (auto simp: pushed_kind_def enqueue_def Push_def)

lemma exec_kinds: "pg_exec E c b = (r, b') \<Longrightarrow> pushed_kind b b'"
  by (cases c) (auto simp: pg_AddMarker_def pg_DeleteMarker_def Let_def split: option.splits if_splits sum.splits)

lemma row_kind_mark_deleted [simp]: "row_kind (mark_deleted i r) = row_kind r"
  by (cases r) simp_all

lemma mark_deleted_other: "row_kind r \<noteq> Markers \<Longrightarrow> mark_deleted i r = r"
  by (cases r) simp_all

lemma table_mark_deleted:
  "k \<noteq> Markers \<Longrightarrow> filter (\<lambda>r. row_kind r = k) (map (mark_deleted i) rows) = filter (\<lambda>r. row_kind r = k) rows"
  by (induction rows) (auto simp: mark_deleted_other)

lemma exec_tables:
  assumes "pg_exec E c b = (r, b')" "k \<noteq> Markers"
  shows "table k b' = table k b"
  using assms
  by (cases c)
    (auto simp: table_def enqueue_def pg_AddMarker_def pg_DeleteMarker_def table_mark_deleted Let_def
      split: option.splits if_splits sum.splits)

lemma writer_kinds:
  assumes "startDBWriters ans b = Some (f, b')" "kinded b"
  shows "kinded b'" "table k b' = table k b @ committed k [f]"
proof -
  have "kinded b' \<and> table k b' = table k b @ committed k [f]"
  proof (cases "pg_writer b")
    case (Cycle i ks)
    then show ?thesis using assms
      by (cases ks) (auto simp: kinded_def table_def committed_def List.map_filter_simps Let_def GetAndEmpty_def
          split: if_splits)
  next
    case (InTx i j rows ks)
    have "filter (\<lambda>r. row_kind r = k) rows = (if j = k then rows else [])"
      using assms(2) InTx by (auto simp: kinded_def)
    with InTx show ?thesis using assms
      by (cases ans) (auto simp: kinded_def table_def committed_def List.map_filter_simps Push_def split: if_splits)
  qed (use assms in \<open>auto simp: kinded_def table_def committed_def List.map_filter_simps split: if_splits\<close>)
  then show "kinded b'" "table k b' = table k b @ committed k [f]" by simp_all
qed

lemma pstep_tables:
  assumes "pstep b f b'" "kinded b" "k \<noteq> Markers"
  shows "kinded b'" "table k b' = table k b @ committed k [f]"
proof -
  from assms(1) have "kinded b' \<and> table k b' = table k b @ committed k [f]"
  proof cases
    case (call E c r)
    have "committed k [queued_row E c b] = []"
      using call(2) by (elim exec_cases) (simp_all add: committed_def List.map_filter_simps)
    moreover have "kinded b'"
      using exec_kinds [OF call(2)] exec_frame(1) [OF call(2)] assms(2)
      by (auto simp: kinded_def pushed_kind_def split: writer.splits)
    ultimately show ?thesis using exec_tables [OF call(2) assms(3)] call(1) by simp
  next
    case (start E m w r mw)
    then show ?thesis using start_frame [OF start(2)] assms(2)
      by (auto simp: kinded_def table_def committed_def List.map_filter_simps)
  next
    case close
    then show ?thesis using assms(2)
      by (auto simp: pg_Close_def kinded_def table_def committed_def List.map_filter_simps split: option.splits bool.splits)
  next
    case (writer ans)
    then show ?thesis using writer_kinds [OF writer assms(2)] by simp
  qed (use assms(2) in \<open>simp add: SetMissionID_def kinded_def table_def committed_def List.map_filter_simps\<close>)
  then show "kinded b'" "table k b' = table k b @ committed k [f]" by simp_all
qed

lemma committed_Cons: "committed k (f # fs) = committed k [f] @ committed k fs"
  by (simp add: committed_def List.map_filter_def)

lemma pruns_tables:
  "pruns P b fs b' \<Longrightarrow> kinded b \<Longrightarrow> k \<noteq> Markers \<Longrightarrow> table k b' = table k b @ committed k fs"
proof (induction rule: pruns.induct)
  case (step b f b' fs b'')
  then show ?case using pstep_tables [OF step.hyps(2) step.prems] committed_Cons [of k f fs] by simp
qed (simp add: committed_def)

text \<open>What \<open>Init\<close> leaves.\<close>

lemma Init_facts:
  assumes "pg_Init E b = (None, b')"
  shows "pg_queues b' = newQueues" "pg_writer b' = Looping" "pg_dbReady b'" "pg_stopChan b' = Some False"
    "pg_tables b' = pg_tables b" "pg_db b'" "pg_missionID b' = pg_missionID b" "kinded b'"
  using assms by (auto simp: pg_Init_def Let_def kinded_def newQueues_def New_def split: option.splits if_splits)

lemma Init_empty [simp]:
  assumes "pg_Init E b = (None, b')"
  shows "in_tx k b' = []" "waiting k b' = []"
  using Init_facts [OF assms] by (simp_all add: in_tx_def waiting_def newQueues_def New_def)

section \<open>A row the database refuses\<close>

text \<open>A row that every batch is refused for keeps the writer from writing any row of its kind.\<close>

definition stuck_behind :: "db_row \<Rightarrow> queue_kind \<Rightarrow> postgres \<Rightarrow> bool" where
  "stuck_behind r k b \<longleftrightarrow> (case pg_writer b of
     InTx i j rows ks \<Rightarrow> r \<in> set (if j = k then map content rows else waiting k b)
   | _ \<Rightarrow> r \<in> set (waiting k b))"

lemma writer_stuck:
  assumes "startDBWriters ans b = Some (f, b')" "stuck_behind r k b" "\<forall>rows \<in> set (batches k [f]). r \<notin> set rows"
  shows "stuck_behind r k b'" "batches k [f] = []"
proof -
  have "stuck_behind r k b' \<and> batches k [f] = []"
  proof (cases "pg_writer b")
    case (Cycle i ks)
    then show ?thesis using assms
      by (cases ks)
        (auto simp: stuck_behind_def waiting_def batches_def List.map_filter_simps Let_def GetAndEmpty_def
          Empty_def image_image split: if_splits)
  next
    case (InTx i j rows ks)
    then show ?thesis using assms
      by (cases ans) (auto simp: stuck_behind_def waiting_def batches_def List.map_filter_simps Push_def
          split: if_splits)
  qed (use assms in \<open>auto simp: stuck_behind_def waiting_def batches_def List.map_filter_simps split: if_splits\<close>)
  then show "stuck_behind r k b'" "batches k [f] = []" by simp_all
qed

lemma pstep_stuck:
  assumes "pstep b f b'" "stuck_behind r k b" "\<forall>rows \<in> set (batches k [f]). r \<notin> set rows"
  shows "stuck_behind r k b'" "batches k [f] = []"
proof -
  from assms(1) have "stuck_behind r k b' \<and> batches k [f] = []"
  proof cases
    case (call E c x)
    from call(2) show ?thesis
      using call(1) assms(2) exec_frame(1) [OF call(2)]
      by (elim exec_cases)
        (auto simp: stuck_behind_def waiting_def batches_def List.map_filter_simps Push_def split: writer.splits if_splits)
  next
    case (start E m w x mw)
    then show ?thesis using start_frame [OF start(2)] assms(2)
      by (auto simp: stuck_behind_def waiting_def batches_def List.map_filter_simps split: writer.splits if_splits)
  next
    case close
    then show ?thesis using assms(2)
      by (auto simp: pg_Close_def stuck_behind_def waiting_def batches_def List.map_filter_simps
          split: option.splits bool.splits writer.splits if_splits)
  next
    case (writer ans)
    then show ?thesis using writer_stuck [OF writer assms(2,3)] by simp
  qed (use assms(2) in \<open>auto simp: SetMissionID_def stuck_behind_def waiting_def batches_def List.map_filter_simps
      split: writer.splits if_splits\<close>)
  then show "stuck_behind r k b'" "batches k [f] = []" by simp_all
qed

lemma pruns_stuck:
  "pruns P b fs b' \<Longrightarrow> stuck_behind r k b \<Longrightarrow> \<forall>rows \<in> set (batches k fs). r \<notin> set rows \<Longrightarrow>
     stuck_behind r k b' \<and> batches k fs = []"
proof (induction rule: pruns.induct)
  case (step b f b' fs b'')
  have "\<forall>rows \<in> set (batches k [f]). r \<notin> set rows" "\<forall>rows \<in> set (batches k fs). r \<notin> set rows"
    using step.prems(2) row_fates_Cons(2) [of k f fs] by auto
  then show ?case
    using pstep_stuck [OF step.hyps(2) step.prems(1)] step.IH row_fates_Cons(2) [of k f fs] by auto
qed simp

section \<open>After Close\<close>

definition shut :: "postgres \<Rightarrow> bool" where
  "shut b \<longleftrightarrow> pg_stopChan b = Some True \<and> (pg_writer b = Looping \<or> pg_writer b = Stopped)"

lemma pstep_shut:
  assumes "pstep b f b'" "shut b"
  shows "shut b'" "committed k [f] = []" "lost k [f] = []" "f \<noteq> Requeued k"
proof -
  from assms(1) have "shut b' \<and> committed k [f] = [] \<and> lost k [f] = [] \<and> f \<noteq> Requeued k"
  proof cases
    case (call E c x)
    from call(2) show ?thesis
      using call(1) assms(2) exec_frame(1,2) [OF call(2)]
      by (elim exec_cases) (auto simp: shut_def committed_def lost_def List.map_filter_simps)
  next
    case (start E m w x mw)
    then show ?thesis using start_frame [OF start(2)] assms(2)
      by (auto simp: shut_def committed_def lost_def List.map_filter_simps)
  qed (use assms(2) in \<open>auto simp: SetMissionID_def pg_Close_def shut_def committed_def lost_def List.map_filter_simps
      split: option.splits bool.splits\<close>)
  then show "shut b'" "committed k [f] = []" "lost k [f] = []" "f \<noteq> Requeued k" by simp_all
qed

lemma lost_Cons: "lost k (f # fs) = lost k [f] @ lost k fs"
  by (simp add: lost_def List.map_filter_def)

lemma pruns_shut:
  "pruns P b fs b' \<Longrightarrow> shut b \<Longrightarrow> shut b' \<and> committed k fs = [] \<and> lost k fs = [] \<and> Requeued k \<notin> set fs"
proof (induction rule: pruns.induct)
  case (step b f b' fs b'')
  then show ?case using pstep_shut(1) [OF step.hyps(2) step.prems] pstep_shut(2-4) [OF step.hyps(2) step.prems, of k] committed_Cons [of k f fs] lost_Cons [of k f fs] by auto
qed (simp add: committed_def lost_def)

end
