(* ===== verification/Postgres_Properties.thy ===== *)
theory Postgres_Properties
  imports Postgres_Facts A3_Properties Examples
begin

text \<open>
  The properties of the database backend. A concrete run is a list of commands, which \<open>pg_perform\<close> carries
  out.
\<close>

section \<open>Concrete runs\<close>

datatype db_command = Calls db_env backend_call | Starts db_env mission world | Shuts | Writes db_answer

fun pg_perform :: "db_command list \<Rightarrow> postgres \<Rightarrow> (db_fate list \<times> postgres) option" where
  "pg_perform [] b = Some ([], b)"
| "pg_perform (Calls E c # xs) b = map_option (\<lambda>(fs, b'). (queued_row E c b # fs, b')) (pg_perform xs (snd (pg_exec E c b)))"
| "pg_perform (Starts E m w # xs) b =
     map_option (\<lambda>(fs, b'). (Idle # fs, b')) (pg_perform xs (snd (snd (pg_StartMission E m w b))))"
| "pg_perform (Shuts # xs) b = (case pg_Close b of
     Ok b' \<Rightarrow> map_option (\<lambda>(fs, b'). (Idle # fs, b')) (pg_perform xs b')
   | _ \<Rightarrow> None)"
| "pg_perform (Writes a # xs) b = (case startDBWriters a b of
     Some (f, b') \<Rightarrow> map_option (\<lambda>(fs, b'). (f # fs, b')) (pg_perform xs b')
   | None \<Rightarrow> None)"

lemma pg_perform_sound: "pg_perform xs b = Some (fs, b') \<Longrightarrow> pruns (\<lambda>_. True) b fs b'"
proof (induction xs b arbitrary: fs b' rule: pg_perform.induct)
  case (2 E c xs b)
  obtain r b1 where "pg_exec E c b = (r, b1)" by fastforce
  then show ?case using 2 pruns.step [OF TrueI pstep.call [of E c b r b1]] by auto
next
  case (3 E m w xs b)
  obtain r mw b1 where "pg_StartMission E m w b = (r, mw, b1)" by (metis prod_cases3)
  then show ?case using 3 pruns.step [OF TrueI pstep.start [of E m w b r mw b1]] by auto
next
  case (4 xs b)
  then show ?case using pruns.step [OF TrueI pstep.close] by (auto split: outcome.splits)
next
  case (5 a xs b)
  from 5(2) obtain f b1 fs1 where s: "startDBWriters a b = Some (f, b1)" "pg_perform xs b1 = Some (fs1, b')" "fs = f # fs1"
    by (auto simp del: startDBWriters.simps split: option.splits)
  then show ?case using pruns.step [OF TrueI pstep.writer [OF s(1)]] 5(1) by simp
qed simp

text \<open>A database that accepts everything, for the examples.\<close>

definition example_db :: db_env where
  "example_db = \<lparr>de_connect = None, de_has_info = True, de_info_migrate = None, de_info_create = None, de_name = ''postgres'',
     de_postgis = None, de_migrate = None, de_find_addon = \<lambda>_. NotFound, de_create_addon = \<lambda>_. Inr 1,
     de_world = \<lambda>w. Inr (w\<lparr>dwo_ID := 4\<rparr>), de_create_mission = \<lambda>_. Inr 7, de_create_marker = \<lambda>_. Inr 9,
     de_now = ZeroTime\<rparr>"

definition example_backend :: postgres where
  "example_backend = snd (pg_Init example_db (pg_New True NewMarkerCache))"

lemma example_backend: "pg_Init example_db (pg_New True NewMarkerCache) = (None, example_backend)"
  by (simp add: example_backend_def pg_Init_def setupDB_def example_db_def Let_def)

definition example_call :: backend_call where
  "example_call = CallRecordSoldierState (example_state 3 1)"

definition example_row :: db_row where
  "example_row = RowSoldierState (CoreToSoldierState (example_state 3 1))"

lemmas backend_evals = example_backend_def example_db_def pg_Init_def pg_New_def setupDB_def Let_def newQueues_def New_def
  example_call_def enqueue_def Push_def write_order_def Empty_def GetAndEmpty_def

lemma example_queued: "pg_perform [Calls example_db example_call] example_backend =
    Some ([Queued SoldierStates example_row], enqueue SoldierStates example_row example_backend)"
  by (simp add: backend_evals example_row_def)

section \<open>Properties\<close>

text \<open>
  C12. However calls, \<open>StartMission\<close>, \<open>Close\<close> and the writer interleave, and whatever the database answers: for every
  table but the markers', which \<open>AddMarker\<close> writes itself, the rows queued by calls are, each exactly once and
  up to the mission they belong to, committed to the table, lost by a commit that failed, in the transaction or
  still queued.
\<close>

theorem rows_accounted_for:
  assumes "pg_Init E (pg_New db c) = (None, b)" "pruns (\<lambda>_. True) b fs b'" "k \<noteq> Markers"
  shows "mset (queued_in k fs) = mset (table k b') + mset (lost k fs) + mset (in_tx k b') + mset (waiting k b')"
proof -
  have "table k b' = committed k fs"
    using pruns_tables [OF assms(2) Init_facts(8) [OF assms(1)] assms(3)] Init_facts(5) [OF assms(1)]
    by (simp add: table_def pg_New_def)
  then show ?thesis using pruns_rows [OF assms(2), of k] batches_split [of k fs] assms(1) by (simp add: ac_simps)
qed

theorem rows_accounted_for_witness:
  "\<exists>fs b'. pruns (\<lambda>_. True) example_backend fs b' \<and> queued_in SoldierStates fs = [content example_row] \<and>
     mset (table SoldierStates b') + mset (lost SoldierStates fs) + mset (in_tx SoldierStates b') +
       mset (waiting SoldierStates b') = {#content example_row#}"
proof -
  have q: "queued_in SoldierStates [Queued SoldierStates example_row] = [content example_row]"
    by (simp add: queued_in_def List.map_filter_simps)
  from rows_accounted_for [OF example_backend pg_perform_sound [OF example_queued], of SoldierStates]
    pg_perform_sound [OF example_queued] q show ?thesis by (intro exI conjI) auto
qed

text \<open>
  C29. As long as the database accepts every batch of a kind, its rows reach the table in the order of the calls: the
  table, then the transaction, then the queue is the sequence of the rows queued.
\<close>

theorem rows_keep_order:
  assumes "pg_Init E (pg_New db c) = (None, b)" "pruns (\<lambda>_. True) b fs b'" "k \<noteq> Markers"
    and "Requeued k \<notin> set fs" "lost k fs = []"
  shows "queued_in k fs = table k b' @ in_tx k b' @ waiting k b'"
proof -
  have "table k b' = committed k fs"
    using pruns_tables [OF assms(2) Init_facts(8) [OF assms(1)] assms(3)] Init_facts(5) [OF assms(1)]
    by (simp add: table_def pg_New_def)
  then show ?thesis using pruns_order [OF assms(2,4)] batches_committed [OF assms(5)] assms(1) by simp
qed

theorem rows_keep_order_witness:
  "\<exists>fs b'. pruns (\<lambda>_. True) example_backend fs b' \<and> queued_in SoldierStates fs = [content example_row] \<and>
     table SoldierStates b' @ in_tx SoldierStates b' @ waiting SoldierStates b' = [content example_row]"
proof -
  have q: "queued_in SoldierStates [Queued SoldierStates example_row] = [content example_row]"
    by (simp add: queued_in_def List.map_filter_simps)
  from rows_keep_order [OF example_backend pg_perform_sound [OF example_queued], of SoldierStates]
    pg_perform_sound [OF example_queued] q show ?thesis by (intro exI conjI) (auto simp: lost_def List.map_filter_simps)
qed

text \<open>
  C28. When the database works and nobody calls, the writer needs at most 34 steps to empty all queues: it commits
  the rows kind by kind, soldiers before their states, each kind in the order of the calls, stamped with
  the mission that is current at the start of the cycle.
\<close>

theorem cycle_flushes:
  assumes "pg_writer b = Looping" "pg_dbReady b" "pg_stopChan b \<noteq> Some True"
  shows "\<exists>fs b'. pruns (\<lambda>_. True) b fs b' \<and> length fs \<le> 34 \<and> pg_writer b' = Looping \<and>
    pg_tables b' = pg_tables b @ concat (map (\<lambda>k. map (stamp (pg_missionID b)) (items (pg_queues b k))) write_order) \<and>
    (\<forall>k. Empty (pg_queues b' k))"
proof -
  let ?b = "b\<lparr>pg_writer := Cycle (pg_missionID b) write_order\<rparr>"
  have 1: "pstep b Idle ?b" using assms by (intro pstep.writer [of undefined]) simp
  have "distinct write_order" "set write_order = UNIV"
    by (simp add: write_order_def, auto simp: write_order_def intro: queue_kind.exhaust)
  then obtain fs b' where "pruns (\<lambda>_. True) ?b fs b'" "pg_writer b' = Looping" "length fs \<le> 2 * length write_order + 1"
    "pg_tables b' = pg_tables b @ concat (map (\<lambda>k. map (stamp (pg_missionID b)) (items (pg_queues b k))) write_order)"
    "\<forall>k. items (pg_queues b' k) = []"
    using cycle_run [of ?b "pg_missionID b" write_order] by auto
  moreover have "length write_order = 16" by (simp add: write_order_def)
  ultimately show ?thesis
    using pruns.step [OF TrueI 1] by (intro exI [of _ "Idle # fs"] exI [of _ b'] conjI) (simp_all add: Empty_def)
qed

theorem cycle_flushes_witness:
  "\<exists>fs b'. pruns (\<lambda>_. True) (enqueue SoldierStates example_row example_backend) fs b' \<and> pg_tables b' = [stamp 0 example_row]"
proof -
  let ?b = "enqueue SoldierStates example_row example_backend"
  have "pg_writer ?b = Looping" "pg_dbReady ?b" "pg_stopChan ?b \<noteq> Some True"
    "pg_tables ?b @ concat (map (\<lambda>k. map (stamp (pg_missionID ?b)) (items (pg_queues ?b k))) write_order) = [stamp 0 example_row]"
    by (simp_all add: backend_evals)
  with cycle_flushes [of ?b] show ?thesis by fastforce
qed

text \<open>
  The mission is stamped when a row is written, not when it is recorded: a row that waits in its queue when the
  next mission starts is filed under the next mission.
\<close>

theorem rows_take_later_mission:
  assumes "pg_exec E c b = (r, b1)" "queued_row E c b = Queued k x"
    and "pg_StartMission E' m w b1 = (None, (m', w'), b2)" "pg_db b1"
    and "pg_writer b = Looping" "pg_dbReady b" "pg_stopChan b \<noteq> Some True"
  shows "\<exists>fs b3. pruns (\<lambda>_. True) b2 fs b3 \<and> stamp (mi_ID m') x \<in> set (pg_tables b3)"
proof -
  have "x \<in> set (items (pg_queues b1 k))"
    using assms(1,2) by (elim exec_cases) (auto simp: Push_def)
  moreover have b2: "b2 = b1\<lparr>pg_missionID := mi_ID m'\<rparr>"
    using assms(3,4) by (auto simp: pg_StartMission_def Let_def split: sum.splits)
  ultimately have "stamp (mi_ID m') x \<in> stamp (pg_missionID b2) ` set (items (pg_queues b2 k))" by simp
  moreover have "pg_writer b2 = Looping" "pg_dbReady b2" "pg_stopChan b2 \<noteq> Some True"
    using exec_frame [OF assms(1)] assms(5-7) b2 by simp_all
  from cycle_flushes [OF this] obtain fs b3 where "pruns (\<lambda>_. True) b2 fs b3"
    "pg_tables b3 = pg_tables b2 @ concat (map (\<lambda>k. map (stamp (pg_missionID b2)) (items (pg_queues b2 k))) write_order)"
    by blast
  moreover have "k \<in> set write_order" by (cases k) (simp_all add: write_order_def)
  ultimately show ?thesis by (intro exI [of _ fs] exI [of _ b3]) auto
qed

theorem rows_take_later_mission_witness:
  "\<exists>fs b3. pruns (\<lambda>_. True) (snd (snd (pg_StartMission example_db example_mission example_world
      (snd (pg_exec example_db example_call (example_backend\<lparr>pg_missionID := 6\<rparr>)))))) fs b3 \<and>
    stamp 7 example_row \<in> set (pg_tables b3)"
proof -
  let ?b = "example_backend\<lparr>pg_missionID := 6\<rparr>"
  obtain r b1 where 1: "pg_exec example_db example_call ?b = (r, b1)" by fastforce
  obtain e m' w' b2 where 2: "pg_StartMission example_db example_mission example_world b1 = (e, (m', w'), b2)"
    by (metis prod.exhaust)
  have q: "queued_row example_db example_call ?b = Queued SoldierStates example_row"
    by (simp add: backend_evals example_row_def)
  have w: "pg_writer ?b = Looping" "pg_dbReady ?b" "pg_stopChan ?b \<noteq> Some True" by (simp_all add: backend_evals)
  have "pg_db b1" "e = None" "mi_ID m' = 7"
    using 1 2 by (auto simp: backend_evals pg_StartMission_def CoreToMission_def CoreToWorld_def example_mission_def)
  then show ?thesis using rows_take_later_mission [OF 1 q, of example_db example_mission example_world m' w' b2] w 1 2 by simp
qed

text \<open>
  A row the database refuses blocks its table for good: rejected rows go back to the queue and every batch
  is all that is queued, so as long as no batch with the row is accepted, nothing of its kind is written,
  and all that is queued meanwhile waits with it.
\<close>

theorem refused_row_blocks:
  assumes "pg_writer b = Looping" "r \<in> set (waiting k b)" "pruns (\<lambda>_. True) b fs b'"
    and "\<forall>rows \<in> set (batches k fs). r \<notin> set rows"
  shows "batches k fs = [] \<and> mset (in_tx k b') + mset (waiting k b') = mset (waiting k b) + mset (queued_in k fs)"
proof -
  have "stuck_behind r k b" "in_tx k b = []" using assms(1,2) by (simp_all add: stuck_behind_def in_tx_def)
  with pruns_stuck [OF assms(3) _ assms(4)] pruns_rows [OF assms(3), of k] show ?thesis by (simp add: ac_simps)
qed

theorem refused_row_blocks_witness:
  "\<exists>fs b'. pruns (\<lambda>_. True) (enqueue SoldierStates example_row example_backend) fs b' \<and> Requeued SoldierStates \<in> set fs \<and>
     batches SoldierStates fs = [] \<and> mset (in_tx SoldierStates b') + mset (waiting SoldierStates b') = {#content example_row#}"
proof -
  let ?b = "enqueue SoldierStates example_row example_backend"
  let ?xs = "replicate 6 (Writes (CreateFailed (Errorf ''constraint'' [])))"
  obtain fs b' where p: "pg_perform ?xs ?b = Some (fs, b')" "fs = [Idle, Idle, Idle, Idle, Idle, Requeued SoldierStates]"
    by (simp add: backend_evals numeral_eq_Suc)
  have "pg_writer ?b = Looping" "waiting SoldierStates ?b = [content example_row]"
    by (simp_all add: waiting_def backend_evals)
  with refused_row_blocks [of ?b "content example_row" SoldierStates, OF _ _ pg_perform_sound [OF p(1)]]
    pg_perform_sound [OF p(1)] p(2) show ?thesis
    by (intro exI [of _ fs] exI [of _ b']) (simp add: batches_def queued_in_def List.map_filter_simps)
qed

text \<open>
  \<open>Close\<close> does not flush: from then on the writer writes nothing, so what waits stays in memory for good, and so
  does what is still recorded. A second \<open>Close\<close> panics.
\<close>

theorem rows_left_after_Close:
  assumes "pg_writer b = Looping" "pg_stopChan b = Some False" "pg_Close b = Ok b1"
    and "pruns (\<lambda>_. True) b1 fs b'" "k \<noteq> Markers" "kinded b"
  shows "waiting k b' = waiting k b @ queued_in k fs \<and> table k b' = table k b \<and> (\<exists>p. pg_Close b' = Panic p)"
proof -
  have b1: "b1 = b\<lparr>pg_stopChan := Some True\<rparr>" using assms(2,3) by (simp add: pg_Close_def)
  then have "shut b1" "kinded b1" using assms(1,6) by (simp_all add: shut_def kinded_def)
  note s = pruns_shut [OF assms(4) \<open>shut b1\<close>, of k]
  have "pg_writer b' = Looping \<or> pg_writer b' = Stopped" "pg_stopChan b' = Some True" using s by (auto simp: shut_def)
  then have "in_tx k b1 = []" "in_tx k b' = []" using b1 assms(1) by (auto simp: in_tx_def)
  then have "waiting k b' = waiting k b1 @ queued_in k fs"
    using pruns_order [OF assms(4), of k] s batches_committed [of k fs] by simp
  moreover have "table k b' = table k b1" using pruns_tables [OF assms(4) \<open>kinded b1\<close> assms(5)] s by simp
  ultimately show ?thesis using b1 s by (simp add: waiting_def table_def pg_Close_def shut_def)
qed

theorem rows_left_after_Close_witness:
  "\<exists>b1 fs b'. pg_Close (enqueue SoldierStates example_row example_backend) = Ok b1 \<and> pruns (\<lambda>_. True) b1 fs b' \<and>
     waiting SoldierStates b' = [content example_row] \<and> pg_writer b' = Stopped"
proof -
  let ?b = "enqueue SoldierStates example_row example_backend"
  let ?b1 = "?b\<lparr>pg_stopChan := Some True\<rparr>"
  obtain fs b' where p: "pg_perform [Writes (Committed [])] ?b1 = Some (fs, b')" "fs = [Idle]" "pg_writer b' = Stopped"
    by (simp add: backend_evals)
  have b: "pg_writer ?b = Looping" "pg_stopChan ?b = Some False" "pg_Close ?b = Ok ?b1"
    by (simp_all add: backend_evals pg_Close_def)
  have "kinded ?b" "waiting SoldierStates ?b = [content example_row]"
    by (auto simp: kinded_def waiting_def backend_evals example_row_def)
  then show ?thesis
    using rows_left_after_Close [OF b pg_perform_sound [OF p(1)], of SoldierStates] pg_perform_sound [OF p(1)] p(2,3) b(3)
    by (intro exI [of _ ?b1] exI [of _ fs] exI [of _ b']) (simp add: queued_in_def List.map_filter_simps)
qed

section \<open>Conversions\<close>

lemma ucast_16_32: "((ucast (i :: u16) :: int32) = ucast j) = (i = j)"
  by (transfer, simp add: take_bit_eq_mod)

lemma nullInt32_u16 [simp]: "(nullInt32 (i :: u16 option) = nullInt32 j) = (i = j)"
  by (cases i; cases j) (auto simp: nullInt32_def ucast_16_32)

lemma position3DToPoint_inject [simp]: "(position3DToPoint p = position3DToPoint q) = (p = q)"
  by (auto simp: position3DToPoint_def intro: position3D.equality)

text \<open>
  Nothing of a state is lost on the way to its row: two states of soldiers, of vehicles or of markers, and two
  placed objects, that give the same row are the same.
\<close>

theorem state_rows_faithful:
  "inj CoreToSoldierState \<and> inj CoreToVehicleState \<and> inj CoreToMarkerState \<and> inj CoreToPlacedObject"
proof (intro conjI injI)
  show "s = t" if "CoreToSoldierState s = CoreToSoldierState t" for s t
    using that by (auto simp: CoreToSoldierState_def intro: soldier_state.equality)
  show "s = t" if "CoreToVehicleState s = CoreToVehicleState t" for s t
    using that by (auto simp: CoreToVehicleState_def intro: vehicle_state.equality)
  show "s = t" if "CoreToMarkerState s = CoreToMarkerState t" for s t
    using that by (auto simp: CoreToMarkerState_def intro: marker_state.equality)
  show "s = t" if "CoreToPlacedObject s = CoreToPlacedObject t" for s t
    using that by (auto simp: CoreToPlacedObject_def intro!: placed_object.equality position3D.equality)
qed

text \<open>
  IDs are cut down on the way: ACE3 events name their soldier by the ID modulo 65536, chat, radio and kill
  events modulo 2 to the 32, so IDs that agree in these bits are filed under one soldier.
\<close>

theorem row_IDs_truncated:
  "(dad_SoldierObjectID (CoreToAce3DeathEvent d) = dad_SoldierObjectID (CoreToAce3DeathEvent d') \<longleftrightarrow>
      unat (ad_SoldierID d) mod 65536 = unat (ad_SoldierID d') mod 65536) \<and>
   (dau_SoldierObjectID (CoreToAce3UnconsciousEvent u) = dau_SoldierObjectID (CoreToAce3UnconsciousEvent u') \<longleftrightarrow>
      unat (au_SoldierID u) mod 65536 = unat (au_SoldierID u') mod 65536) \<and>
   (dce_SoldierObjectID (CoreToChatEvent c) = dce_SoldierObjectID (CoreToChatEvent c') \<longleftrightarrow>
      map_option (\<lambda>i. unat i mod 2 ^ 32) (ce_SoldierID c) = map_option (\<lambda>i. unat i mod 2 ^ 32) (ce_SoldierID c'))"
proof -
  have "((ucast i :: u16) = ucast j) = (unat i mod 65536 = unat j mod 65536)" for i j :: guint
    by (simp add: word_unat_eq_iff unsigned_ucast_eq take_bit_eq_mod)
  moreover have "((ucast i :: int32) = ucast j) = (unat i mod 2 ^ 32 = unat j mod 2 ^ 32)" for i j :: guint
    by (simp add: word_unat_eq_iff unsigned_ucast_eq take_bit_eq_mod)
  ultimately show ?thesis
    by (cases "ce_SoldierID c"; cases "ce_SoldierID c'")
      (simp_all add: CoreToAce3DeathEvent_def CoreToAce3UnconsciousEvent_def CoreToChatEvent_def nullInt32_def)
qed

end
