(* ===== verification/Export_Bytes.thy ===== *)
theory Export_Bytes
  imports Export_Stream A3_Interface
begin

text \<open>
  internal/storage/memory/export/v1/stream.go again, now down to the bytes it writes through a \<open>bufio.Writer\<close>. The
  document of \<open>Export_Stream\<close> is what the bytes mean. \<open>enc\<close> is encoding/json on one value;
  how \<open>Stream\<close> puts the values together, and how encoding/json puts a struct and an array together, is modelled.
  The underlying writer is \<open>sink\<close>: what it answers to bytes, given what it has; \<open>None\<close> is all
  written, otherwise the first bytes are, and there is an error.
\<close>

section \<open>bufio.Writer\<close>

type_synonym sink = "string \<Rightarrow> string \<Rightarrow> (nat \<times> go_err) option"

record bufio =
  bw_buf :: string
  bw_err :: "go_err option"
  bw_out :: string

definition bufio_size :: nat where "bufio_size = 65536"

definition NewWriter :: bufio where
  "NewWriter = \<lparr>bw_buf = [], bw_err = None, bw_out = []\<rparr>"

definition Flush :: "sink \<Rightarrow> bufio \<Rightarrow> bufio" where
  "Flush sink w =
     (if bw_err w \<noteq> None \<or> bw_buf w = [] then w
      else case sink (bw_out w) (bw_buf w) of
          None \<Rightarrow> w\<lparr>bw_out := bw_out w @ bw_buf w, bw_buf := []\<rparr>
        | Some (n, e) \<Rightarrow> w\<lparr>bw_out := bw_out w @ take n (bw_buf w), bw_buf := drop n (bw_buf w), bw_err := Some e\<rparr>)"

lemma Flush_buf: "bw_err (Flush sink w) = None \<Longrightarrow> bw_buf (Flush sink w) = []"
  by (auto simp: Flush_def split: if_splits option.splits prod.splits)

function write_bytes :: "sink \<Rightarrow> string \<Rightarrow> bufio \<Rightarrow> bufio" where
  "write_bytes sink p w =
     (if bw_err w \<noteq> None then w
      else if length p \<le> bufio_size - length (bw_buf w) then w\<lparr>bw_buf := bw_buf w @ p\<rparr>
      else if bw_buf w = [] then (case sink (bw_out w) p of
          None \<Rightarrow> w\<lparr>bw_out := bw_out w @ p\<rparr>
        | Some (n, e) \<Rightarrow> w\<lparr>bw_out := bw_out w @ take n p, bw_err := Some e\<rparr>)
      else let n = bufio_size - length (bw_buf w)
        in write_bytes sink (drop n p) (Flush sink (w\<lparr>bw_buf := bw_buf w @ take n p\<rparr>)))"
  by pat_completeness auto
termination
proof (relation "measure (\<lambda>(sink, p, w). if bw_err w = None \<and> bw_buf w \<noteq> [] then 1 else 0 :: nat)")
  fix sink :: sink and p :: string and w :: bufio and n
  assume *: "\<not> bw_err w \<noteq> None" "bw_buf w \<noteq> []"
  show "((sink, drop n p, Flush sink (w\<lparr>bw_buf := bw_buf w @ take n p\<rparr>)), (sink, p, w))
    \<in> measure (\<lambda>(sink, p, w). if bw_err w = None \<and> bw_buf w \<noteq> [] then 1 else 0 :: nat)"
    using * Flush_buf [of sink "w\<lparr>bw_buf := bw_buf w @ take n p\<rparr>"] by auto
qed simp

declare write_bytes.simps [simp del]

section \<open>Writing with early returns\<close>

text \<open>A stretch of \<open>Stream\<close>: how it ends, \<open>None\<close> when it does not, and the writer.\<close>

type_synonym writing = "bufio \<Rightarrow> (unit outcome \<times> bufio) option"

definition result_of :: "bufio \<Rightarrow> (unit outcome \<times> bufio) option" where
  "result_of w = Some (case bw_err w of None \<Rightarrow> Ok () | Some e \<Rightarrow> Err e, w)"

definition Write :: "sink \<Rightarrow> string \<Rightarrow> writing" where
  "Write sink p w = result_of (write_bytes sink p w)"

definition WriteByte :: "sink \<Rightarrow> char \<Rightarrow> writing" where
  "WriteByte sink c w =
     (if bw_err w \<noteq> None then result_of w
      else let w = (if bufio_size \<le> length (bw_buf w) then Flush sink w else w)
        in if bw_err w \<noteq> None then result_of w else result_of (w\<lparr>bw_buf := bw_buf w @ [c]\<rparr>))"

definition nothing :: writing where
  "nothing w = Some (Ok (), w)"

definition and_write :: "writing \<Rightarrow> writing \<Rightarrow> writing" where
  "and_write f g w = (case f w of
     None \<Rightarrow> None
   | Some (Ok u, w) \<Rightarrow> g w
   | Some (r, w) \<Rightarrow> Some (r, w))"

text \<open>A value given to encoding/json. The zero \<open>Entity\<close> has nil slices, unlike one that was built.\<close>

datatype field_value =
    VString string | VInt int | VFloat32 f32 | VTimes "export_time list" | VRows "any list list"
  | VEntity entity | VZeroEntity

fun value_ok :: "field_value \<Rightarrow> bool" where
  "value_ok (VFloat32 f) = finite_f64 f"
| "value_ok (VTimes ts) = (\<forall>t \<in> set ts. time_ok t)"
| "value_ok (VRows rs) = rows_ok rs"
| "value_ok (VEntity e) = entity_ok e"
| "value_ok _ = True"

type_synonym encoder = "field_value \<Rightarrow> string"

definition write_value :: "encoder \<Rightarrow> sink \<Rightarrow> field_value \<Rightarrow> writing" where
  "write_value enc sink v w =
     (if value_ok v then Write sink (enc v) w else Some (Err (JSONError UnsupportedValue), w))"

definition writeField :: "encoder \<Rightarrow> sink \<Rightarrow> bool \<Rightarrow> string \<Rightarrow> field_value \<Rightarrow> writing" where
  "writeField enc sink leading key v =
     and_write (if leading then WriteByte sink CHR '','' else nothing)
       (and_write (Write sink (json_key key))
         (and_write (WriteByte sink CHR '':'') (write_value enc sink v)))"

definition writeEntityForID ::
    "encoder \<Rightarrow> sink \<Rightarrow> u16 \<Rightarrow> mission_data \<Rightarrow> frame \<Rightarrow> any list list \<Rightarrow> writing" where
  "writeEntityForID enc sink i data maxFrame extraFirelines w = (case map_of (md_Soldiers data) i of
     Some soldier \<Rightarrow> (case buildSoldierEntity soldier maxFrame extraFirelines of
         None \<Rightarrow> None
       | Some e \<Rightarrow> write_value enc sink (VEntity e) w)
   | None \<Rightarrow> (case map_of (md_Vehicles data) i of
         Some vehicle \<Rightarrow> write_value enc sink (VEntity (buildVehicleEntity vehicle maxFrame)) w
       | None \<Rightarrow> write_value enc sink VZeroEntity w))"

fun write_entities :: "encoder \<Rightarrow> sink \<Rightarrow> mission_data \<Rightarrow> frame \<Rightarrow> firelines \<Rightarrow> u16 list \<Rightarrow> writing" where
  "write_entities enc sink data maxFrame fl [] = nothing"
| "write_entities enc sink data maxFrame fl (i # is) =
     and_write (if i > 0 then WriteByte sink CHR '','' else nothing)
       (and_write (writeEntityForID enc sink i data maxFrame (lines_of fl i))
         (write_entities enc sink data maxFrame fl is))"

definition write_mission :: "encoder \<Rightarrow> sink \<Rightarrow> mission \<Rightarrow> world \<Rightarrow> frame \<Rightarrow> writing" where
  "write_mission enc sink m w maxFrame =
     and_write (writeField enc sink False ''addonVersion'' (VString (mi_AddonVersion m)))
    (and_write (writeField enc sink True ''extensionVersion'' (VString (mi_ExtensionVersion m)))
    (and_write (writeField enc sink True ''extensionBuild'' (VString (mi_ExtensionBuild m)))
    (and_write (writeField enc sink True ''missionName'' (VString (mi_MissionName m)))
    (and_write (writeField enc sink True ''missionAuthor'' (VString (mi_Author m)))
    (and_write (writeField enc sink True ''worldName'' (VString (w_WorldName w)))
    (and_write (writeField enc sink True ''endFrame'' (VInt (frameToV1 maxFrame)))
    (and_write (writeField enc sink True ''captureDelay'' (VFloat32 (mi_CaptureDelay m)))
       (writeField enc sink True ''tags'' (VString (mi_Tag m))))))))))"

definition flush_end :: "sink \<Rightarrow> writing" where
  "flush_end sink w = result_of (Flush sink w)"

definition StreamTo :: "encoder \<Rightarrow> sink \<Rightarrow> mission_data \<Rightarrow> (unit outcome \<times> bufio) option" where
  "StreamTo enc sink data =
     (let (maxFrame, maxEntityID, hasEntities) = computeMetadata data;
          times = buildTimes data;
          (events, markers, firelines) = buildAggregates data;
          events = sort_key event_frame events
      in and_write (WriteByte sink CHR ''{'')
        (case (md_Mission data, md_World data) of
           (Some m, Some w) \<Rightarrow>
             and_write (write_mission enc sink m w maxFrame)
            (and_write (writeField enc sink True ''times'' (VTimes times))
            (and_write (Write sink ('','' @ json_key ''entities'' @ '':[''))
            (and_write (write_entities enc sink data maxFrame firelines (if hasEntities then ids_upto maxEntityID else []))
            (and_write (WriteByte sink CHR '']'')
            (and_write (writeField enc sink True ''events'' (VRows events))
            (and_write (writeField enc sink True ''Markers'' (VRows markers))
            (and_write (WriteByte sink CHR ''}'') (flush_end sink))))))))
         | _ \<Rightarrow> (\<lambda>w. Some (Panic NilDereference, w))) NewWriter)"

section \<open>The text of an export\<close>

text \<open>
  What encoding/json makes of the struct \<open>Export\<close>: its fields in the order of the struct. \<open>unfilled\<close> tells the indexes of the
  entities array that were left at the zero value.
\<close>

definition entities_text :: "encoder \<Rightarrow> (nat \<Rightarrow> bool) \<Rightarrow> entity list \<Rightarrow> string" where
  "entities_text enc unfilled es =
     array_text (map (\<lambda>(i, e). enc (if unfilled i then VZeroEntity else VEntity e)) (enumerate 0 es))"

definition export_fields :: "encoder \<Rightarrow> (nat \<Rightarrow> bool) \<Rightarrow> export \<Rightarrow> (string \<times> string) list" where
  "export_fields enc unfilled d =
     [(''addonVersion'', enc (VString (ex_AddonVersion d))),
      (''extensionVersion'', enc (VString (ex_ExtensionVersion d))),
      (''extensionBuild'', enc (VString (ex_ExtensionBuild d))),
      (''missionName'', enc (VString (ex_MissionName d))),
      (''missionAuthor'', enc (VString (ex_MissionAuthor d))),
      (''worldName'', enc (VString (ex_WorldName d))),
      (''endFrame'', enc (VInt (ex_EndFrame d))),
      (''captureDelay'', enc (VFloat32 (ex_CaptureDelay d))),
      (''tags'', enc (VString (ex_Tags d))),
      (''times'', enc (VTimes (ex_Times d))),
      (''entities'', entities_text enc unfilled (ex_Entities d)),
      (''events'', enc (VRows (ex_Events d))),
      (''Markers'', enc (VRows (ex_Markers d)))]"

definition export_text :: "encoder \<Rightarrow> (nat \<Rightarrow> bool) \<Rightarrow> export \<Rightarrow> string" where
  "export_text enc unfilled d = object_text (export_fields enc unfilled d)"

definition unfilled :: "mission_data \<Rightarrow> nat \<Rightarrow> bool" where
  "unfilled data i \<longleftrightarrow> map_of (md_Soldiers data) (of_nat i) = None \<and> map_of (md_Vehicles data) (of_nat i) = None"

end
