(* ===== verification/Export_Bytes_Facts.thy ===== *)
theory Export_Bytes_Facts
  imports Export_Bytes Export_Facts
begin

text \<open>
  What the writer keeps: without an error, the bytes passed on and those in the buffer are together all that was
  written; with one, what arrived is the beginning of it.
\<close>

section \<open>The writer\<close>

text \<open>What has been written, wherever it is.\<close>

definition written :: "bufio \<Rightarrow> string" where
  "written w = bw_out w @ bw_buf w"

definition starts :: "string \<Rightarrow> string \<Rightarrow> bool" where
  "starts s t \<longleftrightarrow> (\<exists>u. t = s @ u)"

lemma starts_simps [simp]: "starts s s" "starts s (s @ t)" "starts [] s" "starts (s @ t) (s @ u) = starts t u"
  by (auto simp: starts_def)

lemma starts_trans: "starts s t \<Longrightarrow> starts t u \<Longrightarrow> starts s u"
  by (auto simp: starts_def)

lemma starts_append: "starts s t \<Longrightarrow> starts s (t @ u)"
  by (auto simp: starts_def)

lemma starts_take [simp]: "starts (take n s) s" "starts (take n s) (s @ t)" "starts (s @ take n t) (s @ t)" "starts (s @ take n t) (s @ t @ u)"
  by (metis append_take_drop_id append.assoc starts_def)+

text \<open>From one state of the writer to another that got \<open>s\<close> to write.\<close>

definition took :: "string \<Rightarrow> bufio \<Rightarrow> bufio \<Rightarrow> bool" where
  "took s w w' \<longleftrightarrow> (if bw_err w' = None then written w' = written w @ s else starts (bw_out w') (written w @ s))"

definition willing :: "sink \<Rightarrow> bool" where
  "willing sink \<longleftrightarrow> (\<forall>f p. sink f p = None)"

lemma willing_sink: "willing sink \<Longrightarrow> sink f p = None"
  by (simp add: willing_def)

lemma Flush_took:
  assumes "bw_err w = None"
  shows "took [] w (Flush sink w)" "willing sink \<Longrightarrow> bw_err (Flush sink w) = None"
  using assms by (auto simp: took_def written_def Flush_def willing_sink split: option.splits)

lemma took_trans:
  assumes "took s w w'" "took t w' w''" "bw_err w' = None"
  shows "took (s @ t) w w''"
  using assms by (auto simp: took_def)

lemma write_bytes_took:
  assumes "bw_err w = None"
  shows "took p w (write_bytes sink p w)" "willing sink \<Longrightarrow> bw_err (write_bytes sink p w) = None"
proof -
  have "took p w (write_bytes sink p w) \<and> (willing sink \<longrightarrow> bw_err (write_bytes sink p w) = None)"
    using assms
  proof (induction sink p w rule: write_bytes.induct)
    case (1 sink p w)
    let ?n = "bufio_size - length (bw_buf w)"
    let ?w = "w\<lparr>bw_buf := bw_buf w @ take ?n p\<rparr>"
    consider "length p \<le> ?n" | "\<not> length p \<le> ?n" "bw_buf w = []" | "\<not> length p \<le> ?n" "bw_buf w \<noteq> []" by blast
    then show ?case
    proof cases
      case 3
      have f: "took (take ?n p) w (Flush sink ?w)" "willing sink \<Longrightarrow> bw_err (Flush sink ?w) = None"
        using Flush_took [of ?w sink] 1(2) by (auto simp: took_def written_def)
      have e: "write_bytes sink p w = write_bytes sink (drop ?n p) (Flush sink ?w)"
        using 1(2) 3 by (subst write_bytes.simps) (simp add: Let_def)
      show ?thesis
      proof (cases "bw_err (Flush sink ?w)")
        case None
        let ?w' = "write_bytes sink (drop ?n p) (Flush sink ?w)"
        have "took (drop ?n p) (Flush sink ?w) ?w'" "willing sink \<longrightarrow> bw_err ?w' = None"
          using 1(1) [OF _ 3(1,2) refl None] 1(2) by blast+
        then show ?thesis using took_trans [OF f(1) _ None, of "drop ?n p" ?w'] e by simp
      next
        case (Some err)
        then have "write_bytes sink p w = Flush sink ?w" using e by (simp add: write_bytes.simps)
        then show ?thesis using f Some starts_append [of "bw_out (Flush sink ?w)" "written w @ take ?n p" "drop ?n p"]
          by (auto simp: took_def)
      qed
    qed (use 1(2) willing_sink [of sink "bw_out w" p] in
        \<open>auto simp: write_bytes.simps [of sink p w] took_def written_def split: option.splits\<close>)
  qed
  then show "took p w (write_bytes sink p w)" "willing sink \<Longrightarrow> bw_err (write_bytes sink p w) = None" by auto
qed

section \<open>Stretches\<close>

text \<open>
  If \<open>ok\<close>, \<open>f\<close> writes \<open>s\<close> and ends in a state with \<open>Q\<close>, or returns the writer's error, which a willing sink has not;
  otherwise it returns an error.
\<close>

definition writes :: "(bufio \<Rightarrow> bool) \<Rightarrow> sink \<Rightarrow> writing \<Rightarrow> string \<Rightarrow> bool \<Rightarrow> bool" where
  "writes Q sink f s ok \<longleftrightarrow> (\<forall>w. bw_err w = None \<longrightarrow>
     (if ok then \<exists>w'. f w = result_of w' \<and> took s w w' \<and> (bw_err w' = None \<longrightarrow> Q w') \<and> (willing sink \<longrightarrow> bw_err w' = None)
      else \<exists>e w'. f w = Some (Err e, w')))"

lemma writes_ok: "writes Q sink f s ok \<Longrightarrow> ok \<Longrightarrow> bw_err w = None \<Longrightarrow>
    \<exists>w'. f w = result_of w' \<and> took s w w' \<and> (bw_err w' = None \<longrightarrow> Q w') \<and> (willing sink \<longrightarrow> bw_err w' = None)"
  by (simp add: writes_def)

lemma writes_fails: "writes Q sink f s ok \<Longrightarrow> \<not> ok \<Longrightarrow> bw_err w = None \<Longrightarrow> \<exists>e w'. f w = Some (Err e, w')"
  by (simp add: writes_def)

abbreviation "puts \<equiv> writes (\<lambda>_. True)"

lemma puts_nothing: "puts sink nothing [] True"
  by (auto simp: writes_def nothing_def result_of_def took_def)

lemma puts_Write: "puts sink (Write sink p) p True"
  by (auto simp: writes_def Write_def intro: write_bytes_took)

lemma puts_WriteByte: "puts sink (WriteByte sink c) [c] True"
proof (unfold writes_def, intro allI impI)
  fix w :: bufio
  assume w: "bw_err w = None"
  let ?w = "if bufio_size \<le> length (bw_buf w) then Flush sink w else w"
  have f: "took [] w ?w" "willing sink \<Longrightarrow> bw_err ?w = None" using Flush_took [OF w, of sink] w by (auto simp: took_def)
  have "\<exists>w'. WriteByte sink c w = result_of w' \<and> took [c] w w' \<and> (willing sink \<longrightarrow> bw_err w' = None)"
  proof (cases "bw_err ?w")
    case None
    then have "WriteByte sink c w = result_of (?w\<lparr>bw_buf := bw_buf ?w @ [c]\<rparr>)" using w by (simp add: WriteByte_def Let_def)
    then show ?thesis using f None by (intro exI [of _ "?w\<lparr>bw_buf := bw_buf ?w @ [c]\<rparr>"]) (simp add: took_def written_def)
  next
    case (Some e)
    then have "WriteByte sink c w = result_of ?w" using w by (simp add: WriteByte_def Let_def)
    then show ?thesis using f Some starts_append [of "bw_out ?w" "written w" "[c]"]
      by (intro exI [of _ ?w]) (auto simp: took_def)
  qed
  then show "if True then \<exists>w'. WriteByte sink c w = result_of w' \<and> took [c] w w' \<and> (bw_err w' = None \<longrightarrow> True) \<and>
      (willing sink \<longrightarrow> bw_err w' = None) else \<exists>e w'. WriteByte sink c w = Some (Err e, w')" by simp
qed

text \<open>After the last flush nothing is left in the buffer.\<close>

lemma writes_flush: "writes (\<lambda>w. bw_buf w = []) sink (flush_end sink) [] True"
  using Flush_took Flush_buf by (simp add: writes_def flush_end_def) blast

lemma writes_and:
  assumes "puts sink f s ok" "writes Q sink g t ok'"
  shows "writes Q sink (and_write f g) (s @ t) (ok \<and> ok')"
proof (unfold writes_def, intro allI impI)
  fix w :: bufio
  assume w: "bw_err w = None"
  show "if ok \<and> ok' then \<exists>w'. and_write f g w = result_of w' \<and> took (s @ t) w w' \<and> (bw_err w' = None \<longrightarrow> Q w') \<and>
      (willing sink \<longrightarrow> bw_err w' = None) else \<exists>e w'. and_write f g w = Some (Err e, w')"
  proof (cases ok)
    case False
    then obtain e w' where "f w = Some (Err e, w')" using writes_fails [OF assms(1) _ w] by blast
    then show ?thesis using False by (simp add: and_write_def)
  next
    case True
    then obtain w1 where 1: "f w = result_of w1" "took s w w1" "willing sink \<longrightarrow> bw_err w1 = None"
      using writes_ok [OF assms(1) _ w] by blast
    show ?thesis
    proof (cases "bw_err w1")
      case None
      then have r: "and_write f g w = g w1" using 1(1) by (simp add: and_write_def result_of_def)
      show ?thesis
      proof (cases ok')
        case True
        obtain w2 where 2: "g w1 = result_of w2" "took t w1 w2" "bw_err w2 = None \<longrightarrow> Q w2" "willing sink \<longrightarrow> bw_err w2 = None"
          using writes_ok [OF assms(2) True None] by (elim exE conjE)
        have "took (s @ t) w w2" using took_trans [OF 1(2) 2(2) None] .
        then have "\<exists>w'. and_write f g w = result_of w' \<and> took (s @ t) w w' \<and> (bw_err w' = None \<longrightarrow> Q w') \<and>
            (willing sink \<longrightarrow> bw_err w' = None)"
          using 2(3,4) trans [OF r 2(1)] by (intro exI [of _ w2] conjI)
        then show ?thesis using \<open>ok\<close> True by (simp only: if_True simp_thms)
      next
        case False
        then obtain e w' where "g w1 = Some (Err e, w')" using writes_fails [OF assms(2) _ None] by blast
        then show ?thesis using r False by simp
      qed
    next
      case (Some e)
      then have "and_write f g w = result_of w1" using 1(1) by (simp add: and_write_def result_of_def)
      moreover have "took (s @ t) w w1" using 1(2) Some starts_append [of "bw_out w1" "written w @ s" t] by (simp add: took_def)
      ultimately show ?thesis using 1(3) Some by (auto simp: result_of_def)
    qed
  qed
qed

lemma writes_left_fails:
  assumes "puts sink f s False"
  shows "writes Q sink (and_write f g) t False"
proof -
  have "\<exists>e w'. and_write f g w = Some (Err e, w')" if "bw_err w = None" for w
    using writes_fails [OF assms _ that] by (auto simp: and_write_def)
  then show ?thesis by (simp add: writes_def)
qed

lemma puts_value: "puts sink (write_value enc sink v) (enc v) (value_ok v)"
  using puts_Write [of sink "enc v"] by (auto simp: write_value_def [abs_def] writes_def)

definition field_text :: "encoder \<Rightarrow> bool \<Rightarrow> string \<Rightarrow> field_value \<Rightarrow> string" where
  "field_text enc leading key v = (if leading then '','' else []) @ json_key key @ '':'' @ enc v"

lemma puts_field: "puts sink (writeField enc sink leading key v) (field_text enc leading key v) (value_ok v)"
proof -
  have "puts sink (if leading then WriteByte sink CHR '','' else nothing) (if leading then '','' else []) True"
    by (cases leading) (simp_all add: puts_nothing puts_WriteByte)
  from writes_and [OF this writes_and [OF puts_Write writes_and [OF puts_WriteByte puts_value]]]
  show ?thesis by (simp add: writeField_def field_text_def)
qed

section \<open>Entities\<close>

definition slot_text :: "encoder \<Rightarrow> mission_data \<Rightarrow> u16 \<Rightarrow> entity \<Rightarrow> string" where
  "slot_text enc data i e = enc (if unfilled data (unat i) then VZeroEntity else VEntity e)"

lemma puts_entity:
  assumes "entity_for_ID data maxFrame fl i = Some e"
  shows "puts sink (writeEntityForID enc sink i data maxFrame fl) (slot_text enc data i e) (entity_ok e)"
proof -
  have z: "entity_ok zero_entity" by (simp add: zero_entity_def entity_ok_def rows_ok_def)
  show ?thesis
  proof (cases "unfilled data (unat i)")
    case True
    then have "writeEntityForID enc sink i data maxFrame fl = write_value enc sink VZeroEntity" "e = zero_entity"
      using assms by (auto simp: unfilled_def writeEntityForID_def [abs_def] entity_for_ID_def)
    then show ?thesis using puts_value [of sink enc VZeroEntity] True z by (simp add: slot_text_def)
  next
    case False
    then have "writeEntityForID enc sink i data maxFrame fl = write_value enc sink (VEntity e)"
      using assms by (auto simp: unfilled_def writeEntityForID_def [abs_def] entity_for_ID_def split: option.splits)
    then show ?thesis using puts_value [of sink enc "VEntity e"] False by (simp add: slot_text_def)
  qed
qed

definition slots_text :: "encoder \<Rightarrow> mission_data \<Rightarrow> u16 list \<Rightarrow> entity list \<Rightarrow> string" where
  "slots_text enc data is es = concat (map (\<lambda>(i, e). (if i > 0 then '','' else []) @ slot_text enc data i e) (zip is es))"

lemma writes_not_ok: "writes Q sink f s ok \<Longrightarrow> \<not> ok \<Longrightarrow> writes Q sink f t False"
  by (simp add: writes_def)

lemma puts_entities:
  "stream_entities data maxFrame fl is = Some r \<Longrightarrow>
     (\<exists>es. r = Ok es \<and> length es = length is \<and> puts sink (write_entities enc sink data maxFrame fl is) (slots_text enc data is es) True) \<or>
     (\<exists>e. r = Err e \<and> puts sink (write_entities enc sink data maxFrame fl is) [] False)"
proof (induction "is" arbitrary: r)
  case Nil
  then show ?case using puts_nothing by (auto simp: slots_text_def)
next
  case (Cons i "is")
  then obtain e where e: "entity_for_ID data maxFrame (lines_of fl i) i = Some e" by (auto split: option.splits)
  have comma: "puts sink (if i > 0 then WriteByte sink CHR '','' else nothing) (if i > 0 then '','' else []) True"
    using puts_nothing puts_WriteByte by simp
  note both = writes_and [OF comma writes_and [OF puts_entity [OF e]]]
  show ?case
  proof (cases "entity_ok e")
    case False
    then have "r = unsupported" using Cons.prems e by simp
    moreover have f: "puts sink (write_entities enc sink data maxFrame fl (i # is)) ((if i > 0 then '','' else []) @ []) (True \<and> False)"
      unfolding write_entities.simps
      by (rule writes_and [OF comma writes_left_fails]) (use puts_entity [OF e] False in simp)
    moreover have "puts sink (write_entities enc sink data maxFrame fl (i # is)) [] False" by (rule writes_not_ok [OF f]) simp
    ultimately show ?thesis by (simp add: unsupported_def)
  next
    case True
    then obtain r' where r': "stream_entities data maxFrame fl is = Some r'" "r = map_ok (\<lambda>es. e # es) r'"
      using Cons.prems e by auto
    from Cons.IH [OF r'(1)] show ?thesis
    proof (elim disjE exE conjE)
      fix es
      assume *: "r' = Ok es" "length es = length is" "puts sink (write_entities enc sink data maxFrame fl is) (slots_text enc data is es) True"
      then show ?thesis using both [OF *(3)] True r'(2) by (auto simp: slots_text_def)
    next
      fix err
      assume *: "r' = Err err" "puts sink (write_entities enc sink data maxFrame fl is) [] False"
      have "puts sink (write_entities enc sink data maxFrame fl (i # is)) [] False"
        unfolding write_entities.simps by (rule writes_not_ok [OF both [OF *(2)]]) simp
      then show ?thesis using *(1) r'(2) by simp
    qed
  qed
qed

section \<open>The whole document\<close>

lemma join_commas: "join c (x # xs) = x @ concat (map (\<lambda>y. c @ y) xs)"
  by (induction xs arbitrary: x) simp_all

text \<open>The commas before all entities but the first are those between the entities.\<close>

lemma slots_from:
  assumes "0 < a" "a + length es \<le> 65536"
  shows "slots_text enc data (map of_nat [a ..< a + length es]) es =
    concat (map (\<lambda>y. '','' @ y) (map (\<lambda>(i, e). enc (if unfilled data i then VZeroEntity else VEntity e)) (enumerate a es)))"
  using assms
proof (induction es arbitrary: a)
  case (Cons e es)
  have a: "unat (of_nat a :: u16) = a" using Cons.prems by (simp add: unat_of_nat)
  then have "(of_nat a :: u16) > 0" using Cons.prems(1) by (simp add: word_less_nat_alt)
  moreover have "[a ..< a + length (e # es)] = a # [Suc a ..< Suc a + length es]" by (simp add: upt_rec)
  ultimately show ?case using Cons.IH [of "Suc a"] Cons.prems a by (simp add: slots_text_def slot_text_def)
qed (simp add: slots_text_def)

lemma slots_entities:
  assumes "length es \<le> 65536"
  shows "''['' @ slots_text enc data (map of_nat [0 ..< length es]) es @ '']'' = entities_text enc (unfilled data) es"
proof (cases es)
  case (Cons e es')
  have "[0 ..< length es] = 0 # [1 ..< 1 + length es']" using Cons by (simp add: upt_rec)
  then have "slots_text enc data (map of_nat [0 ..< length es]) es =
      slot_text enc data 0 e @ slots_text enc data (map of_nat [1 ..< 1 + length es']) es'"
    using Cons by (simp add: slots_text_def)
  then show ?thesis
    using slots_from [of 1 es' enc data] assms Cons
    by (simp add: entities_text_def array_text_def slot_text_def join_commas)
qed (simp add: entities_text_def array_text_def slots_text_def)

lemma ids_upto_length: "ids_upto n = map of_nat [0 ..< length (ids_upto n)]" "length (ids_upto n) \<le> 65536"
proof -
  show "ids_upto n = map of_nat [0 ..< length (ids_upto n)]" by (simp add: ids_upto_def)
  have "unat n < 65536" using unsigned_less [of n] by simp
  then show "length (ids_upto n) \<le> 65536" by (simp add: ids_upto_def)
qed

text \<open>A document cannot be made of a mission whose floats encoding/json refuses, and nothing else is refused.\<close>

lemma writes_cong: "writes Q sink f s ok \<Longrightarrow> ok = ok' \<Longrightarrow> writes Q sink f s ok'"
  by simp

lemma writes_conv: "writes Q sink f s ok \<Longrightarrow> s = s' \<Longrightarrow> ok = ok' \<Longrightarrow> writes Q sink f s' ok'"
  by simp

lemma puts_mission:
  "puts sink (write_mission enc sink m w maxFrame)
     (field_text enc False ''addonVersion'' (VString (mi_AddonVersion m)) @
      field_text enc True ''extensionVersion'' (VString (mi_ExtensionVersion m)) @
      field_text enc True ''extensionBuild'' (VString (mi_ExtensionBuild m)) @
      field_text enc True ''missionName'' (VString (mi_MissionName m)) @
      field_text enc True ''missionAuthor'' (VString (mi_Author m)) @
      field_text enc True ''worldName'' (VString (w_WorldName w)) @
      field_text enc True ''endFrame'' (VInt (frameToV1 maxFrame)) @
      field_text enc True ''captureDelay'' (VFloat32 (mi_CaptureDelay m)) @
      field_text enc True ''tags'' (VString (mi_Tag m)))
     (finite_f64 (mi_CaptureDelay m))" (is "puts _ _ ?t _")
proof -
  have "puts sink (write_mission enc sink m w maxFrame) ?t (value_ok (VFloat32 (mi_CaptureDelay m)))"
    unfolding write_mission_def
    by (rule writes_cong, (rule writes_and [OF puts_field] puts_field)+) simp
  then show ?thesis by simp
qed

text \<open>
  The bytes are those of the document, if there is one; without a document there is an error. With an error of the writer
  what has arrived is the beginning of the document.
\<close>

lemma StreamTo_bytes:
  assumes "Stream data = Some r" "md_Mission data = Some m" "md_World data = Some wo"
  shows "(\<exists>doc. r = Ok doc \<and> (\<exists>w. StreamTo enc sink data = result_of w \<and>
      took (export_text enc (unfilled data) doc) NewWriter w \<and> (bw_err w = None \<longrightarrow> bw_buf w = []) \<and>
      (willing sink \<longrightarrow> bw_err w = None))) \<or>
    (\<exists>e. r = Err e \<and> (\<exists>e' w. StreamTo enc sink data = Some (Err e', w)))"
proof -
  obtain maxFrame maxID has where md: "computeMetadata data = (maxFrame, maxID, has)" by (metis prod_cases3)
  obtain events markers fl where ag: "buildAggregates data = (events, markers, fl)" by (metis prod_cases3)
  let ?times = "buildTimes data" and ?events = "sort_key event_frame events" and ?ids = "if has then ids_upto maxID else []"
  let ?head = "finite_f64 (mi_CaptureDelay m)" and ?tms = "\<forall>t \<in> set ?times. time_ok t"
  define se where "se = stream_entities data maxFrame fl ?ids"
  have n: "bw_err NewWriter = None" "written NewWriter = []" by (simp_all add: NewWriter_def written_def)
  have key: "puts sink (Write sink ('','' @ json_key ''entities'' @ '':['')) ('','' @ json_key ''entities'' @ '':['') True"
    by (rule puts_Write)
  define tail where "tail = and_write (write_entities enc sink data maxFrame fl ?ids) (and_write (WriteByte sink CHR '']'')
      (and_write (writeField enc sink True ''events'' (VRows ?events))
      (and_write (writeField enc sink True ''Markers'' (VRows markers)) (and_write (WriteByte sink CHR ''}'') (flush_end sink)))))"
  define all where "all = and_write (WriteByte sink CHR ''{'') (and_write (write_mission enc sink m wo maxFrame)
      (and_write (writeField enc sink True ''times'' (VTimes ?times))
      (and_write (Write sink ('','' @ json_key ''entities'' @ '':['')) tail)))"
  have st: "StreamTo enc sink data = all NewWriter"
    using assms(2,3) md ag by (simp add: StreamTo_def all_def tail_def)
  have failing: "\<exists>e w. StreamTo enc sink data = Some (Err e, w)" if "writes (\<lambda>w. bw_buf w = []) sink all t False" for t
    using writes_fails [OF that _ n(1)] st by simp
  show ?thesis
  proof (cases "?head \<and> ?tms")
    case False
    then have "r = Err (JSONError UnsupportedValue)"
      using assms md ag by (auto simp: Stream_def unsupported_def)
    moreover have "writes (\<lambda>w. bw_buf w = []) sink all ([CHR ''{''] @ []) (True \<and> False)"
      unfolding all_def
    proof (rule writes_and [OF puts_WriteByte], cases ?head)
      case True
      then have "puts sink (writeField enc sink True ''times'' (VTimes ?times)) (field_text enc True ''times'' (VTimes ?times)) False"
        using writes_cong [OF puts_field, of "VTimes ?times" False] False by auto
      from writes_not_ok [OF writes_and [OF puts_mission writes_left_fails [OF this]]]
      show "writes (\<lambda>w. bw_buf w = []) sink (and_write (write_mission enc sink m wo maxFrame)
        (and_write (writeField enc sink True ''times'' (VTimes ?times))
        (and_write (Write sink ('','' @ json_key ''entities'' @ '':['')) tail))) [] False" by simp
    next
      case False
      show "writes (\<lambda>w. bw_buf w = []) sink (and_write (write_mission enc sink m wo maxFrame)
        (and_write (writeField enc sink True ''times'' (VTimes ?times))
        (and_write (Write sink ('','' @ json_key ''entities'' @ '':['')) tail))) [] False"
        by (rule writes_left_fails, rule writes_cong [OF puts_mission]) (use False in simp)
    qed
    ultimately show ?thesis using failing by auto
  next
    case True
    then obtain q where q: "se = Some q"
      using assms md ag by (auto simp: Stream_def se_def Let_def split: option.splits)
    from puts_entities [OF q [unfolded se_def], of sink enc] show ?thesis
    proof (elim disjE exE conjE)
      fix e
      assume *: "q = Err e" "puts sink (write_entities enc sink data maxFrame fl ?ids) [] False"
      have "r = Err e" using assms md ag True q *(1) by (simp add: Stream_def se_def Let_def)
      moreover have "writes (\<lambda>w. bw_buf w = []) sink tail [] False" unfolding tail_def by (rule writes_left_fails [OF *(2)])
      then have "\<exists>t. writes (\<lambda>w. bw_buf w = []) sink all t False"
        unfolding all_def
        by (intro exI) (rule writes_cong, (rule writes_and [OF puts_WriteByte] writes_and [OF puts_mission]
          writes_and [OF puts_field] writes_and [OF key] | assumption)+, simp)
      ultimately show ?thesis using failing by blast
    next
      fix es
      assume *: "q = Ok es" "length es = length ?ids" "puts sink (write_entities enc sink data maxFrame fl ?ids) (slots_text enc data ?ids es) True"
      let ?slots = "slots_text enc data ?ids es"
      let ?doc = "\<lparr>ex_AddonVersion = mi_AddonVersion m, ex_ExtensionVersion = mi_ExtensionVersion m,
         ex_ExtensionBuild = mi_ExtensionBuild m, ex_MissionName = mi_MissionName m, ex_MissionAuthor = mi_Author m,
         ex_WorldName = w_WorldName wo, ex_EndFrame = frameToV1 maxFrame, ex_CaptureDelay = mi_CaptureDelay m,
         ex_Tags = mi_Tag m, ex_Times = ?times, ex_Entities = es, ex_Events = ?events, ex_Markers = markers\<rparr>"
      have r: "r = (if rows_ok ?events \<and> rows_ok markers then Ok ?doc else unsupported)"
        using assms md ag True q *(1) by (auto simp: Stream_def se_def Let_def)
      have tail: "writes (\<lambda>w. bw_buf w = []) sink tail
          (?slots @ '']'' @ field_text enc True ''events'' (VRows ?events) @ field_text enc True ''Markers'' (VRows markers) @ ''}'')
          (rows_ok ?events \<and> rows_ok markers)"
        unfolding tail_def
        by (rule writes_conv, rule writes_and [OF *(3)],
            (rule writes_and [OF puts_WriteByte] writes_and [OF puts_field] writes_flush)+) simp_all
      have "?ids = map of_nat [0 ..< length es]" "length es \<le> 65536"
        using *(2) ids_upto_length [of maxID] by (auto split: if_splits)
      then have ent: "entities_text enc (unfilled data) es = ''['' @ ?slots @ '']''"
        using slots_entities [of es enc data] by simp
      have w: "writes (\<lambda>w. bw_buf w = []) sink all (export_text enc (unfilled data) ?doc) (rows_ok ?events \<and> rows_ok markers)"
        unfolding all_def
        by (rule writes_conv, (rule writes_and [OF puts_WriteByte] writes_and [OF puts_mission]
            writes_and [OF puts_field] writes_and [OF key] tail)+)
          (use True in \<open>simp_all add: export_text_def object_text_def export_fields_def field_text_def ent\<close>)
      show ?thesis
      proof (cases "rows_ok ?events \<and> rows_ok markers")
        case True
        then have "r = Ok ?doc" using r by (simp only: if_True simp_thms)
        moreover from writes_ok [OF w True n(1)] st have "\<exists>w. StreamTo enc sink data = result_of w \<and>
          took (export_text enc (unfilled data) ?doc) NewWriter w \<and> (bw_err w = None \<longrightarrow> bw_buf w = []) \<and>
          (willing sink \<longrightarrow> bw_err w = None)" by (simp only:)
        ultimately show ?thesis by (intro disjI1 exI [of _ ?doc] conjI)
      next
        case False
        then have "r = Err (JSONError UnsupportedValue)" using r by (auto simp: unsupported_def)
        moreover have "\<exists>e w. StreamTo enc sink data = Some (Err e, w)" using failing [OF writes_cong [OF w]] False by simp
        ultimately show ?thesis by blast
      qed
    qed
  qed
qed

text \<open>Without a document, nothing is ever reported as written.\<close>

definition never_ok :: "writing \<Rightarrow> bool" where
  "never_ok f \<longleftrightarrow> (\<forall>w u w'. f w \<noteq> Some (Ok u, w'))"

lemma never_ok_and: "never_ok f \<or> never_ok g \<Longrightarrow> never_ok (and_write f g)"
  by (auto simp: never_ok_def and_write_def split: option.splits prod.splits outcome.splits)

lemma never_ok_entities: "stream_entities data maxFrame fl is = None \<Longrightarrow> never_ok (write_entities enc sink data maxFrame fl is)"
proof (induction "is")
  case (Cons i "is")
  consider "entity_for_ID data maxFrame (lines_of fl i) i = None" | "stream_entities data maxFrame fl is = None"
    using Cons.prems by (auto split: option.splits if_splits)
  then show ?case
  proof cases
    case 1
    then have "writeEntityForID enc sink i data maxFrame (lines_of fl i) w = None" for w
      by (auto simp: entity_for_ID_def writeEntityForID_def split: option.splits)
    then have "never_ok (writeEntityForID enc sink i data maxFrame (lines_of fl i))" by (simp add: never_ok_def)
    then show ?thesis by (simp add: never_ok_and)
  next
    case 2
    then show ?thesis using Cons.IH by (simp add: never_ok_and)
  qed
qed simp

lemma StreamTo_ok:
  assumes "StreamTo enc sink data = Some (Ok u, w)"
  obtains m wo r where "md_Mission data = Some m" "md_World data = Some wo" "Stream data = Some r"
proof (cases "md_Mission data = None \<or> md_World data = None")
  case True
  have "never_ok (and_write f (\<lambda>w. Some (Panic NilDereference, w)))" for f
    by (rule never_ok_and) (simp add: never_ok_def)
  then have "StreamTo enc sink data \<noteq> Some (Ok u, w)"
    using True by (auto simp: StreamTo_def never_ok_def Let_def split: prod.splits option.splits)
  then show thesis using assms by simp
next
  case False
  then obtain m wo where mw: "md_Mission data = Some m" "md_World data = Some wo" by auto
  obtain maxFrame maxID has where md: "computeMetadata data = (maxFrame, maxID, has)" by (metis prod_cases3)
  obtain events markers fl where ag: "buildAggregates data = (events, markers, fl)" by (metis prod_cases3)
  have "Stream data \<noteq> None"
  proof
    assume "Stream data = None"
    then have "stream_entities data maxFrame fl (if has then ids_upto maxID else []) = None"
      using mw md ag by (auto simp: Stream_def Let_def split: if_splits option.splits outcome.splits)
    from never_ok_entities [OF this, of enc sink] have "StreamTo enc sink data \<noteq> Some (Ok u, w)"
      using mw md ag never_ok_and unfolding StreamTo_def Let_def by (simp add: never_ok_def)
    then show False using assms by simp
  qed
  then show thesis using that mw by auto
qed

end
