(* ===== verification/Export_Bytes_Properties.thy ===== *)
theory Export_Bytes_Properties
  imports Export_Bytes_Facts Export_Properties
begin

text \<open>The properties of the exported bytes.\<close>

section \<open>A small recording\<close>

definition empty_recording :: mission_data where
  "empty_recording = \<lparr>md_Mission = Some example_mission, md_World = Some example_world, md_Soldiers = [],
     md_Vehicles = [], md_Markers = [], md_PlacedObjects = [], md_GeneralEvents = [], md_SectorEvents = [],
     md_EndMissionEvents = [], md_HitEvents = [], md_KillEvents = [], md_TimeStates = [], md_ProjectileEvents = []\<rparr>"

lemma empty_recording_Stream: "\<exists>doc. Stream empty_recording = Some (Ok doc) \<and> ex_Entities doc = []"
  by (simp add: empty_recording_def Stream_def computeMetadata_def buildTimes_def buildAggregates_eq all_events_def
      all_markers_def running_max_def sortedMarkers_def sortedPlacedObjects_def rows_ok_def example_mission_def finite_f64_def)

section \<open>Properties\<close>

text \<open>
  C9. Whatever the disk does: when the streaming encoder returns without an error, the file holds every byte of
  the document, and the document is the one of the recording; when it returns one although there is a document, the file
  holds the beginning of it; and on a disk that takes everything a document is always written.
\<close>

theorem streamed_file:
  "(\<forall>w. StreamTo enc sink data = Some (Ok (), w) \<longrightarrow>
      (\<exists>doc. Stream data = Some (Ok doc) \<and> bw_out w = export_text enc (unfilled data) doc)) \<and>
   (\<forall>doc. Stream data = Some (Ok doc) \<longrightarrow>
      (\<forall>e w. StreamTo enc sink data = Some (Err e, w) \<longrightarrow>
         (\<exists>rest. export_text enc (unfilled data) doc = bw_out w @ rest)) \<and>
      (willing sink \<longrightarrow> (\<exists>w. StreamTo enc sink data = Some (Ok (), w))))"
proof -
  have nw: "written NewWriter = []" by (simp add: NewWriter_def written_def)
  have A: "\<exists>doc. Stream data = Some (Ok doc) \<and> bw_out w = export_text enc (unfilled data) doc"
    if ok: "StreamTo enc sink data = Some (Ok (), w)" for w
  proof -
    from ok obtain m wo r where *: "md_Mission data = Some m" "md_World data = Some wo" "Stream data = Some r"
      by (rule StreamTo_ok)
    from StreamTo_bytes [OF *(3,1,2), of enc sink] ok obtain doc w' where d: "r = Ok doc"
      "StreamTo enc sink data = result_of w'" "took (export_text enc (unfilled data) doc) NewWriter w'"
      "bw_err w' = None \<longrightarrow> bw_buf w' = []" by auto
    then have "w' = w" "bw_err w = None" using ok by (auto simp: result_of_def split: option.splits)
    then show ?thesis using d *(3) nw by (simp add: took_def written_def)
  qed
  have B: "(\<forall>e w. StreamTo enc sink data = Some (Err e, w) \<longrightarrow> (\<exists>rest. export_text enc (unfilled data) doc = bw_out w @ rest)) \<and>
      (willing sink \<longrightarrow> (\<exists>w. StreamTo enc sink data = Some (Ok (), w)))" if doc: "Stream data = Some (Ok doc)" for doc
  proof -
    from doc obtain m wo where mw: "md_Mission data = Some m" "md_World data = Some wo"
      by (auto simp: Stream_def Let_def split: prod.splits option.splits)
    from StreamTo_bytes [OF doc mw, of enc sink] obtain w where w: "StreamTo enc sink data = result_of w"
      "took (export_text enc (unfilled data) doc) NewWriter w" "willing sink \<longrightarrow> bw_err w = None" by auto
    show ?thesis
      using w nw by (cases "bw_err w") (auto simp: result_of_def took_def starts_def)
  qed
  show ?thesis using A B by blast
qed

theorem streamed_file_witness:
  "\<exists>w doc. StreamTo (\<lambda>_. ''0'') (\<lambda>_ _. None) empty_recording = Some (Ok (), w) \<and> ex_Entities doc = [] \<and>
     bw_out w = export_text (\<lambda>_. ''0'') (unfilled empty_recording) doc"
proof -
  obtain doc where d: "Stream empty_recording = Some (Ok doc)" "ex_Entities doc = []" using empty_recording_Stream by blast
  have "willing (\<lambda>_ _. None)" by (simp add: willing_def)
  with streamed_file [of "\<lambda>_. ''0''" "\<lambda>_ _. None" empty_recording] d show ?thesis by auto
qed

text \<open>
  On a disk that takes everything the file is, byte for byte, what encoding/json makes of the built export,
  when that can be encoded, the IDs of soldiers and vehicles are distinct and bullets are fired by recorded
  soldiers. (\<open>Encode\<close> puts a newline behind it.)
\<close>

theorem streamed_bytes_of_Build:
  assumes "Build data = Some (Ok e)" "export_ok e" "keyed_by_ID data" "disjoint_IDs data" "bullets_of_soldiers data"
    and "\<forall>file p. sink file p = None"
  shows "\<exists>w. StreamTo enc sink data = Some (Ok (), w) \<and> bw_out w = export_text enc (unfilled data) e"
proof -
  have s: "Stream data = Some (Ok e)" using Stream_Build_aux [OF assms(1,3,4,5)] assms(2) by (simp add: Encode_def)
  then obtain m wo where mw: "md_Mission data = Some m" "md_World data = Some wo"
    by (auto simp: Stream_def Let_def split: prod.splits option.splits)
  from StreamTo_bytes [OF s mw, of enc sink] assms(6) obtain w where "StreamTo enc sink data = result_of w"
    "took (export_text enc (unfilled data) e) NewWriter w" "bw_err w = None" "bw_buf w = []" by (auto simp: willing_def)
  then show ?thesis by (auto simp: result_of_def took_def written_def NewWriter_def)
qed

lemma empty_recording_Build: "\<exists>e. Build empty_recording = Some (Ok e) \<and> export_ok e"
  by (simp add: empty_recording_def Build_def all_events_def all_markers_def running_max_def sortedMarkers_def
      sortedPlacedObjects_def rows_ok_def export_ok_def example_mission_def finite_f64_def)

theorem streamed_bytes_of_Build_witness:
  "\<exists>e w. Build empty_recording = Some (Ok e) \<and> StreamTo (\<lambda>_. ''0'') (\<lambda>_ _. None) empty_recording = Some (Ok (), w) \<and>
     bw_out w = export_text (\<lambda>_. ''0'') (unfilled empty_recording) e"
proof -
  obtain e where e: "Build empty_recording = Some (Ok e)" "export_ok e" using empty_recording_Build by blast
  have "keyed_by_ID empty_recording" "disjoint_IDs empty_recording" "bullets_of_soldiers empty_recording"
    by (simp_all add: empty_recording_def keyed_by_ID_def disjoint_IDs_def bullets_of_soldiers_def)
  from streamed_bytes_of_Build [OF e this, of "\<lambda>_ _. None" "\<lambda>_. ''0''"] e(1) show ?thesis by auto
qed

end
