(* ===== verification/Dispatcher_Simulation.thy ===== *)
theory Dispatcher_Simulation
  imports Dispatcher_Facts
begin

text \<open>
  A run of the dispatcher executes the events its trace tells, one handler each and in that order, however callers and
  goroutines interleave. So what relates every handler to a step of a specification relates
  every run to the steps of its events.
\<close>

section \<open>The events a run executes\<close>

definition executes :: "action \<Rightarrow> event list" where
  "executes x = (case x of Dispatched None e r \<Rightarrow> [e] | Handled a e r \<Rightarrow> [e] | _ \<Rightarrow> [])"

definition executed :: "action list \<Rightarrow> event list" where
  "executed tr = concat (map executes tr)"

lemma executed_simps [simp]: "executed [] = []" "executed (x # tr) = executes x @ executed tr"
  by (simp_all add: executed_def)

section \<open>Simulation\<close>

text \<open>\<open>tell\<close> is what an event means to the specification; a command without a handler means nothing.\<close>

locale command_simulation =
  fixes R :: "'s \<Rightarrow> 'g \<Rightarrow> bool"
    and tell :: "event \<Rightarrow> 'g \<Rightarrow> 'g"
    and commands :: "string set"
  assumes untold: "ev_Command e \<notin> commands \<Longrightarrow> tell e g = g"
begin

definition follows :: "string \<Rightarrow> 's handler \<Rightarrow> bool" where
  "follows c h = (\<forall>e w g. ev_Command e = c \<longrightarrow> R w g \<longrightarrow> R (snd (h e w)) (tell e g))"

fun all_follow :: "string \<Rightarrow> 's wrapped \<Rightarrow> bool" where
  "all_follow c (Direct h) = follows c h"
| "all_follow c (WithLogging c' h) = all_follow c h"
| "all_follow c (WithGate g h) = all_follow c h"
| "all_follow c (WithBuffer a bl) = True"

definition simulated :: "'s dispatcher \<Rightarrow> bool" where
  "simulated d = (wf_dispatcher d \<and> (\<forall>c h. map_of (d_handlers d) c = Some h \<longrightarrow> all_follow c h) \<and>
     (\<forall>b \<in> set (d_bufs d). all_follow (bu_command b) (bu_handler b)) \<and> (\<forall>c \<in> commands. map_of (d_handlers d) c \<noteq> None))"

lemma run_follows:
  assumes "run h e d = Some (r, d')" "plain h" "all_follow (ev_Command e) h" "R (d_world d) g"
  shows "R (d_world d') (tell e g)"
  using assms
proof (induction h arbitrary: d r d')
  case (Direct h)
  then show ?case by (auto simp: follows_def split: prod.splits) (metis snd_conv)
next
  case (WithLogging c h)
  obtain r1 d1 where 1: "run h e (log_msg Debug ''handling event'' c d) = Some (r1, d1)"
    using WithLogging.prems(1) by (auto split: option.splits)
  have "R (d_world d1) (tell e g)"
    using WithLogging.IH [OF 1] WithLogging.prems by (simp add: log_msg_def)
  then show ?case using WithLogging.prems(1) 1
    by (auto simp: log_msg_def split: option.splits handler_result.splits)
qed auto

lemma simulated_frame:
  assumes "simulated d" "wf_dispatcher d'" "d_handlers d' = d_handlers d"
    "map (\<lambda>b. (bu_command b, bu_handler b)) (d_bufs d') = map (\<lambda>b. (bu_command b, bu_handler b)) (d_bufs d)"
  shows "simulated d'"
proof -
  have eq: "(\<lambda>b. (bu_command b, bu_handler b)) ` set (d_bufs d') = (\<lambda>b. (bu_command b, bu_handler b)) ` set (d_bufs d)"
    using arg_cong [OF assms(4), of set] by simp
  have "\<exists>b' \<in> set (d_bufs d). bu_command b' = bu_command b \<and> bu_handler b' = bu_handler b" if "b \<in> set (d_bufs d')" for b
    using imageI [OF that, of "\<lambda>b. (bu_command b, bu_handler b)"] unfolding eq by fastforce
  with assms(1-3) show ?thesis by (simp add: simulated_def) metis
qed

lemma wf_step: "simulated d \<Longrightarrow> dstep d x d' \<Longrightarrow> wf_dispatcher d'"
  using dstep_sound [of d x d'] by (simp add: simulated_def)

lemma dispatch_follows:
  assumes S: "simulated d" and D: "Dispatch e d = Some (r, d')" and g: "R (d_world d) g"
  shows "simulated d' \<and> R (d_world d') (fold tell (executes (Dispatched (channel_of (ev_Command e) d) e r)) g)"
proof (cases "map_of (d_handlers d) (ev_Command e)")
  case None
  then have "ev_Command e \<notin> commands" using S by (auto simp: simulated_def)
  with D None S g untold show ?thesis by (auto simp: Dispatch_def executes_def channel_of_def)
next
  case (Some h)
  have w: "wf_dispatcher d'" using wf_step [OF S dstep.dispatch [OF D]] .
  have h: "wf_handler d (ev_Command e) h" "all_follow (ev_Command e) h" and X: "run h e d = Some (r, d')"
    using S D Some by (auto simp: simulated_def wf_dispatcher_def Dispatch_def)
  have plain: ?thesis if p: "plain k" "all_follow (ev_Command e) k" "run k e d = Some (r, d')" "channel_of (ev_Command e) d = None" for k
    using run_follows [OF p(3,1,2) g] run_plain_frame [OF p(3,1)] simulated_frame [OF S w]
    by (simp add: executes_def p(4))
  consider "plain h" | ready k where "h = WithGate ready k" | a bl where "h = WithBuffer a bl"
    using h by (cases h) (auto simp: wf_handler_def)
  then show ?thesis
  proof cases
    case 1
    then show ?thesis using Some h X by (intro plain [of h]) (auto simp: channel_of_def split: wrapped.split)
  next
    case 2
    then show ?thesis using Some h X
      by (intro plain [of k]) (auto simp: channel_of_def wf_handler_def split: if_splits)
  next
    case 3
    then have a: "a < length (d_bufs d)" using h by (simp add: wf_handler_def)
    then have "d_world d' = d_world d" "d_handlers d' = d_handlers d"
      "map (\<lambda>b. (bu_command b, bu_handler b)) (d_bufs d') = map (\<lambda>b. (bu_command b, bu_handler b)) (d_bufs d)"
      using X 3 by (auto simp: Let_def update_buf_def map_list_update_same split: if_splits)
    then show ?thesis
      using simulated_frame [OF S w] g Some 3 by (simp add: executes_def channel_of_def)
  qed
qed

lemma handle_follows:
  assumes S: "simulated d" and H: "handle a d = Some (e, r, d')" and g: "R (d_world d) g"
  shows "simulated d' \<and> R (d_world d') (tell e g)"
proof -
  let ?b = "d_bufs d ! a"
  have w: "wf_dispatcher d'" using wf_step [OF S dstep.handle [OF H]] .
  obtain d1 where a: "a < length (d_bufs d)" and c: "bu_current ?b = Some e"
    and d': "d' = update_buf a (\<lambda>b. b\<lparr>bu_current := None\<rparr>) d1"
    and s: "safeHandle (bu_command ?b) (bu_handler ?b) e d = Some (r, d1)"
    using H by (auto simp: handle_def split: if_splits option.splits)
  have b: "wf_buf (d_closed d) ?b" "all_follow (bu_command ?b) (bu_handler ?b)"
    using S a by (simp_all add: simulated_def wf_dispatcher_def)
  then have p: "plain (bu_handler ?b)" "all_follow (ev_Command e) (bu_handler ?b)"
    using c by (auto simp: wf_buf_def held_def)
  obtain d0 where X: "run (bu_handler ?b) e d = Some (r, d0)"
    "d_world d1 = d_world d0" "d_handlers d1 = d_handlers d0" "d_bufs d1 = d_bufs d0"
    using s by (auto simp: safeHandle_def log_msg_def Let_def split: option.splits handler_result.splits)
  note fr = run_plain_frame [OF X(1) p(1)]
  have "map (\<lambda>b. (bu_command b, bu_handler b)) (d_bufs d') = map (\<lambda>b. (bu_command b, bu_handler b)) (d_bufs d)"
    using X(4) fr by (simp add: d' update_buf_def map_list_update_same)
  then show ?thesis
    using run_follows [OF X(1) p g] simulated_frame [OF S w] X fr by (simp add: d') (simp add: update_buf_def)
qed

lemma step_follows:
  assumes "dstep d x d'" "simulated d" "R (d_world d) g" "\<forall>c. x \<noteq> Registered c"
  shows "simulated d' \<and> R (d_world d') (fold tell (executes x) g)"
  using assms(1)
proof (cases rule: dstep.cases)
  case (dispatch e r)
  then show ?thesis using dispatch_follows [OF assms(2) _ assms(3)] by simp
next
  case (handle a e r)
  then show ?thesis using handle_follows [OF assms(2) _ assms(3)] by (simp add: executes_def)
next
  case (pass a)
  then have "d_world d' = d_world d" "d_handlers d' = d_handlers d"
    "map (\<lambda>b. (bu_command b, bu_handler b)) (d_bufs d') = map (\<lambda>b. (bu_command b, bu_handler b)) (d_bufs d)"
    by (auto simp: pass_gate_def log_msg_def update_buf_def map_list_update_same split: if_splits option.splits)
  then show ?thesis
    using simulated_frame [OF assms(2) wf_step [OF assms(2,1)]] assms(3) pass by (simp add: executes_def)
next
  case (receive a e)
  then have "d_world d' = d_world d" "d_handlers d' = d_handlers d"
    "map (\<lambda>b. (bu_command b, bu_handler b)) (d_bufs d') = map (\<lambda>b. (bu_command b, bu_handler b)) (d_bufs d)"
    by (auto simp: receive_def update_buf_def map_list_update_same split: if_splits list.splits)
  then show ?thesis
    using simulated_frame [OF assms(2) wf_step [OF assms(2,1)]] assms(3) receive by (simp add: executes_def)
next
  case (close ready)
  then show ?thesis
    using simulated_frame [OF assms(2) wf_step [OF assms(2,1)]] assms(3) by (simp add: executes_def)
qed (use assms(4) in blast)

text \<open>Every run is a run of the specification.\<close>

lemma run_simulated:
  "druns d tr d' \<Longrightarrow> simulated d \<Longrightarrow> R (d_world d) g \<Longrightarrow> \<forall>c. Registered c \<notin> set tr \<Longrightarrow>
     R (d_world d') (fold tell (executed tr) g)"
proof (induction arbitrary: g rule: druns.induct)
  case (step d x d' xs d'')
  then show ?case using step_follows [of d x d' g] by auto
qed simp

section \<open>Registration\<close>

text \<open>Before all of \<open>commands\<close> have their handler.\<close>

definition answering :: "'s dispatcher \<Rightarrow> bool" where
  "answering d = (wf_dispatcher d \<and> (\<forall>c h. map_of (d_handlers d) c = Some h \<longrightarrow> all_follow c h) \<and>
     (\<forall>b \<in> set (d_bufs d). all_follow (bu_command b) (bu_handler b)))"

lemma answering_new: "answering (new_dispatcher w)"
  by (simp add: answering_def wf_new) (simp add: new_dispatcher_def)

lemma Register_answering:
  assumes "answering d" "follows c h"
  shows "answering (Register c h opts d)"
    "fst ` set (d_handlers (Register c h opts d)) = insert c (fst ` set (d_handlers d))"
proof -
  have "wf_dispatcher (Register c h opts d)" using step_Register [of d c h opts] assms(1) by (simp add: answering_def)
  with assms show "answering (Register c h opts d)"
    by (auto simp: answering_def Register_def withBuffer_def Let_def map_simps split: option.splits if_splits)
  show "fst ` set (d_handlers (Register c h opts d)) = insert c (fst ` set (d_handlers d))"
    by (auto simp: Register_def withBuffer_def Let_def dom_update split: option.split)
qed

lemma Registers_simulated:
  assumes "\<forall>(c, h, opts) \<in> set hs. follows c h" "commands \<subseteq> fst ` set hs"
  shows "simulated (fold (\<lambda>(c, h, opts). Register c h opts) hs (new_dispatcher w)) \<and>
    d_world (fold (\<lambda>(c, h, opts). Register c h opts) hs (new_dispatcher w)) = w"
proof -
  have "answering (fold (\<lambda>(c, h, opts). Register c h opts) hs d) \<and>
      d_world (fold (\<lambda>(c, h, opts). Register c h opts) hs d) = d_world d \<and>
      fst ` set (d_handlers (fold (\<lambda>(c, h, opts). Register c h opts) hs d)) = fst ` set hs \<union> fst ` set (d_handlers d)"
    if "answering d" for d
    using assms(1) that
  proof (induction hs arbitrary: d)
    case (Cons x hs)
    obtain c h opts where x: "x = (c, h, opts)" by (cases x)
    have "d_world (Register c h opts d) = d_world d"
      by (simp add: Register_def withBuffer_def Let_def split: option.split)
    then show ?case
      using Cons.IH [of "Register c h opts d"] Cons.prems Register_answering [of d c h opts] by (simp add: x)
  qed simp
  from this [OF answering_new, of w] assms(2) show ?thesis
    by (auto simp: simulated_def answering_def map_of_eq_None_iff) (auto simp: new_dispatcher_def)
qed

end

end
