(* ===== verification/Recording.thy ===== *)
theory Recording
  imports Worker_Facts Dispatcher_Simulation
begin

text \<open>
  What the messages of the game tell about one soldier or one vehicle, and that the worker's handlers record
  exactly that: however the game's calls and the goroutines interleave, and whatever other messages
  come in between.
\<close>

section \<open>What the messages tell\<close>

text \<open>
  The soldier as it was created, and deleted, with the states that were reported since. Creating it
  again starts afresh. A message that cannot be read tells nothing, nor does a state before the creation.
\<close>

type_synonym soldier_story = "(soldier \<times> soldier_state list) option"

type_synonym vehicle_story = "(vehicle \<times> vehicle_state list) option"

definition tell_soldier :: "platform \<Rightarrow> (event \<Rightarrow> gtime) \<Rightarrow> u16 \<Rightarrow> event \<Rightarrow> soldier_story \<Rightarrow> soldier_story" where
  "tell_soldier pl clock i e t =
     (if ev_Command e = '':SOLDIER:CREATE:'' then
        (case ParseSoldier pl (clock e) (ev_Args e) of
           Ok s \<Rightarrow> if s_ID s = i then Some (s, []) else t | _ \<Rightarrow> t)
      else if ev_Command e = '':SOLDIER:STATE:'' then
        (case ParseSoldierState pl (clock e) (ev_Args e) of
           Ok st \<Rightarrow> if ss_SoldierID st = i then map_option (\<lambda>(s, sts). (s, sts @ [fill_state s st])) t else t | _ \<Rightarrow> t)
      else if ev_Command e = '':SOLDIER:DELETE:'' then
        (case ParseSoldierDelete pl (ev_Args e) of
           Ok (j, f) \<Rightarrow> if j = i then map_option (\<lambda>(s, sts). (s\<lparr>s_DeleteFrame := f\<rparr>, sts)) t else t | _ \<Rightarrow> t)
      else t)"

definition tell_vehicle :: "platform \<Rightarrow> (event \<Rightarrow> gtime) \<Rightarrow> u16 \<Rightarrow> event \<Rightarrow> vehicle_story \<Rightarrow> vehicle_story" where
  "tell_vehicle pl clock i e t =
     (if ev_Command e = '':VEHICLE:CREATE:'' then
        (case ParseVehicle pl (clock e) (ev_Args e) of
           Ok v \<Rightarrow> if v_ID v = i then Some (v, []) else t | _ \<Rightarrow> t)
      else if ev_Command e = '':VEHICLE:STATE:'' then
        (case ParseVehicleState pl (clock e) (ev_Args e) of
           Ok st \<Rightarrow> if vs_VehicleID st = i then map_option (\<lambda>(v, sts). (v, sts @ [st])) t else t | _ \<Rightarrow> t)
      else if ev_Command e = '':VEHICLE:DELETE:'' then
        (case ParseVehicleDelete pl (ev_Args e) of
           Ok (j, f) \<Rightarrow> if j = i then map_option (\<lambda>(v, sts). (v\<lparr>v_DeleteFrame := f\<rparr>, sts)) t else t | _ \<Rightarrow> t)
      else t)"

definition soldier_commands :: "string set" where
  "soldier_commands = {'':SOLDIER:CREATE:'', '':SOLDIER:STATE:'', '':SOLDIER:DELETE:''}"

definition vehicle_commands :: "string set" where
  "vehicle_commands = {'':VEHICLE:CREATE:'', '':VEHICLE:STATE:'', '':VEHICLE:DELETE:''}"

section \<open>Handlers that leave a record alone\<close>

locale bystander =
  fixes look :: "backend \<Rightarrow> 'r" and cached :: "entity_cache \<Rightarrow> 'c" and calm :: "backend_call \<Rightarrow> bool"
  assumes look_calm: "calm c \<Longrightarrow> look (snd (mem_if env c b)) = look b"
begin

definition seen :: "backend manager \<Rightarrow> 'r \<times> 'c" where
  "seen m = (look (m_backend m), cached (m_EntityCache m))"

lemma seen_parsed:
  "(\<And>x m. seen (snd (k x m)) = seen m) \<Longrightarrow> seen (snd (parsed msg r k m)) = seen m"
  by (cases r) (auto simp: fail_def)

lemma seen_call:
  "calm c \<Longrightarrow> seen (snd (call (mem_if env) c msg m)) = seen m"
  "calm c \<Longrightarrow> seen (snd (call_raw (mem_if env) c m)) = seen m"
  by (simp_all add: seen_def call_def call_raw_def case_prod_beta look_calm)

lemma seen_cache: "cached (f (m_EntityCache m)) = cached (m_EntityCache m) \<Longrightarrow> seen (cache f m) = seen m"
  by (simp add: seen_def cache_def)

lemma seen_frame [simp]:
  "seen (m\<lparr>m_unknownHits := u\<rparr>) = seen m" "seen (snd (fail e m)) = seen m" "seen (m\<lparr>m_MarkerCache := c\<rparr>) = seen m"
  by (simp_all add: seen_def fail_def)

lemma seen_marker_create:
  assumes "\<And>mk. calm (CallAddMarker mk)"
  shows "seen (snd (handleMarkerCreate (mem_if env) pl now e m)) = seen m"
  unfolding handleMarkerCreate_def
proof (rule seen_parsed)
  fix mk and m :: "backend manager"
  have "seen (m\<lparr>m_backend := snd (mem_if env (CallAddMarker mk) (m_backend m))\<rparr>) = seen m"
    by (simp add: seen_def look_calm assms)
  then show "seen (snd (let (r, b) = mem_if env (CallAddMarker mk) (m_backend m); m = m\<lparr>m_backend := b\<rparr>
      in case result_error r of
           Some err \<Rightarrow> fail (Errorf ''add marker: %w'' [ArgErr err]) m
         | None \<Rightarrow> (Returns ANil None,
              m\<lparr>m_MarkerCache := Set (mk_MarkerName mk) (added_ID r) (m_MarkerCache m)\<rparr>))) = seen m"
    by (auto simp: Let_def split: prod.split option.split)
qed

end

definition soldier_calm :: "backend_call \<Rightarrow> bool" where
  "soldier_calm c = (\<not> lifecycle c \<and> (case c of CallAddSoldier s \<Rightarrow> False | CallRecordSoldierState s \<Rightarrow> False
     | CallDeleteSoldier i f \<Rightarrow> False | CallRecordFiredEvent f \<Rightarrow> False | _ \<Rightarrow> True))"

definition vehicle_calm :: "backend_call \<Rightarrow> bool" where
  "vehicle_calm c = (\<not> lifecycle c \<and> (case c of CallAddVehicle v \<Rightarrow> False | CallRecordVehicleState s \<Rightarrow> False
     | CallDeleteVehicle i f \<Rightarrow> False | _ \<Rightarrow> True))"

lemma find_soldier_calm: "soldier_calm c \<Longrightarrow> find_soldier i (snd (mem_if env c b)) = find_soldier i b"
  by (cases c; simp add: soldier_calm_def mem_if_def ok_def case_prod_beta find_soldier_def mem_defs focus_frame marker_frame Let_def)

lemma find_vehicle_calm: "vehicle_calm c \<Longrightarrow> find_vehicle i (snd (mem_if env c b)) = find_vehicle i b"
  by (cases c; simp add: vehicle_calm_def mem_if_def ok_def case_prod_beta find_vehicle_def mem_defs focus_frame marker_frame Let_def)

interpretation soldiers_seen: bystander "find_soldier i" "GetSoldier i" soldier_calm for i
  by unfold_locales (rule find_soldier_calm)

interpretation vehicles_seen: bystander "find_vehicle i" "GetVehicle i" vehicle_calm for i
  by unfold_locales (rule find_vehicle_calm)

lemma calm_simps [simp]:
  "soldier_calm (CallAddVehicle v)" "soldier_calm (CallAddMarker m)" "soldier_calm (CallDeleteVehicle i f)"
  "soldier_calm (CallRecordVehicleState s2)" "vehicle_calm (CallAddSoldier s)" "vehicle_calm (CallAddMarker m)"
  "vehicle_calm (CallDeleteSoldier i f)" "vehicle_calm (CallRecordSoldierState s1)"
  by (simp_all add: soldier_calm_def vehicle_calm_def)

lemma calm_events [simp]:
  "soldier_calm (CallRecordMarkerState s3)" "soldier_calm (CallDeleteMarker d)"
  "soldier_calm (CallRecordProjectileEvent e2)" "soldier_calm (CallRecordGeneralEvent e3)"
  "soldier_calm (CallRecordSectorEvent e4)" "soldier_calm (CallRecordEndMissionEvent e5)"
  "soldier_calm (CallRecordKillEvent e7)" "soldier_calm (CallRecordChatEvent e8)"
  "soldier_calm (CallRecordRadioEvent e9)" "soldier_calm (CallRecordTelemetryEvent e10)"
  "soldier_calm (CallRecordTimeState e11)" "soldier_calm (CallRecordAce3DeathEvent e12)"
  "soldier_calm (CallRecordAce3UnconsciousEvent e13)" "soldier_calm (CallAddPlacedObject p)"
  "soldier_calm (CallRecordPlacedObjectEvent e14)" "soldier_calm (CallSetFocusStart f)" "soldier_calm (CallSetFocusEnd f)"
  "vehicle_calm (CallRecordMarkerState s3)" "vehicle_calm (CallDeleteMarker d)"
  "vehicle_calm (CallRecordProjectileEvent e2)" "vehicle_calm (CallRecordGeneralEvent e3)"
  "vehicle_calm (CallRecordSectorEvent e4)" "vehicle_calm (CallRecordEndMissionEvent e5)"
  "vehicle_calm (CallRecordKillEvent e7)" "vehicle_calm (CallRecordChatEvent e8)"
  "vehicle_calm (CallRecordRadioEvent e9)" "vehicle_calm (CallRecordTelemetryEvent e10)"
  "vehicle_calm (CallRecordTimeState e11)" "vehicle_calm (CallRecordAce3DeathEvent e12)"
  "vehicle_calm (CallRecordAce3UnconsciousEvent e13)" "vehicle_calm (CallAddPlacedObject p)"
  "vehicle_calm (CallRecordPlacedObjectEvent e14)" "vehicle_calm (CallSetFocusStart f)" "vehicle_calm (CallSetFocusEnd f)"
  by (simp_all add: soldier_calm_def vehicle_calm_def)

lemma takeover_vehicle [simp]: "GetVehicle k (takeover obj s c) = GetVehicle k c"
  by (simp add: takeover_def Let_def)

lemma soldier_bystanders:
  assumes "(c, h, opts) \<in> set (worker_handlers (mem_if env) pl clock)" "c \<notin> soldier_commands"
  shows "soldiers_seen.seen i (snd (h e m)) = soldiers_seen.seen i m"
  using assms
  by (simp add: worker_handlers_def soldier_commands_def)
    (elim disjE; simp; (simp only: handler_defs(2-4,6,8-19,21-))?; (rule soldiers_seen.seen_marker_create | rule soldiers_seen.seen_parsed);
      simp add: Let_def soldiers_seen.seen_call soldiers_seen.seen_cache split: option.split prod.split)

lemma vehicle_bystanders:
  assumes "(c, h, opts) \<in> set (worker_handlers (mem_if env) pl clock)" "c \<notin> vehicle_commands"
  shows "vehicles_seen.seen i (snd (h e m)) = vehicles_seen.seen i m"
  using assms
  by (simp add: worker_handlers_def vehicle_commands_def)
    (elim disjE; simp; (simp only: handler_defs(1,3-5,7,9-19,21-))?; (rule vehicles_seen.seen_marker_create | rule vehicles_seen.seen_parsed);
      simp add: Let_def vehicles_seen.seen_call vehicles_seen.seen_cache split: option.split prod.split)

section \<open>Handlers record what is told\<close>

lemma find_deleted:
  "find_soldier k (mem_DeleteSoldier j f b) =
     map_option (\<lambda>r. if k = j then r\<lparr>sr_Soldier := (sr_Soldier r)\<lparr>s_DeleteFrame := f\<rparr>\<rparr> else r) (find_soldier k b)"
  "find_vehicle k (mem_DeleteVehicle j f b) =
     map_option (\<lambda>r. if k = j then r\<lparr>vr_Vehicle := (vr_Vehicle r)\<lparr>v_DeleteFrame := f\<rparr>\<rparr> else r) (find_vehicle k b)"
  by (simp_all add: find_soldier_def find_vehicle_def mem_defs map_simps option.map_id [unfolded id_def])

lemmas handler_evals = call_def call_raw_def mem_if_def ok_def cache_def fail_def

text \<open>
  The record is as told; the soldier of the cache, from which states take their group and side, has
  those of the creation.
\<close>

definition soldier_recorded :: "u16 \<Rightarrow> backend manager \<Rightarrow> soldier_story \<Rightarrow> bool" where
  "soldier_recorded i m t = (coherent m \<and> map_option (\<lambda>r. (sr_Soldier r, sr_States r)) (find_soldier i (m_backend m)) = t \<and>
     (\<forall>c s sts. GetSoldier i (m_EntityCache m) = Some c \<longrightarrow> t = Some (s, sts) \<longrightarrow>
        s_GroupID c = s_GroupID s \<and> s_Side c = s_Side s))"

definition vehicle_recorded :: "u16 \<Rightarrow> backend manager \<Rightarrow> vehicle_story \<Rightarrow> bool" where
  "vehicle_recorded i m t = (coherent m \<and> map_option (\<lambda>r. (vr_Vehicle r, vr_States r)) (find_vehicle i (m_backend m)) = t)"

lemma fill_state_cong:
  "s_GroupID c = s_GroupID s \<Longrightarrow> s_Side c = s_Side s \<Longrightarrow> fill_state c st = fill_state s st"
  by (simp add: fill_state_def)

lemma fill_state_ID [simp]: "ss_SoldierID (fill_state s st) = ss_SoldierID st"
  by (simp add: fill_state_def Let_def)

lemma takeover_keeps:
  assumes "cached_soldiers.keyed c" "GetSoldier j c = Some s" "GetSoldier i (takeover obj s c) = Some s'"
  shows "\<exists>s0. GetSoldier i c = Some s0 \<and> s_GroupID s' = s_GroupID s0 \<and> s_Side s' = s_Side s0"
proof -
  have "s_ID s = j" using assms(1,2) by (auto simp: cached_soldiers.keyed_def)
  with assms(2,3) show ?thesis by (auto simp: takeover_def Let_def split: if_splits)
qed

lemma coherent_handlers:
  "(c, h, opts) \<in> set (worker_handlers (mem_if env) pl clock) \<Longrightarrow> coherent m \<Longrightarrow> coherent (snd (h e m))"
  using agree.related_handlers unfolding coherent_def by blast

lemma new_soldier_recorded:
  assumes "soldier_recorded i m t" "coherent (snd (handleNewSoldier (mem_if env) pl (clock e) e m))"
    "ev_Command e = '':SOLDIER:CREATE:''"
  shows "soldier_recorded i (snd (handleNewSoldier (mem_if env) pl (clock e) e m)) (tell_soldier pl clock i e t)"
proof (cases "ParseSoldier pl (clock e) (ev_Args e)")
  case (Ok s)
  with assms show ?thesis
    by (auto simp: soldier_recorded_def tell_soldier_def handleNewSoldier_def handler_evals soldier_states.lookup_register)
qed (use assms in \<open>simp_all add: soldier_recorded_def tell_soldier_def handleNewSoldier_def handler_evals\<close>)

lemma soldier_state_told:
  assumes R: "soldier_recorded i m t" and co: "coherent (snd (handleSoldierState (mem_if env) pl (clock e) e m))"
    and e: "ev_Command e = '':SOLDIER:STATE:''"
  shows "soldier_recorded i (snd (handleSoldierState (mem_if env) pl (clock e) e m)) (tell_soldier pl clock i e t)"
proof (cases "ParseSoldierState pl (clock e) (ev_Args e)")
  case (Ok st)
  have m: "coherent m" using R by (simp add: soldier_recorded_def)
  show ?thesis
  proof (cases "GetSoldier (ss_SoldierID st) (m_EntityCache m)")
    case None
    then have "find_soldier (ss_SoldierID st) (m_backend m) = None" using coherentD(3) [OF m] by simp
    with R None Ok e show ?thesis
      by (auto simp: soldier_recorded_def tell_soldier_def handleSoldierState_def handler_evals)
  next
    case (Some c)
    let ?m = "(cache (takeover (fill_state c st) c) m)\<lparr>m_backend := mem_RecordSoldierState (fill_state c st) (m_backend m)\<rparr>"
    have x: "snd (handleSoldierState (mem_if env) pl (clock e) e m) = ?m"
      by (simp add: handleSoldierState_def Ok Some handler_evals Let_def)
    have f: "find_soldier i (m_backend ?m) = (if i = ss_SoldierID st then
        map_option (\<lambda>r. r\<lparr>sr_States := sr_States r @ [fill_state c st]\<rparr>) (find_soldier i (m_backend m))
        else find_soldier i (m_backend m))"
      by (simp add: soldier_states.lookup_record)
    have fill: "fill_state c st = fill_state (sr_Soldier r) st"
      if "i = ss_SoldierID st" "find_soldier i (m_backend m) = Some r" for r
      using R Some that by (intro fill_state_cong) (auto simp: soldier_recorded_def)
    have g: "\<exists>s0. GetSoldier i (m_EntityCache m) = Some s0 \<and> s_GroupID c' = s_GroupID s0 \<and> s_Side c' = s_Side s0"
      if "GetSoldier i (m_EntityCache ?m) = Some c'" for c'
      using takeover_keeps [OF coherentD(2) [OF m] Some] that by (simp add: cache_def)
    have t: "map_option (\<lambda>r. (sr_Soldier r, sr_States r)) (find_soldier i (m_backend ?m)) = tell_soldier pl clock i e t"
      using R fill Ok e unfolding f by (cases "find_soldier i (m_backend m)") (auto simp: soldier_recorded_def tell_soldier_def)
    have "s_GroupID c' = s_GroupID s \<and> s_Side c' = s_Side s"
      if "GetSoldier i (m_EntityCache ?m) = Some c'" "tell_soldier pl clock i e t = Some (s, sts)" for c' s sts
      using g [OF that(1)] R Ok e that(2)
      by (auto simp: soldier_recorded_def tell_soldier_def split: if_splits)
    with t co show ?thesis unfolding x soldier_recorded_def by blast
  qed
qed (use assms in \<open>simp_all add: soldier_recorded_def tell_soldier_def handleSoldierState_def handler_evals\<close>)

lemma soldier_delete_told:
  assumes "soldier_recorded i m t" "coherent (snd (handleSoldierDelete (mem_if env) pl (clock e) e m))"
    "ev_Command e = '':SOLDIER:DELETE:''"
  shows "soldier_recorded i (snd (handleSoldierDelete (mem_if env) pl (clock e) e m)) (tell_soldier pl clock i e t)"
proof (cases "ParseSoldierDelete pl (ev_Args e)")
  case (Ok jf)
  obtain j f where jf: "jf = (j, f)" by (cases jf)
  have x: "snd (handleSoldierDelete (mem_if env) pl (clock e) e m) = m\<lparr>m_backend := mem_DeleteSoldier j f (m_backend m)\<rparr>"
    by (simp add: handleSoldierDelete_def Ok jf handler_evals)
  have t: "t = map_option (\<lambda>r. (sr_Soldier r, sr_States r)) (find_soldier i (m_backend m))"
    and g: "\<forall>c s sts. GetSoldier i (m_EntityCache m) = Some c \<longrightarrow> t = Some (s, sts) \<longrightarrow> s_GroupID c = s_GroupID s \<and> s_Side c = s_Side s"
    using assms(1) by (simp_all add: soldier_recorded_def)
  have "tell_soldier pl clock i e t = (if j = i then map_option (\<lambda>(s, sts). (s\<lparr>s_DeleteFrame := f\<rparr>, sts)) t else t)"
    by (simp add: tell_soldier_def assms(3) Ok jf)
  with assms(2) g show ?thesis unfolding x
    by (cases "find_soldier i (m_backend m)") (simp_all add: t soldier_recorded_def find_deleted)
qed (use assms in \<open>simp_all add: soldier_recorded_def tell_soldier_def handleSoldierDelete_def handler_evals\<close>)

lemma new_vehicle_recorded:
  assumes "vehicle_recorded i m t" "coherent (snd (handleNewVehicle (mem_if env) pl (clock e) e m))"
    "ev_Command e = '':VEHICLE:CREATE:''"
  shows "vehicle_recorded i (snd (handleNewVehicle (mem_if env) pl (clock e) e m)) (tell_vehicle pl clock i e t)"
proof (cases "ParseVehicle pl (clock e) (ev_Args e)")
  case (Ok v)
  with assms show ?thesis
    by (auto simp: vehicle_recorded_def tell_vehicle_def handleNewVehicle_def handler_evals vehicle_states.lookup_register)
qed (use assms in \<open>simp_all add: vehicle_recorded_def tell_vehicle_def handleNewVehicle_def handler_evals\<close>)

lemma vehicle_state_told:
  assumes R: "vehicle_recorded i m t" and co: "coherent (snd (handleVehicleState (mem_if env) pl (clock e) e m))"
    and e: "ev_Command e = '':VEHICLE:STATE:''"
  shows "vehicle_recorded i (snd (handleVehicleState (mem_if env) pl (clock e) e m)) (tell_vehicle pl clock i e t)"
proof (cases "ParseVehicleState pl (clock e) (ev_Args e)")
  case (Ok st)
  have m: "coherent m" and t: "t = map_option (\<lambda>r. (vr_Vehicle r, vr_States r)) (find_vehicle i (m_backend m))"
    using R by (simp_all add: vehicle_recorded_def)
  have tell: "tell_vehicle pl clock i e t = (if vs_VehicleID st = i then map_option (\<lambda>(v, sts). (v, sts @ [st])) t else t)"
    by (simp add: tell_vehicle_def e Ok)
  show ?thesis
  proof (cases "GetVehicle (vs_VehicleID st) (m_EntityCache m)")
    case None
    then have "find_vehicle (vs_VehicleID st) (m_backend m) = None" using coherentD(4) [OF m] by simp
    with R None Ok e show ?thesis
      by (auto simp: vehicle_recorded_def tell_vehicle_def handleVehicleState_def handler_evals)
  next
    case (Some c)
    have x: "snd (handleVehicleState (mem_if env) pl (clock e) e m) =
        m\<lparr>m_backend := mem_RecordVehicleState st (m_backend m)\<rparr>"
      by (simp add: handleVehicleState_def Ok Some handler_evals)
    show ?thesis using co unfolding x tell
      by (cases "find_vehicle i (m_backend m)") (simp_all add: t vehicle_recorded_def vehicle_states.lookup_record)
  qed
qed (use assms in \<open>simp_all add: vehicle_recorded_def tell_vehicle_def handleVehicleState_def handler_evals\<close>)

lemma vehicle_delete_told:
  assumes "vehicle_recorded i m t" "coherent (snd (handleVehicleDelete (mem_if env) pl (clock e) e m))"
    "ev_Command e = '':VEHICLE:DELETE:''"
  shows "vehicle_recorded i (snd (handleVehicleDelete (mem_if env) pl (clock e) e m)) (tell_vehicle pl clock i e t)"
proof (cases "ParseVehicleDelete pl (ev_Args e)")
  case (Ok jf)
  obtain j f where jf: "jf = (j, f)" by (cases jf)
  have x: "snd (handleVehicleDelete (mem_if env) pl (clock e) e m) = m\<lparr>m_backend := mem_DeleteVehicle j f (m_backend m)\<rparr>"
    by (simp add: handleVehicleDelete_def Ok jf handler_evals)
  have t: "t = map_option (\<lambda>r. (vr_Vehicle r, vr_States r)) (find_vehicle i (m_backend m))"
    using assms(1) by (simp add: vehicle_recorded_def)
  have "tell_vehicle pl clock i e t = (if j = i then map_option (\<lambda>(v, sts). (v\<lparr>v_DeleteFrame := f\<rparr>, sts)) t else t)"
    by (simp add: tell_vehicle_def assms(3) Ok jf)
  with assms(2) show ?thesis unfolding x
    by (cases "find_vehicle i (m_backend m)") (simp_all add: t vehicle_recorded_def find_deleted)
qed (use assms in \<open>simp_all add: vehicle_recorded_def tell_vehicle_def handleVehicleDelete_def handler_evals\<close>)

section \<open>Every run records what was told\<close>

interpretation told_soldiers: command_simulation "soldier_recorded i" "tell_soldier pl clock i" soldier_commands for i pl clock
  by unfold_locales (simp add: tell_soldier_def soldier_commands_def)

interpretation told_vehicles: command_simulation "vehicle_recorded i" "tell_vehicle pl clock i" vehicle_commands for i pl clock
  by unfold_locales (simp add: tell_vehicle_def vehicle_commands_def)

lemma soldiers_follow:
  assumes h: "(c, h, opts) \<in> set (worker_handlers (mem_if env) pl clock)"
  shows "told_soldiers.follows i pl clock c h"
  unfolding told_soldiers.follows_def
proof (intro allI impI)
  fix e :: event and m :: "backend manager" and t
  assume e: "ev_Command e = c" and R: "soldier_recorded i m t"
  have co: "coherent (snd (h e m))" using coherent_handlers [OF h] R by (simp add: soldier_recorded_def)
  show "soldier_recorded i (snd (h e m)) (tell_soldier pl clock i e t)"
  proof (cases "c \<in> soldier_commands")
    case False
    then have "soldiers_seen.seen i (snd (h e m)) = soldiers_seen.seen i m" by (rule soldier_bystanders [OF h])
    then show ?thesis
      using R co told_soldiers.untold [of e] False e by (simp add: soldier_recorded_def soldiers_seen.seen_def)
  next
    case True
    then consider "c = '':SOLDIER:CREATE:''" "h = (\<lambda>e. handleNewSoldier (mem_if env) pl (clock e) e)"
      | "c = '':SOLDIER:STATE:''" "h = (\<lambda>e. handleSoldierState (mem_if env) pl (clock e) e)"
      | "c = '':SOLDIER:DELETE:''" "h = (\<lambda>e. handleSoldierDelete (mem_if env) pl (clock e) e)"
      using h by (auto simp: worker_handlers_def soldier_commands_def)
    then show ?thesis
      using new_soldier_recorded [OF R] soldier_state_told [OF R] soldier_delete_told [OF R] e co by cases simp_all
  qed
qed

lemma vehicles_follow:
  assumes h: "(c, h, opts) \<in> set (worker_handlers (mem_if env) pl clock)"
  shows "told_vehicles.follows i pl clock c h"
  unfolding told_vehicles.follows_def
proof (intro allI impI)
  fix e :: event and m :: "backend manager" and t
  assume e: "ev_Command e = c" and R: "vehicle_recorded i m t"
  have co: "coherent (snd (h e m))" using coherent_handlers [OF h] R by (simp add: vehicle_recorded_def)
  show "vehicle_recorded i (snd (h e m)) (tell_vehicle pl clock i e t)"
  proof (cases "c \<in> vehicle_commands")
    case False
    then have "vehicles_seen.seen i (snd (h e m)) = vehicles_seen.seen i m" by (rule vehicle_bystanders [OF h])
    then show ?thesis
      using R co told_vehicles.untold [of e] False e by (simp add: vehicle_recorded_def vehicles_seen.seen_def)
  next
    case True
    then consider "c = '':VEHICLE:CREATE:''" "h = (\<lambda>e. handleNewVehicle (mem_if env) pl (clock e) e)"
      | "c = '':VEHICLE:STATE:''" "h = (\<lambda>e. handleVehicleState (mem_if env) pl (clock e) e)"
      | "c = '':VEHICLE:DELETE:''" "h = (\<lambda>e. handleVehicleDelete (mem_if env) pl (clock e) e)"
      using h by (auto simp: worker_handlers_def vehicle_commands_def)
    then show ?thesis
      using new_vehicle_recorded [OF R] vehicle_state_told [OF R] vehicle_delete_told [OF R] e co by cases simp_all
  qed
qed

lemma started_recorded:
  "soldier_recorded i (NewManager NewEntityCache NewMarkerCache (mem_StartMission ms w b)) None"
  "vehicle_recorded i (NewManager NewEntityCache NewMarkerCache (mem_StartMission ms w b)) None"
  by (simp_all add: soldier_recorded_def vehicle_recorded_def coherent_start)
    (simp_all add: NewManager_def find_soldier_def find_vehicle_def mem_StartMission_def resetCollections_def)

lemma run_recorded:
  assumes "druns (RegisterHandlers (mem_if env) pl clock
      (new_dispatcher (NewManager NewEntityCache NewMarkerCache (mem_StartMission ms w b)))) tr d"
    "\<forall>c. Registered c \<notin> set tr"
  shows "soldier_recorded i (d_world d) (fold (tell_soldier pl clock i) (executed tr) None)"
    "vehicle_recorded i (d_world d) (fold (tell_vehicle pl clock i) (executed tr) None)"
proof -
  have c: "soldier_commands \<subseteq> fst ` set (worker_handlers (mem_if env) pl clock)"
    "vehicle_commands \<subseteq> fst ` set (worker_handlers (mem_if env) pl clock)"
    by (simp_all add: soldier_commands_def vehicle_commands_def worker_handlers_def)
  let ?w = "NewManager NewEntityCache NewMarkerCache (mem_StartMission ms w b)"
  have "\<forall>(c, h, opts) \<in> set (worker_handlers (mem_if env) pl clock). told_soldiers.follows i pl clock c h"
    using soldiers_follow by blast
  from told_soldiers.Registers_simulated [OF this c(1), of ?w] told_soldiers.run_simulated [OF assms(1) _ _ assms(2)]
  show "soldier_recorded i (d_world d) (fold (tell_soldier pl clock i) (executed tr) None)"
    using started_recorded(1) [of i ms w b] by (simp add: RegisterHandlers_def)
  have "\<forall>(c, h, opts) \<in> set (worker_handlers (mem_if env) pl clock). told_vehicles.follows i pl clock c h"
    using vehicles_follow by blast
  from told_vehicles.Registers_simulated [OF this c(2), of ?w] told_vehicles.run_simulated [OF assms(1) _ _ assms(2)]
  show "vehicle_recorded i (d_world d) (fold (tell_vehicle pl clock i) (executed tr) None)"
    using started_recorded(2) [of i ms w b] by (simp add: RegisterHandlers_def)
qed

end
