(* ===== verification/Recording_Markers.thy ===== *)
theory Recording_Markers
  imports Recording
begin

text \<open>
  What the messages tell about the marker of a name, and that it is recorded. The worker finds a marker's ID under
  its name in the cache and the backend its record under the ID; here the way there and back is
  closed. The backend numbers its markers with 64 bits.
\<close>

section \<open>What the messages tell\<close>

type_synonym marker_story = "(marker \<times> marker_move list) option"

definition tell_marker :: "platform \<Rightarrow> (event \<Rightarrow> gtime) \<Rightarrow> string \<Rightarrow> event \<Rightarrow> marker_story \<Rightarrow> marker_story" where
  "tell_marker pl clock n e t =
     (if ev_Command e = '':MARKER:CREATE:'' then
        (case ParseMarkerCreate pl (clock e) (ev_Args e) of
           Ok mk \<Rightarrow> if mk_MarkerName mk = n then Some (mk, []) else t | _ \<Rightarrow> t)
      else if ev_Command e = '':MARKER:STATE:'' then
        (case ParseMarkerMove pl (clock e) (ev_Args e) of
           Ok mv \<Rightarrow> if mm_MarkerName mv = n then map_option (\<lambda>(mk, mvs). (mk, mvs @ [mv])) t else t | _ \<Rightarrow> t)
      else if ev_Command e = '':MARKER:DELETE:'' then
        (case ParseMarkerDelete pl (ev_Args e) of
           Ok dm \<Rightarrow> if dm_Name dm = n then map_option (\<lambda>(mk, mvs). (mk\<lparr>mk_EndFrame := dm_EndFrame dm\<rparr>, mvs)) t else t | _ \<Rightarrow> t)
      else t)"

definition marker_commands :: "string set" where
  "marker_commands = {'':MARKER:CREATE:'', '':MARKER:STATE:'', '':MARKER:DELETE:''}"

text \<open>The record of a marker that got the ID \<open>i\<close>.\<close>

definition told_marker :: "guint \<Rightarrow> marker \<times> marker_move list \<Rightarrow> marker_record" where
  "told_marker i = (\<lambda>(mk, mvs). \<lparr>mr_Marker = mk\<lparr>mk_ID := i\<rparr>, mr_States = map (move_state i) mvs\<rparr>)"

definition marker_recorded :: "string \<Rightarrow> backend manager \<Rightarrow> marker_story \<Rightarrow> bool" where
  "marker_recorded n m t = (coherent m \<and> (length (b_heap (m_backend m)) < 2 ^ 64 \<longrightarrow>
     (\<exists>i. map_of (exported_markers (m_backend m)) n = map_option (told_marker i) t)))"

section \<open>Handlers that leave the markers alone\<close>

definition marker_calm :: "backend_call \<Rightarrow> bool" where
  "marker_calm c = (\<not> lifecycle c \<and> (case c of CallAddMarker mk \<Rightarrow> False | CallRecordMarkerState s \<Rightarrow> False
     | CallDeleteMarker d \<Rightarrow> False | _ \<Rightarrow> True))"

lemma markers_calm:
  "marker_calm c \<Longrightarrow> (b_markers (snd (mem_if env c b)), b_heap (snd (mem_if env c b))) = (b_markers b, b_heap b)"
  by (cases c; simp add: marker_calm_def mem_if_def ok_def case_prod_beta mem_defs focus_frame marker_frame Let_def)

interpretation markers_seen: bystander "\<lambda>b. (b_markers b, b_heap b)" "\<lambda>_. ()" marker_calm
  by unfold_locales (rule markers_calm)

lemma marker_calm_simps [simp]:
  "marker_calm (CallAddSoldier s)" "marker_calm (CallAddVehicle v)" "marker_calm (CallDeleteSoldier i f)"
  "marker_calm (CallDeleteVehicle i f)" "marker_calm (CallRecordSoldierState s1)" "marker_calm (CallRecordVehicleState s2)"
  "marker_calm (CallRecordProjectileEvent e2)" "marker_calm (CallRecordGeneralEvent e3)"
  "marker_calm (CallRecordSectorEvent e4)" "marker_calm (CallRecordEndMissionEvent e5)"
  "marker_calm (CallRecordKillEvent e7)" "marker_calm (CallRecordChatEvent e8)"
  "marker_calm (CallRecordRadioEvent e9)" "marker_calm (CallRecordTelemetryEvent e10)"
  "marker_calm (CallRecordTimeState e11)" "marker_calm (CallRecordAce3DeathEvent e12)"
  "marker_calm (CallRecordAce3UnconsciousEvent e13)" "marker_calm (CallAddPlacedObject p)"
  "marker_calm (CallRecordPlacedObjectEvent e14)" "marker_calm (CallSetFocusStart f)" "marker_calm (CallSetFocusEnd f)"
  by (simp_all add: marker_calm_def)

lemma marker_bystanders:
  assumes "(c, h, opts) \<in> set (worker_handlers (mem_if env) pl clock)" "c \<notin> marker_commands"
  shows "markers_seen.seen (snd (h e m)) = markers_seen.seen m"
  using assms
  by (simp add: worker_handlers_def marker_commands_def)
    (elim disjE; simp; (simp only: handler_defs)?; rule markers_seen.seen_parsed;
      simp add: Let_def markers_seen.seen_call markers_seen.seen_cache split: option.split prod.split)

section \<open>Records found by name and by ID\<close>

lemma exported_marker:
  "map_of (exported_markers b) n = map_option ((!) (b_heap b)) (map_of (b_markers b) n)"
  by (simp add: exported_markers_def buildMissionDataUnlocked_def map_of_map)

lemma marker_at:
  assumes "wf_markers b" "map_of (b_markers b) n = Some a"
  shows "a < length (b_heap b)" "mk_MarkerName (mr_Marker (b_heap b ! a)) = n" "mk_ID (mr_Marker (b_heap b ! a)) = of_nat (a + 1)"
  using assms(1) map_of_SomeD [OF assms(2)] by (auto simp: wf_markers_def)

lemma distinct_marker_IDs:
  assumes wf: "wf_markers b" and small: "length (b_heap b) < 2 ^ 64"
    and r: "map_of (exported_markers b) n = Some r" "map_of (exported_markers b) k = Some r'"
    and ID: "mk_ID (mr_Marker r) = mk_ID (mr_Marker r')"
  shows "n = k"
proof -
  obtain a a' where a: "map_of (b_markers b) n = Some a" "r = b_heap b ! a" "map_of (b_markers b) k = Some a'" "r' = b_heap b ! a'"
    using r by (auto simp: exported_marker)
  have "(of_nat (a + 1) :: guint) = of_nat (a' + 1)"
    using ID marker_at(3) [OF wf a(1)] marker_at(3) [OF wf a(3)] a by simp
  then have "a = a'"
    using of_nat_guint_eq [of "a + 1" "a' + 1"] marker_at(1) [OF wf a(1)] marker_at(1) [OF wf a(3)] small by simp
  with a show ?thesis using marker_at(2) [OF wf a(1)] marker_at(2) [OF wf a(3)] by simp
qed

lemma deleted_marker:
  assumes wf: "wf_markers b"
  shows "map_of (exported_markers (mem_DeleteMarker d b)) n =
    map_option (\<lambda>r. if n = dm_Name d then r\<lparr>mr_Marker := (mr_Marker r)\<lparr>mk_EndFrame := dm_EndFrame d\<rparr>\<rparr> else r)
      (map_of (exported_markers b) n)"
proof (cases "map_of (b_markers b) n")
  case (Some a)
  note a = marker_at [OF wf Some]
  show ?thesis
  proof (cases "map_of (b_markers b) (dm_Name d)")
    case (Some a')
    note a' = marker_at [OF wf this]
    have "a = a' \<longleftrightarrow> n = dm_Name d" using a(2) a'(2) \<open>map_of (b_markers b) n = Some a\<close> Some by auto
    with a(1) Some \<open>map_of (b_markers b) n = Some a\<close> show ?thesis
      by (cases "a = a'") (simp_all add: exported_marker mem_DeleteMarker_def update_marker_def)
  next
    case None
    with Some show ?thesis by (auto simp: exported_marker mem_DeleteMarker_def update_marker_def)
  qed
qed (simp add: exported_marker mem_DeleteMarker_def marker_frame)

lemma deleted_heap: "length (b_heap (mem_DeleteMarker d b)) = length (b_heap b)"
  "length (b_heap (mem_RecordMarkerState st b)) = length (b_heap b)"
  by (simp_all add: mem_DeleteMarker_def mem_RecordMarkerState_def update_marker_def split: option.split)

section \<open>Handlers record what is told\<close>

lemma coherent_markers: "coherent m \<Longrightarrow> wf_markers (m_backend m)"
  using coherentD(1) by (simp add: wf_backend_def)

lemma new_marker_recorded:
  assumes R: "marker_recorded n m t" and co: "coherent (snd (handleMarkerCreate (mem_if env) pl (clock e) e m))"
    and e: "ev_Command e = '':MARKER:CREATE:''"
  shows "marker_recorded n (snd (handleMarkerCreate (mem_if env) pl (clock e) e m)) (tell_marker pl clock n e t)"
proof (cases "ParseMarkerCreate pl (clock e) (ev_Args e)")
  case (Ok mk)
  obtain i b where add: "mem_AddMarker mk (m_backend m) = (i, b)" by (cases "mem_AddMarker mk (m_backend m)")
  have b: "m_backend (snd (handleMarkerCreate (mem_if env) pl (clock e) e m)) = b"
    by (simp add: handleMarkerCreate_def Ok mem_if_def add)
  have len: "length (b_heap b) = length (b_heap (m_backend m)) + 1" using add by (auto simp: mem_AddMarker_def Let_def)
  have m: "coherent m" using R by (simp add: marker_recorded_def)
  have tell: "tell_marker pl clock n e t = (if mk_MarkerName mk = n then Some (mk, []) else t)"
    by (simp add: tell_marker_def e Ok)
  have "\<exists>i. map_of (exported_markers b) n = map_option (told_marker i) (tell_marker pl clock n e t)" if "length (b_heap b) < 2 ^ 64"
  proof (cases "mk_MarkerName mk = n")
    case True
    then show ?thesis
      using add_marker_fresh(3) [OF coherent_markers [OF m] _ add] that len tell by (auto simp: told_marker_def)
  next
    case False
    then have "map_of (exported_markers b) n = map_of (exported_markers (m_backend m)) n"
      using add_marker_fresh(4) [OF coherent_markers [OF m] _ add, of n] that len by auto
    with False show ?thesis using R that len tell by (simp add: marker_recorded_def)
  qed
  with co show ?thesis by (simp add: marker_recorded_def b)
qed (use assms in \<open>simp_all add: marker_recorded_def tell_marker_def handleMarkerCreate_def handler_evals\<close>)

lemma marker_move_told:
  assumes R: "marker_recorded n m t" and co: "coherent (snd (handleMarkerMove (mem_if env) pl (clock e) e m))"
    and e: "ev_Command e = '':MARKER:STATE:''"
  shows "marker_recorded n (snd (handleMarkerMove (mem_if env) pl (clock e) e m)) (tell_marker pl clock n e t)"
proof (cases "ParseMarkerMove pl (clock e) (ev_Args e)")
  case (Ok mv)
  have m: "coherent m" using R by (simp add: marker_recorded_def)
  note wf = coherent_markers [OF m]
  have tell: "tell_marker pl clock n e t =
      (if mm_MarkerName mv = n then map_option (\<lambda>(mk, mvs). (mk, mvs @ [mv])) t else t)"
    by (simp add: tell_marker_def e Ok)
  have ID: "marker_id (m_backend m) k = map_option (\<lambda>r. mk_ID (mr_Marker r)) (map_of (exported_markers (m_backend m)) k)" for k
    by (simp add: marker_id_def exported_marker option.map_comp o_def)
  show ?thesis
  proof (cases "Get (mm_MarkerName mv) (m_MarkerCache m)")
    case None
    then have none: "map_of (exported_markers (m_backend m)) (mm_MarkerName mv) = None"
      using coherentD(6) [OF m, of "mm_MarkerName mv"] ID [of "mm_MarkerName mv"] by simp
    have x: "snd (handleMarkerMove (mem_if env) pl (clock e) e m) = m"
      by (simp add: handleMarkerMove_def Ok None fail_def)
    show ?thesis
    proof (cases "mm_MarkerName mv = n")
      case True
      then show ?thesis using R none unfolding x tell by (auto simp: marker_recorded_def)
    qed (use R in \<open>simp add: x tell\<close>)
  next
    case (Some i)
    let ?b = "mem_RecordMarkerState (move_state i mv) (m_backend m)"
    have x: "snd (handleMarkerMove (mem_if env) pl (clock e) e m) = m\<lparr>m_backend := ?b\<rparr>"
      by (simp add: handleMarkerMove_def Ok Some handler_evals)
    have at: "map_of (map (\<lambda>(n, r). (n, f r)) xs) n = map_option f (map_of xs n)"
      for f :: "marker_record \<Rightarrow> marker_record" and xs and n :: string
      by (induction xs) auto
    have "\<exists>i. map_of (exported_markers ?b) n = map_option (told_marker i) (tell_marker pl clock n e t)"
      if small: "length (b_heap (m_backend m)) < 2 ^ 64"
    proof -
      obtain r' where r': "map_of (exported_markers (m_backend m)) (mm_MarkerName mv) = Some r'" "mk_ID (mr_Marker r') = i"
        using coherentD(6) [OF m, of "mm_MarkerName mv"] ID Some by auto
      obtain j where j: "map_of (exported_markers (m_backend m)) n = map_option (told_marker j) t"
        using R small by (auto simp: marker_recorded_def)
      have ex: "map_of (exported_markers ?b) n = map_option (\<lambda>r. if mk_ID (mr_Marker r) = i
          then r\<lparr>mr_States := mr_States r @ [move_state i mv]\<rparr> else r) (map_of (exported_markers (m_backend m)) n)"
        unfolding record_marker_state [OF wf small] at by (simp add: move_state_def)
      have same: "mk_ID (mr_Marker r) = i \<longleftrightarrow> mm_MarkerName mv = n" if "map_of (exported_markers (m_backend m)) n = Some r" for r
        using distinct_marker_IDs [OF wf small that r'(1)] r' that by auto
      show ?thesis
      proof (cases t)
        case (Some mm)
        obtain mk mvs where "mm = (mk, mvs)" by (cases mm)
        with Some j same show ?thesis unfolding ex tell by (auto simp: told_marker_def)
      qed (use j tell in \<open>simp add: ex\<close>)
    qed
    with co show ?thesis unfolding x by (simp add: marker_recorded_def deleted_heap)
  qed
qed (use assms in \<open>simp_all add: marker_recorded_def tell_marker_def handleMarkerMove_def handler_evals\<close>)

lemma marker_delete_told:
  assumes R: "marker_recorded n m t" and co: "coherent (snd (handleMarkerDelete (mem_if env) pl (clock e) e m))"
    and e: "ev_Command e = '':MARKER:DELETE:''"
  shows "marker_recorded n (snd (handleMarkerDelete (mem_if env) pl (clock e) e m)) (tell_marker pl clock n e t)"
proof (cases "ParseMarkerDelete pl (ev_Args e)")
  case (Ok dm)
  have m: "coherent m" using R by (simp add: marker_recorded_def)
  have x: "snd (handleMarkerDelete (mem_if env) pl (clock e) e m) = m\<lparr>m_backend := mem_DeleteMarker dm (m_backend m)\<rparr>"
    by (simp add: handleMarkerDelete_def Ok handler_evals)
  have tell: "tell_marker pl clock n e t =
      (if dm_Name dm = n then map_option (\<lambda>(mk, mvs). (mk\<lparr>mk_EndFrame := dm_EndFrame dm\<rparr>, mvs)) t else t)"
    by (simp add: tell_marker_def e Ok)
  have "\<exists>i. map_of (exported_markers (mem_DeleteMarker dm (m_backend m))) n = map_option (told_marker i) (tell_marker pl clock n e t)"
    if small: "length (b_heap (m_backend m)) < 2 ^ 64"
  proof -
    obtain i where i: "map_of (exported_markers (m_backend m)) n = map_option (told_marker i) t"
      using R small by (auto simp: marker_recorded_def)
    show ?thesis unfolding deleted_marker [OF coherent_markers [OF m]] i tell
      by (rule exI [of _ i]) (cases t; auto simp: told_marker_def)
  qed
  with co show ?thesis unfolding x by (simp add: marker_recorded_def deleted_heap)
qed (use assms in \<open>simp_all add: marker_recorded_def tell_marker_def handleMarkerDelete_def handler_evals\<close>)

section \<open>Every run records what was told\<close>

interpretation told_markers: command_simulation "marker_recorded n" "tell_marker pl clock n" marker_commands for n pl clock
  by unfold_locales (simp add: tell_marker_def marker_commands_def)

lemma markers_follow:
  assumes h: "(c, h, opts) \<in> set (worker_handlers (mem_if env) pl clock)"
  shows "told_markers.follows n pl clock c h"
  unfolding told_markers.follows_def
proof (intro allI impI)
  fix e :: event and m :: "backend manager" and t
  assume e: "ev_Command e = c" and R: "marker_recorded n m t"
  have co: "coherent (snd (h e m))" using coherent_handlers [OF h] R by (simp add: marker_recorded_def)
  show "marker_recorded n (snd (h e m)) (tell_marker pl clock n e t)"
  proof (cases "c \<in> marker_commands")
    case False
    then have "markers_seen.seen (snd (h e m)) = markers_seen.seen m" by (rule marker_bystanders [OF h])
    then show ?thesis
      using R co told_markers.untold [of e] False e
      by (simp add: marker_recorded_def markers_seen.seen_def exported_marker)
  next
    case True
    then consider "c = '':MARKER:CREATE:''" "h = (\<lambda>e. handleMarkerCreate (mem_if env) pl (clock e) e)"
      | "c = '':MARKER:STATE:''" "h = (\<lambda>e. handleMarkerMove (mem_if env) pl (clock e) e)"
      | "c = '':MARKER:DELETE:''" "h = (\<lambda>e. handleMarkerDelete (mem_if env) pl (clock e) e)"
      using h by (auto simp: worker_handlers_def marker_commands_def)
    then show ?thesis
      using new_marker_recorded [OF R] marker_move_told [OF R] marker_delete_told [OF R] e co by cases simp_all
  qed
qed

lemma run_marker_recorded:
  assumes "druns (RegisterHandlers (mem_if env) pl clock
      (new_dispatcher (NewManager NewEntityCache NewMarkerCache (mem_StartMission ms w b)))) tr d"
    "\<forall>c. Registered c \<notin> set tr"
  shows "marker_recorded n (d_world d) (fold (tell_marker pl clock n) (executed tr) None)"
proof -
  have c: "marker_commands \<subseteq> fst ` set (worker_handlers (mem_if env) pl clock)"
    by (simp add: marker_commands_def worker_handlers_def)
  let ?w = "NewManager NewEntityCache NewMarkerCache (mem_StartMission ms w b)"
  have s: "marker_recorded n ?w None"
    by (simp add: marker_recorded_def coherent_start)
      (simp add: NewManager_def exported_marker mem_StartMission_def resetCollections_def)
  have "\<forall>(c, h, opts) \<in> set (worker_handlers (mem_if env) pl clock). told_markers.follows n pl clock c h"
    using markers_follow by blast
  from told_markers.Registers_simulated [OF this c, of ?w] told_markers.run_simulated [OF assms(1) _ _ assms(2)]
  show ?thesis using s by (simp add: RegisterHandlers_def)
qed

end
