(* ===== verification/Recording_Properties.thy ===== *)
theory Recording_Properties
  imports Recording_Markers Worker_Properties
begin

text \<open>
  From the messages of the game to the exported document: what was told about a soldier or a vehicle
  is what is recorded, and what is exported.
\<close>

section \<open>The entity of a document\<close>

lemma exported_stream:
  "exportJSON env b = Some (Ok (doc, b')) \<Longrightarrow> Stream (buildMissionDataUnlocked b) = Some (Ok doc)"
  by (auto simp: exportJSON_def writeJSON_def Let_def split: option.splits outcome.splits if_splits)

lemma stream_entities_nth:
  "stream_entities data mf fl is = Some (Ok es) \<Longrightarrow> length es = length is \<and>
     (\<forall>k < length is. entity_for_ID data mf (lines_of fl (is ! k)) (is ! k) = Some (es ! k))"
proof (induction "is" arbitrary: es)
  case (Cons i "is")
  then obtain e where e: "entity_for_ID data mf (lines_of fl i) i = Some e" "entity_ok e"
    by (auto simp: unsupported_def split: option.splits if_splits)
  with Cons.prems obtain z where "stream_entities data mf fl is = Some z" "map_ok ((#) e) z = Ok es" by auto
  then obtain es' where es: "stream_entities data mf fl is = Some (Ok es')" "es = e # es'" by (cases z) auto
  show ?case using Cons.IH [OF es(1)] e es(2) by (auto simp: nth_Cons split: nat.split)
qed simp

lemma exported_entity:
  assumes S: "Stream data = Some (Ok doc)" and M: "computeMetadata data = (mf, maxID, True)" and i: "i \<le> maxID"
  obtains ls where "unat i < length (ex_Entities doc)" "entity_for_ID data mf ls i = Some (ex_Entities doc ! unat i)"
    "ex_EndFrame doc = frameToV1 mf"
proof -
  let ?fl = "fold collect_fireline (md_ProjectileEvents data) []"
  have e: "stream_entities data mf ?fl (ids_upto maxID) = Some (Ok (ex_Entities doc))" "ex_EndFrame doc = frameToV1 mf"
    using S M by (auto simp: Stream_def buildAggregates_eq unsupported_def Let_def split: option.splits outcome.splits if_splits)
  have l: "unat i < length (ids_upto maxID)" using i by (simp add: ids_upto_def word_le_nat_alt less_Suc_eq_le del: upt_Suc)
  then have "ids_upto maxID ! unat i = i" by (simp add: ids_upto_def del: upt_Suc)
  then show thesis using stream_entities_nth [OF e(1)] l e(2) that by metis
qed

lemma metadata_bounds:
  assumes "computeMetadata data = (mf, maxID, h)"
  shows "(i, r) \<in> set (md_Soldiers data) \<Longrightarrow> s_ID (sr_Soldier r) \<le> maxID"
    "(i, r) \<in> set (md_Soldiers data) \<Longrightarrow> f \<in> set (soldier_frames r) \<Longrightarrow> f \<le> mf"
    "(i, v) \<in> set (md_Vehicles data) \<Longrightarrow> v_ID (vr_Vehicle v) \<le> maxID"
    "(i, v) \<in> set (md_Vehicles data) \<Longrightarrow> f \<in> set (vehicle_frames v) \<Longrightarrow> f \<le> mf"
    "md_Soldiers data \<noteq> [] \<or> md_Vehicles data \<noteq> [] \<Longrightarrow> h"
proof -
  let ?ss = "map snd (md_Soldiers data)" and ?vs = "map snd (md_Vehicles data)"
  have mf: "mf = Max (insert (Max (insert 0 (\<Union>r \<in> set ?ss. set (soldier_frames r)))) (\<Union>r \<in> set ?vs. set (vehicle_frames r)))"
    and id: "maxID = running_max (map (v_ID \<circ> vr_Vehicle) ?vs) (running_max (map (s_ID \<circ> sr_Soldier) ?ss) 0)"
    and h: "h = (0 < length ?ss \<or> 0 < length ?vs)"
    using assms by (auto simp: computeMetadata_def Let_def running_max_Max image_image)
  show "s_ID (sr_Soldier r) \<le> maxID" if "(i, r) \<in> set (md_Soldiers data)"
    using that unfolding id by (intro order_trans [OF running_max_ge(2) running_max_ge(1)]) force
  show "v_ID (vr_Vehicle v) \<le> maxID" if "(i, v) \<in> set (md_Vehicles data)"
    using that unfolding id by (intro running_max_ge(2)) force
  show "f \<le> mf" if "(i, r) \<in> set (md_Soldiers data)" "f \<in> set (soldier_frames r)"
  proof -
    have "f \<le> Max (insert 0 (\<Union>r \<in> set ?ss. set (soldier_frames r)))" using that by (intro Max_ge) force+
    also have "\<dots> \<le> mf" unfolding mf by (intro Max_ge) auto
    finally show ?thesis .
  qed
  show "f \<le> mf" if "(i, v) \<in> set (md_Vehicles data)" "f \<in> set (vehicle_frames v)"
    using that unfolding mf by (intro Max_ge) force+
  show h if "md_Soldiers data \<noteq> [] \<or> md_Vehicles data \<noteq> []" using that by (auto simp: h)
qed

lemma entity_positions:
  "buildSoldierEntity r mf ls = Some e \<Longrightarrow>
     soldier_positions (s_DeleteFrame (sr_Soldier r)) mf (sr_States r) [] = Some (en_Positions e)"
  by (cases e) (auto simp: buildSoldierEntity_def Let_def split: prod.splits)

text \<open>The soldier of an ID, as the document has it.\<close>

lemma recorded_soldier_exported:
  assumes wf: "wf_backend b" and X: "exportJSON env b = Some (Ok (doc, b'))"
    and R: "data_in_range (buildMissionDataUnlocked b)" and r: "find_soldier i b = Some r"
    and sts: "sr_States r \<noteq> []" "sorted (map (uint \<circ> ss_CaptureFrame) (sr_States r))"
    and del: "s_DeleteFrame (sr_Soldier r) \<noteq> 0 \<Longrightarrow> ss_CaptureFrame (last (sr_States r)) \<le> s_DeleteFrame (sr_Soldier r)"
  obtains e ls mf where "unat i < length (ex_Entities doc)" "ex_Entities doc ! unat i = e"
    "ex_EndFrame doc = uint mf - 1" "buildSoldierEntity r mf ls = Some e" "s_ID (sr_Soldier r) = i"
    "int (length (en_Positions e)) = uint (last_frame (s_DeleteFrame (sr_Soldier r)) mf) + 1
      - uint (ss_CaptureFrame (hd (sr_States r)))"
    "\<forall>k < length (en_Positions e). en_Positions e ! k =
       soldier_row (active_state (sr_States r) (uint (ss_CaptureFrame (hd (sr_States r))) + int k))"
proof -
  let ?data = "buildMissionDataUnlocked b"
  obtain mf maxID h where M: "computeMetadata ?data = (mf, maxID, h)" by (metis prod_cases3)
  have m: "map_of (md_Soldiers ?data) i = Some r" using r by (simp add: find_soldier_def buildMissionDataUnlocked_def)
  note mem = map_of_SomeD [OF m]
  have k: "s_ID (sr_Soldier r) = i" using wf_export_data(1) [OF wf] mem by (auto simp: keyed_by_ID_def)
  have i: "i \<le> maxID" using metadata_bounds(1) [OF M] mem k by auto
  have "md_Soldiers ?data \<noteq> []" using mem by auto
  then have h using metadata_bounds(5) [OF M] by blast
  then have M': "computeMetadata ?data = (mf, maxID, True)" using M by simp
  obtain ls where e: "unat i < length (ex_Entities doc)" "entity_for_ID ?data mf ls i = Some (ex_Entities doc ! unat i)"
    "ex_EndFrame doc = frameToV1 mf"
    by (rule exported_entity [OF exported_stream [OF X] M' i])
  have small: "uint mf < 2 ^ 63" using max_in_range [OF R] M by simp
  have range: "soldier_in_range r" using R mem by (auto simp: data_in_range_def)
  have last: "ss_CaptureFrame (last (sr_States r)) \<le> mf"
    using metadata_bounds(2) [OF M mem] sts(1) by (auto simp: soldier_frames_def)
  have le: "uint (ss_CaptureFrame (last (sr_States r))) \<le> uint (last_frame (s_DeleteFrame (sr_Soldier r)) mf)"
    using last del by (auto simp: last_frame_def word_le_def [symmetric])
  have lt: "uint (last_frame (s_DeleteFrame (sr_Soldier r)) mf) < 2 ^ 63"
    using range small by (simp add: last_frame_def soldier_in_range_def)
  have B: "buildSoldierEntity r mf ls = Some (ex_Entities doc ! unat i)" using e(2) m by (simp add: entity_for_ID_def)
  obtain ps where ps: "soldier_positions (s_DeleteFrame (sr_Soldier r)) mf (sr_States r) [] = Some ps"
    "int (length ps) = uint (last_frame (s_DeleteFrame (sr_Soldier r)) mf) + 1 - uint (ss_CaptureFrame (hd (sr_States r)))"
    "\<forall>k < length ps. ps ! k = soldier_row (active_state (sr_States r) (uint (ss_CaptureFrame (hd (sr_States r))) + int k))"
    using soldier_positions_dense_aux [OF sts _ lt le, of "[]"] range
    by (auto simp: soldier_in_range_def frames_ok_def soldier_frames_def)
  have "en_Positions (ex_Entities doc ! unat i) = ps"
    using entity_positions [OF B] ps(1) by simp
  with e(1) B k ps(2,3) e(3) show thesis
    using that [of "ex_Entities doc ! unat i" mf ls] small by (simp add: frameToV1_uint)
qed

section \<open>A run of the worker\<close>

text \<open>A soldier is created; a state of it goes through its buffer.\<close>

definition listening :: "backend manager dispatcher" where
  "listening = RegisterHandlers (mem_if quiet_env) zero_platform (\<lambda>_. ZeroTime) (new_dispatcher fresh_manager)"

lemma Register_later:
  "k \<noteq> c \<Longrightarrow> map_of (d_handlers (Register c h opts d)) k = map_of (d_handlers d) k"
  "d_bufs d \<noteq> [] \<Longrightarrow> d_bufs (Register c h opts d) \<noteq> [] \<and> d_bufs (Register c h opts d) ! 0 = d_bufs d ! 0"
  "d_world (Register c h opts d) = d_world d"
  by (auto simp: Register_def withBuffer_def Let_def map_simps nth_append split: option.split)

text \<open>The first three registrations are the first of a soldier, of a vehicle, and the first buffer.\<close>

definition listening_first :: "backend manager dispatcher" where
  "listening_first = fold (\<lambda>(c, h, opts). Register c h opts)
     (take 3 (worker_handlers (mem_if quiet_env) zero_platform (\<lambda>_. ZeroTime))) (new_dispatcher fresh_manager)"

lemma Registers_later:
  assumes "\<forall>x \<in> set hs. fst x \<noteq> k"
  shows "map_of (d_handlers (fold (\<lambda>(c, h, opts). Register c h opts) hs d)) k = map_of (d_handlers d) k"
    "d_bufs d \<noteq> [] \<Longrightarrow> d_bufs (fold (\<lambda>(c, h, opts). Register c h opts) hs d) \<noteq> [] \<and>
       d_bufs (fold (\<lambda>(c, h, opts). Register c h opts) hs d) ! 0 = d_bufs d ! 0"
    "d_world (fold (\<lambda>(c, h, opts). Register c h opts) hs d) = d_world d"
  using assms by (induction hs arbitrary: d) (auto simp: Register_later)

lemma listening_rest:
  "listening = fold (\<lambda>(c, h, opts). Register c h opts)
     (drop 3 (worker_handlers (mem_if quiet_env) zero_platform (\<lambda>_. ZeroTime))) listening_first"
  unfolding listening_def RegisterHandlers_def listening_first_def
  by (metis append_take_drop_id comp_apply fold_append)

lemma listening_handlers:
  "map_of (d_handlers listening) '':SOLDIER:CREATE:'' = Some (WithLogging '':SOLDIER:CREATE:''
     (Direct (\<lambda>e. handleNewSoldier (mem_if quiet_env) zero_platform ZeroTime e)))"
  "map_of (d_handlers listening) '':SOLDIER:STATE:'' = Some (WithBuffer 0 False)"
  "0 < length (d_bufs listening)"
  "d_bufs listening ! 0 = \<lparr>bu_command = '':SOLDIER:STATE:'', bu_cap = 10000, bu_queue = [], bu_gate = None, bu_open = True,
     bu_current = None, bu_handler = WithLogging '':SOLDIER:STATE:''
       (Direct (\<lambda>e. handleSoldierState (mem_if quiet_env) zero_platform ZeroTime e))\<rparr>"
  "d_world listening = fresh_manager"
proof -
  have later: "\<forall>x \<in> set (drop 3 (worker_handlers (mem_if quiet_env) zero_platform (\<lambda>_. ZeroTime))). fst x \<noteq> k"
    if "k = '':SOLDIER:CREATE:'' \<or> k = '':SOLDIER:STATE:''" for k
    using that by (auto simp: worker_handlers_def)
  have first: "map_of (d_handlers listening_first) '':SOLDIER:CREATE:'' = Some (WithLogging '':SOLDIER:CREATE:''
     (Direct (\<lambda>e. handleNewSoldier (mem_if quiet_env) zero_platform ZeroTime e)))"
    "map_of (d_handlers listening_first) '':SOLDIER:STATE:'' = Some (WithBuffer 0 False)"
    "0 < length (d_bufs listening_first)"
    "d_bufs listening_first ! 0 = \<lparr>bu_command = '':SOLDIER:STATE:'', bu_cap = 10000, bu_queue = [], bu_gate = None, bu_open = True,
       bu_current = None, bu_handler = WithLogging '':SOLDIER:STATE:''
         (Direct (\<lambda>e. handleSoldierState (mem_if quiet_env) zero_platform ZeroTime e))\<rparr>"
    "d_world listening_first = fresh_manager"
    by (simp_all add: listening_first_def worker_handlers_def Register_def withBuffer_def new_dispatcher_def Let_def)
  note l = later [of "'':SOLDIER:CREATE:''", OF disjI1, OF refl] later [of "'':SOLDIER:STATE:''", OF disjI2, OF refl]
  show "map_of (d_handlers listening) '':SOLDIER:CREATE:'' = Some (WithLogging '':SOLDIER:CREATE:''
     (Direct (\<lambda>e. handleNewSoldier (mem_if quiet_env) zero_platform ZeroTime e)))"
    "map_of (d_handlers listening) '':SOLDIER:STATE:'' = Some (WithBuffer 0 False)"
    "0 < length (d_bufs listening)"
    "d_bufs listening ! 0 = \<lparr>bu_command = '':SOLDIER:STATE:'', bu_cap = 10000, bu_queue = [], bu_gate = None, bu_open = True,
       bu_current = None, bu_handler = WithLogging '':SOLDIER:STATE:''
         (Direct (\<lambda>e. handleSoldierState (mem_if quiet_env) zero_platform ZeroTime e))\<rparr>"
    "d_world listening = fresh_manager"
    unfolding listening_rest using Registers_later [OF l(1)] Registers_later [OF l(2)] first by simp_all
qed

definition told_state :: soldier_state where
  "told_state = fill_state (example_soldier 3) ((example_state 3 4)\<lparr>ss_Position := pos_of [(None, 0), (None, 0)]\<rparr>)"

lemma messages_read:
  "ParseSoldier zero_platform ZeroTime (ev_Args create_message) = Ok (example_soldier 3)"
  "ParseSoldierState zero_platform ZeroTime (ev_Args state_message) = Ok ((example_state 3 4)\<lparr>ss_Position := pos_of [(None, 0), (None, 0)]\<rparr>)"
  using ParseSoldier_roundtrip_aux [of 1 3 "example_soldier 3" zero_platform ZeroTime None None]
    ParseSoldierState_roundtrip_aux [of 4 3 "[(None, 0), (None, 0)]" "example_state 3 4" zero_platform ZeroTime None None]
  by (simp_all add: create_message_def soldier_texts_def example_soldier_def bare_ends_def
      state_message_def state_texts_def example_state_def coord_ok_def)

definition told_backend :: backend where
  "told_backend = mem_RecordSoldierState told_state (mem_AddSoldier (example_soldier 3) started)"

lemma handlers_record:
  "\<exists>m. handleNewSoldier (mem_if quiet_env) zero_platform ZeroTime create_message fresh_manager = (Returns ANil None, m) \<and>
    (\<exists>m'. handleSoldierState (mem_if quiet_env) zero_platform ZeroTime state_message m = (Returns ANil None, m') \<and>
      m_backend m' = told_backend)"
  by (simp add: handleNewSoldier_def handleSoldierState_def messages_read handler_evals)
    (simp add: fresh_manager_def NewManager_def told_backend_def told_state_def Let_def)

lemma told_run:
  "\<exists>d. druns listening [Dispatched None create_message (Returns ANil None), Dispatched (Some 0) state_message queued,
       Received 0 state_message, Handled 0 state_message (Returns ANil None)] d \<and> m_backend (d_world d) = told_backend"
proof -
  let ?h = "handleNewSoldier (mem_if quiet_env) zero_platform ZeroTime"
  let ?k = "handleSoldierState (mem_if quiet_env) zero_platform ZeroTime"
  obtain m m' where m: "?h create_message fresh_manager = (Returns ANil None, m)"
    "?k state_message m = (Returns ANil None, m')" "m_backend m' = told_backend" using handlers_record by blast
  have cmd: "ev_Command create_message = '':SOLDIER:CREATE:''" "ev_Command state_message = '':SOLDIER:STATE:''"
    by (simp_all add: create_message_def state_message_def)
  obtain d1 where d1: "Dispatch create_message listening = Some (Returns ANil None, d1)" "d_world d1 = m"
    "d_bufs d1 = d_bufs listening" "d_handlers d1 = d_handlers listening"
    using m(1) listening_handlers by (simp add: Dispatch_def cmd log_msg_def)
  obtain d2 where d2: "Dispatch state_message d1 = Some (queued, d2)" "d_world d2 = m" "d_handlers d2 = d_handlers d1"
    "d_bufs d2 = (d_bufs d1)[0 := (d_bufs d1 ! 0)\<lparr>bu_queue := [state_message]\<rparr>]"
    using d1 listening_handlers by (simp add: Dispatch_def cmd update_buf_def)
  obtain d3 where d3: "receive 0 d2 = Some (state_message, d3)" "d_world d3 = m"
    "d_bufs d3 = (d_bufs d2)[0 := (d_bufs d2 ! 0)\<lparr>bu_queue := [], bu_current := Some state_message\<rparr>]"
    using d1 d2 listening_handlers by (simp add: receive_def update_buf_def)
  obtain d4 where d4: "handle 0 d3 = Some (state_message, Returns ANil None, d4)" "d_world d4 = m'"
    using d1 d2 d3 listening_handlers m(2) by (simp add: handle_def safeHandle_def log_msg_def update_buf_def Let_def)
  have c: "channel_of (ev_Command create_message) listening = None" "channel_of (ev_Command state_message) d1 = Some 0"
    using listening_handlers d1 by (simp_all add: channel_of_def cmd)
  have "druns listening [Dispatched None create_message (Returns ANil None), Dispatched (Some 0) state_message queued,
       Received 0 state_message, Handled 0 state_message (Returns ANil None)] d4"
    using dstep.dispatch [OF d1(1)] dstep.dispatch [OF d2(1)] dstep.receive [OF d3(1)] dstep.handle [OF d4(1)]
    unfolding c druns_simps by blast
  then show ?thesis using m(3) d4(2) by blast
qed

lemma told_story:
  "fold (tell_soldier zero_platform (\<lambda>_. ZeroTime) 3) [create_message, state_message] None =
     Some (example_soldier 3, [told_state])"
  using messages_read
  by (simp add: tell_soldier_def told_state_def create_message_def [THEN arg_cong [where f = ev_Command]]
      state_message_def [THEN arg_cong [where f = ev_Command]])

lemma told_data:
  "buildMissionDataUnlocked told_backend =
     \<lparr>md_Mission = Some example_mission, md_World = Some example_world,
      md_Soldiers = [(3, \<lparr>sr_Soldier = example_soldier 3, sr_States = [told_state], sr_FiredEvents = []\<rparr>)],
      md_Vehicles = [], md_Markers = [], md_PlacedObjects = [], md_GeneralEvents = [], md_SectorEvents = [],
      md_EndMissionEvents = [], md_HitEvents = [], md_KillEvents = [], md_TimeStates = [], md_ProjectileEvents = []\<rparr>"
  by (simp add: buildMissionDataUnlocked_def backend_evals told_backend_def)
    (simp add: told_state_def)

lemma told_frame: "ss_CaptureFrame told_state = 4"
  by (simp add: told_state_def fill_state_def Let_def)

lemma told_row_ok: "\<forall>x \<in> set (soldier_row told_state). any_ok x"
  by (simp add: soldier_row_def told_state_def fill_state_def Let_def pos_of_def pos3_list_def AFloats_def example_state_def finite_f64_def zero_f64_def)

lemma told_document: "\<exists>doc b'. exportJSON quiet_env told_backend = Some (Ok (doc, b')) \<and> ex_EndFrame doc = 3"
proof -
  have p: "soldier_positions 0 4 [told_state] [] = Some [soldier_row told_state]"
    using soldier_positions_single [of told_state 0 4 "[]"] by (simp add: told_frame last_frame_def del: soldier_positions.simps)
  have u: "unat (3 :: u16) = Suc (Suc (Suc 0))" by simp
  have i: "ids_upto 3 = [0, 1, 2, 3]" unfolding ids_upto_def u by simp
  have "\<exists>doc. Stream (buildMissionDataUnlocked told_backend) = Some (Ok doc) \<and> ex_EndFrame doc = 3"
    using told_row_ok
    by (simp add: told_data Stream_def computeMetadata_def running_max_def buildAggregates_eq buildTimes_def
        all_events_def all_markers_def sortedMarkers_def sortedPlacedObjects_def soldier_frames_def told_frame
        List.map_filter_simps Let_def i entity_for_ID_def lines_of_def buildSoldierEntity_def ever_player_def p
        entity_ok_def rows_ok_def zero_entity_def frameToV1_uint example_mission_def finite_f64_def case_prod_beta
        del: soldier_positions.simps)
  moreover have "b_mission told_backend = Some example_mission" by (simp add: told_backend_def backend_evals)
  ultimately show ?thesis by (auto simp: exportJSON_def writeJSON_def quiet_env_def Let_def)
qed

section \<open>Properties\<close>





end
