(* ===== verification/Document_Types.thy ===== *)
theory Document_Types
  imports Recording_Properties
begin

text \<open>
  The rows of a document are slices of \<open>any\<close>; the web frontend reads them by position. The types of
  their columns, and that every document the encoder writes has them.
\<close>

section \<open>Types of columns\<close>

datatype any_type = TInt | TUint | TFloat | TFloat32 | TString | TNumber | TAny | TList any_type | TTuple "any_type list"

fun has_type :: "any_type \<Rightarrow> any \<Rightarrow> bool" and has_types :: "any_type list \<Rightarrow> any list \<Rightarrow> bool" where
  "has_type TInt x = (case x of AInt i \<Rightarrow> True | _ \<Rightarrow> False)"
| "has_type TUint x = (case x of AUint i \<Rightarrow> 0 \<le> i | _ \<Rightarrow> False)"
| "has_type TFloat x = (case x of AFloat r \<Rightarrow> True | _ \<Rightarrow> False)"
| "has_type TFloat32 x = (case x of AFloat32 r \<Rightarrow> True | _ \<Rightarrow> False)"
| "has_type TString x = (case x of AString s \<Rightarrow> True | _ \<Rightarrow> False)"
| "has_type TNumber x = (case x of AInt i \<Rightarrow> True | AUint i \<Rightarrow> 0 \<le> i | _ \<Rightarrow> False)"
| "has_type TAny x = True"
| "has_type (TList t) x = (case x of ASlice xs \<Rightarrow> list_all (has_type t) xs | _ \<Rightarrow> False)"
| "has_type (TTuple ts) x = (case x of ASlice xs \<Rightarrow> has_types ts xs | _ \<Rightarrow> False)"
| "has_types [] xs = (xs = [])"
| "has_types (t # ts) xs = (case xs of [] \<Rightarrow> False | x # xs \<Rightarrow> has_type t x \<and> has_types ts xs)"

section \<open>The columns of a document\<close>

text \<open>A frame and the kind of the event come first; hits and kills name their victim and who did it.\<close>

definition event_columns :: "any_type list list" where
  "event_columns = [[TInt, TString, TAny], [TInt, TString, TAny, TString],
     [TInt, TString, TUint, TTuple [TUint, TString], TFloat32]]"

definition position_columns :: "any_type list list" where
  "position_columns = [[TInt, TList TFloat, TFloat32, TFloat32, TString, TString, TList TFloat, TString, TString, TString],
     [TInt, TList (TList TFloat), TFloat32, TFloat32, TString, TString, TList TFloat, TString, TString, TString],
     [TInt, TList TFloat, TInt, TFloat]]"

definition marker_columns :: "any_type list \<Rightarrow> any_type list" where
  "marker_columns position = [TString, TString, TInt, TInt, TInt, TString, TInt, TList (TTuple position),
     TList TFloat, TString, TString]"

definition unit_columns :: "any_type list" where
  "unit_columns = [TList TFloat, TUint, TUint, TNumber, TString, TInt, TString, TString, TString]"

definition vehicle_columns :: "any_type list" where
  "vehicle_columns = [TList TFloat, TUint, TInt, TAny, TTuple [TInt, TInt]]"

definition event_typed :: "any list \<Rightarrow> bool" where
  "event_typed r = list_ex (\<lambda>ts. has_types ts r) event_columns"

definition marker_typed :: "any list \<Rightarrow> bool" where
  "marker_typed r = list_ex (\<lambda>ts. has_types (marker_columns ts) r) position_columns"

definition entity_typed :: "entity \<Rightarrow> bool" where
  "entity_typed e =
     (if en_Type e = ''unit'' then list_all (has_types unit_columns) (en_Positions e)
      else if en_Type e = ''vehicle'' then list_all (has_types vehicle_columns) (en_Positions e)
      else en_Positions e = [])"

section \<open>Every row has its type\<close>

lemma floats_typed [simp]: "has_type (TList TFloat) (AFloats xs)"
  by (simp add: AFloats_def list_all_iff)

lemma rows_typed [simp]: "has_type (TList (TTuple ts)) (ARows rs) = list_all (has_types ts) rs"
  by (auto simp: ARows_def list_all_iff)

lemma points_typed [simp]: "has_type (TList t) (ASlice (map f xs)) = (\<forall>x \<in> set xs. has_type t (f x))"
  by (auto simp: list_all_iff)

lemma events_typed: "r \<in> set (all_events data) \<Longrightarrow> event_typed r"
  by (auto simp: all_events_def event_typed_def event_columns_def buildGeneralEvent_def sector_row_def
      end_mission_row_def hit_row_def kill_row_def placed_hits_def projectile_hits_def Let_def
      List.map_filter_def split: option.splits any.splits if_splits)

lemma marker_positions_typed:
  "\<exists>ts \<in> set position_columns. list_all (has_types ts) (marker_positions record)"
  by (cases "mk_Shape (mr_Marker record) = ''POLYLINE''")
    (simp_all add: position_columns_def marker_positions_def Let_def list_all_iff del: has_type.simps(8))

lemma marker_typed_row:
  "ts \<in> set position_columns \<Longrightarrow> list_all (has_types ts) rows \<Longrightarrow>
     marker_typed [AString a, AString b, AInt c, AInt d, AInt e, AString f, AInt g, ARows rows, AFloats sz, AString h, AString i]"
  unfolding marker_typed_def marker_columns_def list_ex_iff by (rule bexI) (simp_all del: has_type.simps(8))

lemma icon_rows: "[TInt, TList TFloat, TInt, TFloat] \<in> set position_columns"
  by (simp add: position_columns_def)

lemma markers_typed:
  assumes "r \<in> set (all_markers data)"
  shows "marker_typed r"
proof -
  have "marker_typed (marker_row x)" for x
    using marker_positions_typed [of x] marker_typed_row by (force simp: marker_row_def Let_def)
  moreover have "marker_typed (placed_row x)" for x
    by (auto simp: placed_row_def Let_def list_all_iff simp del: has_type.simps(8) intro!: marker_typed_row [OF icon_rows])
  moreover have "marker_typed (projectile_row vs x)" for vs x
    by (auto simp: projectile_row_def Let_def list_all_iff simp del: has_type.simps(8) intro!: marker_typed_row [OF icon_rows]
        split: prod.split)
  ultimately show ?thesis using assms by (auto simp: all_markers_def projectile_markers_def split: if_splits)
qed

lemma gap_fill_set: "gap_fill f e p acc = Some r \<Longrightarrow> set r \<subseteq> insert p (set acc)"
proof (induction f e p acc r rule: gap_fill.raw_induct [rotated, consumes 1])
  case (1 gap f e p acc r)
  then show ?case by (fastforce split: if_splits)
qed

lemma soldier_row_typed: "has_types unit_columns (soldier_row st)"
  by (simp add: unit_columns_def soldier_row_def del: has_type.simps(8) split: option.split)

lemma soldier_positions_typed:
  "soldier_positions d m sts acc = Some ps \<Longrightarrow> list_all (has_types unit_columns) acc \<Longrightarrow> list_all (has_types unit_columns) ps"
proof (induction sts arbitrary: acc)
  case (Cons st sts)
  then obtain acc' where acc': "gap_fill (frameToV1 (ss_CaptureFrame st)) (end_frame d m (map ss_CaptureFrame sts)) (soldier_row st) acc
      = Some acc'" "soldier_positions d m sts acc' = Some ps" by (auto simp: bind_eq_Some_conv)
  have "list_all (has_types unit_columns) acc'"
    using gap_fill_set [OF acc'(1)] Cons.prems(2) soldier_row_typed by (auto simp: list_all_iff)
  then show ?case by (rule Cons.IH [OF acc'(2)])
qed simp

lemma vehicle_positions_typed: "list_all (has_types vehicle_columns) (vehicle_positions d m sts)"
  by (induction sts) (simp_all add: vehicle_columns_def del: has_type.simps(8))

lemma entity_for_ID_typed: "entity_for_ID data mf ls i = Some e \<Longrightarrow> entity_typed e"
proof (cases "map_of (md_Soldiers data) i")
  case (Some r)
  assume e: "entity_for_ID data mf ls i = Some e"
  then have "en_Type e = ''unit''" "soldier_positions (s_DeleteFrame (sr_Soldier r)) mf (sr_States r) [] = Some (en_Positions e)"
    using Some entity_positions by (auto simp: entity_for_ID_def buildSoldierEntity_def Let_def split: prod.splits)
  then show ?thesis using soldier_positions_typed by (simp add: entity_typed_def)
next
  case None
  assume "entity_for_ID data mf ls i = Some e"
  with None vehicle_positions_typed show ?thesis
    by (auto simp: entity_for_ID_def entity_typed_def buildVehicleEntity_def zero_entity_def Let_def split: option.splits)
qed

section \<open>Property\<close>



end
