(* ===== verification/Upload.thy ===== *)
theory Upload
  imports GoFloat Core_Types
begin

text \<open>
  internal/api/client.go: the upload of a finished file as a multipart form. A goroutine writes the form into a pipe
  while the HTTP client reads it; the form is modelled byte for byte, with the parts of
  mime/multipart. The environment is what the operating system and the HTTP client answer.
\<close>

section \<open>Numbers in a form\<close>

text \<open>\<open>%f\<close>: six decimals, correctly rounded.\<close>

definition format_fixed6 :: "rat \<Rightarrow> string" where
  "format_fixed6 q =
     (let n = round_half_even (\<bar>q\<bar> * 1000000); frac = format_nonneg (n mod 1000000)
      in (if q < 0 then ''-'' else []) @ format_nonneg (n div 1000000) @ ''.'' @ replicate (6 - length frac) CHR ''0'' @ frac)"

fun format_f :: "f64 \<Rightarrow> string" where
  "format_f (FNum q) = format_fixed6 q"
| "format_f FNegZero = ''-0.000000''"
| "format_f FPosInf = ''+Inf''"
| "format_f FNegInf = ''-Inf''"
| "format_f FNaN = ''NaN''"

section \<open>The client\<close>

definition PathPrefix :: string where
  "PathPrefix = ''/api''"

record client =
  cl_baseURL :: string
  cl_apiKey :: string
  cl_timeout :: int

text \<open>Ten minutes, in nanoseconds.\<close>

definition DefaultUploadTimeout :: int where
  "DefaultUploadTimeout = 600000000000"

definition NewWithConfig :: "string \<Rightarrow> string \<Rightarrow> int \<Rightarrow> client" where
  "NewWithConfig baseURL apiKey uploadTimeout =
     \<lparr>cl_baseURL = trim_right_char CHR ''/'' baseURL @ PathPrefix, cl_apiKey = apiKey,
      cl_timeout = (if uploadTimeout \<le> 0 then DefaultUploadTimeout else uploadTimeout)\<rparr>"

definition api_New :: "string \<Rightarrow> string \<Rightarrow> client" where
  "api_New baseURL apiKey = NewWithConfig baseURL apiKey 0"

text \<open>
  The environment. A file is the chunks its reads return, and the error after them if they end in
  one. \<open>ue_takes\<close>: after how many bytes the HTTP client closes the body; \<open>None\<close>, it reads all. \<open>ue_do\<close>: the
  status of the response, or the error of the request.
\<close>

record upload_env =
  ue_open :: "string \<Rightarrow> go_err + (string list \<times> go_err option)"
  ue_base :: "string \<Rightarrow> string"
  ue_quote :: "string \<Rightarrow> string"
  ue_boundary :: string
  ue_takes :: "nat option"
  ue_request :: "string \<Rightarrow> go_err option"
  ue_do :: "go_err + int"
  ue_get :: "string \<Rightarrow> go_err + int"

definition Healthcheck :: "upload_env \<Rightarrow> client \<Rightarrow> go_err option" where
  "Healthcheck E c = (case ue_get E (cl_baseURL c @ ''/healthcheck'') of
     Inl err \<Rightarrow> Some (Errorf ''healthcheck request failed: %w'' [ArgErr err])
   | Inr status \<Rightarrow> if status \<noteq> 200 then Some (Errorf ''healthcheck returned status %d'' [ArgInt status]) else None)"

section \<open>The pipe and the form\<close>

definition ErrClosedPipe :: go_err where
  "ErrClosedPipe = Errorf ''io: read/write on closed pipe'' []"

text \<open>What was taken from the pipe; the last part, and whether a write to it failed.\<close>

record form =
  fm_sent :: string
  fm_lastpart :: "bool option"

definition new_form :: form where
  "new_form = \<lparr>fm_sent = [], fm_lastpart = None\<rparr>"

definition pipe_write :: "nat option \<Rightarrow> string \<Rightarrow> form \<Rightarrow> bool \<times> form" where
  "pipe_write takes p f = (case takes of
     None \<Rightarrow> (True, f\<lparr>fm_sent := fm_sent f @ p\<rparr>)
   | Some n \<Rightarrow>
       if length (fm_sent f) + length p \<le> n then (True, f\<lparr>fm_sent := fm_sent f @ p\<rparr>)
       else (False, f\<lparr>fm_sent := take n (fm_sent f @ p)\<rparr>))"

definition crlf :: string where
  "crlf = [CHR 0x0D, CHR 0x0A]"

definition part_text :: "upload_env \<Rightarrow> bool \<Rightarrow> string list \<Rightarrow> string" where
  "part_text E first headers =
     (if first then [] else crlf) @ ''--'' @ ue_boundary E @ crlf @ concat (map (\<lambda>h. h @ crlf) headers) @ crlf"

definition create_part :: "upload_env \<Rightarrow> string list \<Rightarrow> form \<Rightarrow> bool \<times> form" where
  "create_part E headers f =
     (if fm_lastpart f = Some True then (False, f)
      else let (ok, f) = pipe_write (ue_takes E) (part_text E (fm_lastpart f = None) headers) f
        in (ok, if ok then f\<lparr>fm_lastpart := Some False\<rparr> else f))"

definition write_part :: "upload_env \<Rightarrow> string \<Rightarrow> form \<Rightarrow> bool \<times> form" where
  "write_part E p f = (let (ok, f) = pipe_write (ue_takes E) p f in (ok, if ok then f else f\<lparr>fm_lastpart := Some True\<rparr>))"

definition field_headers :: "upload_env \<Rightarrow> string \<Rightarrow> string list" where
  "field_headers E name = [''Content-Disposition: form-data; name='' @ dquote # ue_quote E name @ [dquote]]"

definition file_headers :: "upload_env \<Rightarrow> string \<Rightarrow> string \<Rightarrow> string list" where
  "file_headers E name filename =
     [''Content-Disposition: form-data; name='' @ dquote # ue_quote E name @ dquote #
        ''; filename='' @ dquote # ue_quote E filename @ [dquote], ''Content-Type: application/octet-stream'']"

text \<open>\<open>_ = writer.WriteField(name, val)\<close>: the error is dropped.\<close>

definition WriteField :: "upload_env \<Rightarrow> string \<times> string \<Rightarrow> form \<Rightarrow> form" where
  "WriteField E = (\<lambda>(name, val) f.
     let (ok, f) = create_part E (field_headers E name) f in if ok then snd (write_part E val f) else f)"

fun copy_chunks :: "upload_env \<Rightarrow> string list \<Rightarrow> go_err option \<Rightarrow> form \<Rightarrow> go_err option \<times> form" where
  "copy_chunks E [] rerr f = (rerr, f)"
| "copy_chunks E (c # cs) rerr f =
     (let (ok, f) = write_part E c f in if ok then copy_chunks E cs rerr f else (Some ErrClosedPipe, f))"

definition close_form :: "upload_env \<Rightarrow> form \<Rightarrow> form" where
  "close_form E f =
     (if fm_lastpart f = Some True then f
      else snd (pipe_write (ue_takes E) (crlf @ ''--'' @ ue_boundary E @ ''--'' @ crlf) f))"

section \<open>Upload\<close>

definition form_fields :: "upload_env \<Rightarrow> client \<Rightarrow> string \<Rightarrow> upload_metadata \<Rightarrow> (string \<times> string) list" where
  "form_fields E c filePath meta =
     [(''secret'', cl_apiKey c), (''filename'', ue_base E filePath), (''worldName'', um_WorldName meta),
      (''missionName'', um_MissionName meta), (''missionDuration'', format_f (um_MissionDuration meta)), (''tag'', um_Tag meta)]
     @ (case um_FocusRanges meta of
          [] \<Rightarrow> []
        | first # _ \<Rightarrow> [(''focusStart'', format_nonneg (uint (fr_Start first))), (''focusEnd'', format_nonneg (uint (fr_End first)))])"

text \<open>The goroutine: what it sends on \<open>errCh\<close>, and the form after its deferred calls.\<close>

definition write_form ::
    "upload_env \<Rightarrow> client \<Rightarrow> string \<Rightarrow> upload_metadata \<Rightarrow> string list \<Rightarrow> go_err option \<Rightarrow> go_err option \<times> form" where
  "write_form E c filePath meta chunks rerr =
     (let f = fold (WriteField E) (form_fields E c filePath meta) new_form;
          (ok, f) = create_part E (file_headers E ''file'' (ue_base E filePath)) f;
          (err, f) = (if \<not> ok then (Some (Errorf ''failed to create form file: %w'' [ArgErr ErrClosedPipe]), f)
            else (case copy_chunks E chunks rerr f of
                (Some e, f) \<Rightarrow> (Some (Errorf ''failed to copy file: %w'' [ArgErr e]), f)
              | (None, f) \<Rightarrow> (None, f)))
      in (err, close_form E f))"

text \<open>
  What the upload returns, what the HTTP client took, and whether the goroutine is left behind: without a
  request nobody reads the pipe, and its first write never ends.
\<close>

record upload_result =
  up_error :: "go_err option"
  up_sent :: string
  up_stuck :: bool

definition Upload :: "upload_env \<Rightarrow> client \<Rightarrow> string \<Rightarrow> upload_metadata \<Rightarrow> upload_result" where
  "Upload E c filePath meta = (case ue_open E filePath of
     Inl err \<Rightarrow> \<lparr>up_error = Some (Errorf ''failed to open file: %w'' [ArgErr err]), up_sent = [], up_stuck = False\<rparr>
   | Inr (chunks, rerr) \<Rightarrow>
      (case ue_request E (cl_baseURL c @ ''/v1/operations/add'') of
         Some err \<Rightarrow> \<lparr>up_error = Some (Errorf ''failed to create request: %w'' [ArgErr err]), up_sent = [], up_stuck = True\<rparr>
       | None \<Rightarrow>
          let (writeErr, f) = write_form E c filePath meta chunks rerr;
              err = (case ue_do E of
                 Inl err \<Rightarrow> Some (Errorf ''upload request failed: %w'' [ArgErr err])
               | Inr status \<Rightarrow> if writeErr \<noteq> None then writeErr
                   else if status \<noteq> 200 then Some (Errorf ''upload returned status %d'' [ArgInt status]) else None)
          in \<lparr>up_error = err, up_sent = fm_sent f, up_stuck = False\<rparr>))"

end
