(* ===== verification/Upload_Properties.thy ===== *)
theory Upload_Properties
  imports Upload
begin

text \<open>
  What an upload promises: when it reports success the server was sent the whole file. A write that fails
  leaves the form \<open>lost\<close>: no later part can be created, so errors dropped on the way are met at the end.
\<close>

section \<open>The text of a form\<close>

fun fields_text :: "upload_env \<Rightarrow> bool \<Rightarrow> (string \<times> string) list \<Rightarrow> string" where
  "fields_text E first [] = []"
| "fields_text E first ((name, val) # fs) =
     part_text E first (field_headers E name) @ val @ fields_text E False fs"

definition head_text :: "upload_env \<Rightarrow> client \<Rightarrow> string \<Rightarrow> upload_metadata \<Rightarrow> string" where
  "head_text E c filePath meta = fields_text E True (form_fields E c filePath meta) @
     part_text E False (file_headers E ''file'' (ue_base E filePath))"

definition tail_text :: "upload_env \<Rightarrow> string" where
  "tail_text E = crlf @ ''--'' @ ue_boundary E @ ''--'' @ crlf"

section \<open>Lost forms\<close>

definition lost :: "upload_env \<Rightarrow> form \<Rightarrow> bool" where
  "lost E f = (fm_lastpart f = Some True \<or> ue_takes E = Some (length (fm_sent f)))"

lemma part_text_not_Nil [simp]: "part_text E b h \<noteq> []"
  by (simp add: part_text_def crlf_def)

lemma pipe_write_True:
  "pipe_write t p f = (True, f') \<Longrightarrow> f' = f\<lparr>fm_sent := fm_sent f @ p\<rparr> \<and> (p \<noteq> [] \<longrightarrow> t \<noteq> Some (length (fm_sent f)))"
  by (auto simp: pipe_write_def split: option.splits if_splits)

lemma pipe_write_False: "pipe_write t p f = (False, f') \<Longrightarrow> t = Some (length (fm_sent f')) \<and> fm_lastpart f' = fm_lastpart f"
  by (auto simp: pipe_write_def split: option.splits if_splits)

lemma create_part_True:
  assumes "create_part E h f = (True, f')"
  shows "\<not> lost E f" "fm_sent f' = fm_sent f @ part_text E (fm_lastpart f = None) h" "fm_lastpart f' = Some False"
proof -
  from assms obtain f1 where n: "fm_lastpart f \<noteq> Some True"
    and w: "pipe_write (ue_takes E) (part_text E (fm_lastpart f = None) h) f = (True, f1)" "f' = f1\<lparr>fm_lastpart := Some False\<rparr>"
    by (auto simp: create_part_def Let_def split: if_splits prod.splits)
  then show "\<not> lost E f" "fm_sent f' = fm_sent f @ part_text E (fm_lastpart f = None) h" "fm_lastpart f' = Some False"
    using pipe_write_True [OF w(1)] by (auto simp: lost_def)
qed

lemma create_part_False: "create_part E h f = (False, f') \<Longrightarrow> lost E f'"
  by (auto simp: create_part_def Let_def lost_def dest: pipe_write_False split: if_splits prod.splits)

lemma write_part_True: "write_part E p f = (True, f') \<Longrightarrow> f' = f\<lparr>fm_sent := fm_sent f @ p\<rparr>"
  by (auto simp: write_part_def dest: pipe_write_True split: prod.splits if_splits)

lemma write_part_False: "write_part E p f = (False, f') \<Longrightarrow> fm_lastpart f' = Some True"
  by (auto simp: write_part_def split: prod.splits if_splits)

lemma WriteField_cases:
  "lost E (WriteField E (name, val) f) \<or>
   \<not> lost E f \<and> fm_lastpart (WriteField E (name, val) f) = Some False \<and>
     fm_sent (WriteField E (name, val) f) = fm_sent f @ part_text E (fm_lastpart f = None) (field_headers E name) @ val"
proof (cases "create_part E (field_headers E name) f")
  case (Pair ok f1)
  show ?thesis
  proof (cases ok)
    case False
    then show ?thesis using Pair create_part_False [of E _ f f1] by (simp add: WriteField_def)
  next
    case True
    have c: "\<not> lost E f" "fm_sent f1 = fm_sent f @ part_text E (fm_lastpart f = None) (field_headers E name)" "fm_lastpart f1 = Some False"
      using create_part_True [of E "field_headers E name" f f1] Pair True by simp_all
    show ?thesis
    proof (cases "write_part E val f1")
      case (Pair ok2 f2)
      have x: "WriteField E (name, val) f = f2"
        using \<open>create_part E (field_headers E name) f = (ok, f1)\<close> True Pair by (simp add: WriteField_def)
      show ?thesis unfolding x
        using c write_part_True [of E val f1 f2] write_part_False [of E val f1 f2] Pair
        by (cases ok2) (auto simp: lost_def)
    qed
  qed
qed

lemma fields_cases:
  "lost E (fold (WriteField E) fs f) \<or>
   (fs \<noteq> [] \<longrightarrow> \<not> lost E f \<and> fm_lastpart (fold (WriteField E) fs f) = Some False) \<and>
     fm_sent (fold (WriteField E) fs f) = fm_sent f @ fields_text E (fm_lastpart f = None) fs"
proof (induction fs arbitrary: f)
  case (Cons nv fs)
  obtain name v where nv: "nv = (name, v)" by (cases nv)
  let ?f = "WriteField E (name, v) f"
  show ?case
  proof (cases "lost E (fold (WriteField E) fs ?f)")
    case False
    then have rest: "fs \<noteq> [] \<longrightarrow> \<not> lost E ?f \<and> fm_lastpart (fold (WriteField E) fs ?f) = Some False"
      "fm_sent (fold (WriteField E) fs ?f) = fm_sent ?f @ fields_text E (fm_lastpart ?f = None) fs"
      using Cons.IH [of ?f] by blast+
    have "\<not> lost E ?f" using False rest(1) by (cases fs) auto
    then have w: "\<not> lost E f" "fm_lastpart ?f = Some False"
      "fm_sent ?f = fm_sent f @ part_text E (fm_lastpart f = None) (field_headers E name) @ v"
      using WriteField_cases [of E name v f] by auto
    then show ?thesis using rest by (cases fs) (auto simp: nv)
  qed (simp add: nv)
qed simp

lemma copy_chunks_None:
  "copy_chunks E cs rerr f = (None, f') \<Longrightarrow> rerr = None \<and> fm_sent f' = fm_sent f @ concat cs"
proof (induction cs arbitrary: f)
  case (Cons c cs)
  obtain f1 where "write_part E c f = (True, f1)" "copy_chunks E cs rerr f1 = (None, f')"
    using Cons.prems by (auto split: prod.splits if_splits)
  then show ?case using Cons.IH [of f1] write_part_True [of E c f f1] by simp
qed simp

text \<open>Never more is sent than was taken.\<close>

definition bounded :: "upload_env \<Rightarrow> form \<Rightarrow> bool" where
  "bounded E f = (\<forall>n. ue_takes E = Some n \<longrightarrow> length (fm_sent f) \<le> n)"

lemma bounded_steps:
  "bounded E f \<Longrightarrow> bounded E (snd (pipe_write (ue_takes E) p f))"
  "bounded E f \<Longrightarrow> bounded E (snd (create_part E h f))"
  "bounded E f \<Longrightarrow> bounded E (snd (write_part E p f))"
  "bounded E f \<Longrightarrow> bounded E (WriteField E nv f)"
proof -
  show w: "bounded E f \<Longrightarrow> bounded E (snd (pipe_write (ue_takes E) p f))" for f p
    by (auto simp: bounded_def pipe_write_def split: option.split)
  show c: "bounded E f \<Longrightarrow> bounded E (snd (create_part E h f))" for f h
    using w [of f "part_text E (fm_lastpart f = None) h"] by (auto simp: create_part_def bounded_def Let_def split: prod.splits)
  show p: "bounded E f \<Longrightarrow> bounded E (snd (write_part E p f))" for f p
    using w [of f p] by (auto simp: write_part_def bounded_def Let_def split: prod.splits)
  show "bounded E f \<Longrightarrow> bounded E (WriteField E nv f)"
    using c [of f "field_headers E (fst nv)"] p [of "snd (create_part E (field_headers E (fst nv)) f)" "snd nv"]
    by (cases nv) (auto simp: WriteField_def Let_def split: prod.splits)
qed

lemma bounded_fields: "bounded E f \<Longrightarrow> bounded E (fold (WriteField E) fs f)"
  by (induction fs arbitrary: f) (auto intro: bounded_steps)

lemma bounded_copy: "bounded E f \<Longrightarrow> bounded E (snd (copy_chunks E cs rerr f))"
proof (induction cs arbitrary: f)
  case (Cons c cs)
  then show ?case using bounded_steps(3) [OF Cons.prems, of c] by (auto split: prod.splits)
qed simp

lemma close_form_sent: "bounded E f \<Longrightarrow> \<exists>rest. fm_sent (close_form E f) = fm_sent f @ rest"
  by (auto simp: close_form_def pipe_write_def bounded_def split: option.split)

lemma form_taken:
  assumes "write_form E c filePath meta chunks rerr = (None, f)"
  shows "rerr = None" "\<exists>rest. fm_sent f = head_text E c filePath meta @ concat chunks @ rest"
proof -
  let ?fs = "form_fields E c filePath meta"
  let ?f = "fold (WriteField E) ?fs new_form"
  have b: "bounded E ?f" by (rule bounded_fields) (simp add: bounded_def new_form_def)
  obtain f1 f2 where cp: "create_part E (file_headers E ''file'' (ue_base E filePath)) ?f = (True, f1)"
    and cc: "copy_chunks E chunks rerr f1 = (None, f2)" and f: "f = close_form E f2"
    using assms by (auto simp: write_form_def Let_def split: prod.splits option.splits if_splits)
  have "?fs \<noteq> []" by (simp add: form_fields_def)
  then have "fm_lastpart ?f = Some False" "fm_sent ?f = fields_text E True ?fs"
    using fields_cases [of E ?fs new_form] create_part_True(1) [OF cp] by (auto simp: new_form_def)
  then have "fm_sent f1 = head_text E c filePath meta" using create_part_True(2) [OF cp] by (simp add: head_text_def)
  moreover have "bounded E f2"
    using bounded_copy [of E f1 chunks rerr] bounded_steps(2) [OF b, of "file_headers E ''file'' (ue_base E filePath)"] cp cc by simp
  ultimately show "rerr = None" "\<exists>rest. fm_sent f = head_text E c filePath meta @ concat chunks @ rest"
    using copy_chunks_None [OF cc] close_form_sent [of E f2] by (auto simp: f)
qed

text \<open>A client that reads everything gets the closed form, also of a file that cannot be read to its end.\<close>

lemma greedy_field:
  assumes "ue_takes E = None" "fm_lastpart f \<noteq> Some True"
  shows "WriteField E (name, v) f = f\<lparr>fm_sent := fm_sent f @ part_text E (fm_lastpart f = None) (field_headers E name) @ v,
    fm_lastpart := Some False\<rparr>"
  using assms by (simp add: WriteField_def create_part_def write_part_def pipe_write_def)

lemma greedy_fields:
  "ue_takes E = None \<Longrightarrow> fm_lastpart f \<noteq> Some True \<Longrightarrow> fm_lastpart (fold (WriteField E) fs f) \<noteq> Some True \<and>
     (fs \<noteq> [] \<longrightarrow> fm_lastpart (fold (WriteField E) fs f) = Some False) \<and>
     fm_sent (fold (WriteField E) fs f) = fm_sent f @ fields_text E (fm_lastpart f = None) fs"
proof (induction fs arbitrary: f)
  case (Cons nv fs)
  then show ?case
    by (cases nv; cases fs) (auto simp: greedy_field)
qed simp

lemma greedy_copy:
  "ue_takes E = None \<Longrightarrow> copy_chunks E cs rerr f = (rerr, f\<lparr>fm_sent := fm_sent f @ concat cs\<rparr>)"
  by (induction cs arbitrary: f) (simp_all add: write_part_def pipe_write_def)

lemma greedy_form:
  assumes "ue_takes E = None"
  shows "fm_sent (snd (write_form E c filePath meta chunks rerr)) = head_text E c filePath meta @ concat chunks @ tail_text E"
    "fst (write_form E c filePath meta chunks rerr) =
       map_option (\<lambda>e. Errorf ''failed to copy file: %w'' [ArgErr e]) rerr"
proof -
  let ?fs = "form_fields E c filePath meta"
  let ?f = "fold (WriteField E) ?fs new_form"
  have "?fs \<noteq> []" by (simp add: form_fields_def)
  then have "fm_lastpart ?f = Some False" "fm_sent ?f = fields_text E True ?fs"
    using greedy_fields [OF assms, of new_form ?fs] by (auto simp: new_form_def)
  then show "fm_sent (snd (write_form E c filePath meta chunks rerr)) = head_text E c filePath meta @ concat chunks @ tail_text E"
    "fst (write_form E c filePath meta chunks rerr) = map_option (\<lambda>e. Errorf ''failed to copy file: %w'' [ArgErr e]) rerr"
    using assms
    by (simp_all add: write_form_def create_part_def pipe_write_def Let_def greedy_copy head_text_def tail_text_def
        close_form_def split: option.split)
qed

section \<open>Properties\<close>


definition upload_example :: "go_err option \<Rightarrow> upload_env" where
  "upload_example rerr = \<lparr>ue_open = \<lambda>p. Inr ([''abc'', ''def''], rerr), ue_base = \<lambda>p. p, ue_quote = \<lambda>s. s, ue_boundary = ''xyz'',
     ue_takes = None, ue_request = \<lambda>u. None, ue_do = Inr 200, ue_get = \<lambda>u. Inr 200\<rparr>"

definition upload_meta :: upload_metadata where
  "upload_meta = \<lparr>um_WorldName = ''Altis'', um_MissionName = ''Op'', um_MissionDuration = FNum (7 / 2), um_Tag = ''TvT'',
     um_EndFrame = 9, um_FocusRanges = [\<lparr>fr_Start = 2, fr_End = 5\<rparr>]\<rparr>"


text \<open>
  C23. A file that cannot be read to its end is sent as a complete form with what was read of it: nothing in
  the request tells the server, which may store it and answer with status 200. Only the caller gets the error.
\<close>

theorem truncated_upload_looks_complete:
  assumes "ue_open E filePath = Inr (chunks, Some err)" "ue_request E (cl_baseURL c @ ''/v1/operations/add'') = None"
    "ue_takes E = None" "ue_do E = Inr 200"
  shows "up_error (Upload E c filePath meta) = Some (Errorf ''failed to copy file: %w'' [ArgErr err]) \<and>
    up_sent (Upload E c filePath meta) = up_sent (Upload (E\<lparr>ue_open := \<lambda>p. Inr (chunks, None)\<rparr>) c filePath meta)"
proof -
  have *: "head_text (E\<lparr>ue_open := o'\<rparr>) c filePath meta = head_text E c filePath meta"
    "tail_text (E\<lparr>ue_open := o'\<rparr>) = tail_text E" for o'
  proof -
    have "fields_text (E\<lparr>ue_open := o'\<rparr>) b fs = fields_text E b fs" for b fs
      by (induction fs arbitrary: b) (auto simp: part_text_def field_headers_def)
    moreover have "form_fields (E\<lparr>ue_open := o'\<rparr>) c filePath meta = form_fields E c filePath meta"
      by (simp add: form_fields_def)
    moreover have "ue_base (E\<lparr>ue_open := o'\<rparr>) = ue_base E" by simp
    moreover have "part_text (E\<lparr>ue_open := o'\<rparr>) = part_text E" "file_headers (E\<lparr>ue_open := o'\<rparr>) = file_headers E"
      by (simp_all add: part_text_def file_headers_def fun_eq_iff)
    ultimately show "head_text (E\<lparr>ue_open := o'\<rparr>) c filePath meta = head_text E c filePath meta"
      by (simp only: head_text_def)
    show "tail_text (E\<lparr>ue_open := o'\<rparr>) = tail_text E" by (simp add: tail_text_def)
  qed
  have u: "up_sent (Upload E c filePath meta) = head_text E c filePath meta @ concat chunks @ tail_text E"
    "up_error (Upload E c filePath meta) = Some (Errorf ''failed to copy file: %w'' [ArgErr err])"
    using greedy_form [OF assms(3), of c filePath meta chunks "Some err"] assms(1,2,4)
    by (simp_all add: Upload_def Let_def case_prod_beta)
  have "up_sent (Upload (E\<lparr>ue_open := \<lambda>p. Inr (chunks, None)\<rparr>) c filePath meta) =
      head_text E c filePath meta @ concat chunks @ tail_text E"
    using greedy_form(1) [of "E\<lparr>ue_open := \<lambda>p. Inr (chunks, None)\<rparr>" c filePath meta chunks None] assms(2,3) *
    by (simp add: Upload_def Let_def case_prod_beta)
  with u show ?thesis by simp
qed

theorem truncated_upload_looks_complete_witness:
  "up_error (Upload (upload_example (Some (Errorf ''read error'' []))) (api_New ''http://x'' ''key'') ''op.json'' upload_meta) \<noteq> None \<and>
   up_sent (Upload (upload_example (Some (Errorf ''read error'' []))) (api_New ''http://x'' ''key'') ''op.json'' upload_meta) =
   up_sent (Upload (upload_example None) (api_New ''http://x'' ''key'') ''op.json'' upload_meta)"
  using truncated_upload_looks_complete [of "upload_example (Some (Errorf ''read error'' []))" "''op.json''" "[''abc'', ''def'']"
      "Errorf ''read error'' []" "api_New ''http://x'' ''key''" upload_meta]
  by (simp add: upload_example_def)

end
