(* ===== verification/Sqlite_Dump.thy ===== *)
theory Sqlite_Dump
  imports Postgres
begin

text \<open>
  What internal/storage/sqlite/sqlite.go adds to the backend it embeds, and DumpMemoryDBToDisk of
  internal/database/database.go: the goroutine that copies the tables of the in-memory database to a file from time to
  time; and the opening of databases. The answers of the operating system and of SQLite are parameters.
\<close>

section \<open>Opening databases\<close>

text \<open>The drivers answer; \<open>oe_exec\<close> is \<open>db.Exec\<close>. A database that was opened is what the left side is not.\<close>

record open_env =
  oe_open :: "string \<Rightarrow> go_err option"
  oe_exec :: "string \<Rightarrow> go_err option"
  oe_sqlDB :: "go_err option"
  oe_ping :: "go_err option"

definition pragmas :: "string list" where
  "pragmas = [''PRAGMA user_version = 1;'', ''PRAGMA journal_mode = MEMORY;'', ''PRAGMA synchronous = OFF;'',
     ''PRAGMA cache_size = -32000;'', ''PRAGMA temp_store = MEMORY;'', ''PRAGMA page_size = 32768;'',
     ''PRAGMA mmap_size = 30000000000;'']"

fun set_pragmas :: "open_env \<Rightarrow> string list \<Rightarrow> go_err option" where
  "set_pragmas E [] = None"
| "set_pragmas E (p # ps) = (case oe_exec E p of
     Some err \<Rightarrow> Some (Errorf ''error setting PRAGMA: %s'' [ArgErr err]) | None \<Rightarrow> set_pragmas E ps)"

definition GetSqliteDBStandalone :: "open_env \<Rightarrow> string \<Rightarrow> go_err option" where
  "GetSqliteDBStandalone E path =
     (case oe_open E (if path \<noteq> [] then path else ''file::memory:?cache=shared'') of
        Some err \<Rightarrow> Some err | None \<Rightarrow> set_pragmas E pragmas)"

text \<open>\<open>Connect\<close> of postgres.go; the data source name is a parameter.\<close>

definition Connect :: "open_env \<Rightarrow> string \<Rightarrow> go_err option" where
  "Connect E dsn =
     (case oe_open E dsn of Some err \<Rightarrow> Some err | None \<Rightarrow>
        (case oe_sqlDB E of Some err \<Rightarrow> Some (Errorf ''failed to access sql interface: %w'' [ArgErr err]) | None \<Rightarrow>
           map_option (\<lambda>err. Errorf ''failed to validate connection: %w'' [ArgErr err]) (oe_ping E)))"

lemma set_pragmas_None: "set_pragmas E ps = None \<longleftrightarrow> (\<forall>p \<in> set ps. oe_exec E p = None)"
  by (induction ps) (auto split: option.splits)

section \<open>A dump\<close>

text \<open>
  \<open>du_stat\<close>: whether an existing file is found. \<open>du_vacuum\<close>: VACUUM INTO fails with an error and leaves what
  it leaves.
\<close>

record dump_env =
  du_stat :: bool
  du_remove :: "go_err option"
  du_vacuum :: "(go_err \<times> db_row list option) option"

definition DumpMemoryDBToDisk ::
    "dump_env \<Rightarrow> string \<Rightarrow> db_row list \<Rightarrow> db_row list option \<Rightarrow> go_err option \<times> db_row list option" where
  "DumpMemoryDBToDisk D path tables file =
     (if path = [] then (Some (Errorf ''sqlite file path not set'' []), file)
      else let exists = (file \<noteq> None \<and> du_stat D)
        in if exists \<and> du_remove D \<noteq> None then
             (Some (Errorf ''error removing existing DB file: %s'' [ArgErr (the (du_remove D))]), file)
           else (case du_vacuum D of
               None \<Rightarrow> (None, Some tables)
             | Some (e, left) \<Rightarrow>
                 (Some (Errorf ''error dumping memory DB to disk: %s'' [ArgErr e]), if exists then left else file)))"

section \<open>The backend\<close>

record sqlite =
  sq_postgres :: postgres
  sq_DumpInterval :: int
  sq_DumpPath :: string
  sq_stopped :: bool
  sq_dumping :: bool
  sq_file :: "db_row list option"
  sq_log :: "(string \<times> string) list"

definition sqlite_New :: "open_env \<Rightarrow> int \<Rightarrow> string \<Rightarrow> marker_cache \<Rightarrow> db_row list option \<Rightarrow> go_err + sqlite" where
  "sqlite_New E interval path cache file = (case GetSqliteDBStandalone E [] of
     Some err \<Rightarrow> Inl (Errorf ''failed to create in-memory SQLite DB: %w'' [ArgErr err])
   | None \<Rightarrow> Inr \<lparr>sq_postgres = pg_New True cache, sq_DumpInterval = interval, sq_DumpPath = path, sq_stopped = False,
       sq_dumping = False, sq_file = file, sq_log = []\<rparr>)"

definition sqlite_Init :: "db_env \<Rightarrow> sqlite \<Rightarrow> go_err option \<times> sqlite" where
  "sqlite_Init E b = (case pg_Init E (sq_postgres b) of
     (Some err, p) \<Rightarrow> (Some err, b\<lparr>sq_postgres := p\<rparr>)
   | (None, p) \<Rightarrow> (None, b\<lparr>sq_postgres := p,
       sq_dumping := sq_dumping b \<or> (sq_DumpPath b \<noteq> [] \<and> sq_DumpInterval b > 0)\<rparr>))"

definition sqlite_Close :: "sqlite \<Rightarrow> sqlite outcome" where
  "sqlite_Close b =
     (if sq_stopped b then Panic (OtherPanic ''close of closed channel'')
      else map_ok (\<lambda>p. b\<lparr>sq_stopped := True, sq_postgres := p\<rparr>) (pg_Close (sq_postgres b)))"

text \<open>One turn of \<open>dumpLoop\<close>: \<open>tick\<close>, the ticker fires; otherwise the stop channel is seen closed.\<close>

definition dumpLoop :: "dump_env \<Rightarrow> bool \<Rightarrow> sqlite \<Rightarrow> sqlite option" where
  "dumpLoop D tick b =
     (if \<not> sq_dumping b then None
      else if tick then
        (case DumpMemoryDBToDisk D (sq_DumpPath b) (pg_tables (sq_postgres b)) (sq_file b) of
           (Some err, file) \<Rightarrow> Some (b\<lparr>sq_file := file, sq_log := sq_log b @ [(''Error dumping to disk: %v'', ''ERROR'')]\<rparr>)
         | (None, file) \<Rightarrow> Some (b\<lparr>sq_file := file, sq_log := sq_log b @ [(''Dumped to disk in %s'', ''DEBUG'')]\<rparr>))
      else if sq_stopped b then Some (b\<lparr>sq_dumping := False\<rparr>)
      else None)"

text \<open>The goroutine and everything else that happens to the embedded backend.\<close>

inductive sqstep :: "sqlite \<Rightarrow> sqlite \<Rightarrow> bool" where
  dump: "dumpLoop D tick b = Some b' \<Longrightarrow> sqstep b b'"
| close: "sqlite_Close b = Ok b' \<Longrightarrow> sqstep b b'"
| other: "pstep (sq_postgres b) f p \<Longrightarrow> sqstep b (b\<lparr>sq_postgres := p\<rparr>)"

section \<open>What a dump does to the file\<close>

lemma dump_outcomes:
  "DumpMemoryDBToDisk D path tables file = (None, file') \<Longrightarrow> file' = Some tables"
  "path \<noteq> [] \<Longrightarrow> du_stat D \<Longrightarrow> du_remove D = None \<Longrightarrow> du_vacuum D = Some (e, left) \<Longrightarrow> file \<noteq> None \<Longrightarrow>
     snd (DumpMemoryDBToDisk D path tables file) = left"
  by (auto simp: DumpMemoryDBToDisk_def Let_def split: if_splits option.splits)

text \<open>The last dump is gone before there is a new one: if SQLite then fails, no dump is left.\<close>

lemma failed_dump_loses_last:
  assumes "sq_dumping b" "sq_DumpPath b \<noteq> []" "sq_file b = Some old" "du_stat D" "du_remove D = None"
    "du_vacuum D = Some (e, None)"
  shows "\<exists>b'. dumpLoop D True b = Some b' \<and> sq_file b' = None"
  using assms by (simp add: dumpLoop_def DumpMemoryDBToDisk_def)

text \<open>Closing does not dump: what was written since the last dump is in no file.\<close>

lemma close_does_not_dump: "sqlite_Close b = Ok b' \<Longrightarrow> sq_file b' = sq_file b"
  by (auto simp: sqlite_Close_def split: if_splits outcome.splits elim: map_ok.elims)

end
