(* ===== verification/Schema.thy ===== *)
theory Schema
  imports Postgres
begin

text \<open>
  internal/model/model.go: the tables. A struct is named by its constructor; the columns are the records of \<open>DB_Rows\<close>.
  Structs without a method \<open>TableName\<close> get the name gorm makes up for them, which is a parameter.
\<close>

datatype model =
    M_OcapInfo | M_FrameData | M_AfterActionReview | M_World | M_Mission
  | M_Addon | M_Soldier | M_SoldierState | M_Vehicle | M_VehicleState
  | M_ProjectileEvent | M_ProjectileHitsSoldier | M_ProjectileHitsVehicle | M_GeneralEvent | M_KillEvent
  | M_Ace3DeathEvent | M_Ace3UnconsciousEvent | M_ChatEvent | M_RadioEvent | M_ServerFpsEvent
  | M_TimeState | M_Marker | M_PlacedObject | M_PlacedObjectEvent | M_MarkerState

text \<open>The list that \<open>AutoMigrate\<close> gets.\<close>

definition DatabaseModels :: "model list" where
  "DatabaseModels =
     [M_OcapInfo, M_AfterActionReview, M_World, M_Mission, M_Soldier, M_SoldierState,
      M_Vehicle, M_VehicleState, M_ProjectileEvent, M_ProjectileHitsSoldier, M_ProjectileHitsVehicle, M_GeneralEvent,
      M_KillEvent, M_ChatEvent, M_RadioEvent, M_ServerFpsEvent, M_Ace3DeathEvent, M_Ace3UnconsciousEvent,
      M_Marker, M_MarkerState, M_PlacedObject, M_PlacedObjectEvent]"

fun TableName :: "(model \<Rightarrow> string) \<Rightarrow> model \<Rightarrow> string" where
  "TableName naming M_OcapInfo = ''ocap_infos''"
| "TableName naming M_FrameData = ''frame_data''"
| "TableName naming M_AfterActionReview = ''after_action_reviews''"
| "TableName naming M_World = ''worlds''"
| "TableName naming M_Mission = ''missions''"
| "TableName naming M_Addon = ''addons''"
| "TableName naming M_Soldier = ''soldiers''"
| "TableName naming M_SoldierState = ''soldier_states''"
| "TableName naming M_Vehicle = ''vehicles''"
| "TableName naming M_VehicleState = ''vehicle_states''"
| "TableName naming M_ProjectileEvent = ''projectile_events''"
| "TableName naming M_GeneralEvent = ''general_events''"
| "TableName naming M_KillEvent = ''kill_events''"
| "TableName naming M_Ace3DeathEvent = ''ace3_death_events''"
| "TableName naming M_Ace3UnconsciousEvent = ''ace3_unconscious_events''"
| "TableName naming M_ChatEvent = ''chat_events''"
| "TableName naming M_RadioEvent = ''radio_events''"
| "TableName naming M_ServerFpsEvent = ''server_fps_events''"
| "TableName naming M_TimeState = ''time_states''"
| "TableName naming M_Marker = ''markers''"
| "TableName naming M_PlacedObject = ''placed_objects''"
| "TableName naming M_PlacedObjectEvent = ''placed_object_events''"
| "TableName naming M_MarkerState = ''marker_states''"
| "TableName naming m = naming m"

text \<open>The struct of a row, which the element type of its queue says.\<close>

fun row_model :: "db_row \<Rightarrow> model" where
  "row_model (RowSoldier x) = M_Soldier"
| "row_model (RowVehicle x) = M_Vehicle"
| "row_model (RowMarker x) = M_Marker"
| "row_model (RowSoldierState x) = M_SoldierState"
| "row_model (RowVehicleState x) = M_VehicleState"
| "row_model (RowMarkerState x) = M_MarkerState"
| "row_model (RowProjectileEvent x) = M_ProjectileEvent"
| "row_model (RowGeneralEvent x) = M_GeneralEvent"
| "row_model (RowKillEvent x) = M_KillEvent"
| "row_model (RowChatEvent x) = M_ChatEvent"
| "row_model (RowRadioEvent x) = M_RadioEvent"
| "row_model (RowFpsEvent x) = M_ServerFpsEvent"
| "row_model (RowAce3DeathEvent x) = M_Ace3DeathEvent"
| "row_model (RowAce3UnconsciousEvent x) = M_Ace3UnconsciousEvent"
| "row_model (RowPlacedObject x) = M_PlacedObject"
| "row_model (RowPlacedObjectEvent x) = M_PlacedObjectEvent"

section \<open>Where rows go\<close>

text \<open>Every row the backend writes has a table that \<open>setupDB\<close> has migrated, and no two kinds of rows share one.\<close>

lemma rows_have_tables: "row_model r \<in> set DatabaseModels"
  by (cases r) (simp_all add: DatabaseModels_def)

lemma models_listed_once: "distinct DatabaseModels"
  by (simp add: DatabaseModels_def)

lemma tables_of_rows: "TableName naming (row_model r) = TableName naming' (row_model r') \<Longrightarrow> row_model r = row_model r'"
  by (cases r; cases r') simp_all

text \<open>Time states are kept by the memory backend only.\<close>

lemma time_states_not_stored: "M_TimeState \<notin> set DatabaseModels"
  by (simp add: DatabaseModels_def)

end
