(* ===== verification/Logging.thy ===== *)
theory Logging
  imports GoStrings GoValues
begin

text \<open>
  internal/logging and internal/otel/provider.go. What log/slog does with a record is modelled as far as the program
  uses it: levels, the fan-out to handlers, and the attributes of a line; how a line is laid out as text is not.
  OpenTelemetry and what the destinations answer are \<open>log_env\<close>. Everything that was written is one list.
\<close>

section \<open>Levels and records\<close>

definition LevelDebug :: int where "LevelDebug = - 4"
definition LevelInfo :: int where "LevelInfo = 0"
definition LevelWarn :: int where "LevelWarn = 4"
definition LevelError :: int where "LevelError = 8"

lemmas level_defs = LevelDebug_def LevelInfo_def LevelWarn_def LevelError_def

definition parseLevel :: "string \<Rightarrow> int" where
  "parseLevel level =
     (let s = to_upper level
      in if s = ''DEBUG'' then LevelDebug else if s = ''INFO'' then LevelInfo
         else if s = ''WARN'' then LevelWarn else if s = ''ERROR'' then LevelError else LevelInfo)"

definition level_string :: "int \<Rightarrow> string" where
  "level_string l =
     (let str = (\<lambda>base d. if d = 0 then base else base @ (if d > 0 then ''+'' else []) @ format_int d)
      in if l < LevelInfo then str ''DEBUG'' (l - LevelDebug) else if l < LevelWarn then str ''INFO'' (l - LevelInfo)
         else if l < LevelError then str ''WARN'' (l - LevelWarn) else str ''ERROR'' (l - LevelError))"

datatype log_value = VTime gtime | VAny any

type_synonym attr = "string \<times> log_value"

record log_record =
  lr_Time :: gtime
  lr_Level :: int
  lr_Message :: string
  lr_Attrs :: "attr list"

text \<open>Keys and values as \<open>slog.Logger\<close> pairs them.\<close>

fun args_to_attrs :: "any list \<Rightarrow> attr list" where
  "args_to_attrs [] = []"
| "args_to_attrs [AString k] = [(''!BADKEY'', VAny (AString k))]"
| "args_to_attrs (AString k # v # r) = (k, VAny v) # args_to_attrs r"
| "args_to_attrs (v # r) = (''!BADKEY'', VAny v) # args_to_attrs r"

section \<open>Handlers\<close>

text \<open>
  A writer is an \<open>*os.File\<close>, which may be the nil pointer, or standard output. An \<open>io.Writer\<close> that is nil itself is
  the \<open>None\<close> of \<open>io_writer option\<close>: a nil pointer in an interface is not the nil interface.
\<close>

datatype io_writer = OSFile "string option" | Stdout

datatype with_op = WithA "attr list" | WithG string

datatype log_handler = TextHandler io_writer int "with_op list" | OTelHandler "with_op list" | MultiHandler "log_handler list"

datatype entry = Line io_writer "attr list" | Emitted "with_op list" log_record

record log_env =
  le_now :: "entry list \<Rightarrow> gtime"
  le_RFC3339 :: "gtime \<Rightarrow> string"
  le_write :: "io_writer \<Rightarrow> entry list \<Rightarrow> go_err option"
  le_otel_enabled :: "int \<Rightarrow> bool"
  le_otel_emit :: "with_op list \<Rightarrow> log_record \<Rightarrow> entry list \<Rightarrow> go_err option"
  le_otel_flush :: "go_err option"

text \<open>The \<open>ReplaceAttr\<close> of \<open>Setup\<close>.\<close>

definition ReplaceAttr :: "log_env \<Rightarrow> attr \<Rightarrow> attr" where
  "ReplaceAttr E a = (if fst a = ''time'' then (case snd a of VTime t \<Rightarrow> (fst a, VAny (AString (le_RFC3339 E t))) | _ \<Rightarrow> a) else a)"

text \<open>A group is a prefix of the keys that come after it; an attribute without key and value is left out.\<close>

definition line_attrs :: "log_env \<Rightarrow> string \<Rightarrow> attr list \<Rightarrow> attr list" where
  "line_attrs E prefix as = map (\<lambda>(k, v). (prefix @ k, v)) (filter (\<lambda>a. a \<noteq> ([], VAny ANil)) (map (ReplaceAttr E) as))"

fun with_attrs :: "log_env \<Rightarrow> string \<Rightarrow> with_op list \<Rightarrow> attr list \<Rightarrow> attr list" where
  "with_attrs E prefix [] as = line_attrs E prefix as"
| "with_attrs E prefix (WithA bs # ops) as = line_attrs E prefix bs @ with_attrs E prefix ops as"
| "with_attrs E prefix (WithG g # ops) as = with_attrs E (prefix @ g @ ''.'') ops as"

definition line_of :: "log_env \<Rightarrow> with_op list \<Rightarrow> log_record \<Rightarrow> attr list" where
  "line_of E ops r =
     line_attrs E [] ((if lr_Time r = ZeroTime then [] else [(''time'', VTime (lr_Time r))])
       @ [(''level'', VAny (AString (level_string (lr_Level r)))), (''msg'', VAny (AString (lr_Message r)))])
     @ with_attrs E [] ops (lr_Attrs r)"

definition write_line :: "log_env \<Rightarrow> io_writer \<Rightarrow> attr list \<Rightarrow> entry list \<Rightarrow> go_err option \<times> entry list" where
  "write_line E w l s =
     (if w = OSFile None then (Some (Errorf ''invalid argument'' []), s)
      else case le_write E w s of Some e \<Rightarrow> (Some e, s) | None \<Rightarrow> (None, s @ [Line w l]))"

fun Enabled :: "log_env \<Rightarrow> log_handler \<Rightarrow> int \<Rightarrow> bool" where
  "Enabled E (TextHandler w lvl ops) l = (l \<ge> lvl)"
| "Enabled E (OTelHandler ops) l = le_otel_enabled E l"
| "Enabled E (MultiHandler hs) l = list_ex (\<lambda>h. Enabled E h l) hs"

fun Handle :: "log_env \<Rightarrow> log_handler \<Rightarrow> log_record \<Rightarrow> entry list \<Rightarrow> go_err option \<times> entry list" where
  "Handle E (TextHandler w lvl ops) r s = write_line E w (line_of E ops r) s"
| "Handle E (OTelHandler ops) r s = (case le_otel_emit E ops r s of Some e \<Rightarrow> (Some e, s) | None \<Rightarrow> (None, s @ [Emitted ops r]))"
| "Handle E (MultiHandler hs) r s =
     (None, fold (\<lambda>h s. if Enabled E h (lr_Level r) then snd (Handle E h r s) else s) hs s)"

text \<open>The handlers that are nil are left out.\<close>

definition NewMultiHandler :: "log_handler option list \<Rightarrow> log_handler" where
  "NewMultiHandler hs = MultiHandler (map the (filter (\<lambda>h. h \<noteq> None) hs))"

fun WithAttrs :: "attr list \<Rightarrow> log_handler \<Rightarrow> log_handler" where
  "WithAttrs as (TextHandler w lvl ops) = TextHandler w lvl (ops @ [WithA as])"
| "WithAttrs as (OTelHandler ops) = OTelHandler (ops @ [WithA as])"
| "WithAttrs as (MultiHandler hs) = MultiHandler (map (WithAttrs as) hs)"

fun WithGroup :: "string \<Rightarrow> log_handler \<Rightarrow> log_handler" where
  "WithGroup g (TextHandler w lvl ops) = TextHandler w lvl (ops @ [WithG g])"
| "WithGroup g (OTelHandler ops) = OTelHandler (ops @ [WithG g])"
| "WithGroup g (MultiHandler hs) = (if g = [] then MultiHandler hs else MultiHandler (map (WithGroup g) hs))"

section \<open>Loggers\<close>

text \<open>\<open>slog.Logger\<close> asks its handler whether it is enabled and ignores its error.\<close>

definition log_at :: "log_env \<Rightarrow> int \<Rightarrow> string \<Rightarrow> any list \<Rightarrow> log_handler \<Rightarrow> entry list \<Rightarrow> entry list" where
  "log_at E l msg args h s =
     (if Enabled E h l
      then snd (Handle E h \<lparr>lr_Time = le_now E s, lr_Level = l, lr_Message = msg, lr_Attrs = args_to_attrs args\<rparr> s)
      else s)"

definition DispatcherLogger_Debug :: "log_env \<Rightarrow> string \<Rightarrow> any list \<Rightarrow> log_handler \<Rightarrow> entry list \<Rightarrow> entry list" where
  "DispatcherLogger_Debug E = log_at E LevelDebug"

definition DispatcherLogger_Info :: "log_env \<Rightarrow> string \<Rightarrow> any list \<Rightarrow> log_handler \<Rightarrow> entry list \<Rightarrow> entry list" where
  "DispatcherLogger_Info E = log_at E LevelInfo"

definition DispatcherLogger_Error :: "log_env \<Rightarrow> string \<Rightarrow> any list \<Rightarrow> log_handler \<Rightarrow> entry list \<Rightarrow> entry list" where
  "DispatcherLogger_Error E = log_at E LevelError"

record slog_manager =
  sm_logger :: "log_handler option"
  sm_logProvider :: bool

definition NewSlogManager :: slog_manager where
  "NewSlogManager = \<lparr>sm_logger = None, sm_logProvider = False\<rparr>"

definition Setup :: "log_env \<Rightarrow> io_writer option \<Rightarrow> string \<Rightarrow> bool \<Rightarrow> slog_manager \<Rightarrow> entry list \<Rightarrow> slog_manager \<times> entry list" where
  "Setup E file level provider m s =
     (let lvl = parseLevel level;
          logWriter = (case file of Some w \<Rightarrow> w | None \<Rightarrow> Stdout);
          handlers = [Some (TextHandler logWriter lvl [])] @ (if provider then [Some (OTelHandler [])] else []);
          h = NewMultiHandler handlers
      in (m\<lparr>sm_logProvider := provider, sm_logger := Some h\<rparr>,
          log_at E LevelInfo ''Logging initialized'' [AString ''level'', AString level] h s))"

text \<open>\<open>slog.Default()\<close> is a parameter.\<close>

definition Logger :: "log_handler \<Rightarrow> slog_manager \<Rightarrow> log_handler" where
  "Logger dflt m = (case sm_logger m of None \<Rightarrow> dflt | Some h \<Rightarrow> h)"

definition slog_Flush :: "log_env \<Rightarrow> slog_manager \<Rightarrow> go_err option" where
  "slog_Flush E m = (if sm_logProvider m then le_otel_flush E else None)"

definition WriteLog :: "log_env \<Rightarrow> string \<Rightarrow> string \<Rightarrow> string \<Rightarrow> slog_manager \<Rightarrow> entry list \<Rightarrow> entry list" where
  "WriteLog E functionName data level m s = (case sm_logger m of
     None \<Rightarrow> s
   | Some h \<Rightarrow> log_at E (parseLevel level) data [AString ''function'', AString functionName] h s)"

section \<open>The OpenTelemetry provider\<close>

record otel_config =
  oc_Enabled :: bool
  oc_ServiceName :: string
  oc_BatchTimeout :: int
  oc_LogWriter :: "io_writer option"
  oc_Endpoint :: string
  oc_Insecure :: bool

datatype processor = FileProcessor io_writer int | OTLPProcessor string bool int

record otel_env =
  oe_resource :: "go_err option"
  oe_file :: "go_err option"
  oe_otlp :: "go_err option"
  oe_flush :: "go_err option"
  oe_shutdown :: "go_err option"

record otel_provider =
  op_logProvider :: "processor list option"
  op_config :: otel_config

definition file_processors :: "otel_config \<Rightarrow> processor list" where
  "file_processors cfg = (case oc_LogWriter cfg of None \<Rightarrow> [] | Some w \<Rightarrow> [FileProcessor w (oc_BatchTimeout cfg)])"

definition otlp_processors :: "otel_config \<Rightarrow> processor list" where
  "otlp_processors cfg =
     (if oc_Endpoint cfg = [] then [] else [OTLPProcessor (oc_Endpoint cfg) (oc_Insecure cfg) (oc_BatchTimeout cfg)])"

definition otel_New :: "otel_env \<Rightarrow> otel_config \<Rightarrow> go_err + otel_provider" where
  "otel_New V cfg =
     (if \<not> oc_Enabled cfg then Inr \<lparr>op_logProvider = None, op_config = cfg\<rparr>
      else case oe_resource V of Some e \<Rightarrow> Inl (Errorf ''failed to create resource: %w'' [ArgErr e]) | None \<Rightarrow>
        if oc_LogWriter cfg \<noteq> None \<and> oe_file V \<noteq> None then
          Inl (Errorf ''failed to create file log exporter: %w'' [ArgErr (the (oe_file V))])
        else if oc_Endpoint cfg \<noteq> [] \<and> oe_otlp V \<noteq> None then
          Inl (Errorf ''failed to create OTLP log exporter: %w'' [ArgErr (the (oe_otlp V))])
        else let ps = file_processors cfg @ otlp_processors cfg
          in if ps = [] then Inl (Errorf ''OTel enabled but no log writer or endpoint configured'' [])
             else Inr \<lparr>op_logProvider = Some ps, op_config = cfg\<rparr>)"

definition otel_Flush :: "otel_env \<Rightarrow> otel_provider \<Rightarrow> go_err option" where
  "otel_Flush V p =
     (if \<not> oc_Enabled (op_config p) \<or> op_logProvider p = None then None
      else map_option (\<lambda>e. Errorf ''log flush failed: %w'' [ArgErr e]) (oe_flush V))"

definition otel_Shutdown :: "otel_env \<Rightarrow> otel_provider \<Rightarrow> go_err option" where
  "otel_Shutdown V p =
     (if \<not> oc_Enabled (op_config p) \<or> op_logProvider p = None then None
      else map_option (\<lambda>e. Errorf ''log shutdown failed: %w'' [ArgErr e]) (oe_shutdown V))"

section \<open>The contract of a handler\<close>

text \<open>What \<open>slog.Logger\<close> relies on: what is written stays written, and adding attributes or a group changes no level.\<close>

locale slog_handler =
  fixes enabled :: "'h \<Rightarrow> int \<Rightarrow> bool"
    and handle :: "'h \<Rightarrow> log_record \<Rightarrow> entry list \<Rightarrow> go_err option \<times> entry list"
    and add_attrs :: "attr list \<Rightarrow> 'h \<Rightarrow> 'h"
    and add_group :: "string \<Rightarrow> 'h \<Rightarrow> 'h"
  assumes appends: "\<exists>new. snd (handle h r s) = s @ new"
    and enabled_attrs: "enabled (add_attrs as h) l = enabled h l"
    and enabled_group: "enabled (add_group g h) l = enabled h l"
begin

definition logged :: "'h \<Rightarrow> log_record list \<Rightarrow> entry list \<Rightarrow> entry list" where
  "logged h rs s = fold (\<lambda>r s. if enabled h (lr_Level r) then snd (handle h r s) else s) rs s"

lemma logged_appends: "\<exists>new. logged h rs s = s @ new"
proof (induction rs arbitrary: s)
  case (Cons r rs)
  obtain a where a: "snd (handle h r s) = s @ a" using appends by blast
  show ?case
  proof (cases "enabled h (lr_Level r)")
    case True
    obtain b where "logged h rs (s @ a) = (s @ a) @ b" using Cons.IH by blast
    then show ?thesis using True a by (simp add: logged_def)
  next
    case False
    then show ?thesis using Cons.IH [of s] by (simp add: logged_def)
  qed
qed (simp add: logged_def)

lemma silent_with:
  "\<forall>r \<in> set rs. \<not> enabled h (lr_Level r) \<Longrightarrow> logged (add_attrs as (add_group g h)) rs s = s"
  by (induction rs arbitrary: s) (simp_all add: logged_def enabled_attrs enabled_group)

end

lemma Enabled_WithAttrs [simp]: "Enabled E (WithAttrs as h) l = Enabled E h l"
  by (induction as h rule: WithAttrs.induct) (simp_all add: list_ex_iff)

lemma Enabled_WithGroup [simp]: "Enabled E (WithGroup g h) l = Enabled E h l"
  by (induction g h rule: WithGroup.induct) (auto simp: list_ex_iff)

lemma write_line_appends: "\<exists>new. snd (write_line E w l s) = s @ new"
  by (simp add: write_line_def split: option.splits)

lemma fold_appends:
  assumes "\<And>h s. h \<in> set hs \<Longrightarrow> \<exists>new. f h s = s @ new"
  shows "\<exists>new. fold f hs s = s @ new"
  using assms
proof (induction hs arbitrary: s)
  case (Cons h hs)
  obtain a where a: "f h s = s @ a" using Cons.prems by force
  obtain b where "fold f hs (s @ a) = (s @ a) @ b" using Cons by (metis list.set_intros(2))
  then show ?case using a by simp
qed simp

lemma Handle_appends: "\<exists>new. snd (Handle E h r s) = s @ new"
proof (induction E h r s rule: Handle.induct)
  case (1 E w lvl ops r s)
  then show ?case using write_line_appends by simp
next
  case (2 E ops r s)
  then show ?case by (simp split: option.splits)
next
  case (3 E hs r s)
  then show ?case by (auto intro!: fold_appends)
qed

interpretation slog: slog_handler "Enabled E" "Handle E" WithAttrs WithGroup
  by unfold_locales (simp_all add: Handle_appends)

section \<open>The fan-out\<close>

text \<open>The handlers a tree of handlers comes down to.\<close>

fun leaves :: "log_handler \<Rightarrow> log_handler list" where
  "leaves (MultiHandler hs) = concat (map leaves hs)"
| "leaves h = [h]"

definition offer :: "log_env \<Rightarrow> log_record \<Rightarrow> log_handler \<Rightarrow> entry list \<Rightarrow> entry list" where
  "offer E r h s = (if Enabled E h (lr_Level r) then snd (Handle E h r s) else s)"

lemma Enabled_leaves: "Enabled E h l \<longleftrightarrow> (\<exists>x \<in> set (leaves h). Enabled E x l)"
  by (induction h rule: leaves.induct) (auto simp: list_ex_iff)

lemma fold_idle: "\<forall>x \<in> set xs. \<forall>s. f x s = s \<Longrightarrow> fold f xs s = s"
  by (induction xs arbitrary: s) simp_all

lemma offer_leaves: "offer E r h s = fold (offer E r) (leaves h) s"
proof (induction h arbitrary: s rule: leaves.induct)
  case (1 hs)
  have "fold (offer E r) hs' s = fold (offer E r) (concat (map leaves hs')) s" if "set hs' \<subseteq> set hs" for hs' s
    using that by (induction hs' arbitrary: s) (simp_all add: 1)
  note all = this [OF order_refl]
  show ?case
  proof (cases "Enabled E (MultiHandler hs) (lr_Level r)")
    case True
    have "snd (Handle E (MultiHandler hs) r s) = fold (offer E r) hs s"
      by (simp add: offer_def [abs_def])
    then show ?thesis using True all by (simp del: Handle.simps add: offer_def [of E r "MultiHandler hs"])
  next
    case False
    then have "\<forall>x \<in> set (leaves (MultiHandler hs)). \<forall>s. offer E r x s = s"
      using Enabled_leaves [of E "MultiHandler hs"] by (auto simp: offer_def)
    then show ?thesis using False fold_idle by (metis offer_def)
  qed
qed simp_all

lemma log_at_leaves:
  "log_at E l msg args h s = fold (offer E \<lparr>lr_Time = le_now E s, lr_Level = l, lr_Message = msg,
     lr_Attrs = args_to_attrs args\<rparr>) (leaves h) s"
  unfolding offer_leaves [symmetric] by (simp add: log_at_def offer_def)

lemma offer_appends: "\<exists>new. offer E r h s = s @ new"
  using Handle_appends by (simp add: offer_def)

lemma offered_stay: "x \<in> set s \<Longrightarrow> x \<in> set (fold (offer E r) hs s)"
  using fold_appends [of hs "offer E r" s] offer_appends by fastforce

text \<open>A file that can be written gets every record of its level, whatever becomes of the other destinations.\<close>

lemma working_file_reached:
  assumes "TextHandler (OSFile (Some p)) lvl ops \<in> set hs" "lvl \<le> lr_Level r"
    and works: "\<And>s. le_write E (OSFile (Some p)) s = None"
  shows "Line (OSFile (Some p)) (line_of E ops r) \<in> set (fold (offer E r) hs s)"
  using assms(1)
proof (induction hs arbitrary: s)
  case (Cons h hs)
  show ?case
  proof (cases "h = TextHandler (OSFile (Some p)) lvl ops")
    case True
    then have "offer E r h s = s @ [Line (OSFile (Some p)) (line_of E ops r)]"
      using assms(2) by (simp add: offer_def write_line_def works)
    then show ?thesis by (simp add: offered_stay)
  qed (use Cons in simp)
qed simp

text \<open>A nil file in the interface is taken for a file: nothing is logged, and standard output is not used instead.\<close>

lemma nil_file_silences:
  assumes "Setup E (Some (OSFile None)) level False m s = (m', s')"
  shows "s' = s" "WriteLog E f data lvl m' s'' = s''"
  using assms by (auto simp: Setup_def Let_def WriteLog_def NewMultiHandler_def log_at_def write_line_def)

lemma nil_interface_falls_back:
  "sm_logger (fst (Setup E None level False m s)) = Some (MultiHandler [TextHandler Stdout (parseLevel level) []])"
  by (simp add: Setup_def Let_def NewMultiHandler_def)

lemma parseLevel_cases: "parseLevel s \<in> {LevelDebug, LevelInfo, LevelWarn, LevelError}"
  by (simp add: parseLevel_def Let_def)

lemma parseLevel_names [simp]:
  "parseLevel ''debug'' = LevelDebug" "parseLevel ''DEBUG'' = LevelDebug" "parseLevel ''Info'' = LevelInfo"
  "parseLevel ''WARN'' = LevelWarn" "parseLevel ''ERROR'' = LevelError" "parseLevel [] = LevelInfo"
  by code_simp+

lemma otel_New_disabled: "\<not> oc_Enabled cfg \<Longrightarrow> \<exists>p. otel_New V cfg = Inr p \<and> otel_Flush V p = None \<and> otel_Shutdown V p = None"
  by (simp add: otel_New_def otel_Flush_def otel_Shutdown_def)

end
