(* ===== verification/Config.thy ===== *)
theory Config
  imports Memory
begin

text \<open>
  internal/config/config.go. The configuration is kept by the library viper, which is a parameter: its operations are
  \<open>viper\<close>, and \<open>viper_laws\<close> is what its documentation says of defaults. Durations are nanoseconds.
\<close>

record StorageConfig =
  cf_Type :: string
  cf_Memory :: memory_config
  cf_DumpInterval :: int
  cf_Host :: string
  cf_Port :: string
  cf_Username :: string
  cf_Password :: string
  cf_Database :: string

record OTelConfig =
  ot_Enabled :: bool
  ot_ServiceName :: string
  ot_BatchTimeout :: int
  ot_Endpoint :: string
  ot_Insecure :: bool

record APIConfig =
  ap_ServerURL :: string
  ap_APIKey :: string
  ap_UploadTimeout :: int

text \<open>\<open>UnmarshalKey\<close> changes the struct it is given, also when it returns an error.\<close>

record 'v viper =
  vp_SetDefault :: "string \<Rightarrow> any \<Rightarrow> 'v \<Rightarrow> 'v"
  vp_SetConfigName :: "string \<Rightarrow> 'v \<Rightarrow> 'v"
  vp_AddConfigPath :: "string \<Rightarrow> 'v \<Rightarrow> 'v"
  vp_SetConfigType :: "string \<Rightarrow> 'v \<Rightarrow> 'v"
  vp_ReadInConfig :: "'v \<Rightarrow> go_err option \<times> 'v"
  vp_GetString :: "string \<Rightarrow> 'v \<Rightarrow> string"
  vp_GetInt :: "string \<Rightarrow> 'v \<Rightarrow> int"
  vp_GetBool :: "string \<Rightarrow> 'v \<Rightarrow> bool"
  vp_storage :: "'v \<Rightarrow> StorageConfig \<Rightarrow> go_err option \<times> StorageConfig"
  vp_otel :: "'v \<Rightarrow> OTelConfig \<Rightarrow> go_err option \<times> OTelConfig"
  vp_api :: "'v \<Rightarrow> APIConfig \<Rightarrow> go_err option \<times> APIConfig"

definition defaults :: "(string \<times> any) list" where
  "defaults =
     [(''logLevel'', AString ''info''), (''defaultTag'', AString ''Op''), (''logsDir'', AString ''./ocaplogs''),
      (''api.serverUrl'', AString ''http://localhost:5000''), (''api.apiKey'', AString []),
      (''api.uploadTimeout'', AString ''10m''),
      (''graylog.enabled'', ABool True), (''graylog.address'', AString ''localhost:12201''),
      (''logio.enabled'', ABool True), (''logio.host'', AString ''localhost''), (''logio.port'', AString ''28777''),
      (''storage.type'', AString ''memory''), (''storage.memory.outputDir'', AString ''./recordings''),
      (''storage.memory.compressOutput'', ABool True), (''storage.sqlite.dumpInterval'', AString ''3m''),
      (''storage.postgres.host'', AString ''localhost''), (''storage.postgres.port'', AString ''5432''),
      (''storage.postgres.username'', AString ''postgres''), (''storage.postgres.password'', AString ''postgres''),
      (''storage.postgres.database'', AString ''ocap''),
      (''otel.enabled'', ABool False), (''otel.serviceName'', AString ''ocap-recorder''),
      (''otel.batchTimeout'', AString ''5s''), (''otel.endpoint'', AString []), (''otel.insecure'', ABool True)]"

definition set_defaults :: "'v viper \<Rightarrow> (string \<times> any) list \<Rightarrow> 'v \<Rightarrow> 'v" where
  "set_defaults V ds v = fold (\<lambda>(k, x). vp_SetDefault V k x) ds v"

definition locate :: "'v viper \<Rightarrow> string \<Rightarrow> 'v \<Rightarrow> 'v" where
  "locate V configDir v =
     vp_SetConfigType V ''json'' (vp_AddConfigPath V configDir (vp_SetConfigName V ''ocap_recorder.cfg.json'' v))"

definition Load :: "'v viper \<Rightarrow> string \<Rightarrow> 'v \<Rightarrow> go_err option \<times> 'v" where
  "Load V configDir v =
     (case vp_ReadInConfig V (locate V configDir (set_defaults V defaults v)) of
        (Some err, v) \<Rightarrow> (Some (Errorf ''error reading config file: %v'' [ArgErr err]), v)
      | (None, v) \<Rightarrow> (None, v))"

definition GetString :: "'v viper \<Rightarrow> string \<Rightarrow> 'v \<Rightarrow> string" where
  "GetString V key v = vp_GetString V key v"

definition GetInt :: "'v viper \<Rightarrow> string \<Rightarrow> 'v \<Rightarrow> int" where
  "GetInt V key v = vp_GetInt V key v"

definition GetBool :: "'v viper \<Rightarrow> string \<Rightarrow> 'v \<Rightarrow> bool" where
  "GetBool V key v = vp_GetBool V key v"

definition zero_storage :: StorageConfig where
  "zero_storage = \<lparr>cf_Type = [], cf_Memory = \<lparr>mc_OutputDir = [], mc_CompressOutput = False\<rparr>, cf_DumpInterval = 0,
     cf_Host = [], cf_Port = [], cf_Username = [], cf_Password = [], cf_Database = []\<rparr>"

definition GetStorageConfig :: "'v viper \<Rightarrow> 'v \<Rightarrow> StorageConfig" where
  "GetStorageConfig V v = (case vp_storage V v zero_storage of
     (None, cfg) \<Rightarrow> cfg | (Some err, cfg) \<Rightarrow> cfg\<lparr>cf_Type := ''memory''\<rparr>)"

definition GetOTelConfig :: "'v viper \<Rightarrow> 'v \<Rightarrow> OTelConfig" where
  "GetOTelConfig V v = snd (vp_otel V v
     \<lparr>ot_Enabled = False, ot_ServiceName = [], ot_BatchTimeout = 0, ot_Endpoint = [], ot_Insecure = False\<rparr>)"

definition GetAPIConfig :: "'v viper \<Rightarrow> 'v \<Rightarrow> APIConfig" where
  "GetAPIConfig V v = snd (vp_api V v \<lparr>ap_ServerURL = [], ap_APIKey = [], ap_UploadTimeout = 0\<rparr>)"

section \<open>Without a configuration file\<close>

text \<open>
  As long as no file has been read, a key has the default last set for it, and decoding a section gives the values
  of its keys. \<open>v0\<close> is viper before anything was set.
\<close>

definition viper_laws :: "'v viper \<Rightarrow> 'v \<Rightarrow> bool" where
  "viper_laws V v0 =
     (\<forall>ds dir e v. distinct (map fst ds) \<longrightarrow> vp_ReadInConfig V (locate V dir (set_defaults V ds v0)) = (Some e, v) \<longrightarrow>
        (\<forall>k s. map_of ds k = Some (AString s) \<longrightarrow> vp_GetString V k v = s) \<and>
        (\<forall>k b. map_of ds k = Some (ABool b) \<longrightarrow> vp_GetBool V k v = b) \<and>
        fst (vp_storage V v zero_storage) = None \<and>
        cf_Type (snd (vp_storage V v zero_storage)) = vp_GetString V ''storage.type'' v \<and>
        cf_Memory (snd (vp_storage V v zero_storage)) =
          \<lparr>mc_OutputDir = vp_GetString V ''storage.memory.outputDir'' v,
           mc_CompressOutput = vp_GetBool V ''storage.memory.compressOutput'' v\<rparr>)"

lemma defaults_distinct: "distinct (map fst defaults)"
  by (simp add: defaults_def)

lemma defaults_hold:
  assumes "viper_laws V v0" "Load V dir v0 = (Some e, v)"
  shows "map_of defaults k = Some (AString s) \<Longrightarrow> GetString V k v = s"
    and "map_of defaults k = Some (ABool b) \<Longrightarrow> GetBool V k v = b"
    and "cf_Type (GetStorageConfig V v) = ''memory''"
    and "cf_Memory (GetStorageConfig V v) = \<lparr>mc_OutputDir = ''./recordings'', mc_CompressOutput = True\<rparr>"
proof -
  obtain err where read: "vp_ReadInConfig V (locate V dir (set_defaults V defaults v0)) = (Some err, v)"
    using assms(2) by (auto simp: Load_def split: prod.splits option.splits)
  note laws = assms(1) [unfolded viper_laws_def, rule_format, OF defaults_distinct read]
  show str: "map_of defaults k = Some (AString s) \<Longrightarrow> GetString V k v = s" for k s
    using laws by (simp add: GetString_def)
  show bool: "map_of defaults k = Some (ABool b) \<Longrightarrow> GetBool V k v = b" for k b
    using laws by (simp add: GetBool_def)
  obtain cfg where cfg: "vp_storage V v zero_storage = (None, cfg)" using laws by (cases "vp_storage V v zero_storage") auto
  show "cf_Type (GetStorageConfig V v) = ''memory''"
    using laws str [of "''storage.type''" "''memory''"] by (simp add: cfg GetStorageConfig_def GetString_def defaults_def)
  show "cf_Memory (GetStorageConfig V v) = \<lparr>mc_OutputDir = ''./recordings'', mc_CompressOutput = True\<rparr>"
    using laws str [of "''storage.memory.outputDir''" "''./recordings''"] bool [of "''storage.memory.compressOutput''" True]
    by (simp add: cfg GetStorageConfig_def GetString_def GetBool_def defaults_def)
qed

text \<open>Whatever the file says, an error in decoding the section chooses the memory backend.\<close>

lemma storage_error_means_memory:
  "fst (vp_storage V v zero_storage) \<noteq> None \<Longrightarrow> cf_Type (GetStorageConfig V v) = ''memory''"
  by (cases "vp_storage V v zero_storage") (auto simp: GetStorageConfig_def)

end
