(* ===== verification/Startup.thy ===== *)
theory Startup
  imports Lifecycle Logging Config
begin

text \<open>
  What \<open>init\<close> of cmd/ocap_recorder/main.go does when the game loads the library: paths, the two log files, the
  configuration, OpenTelemetry, the dispatcher, the number of processors. The operating system is \<open>os_env\<close> over a
  file system of paths, which are those of Linux; errors it gives may come at any path. What the library is
  when \<open>init\<close> returns is the start of the system of \<open>Lifecycle\<close>.
\<close>

section \<open>Paths\<close>

text \<open>\<open>filepath.Clean\<close>: the stack of elements that are left, the last one first.\<close>

fun clean_step :: "bool \<Rightarrow> string \<Rightarrow> string list \<Rightarrow> string list" where
  "clean_step rooted e out =
     (if e = [] \<or> e = ''.'' then out
      else if e = ''..'' then (case out of
           [] \<Rightarrow> if rooted then [] else [''..'']
         | o1 # os \<Rightarrow> if o1 = ''..'' then ''..'' # out else os)
      else e # out)"

definition path_Clean :: "string \<Rightarrow> string" where
  "path_Clean p =
     (let rooted = has_prefix p ''/'';
          out = rev (fold (clean_step rooted) (split_char CHR ''/'' p) []);
          s = (if rooted then ''/'' else []) @ join ''/'' out
      in if s = [] then ''.'' else s)"

definition path_Join :: "string list \<Rightarrow> string" where
  "path_Join es = (case dropWhile (\<lambda>e. e = []) es of [] \<Rightarrow> [] | rest \<Rightarrow> path_Clean (join ''/'' rest))"

definition path_Dir :: "string \<Rightarrow> string" where
  "path_Dir p = path_Clean (rev (dropWhile (\<lambda>c. c \<noteq> CHR ''/'') (rev p)))"

definition LogFilePath :: "string \<Rightarrow> string \<Rightarrow> string \<Rightarrow> string" where
  "LogFilePath logsDir extensionName stamp = path_Join [logsDir, extensionName @ ''.'' @ stamp @ ''.log'']"

section \<open>The operating system\<close>

datatype node = Directory | Contents string

type_synonym fs = "string \<Rightarrow> node option"

record os_env =
  os_getwd :: "go_err + string"
  os_module :: string
  os_stat :: "string \<Rightarrow> go_err option"
  os_mkdir :: "string \<Rightarrow> go_err option"
  os_create :: "string \<Rightarrow> go_err option"
  os_rename :: "string \<Rightarrow> go_err option"
  os_open :: "string \<Rightarrow> go_err option"
  os_stamp :: string
  os_metrics :: meter
  os_maxprocs :: "go_err option"
  os_maxprocs_says :: "string list"
  os_GOMAXPROCS :: nat
  os_NumCPU :: nat

datatype stat_result = Exists | IsNotExist | StatFails

definition Stat :: "os_env \<Rightarrow> fs \<Rightarrow> string \<Rightarrow> stat_result" where
  "Stat S fs p = (if os_stat S p \<noteq> None then StatFails else if fs p = None then IsNotExist else Exists)"

definition Mkdir :: "os_env \<Rightarrow> string \<Rightarrow> fs \<Rightarrow> go_err option \<times> fs" where
  "Mkdir S p fs =
     (if fs p \<noteq> None then (Some (Errorf ''file exists'' []), fs)
      else case os_mkdir S p of Some e \<Rightarrow> (Some e, fs) | None \<Rightarrow> (None, fs(p \<mapsto> Directory)))"

text \<open>\<open>os.Create\<close> empties a file that exists, \<open>os.OpenFile\<close> with O_CREATE and O_APPEND keeps it.\<close>

definition Create :: "os_env \<Rightarrow> string \<Rightarrow> fs \<Rightarrow> go_err option \<times> fs" where
  "Create S p fs =
     (if fs p = Some Directory then (Some (Errorf ''is a directory'' []), fs)
      else case os_create S p of Some e \<Rightarrow> (Some e, fs) | None \<Rightarrow> (None, fs(p \<mapsto> Contents [])))"

definition OpenAppend :: "os_env \<Rightarrow> string \<Rightarrow> fs \<Rightarrow> go_err option \<times> fs" where
  "OpenAppend S p fs =
     (if fs p = Some Directory then (Some (Errorf ''is a directory'' []), fs)
      else case os_open S p of Some e \<Rightarrow> (Some e, fs)
         | None \<Rightarrow> (None, if fs p = None then fs(p \<mapsto> Contents []) else fs))"

definition Rename :: "os_env \<Rightarrow> string \<Rightarrow> string \<Rightarrow> fs \<Rightarrow> go_err option \<times> fs" where
  "Rename S p q fs = (case os_rename S p of Some e \<Rightarrow> (Some e, fs) | None \<Rightarrow> (None, fs(q := fs p, p := None)))"

definition GetArmaDir :: "os_env \<Rightarrow> go_err + string" where
  "GetArmaDir S = (case os_getwd S of
     Inl e \<Rightarrow> Inl (Errorf ''error getting executable directory: %s'' [ArgErr e]) | Inr d \<Rightarrow> Inr d)"

section \<open>What is built up\<close>

record build_vars =
  bv_Version :: string
  bv_Commit :: string
  bv_Date :: string
  bv_Addon :: string
  bv_ExtensionName :: string

text \<open>\<open>se_base\<close> holds what \<open>ext_env\<close> needs beside what \<open>init\<close> finds out.\<close>

record 'v start_env =
  se_os :: os_env
  se_viper :: "'v viper"
  se_log :: log_env
  se_otel :: otel_env
  se_error_text :: "go_err \<Rightarrow> string"
  se_vars :: build_vars
  se_base :: ext_env

record 'v start =
  st_fs :: fs
  st_entries :: "entry list"
  st_stderr :: "string list"
  st_viper :: 'v
  st_slog :: slog_manager

record globals =
  g_ArmaDir :: string
  g_ModulePath :: string
  g_AddonFolder :: string
  g_InitLogFile :: io_writer
  g_OcapLogFilePath :: string
  g_OcapLogFile :: io_writer
  g_OTelProvider :: "otel_provider option"
  g_GOMAXPROCS :: nat
  g_system :: "ext dispatcher"

definition say :: "'v start_env \<Rightarrow> int \<Rightarrow> string \<Rightarrow> any list \<Rightarrow> 'v start \<Rightarrow> 'v start" where
  "say E level msg args st = (case sm_logger (st_slog st) of
     None \<Rightarrow> st | Some h \<Rightarrow> st\<lparr>st_entries := log_at (se_log E) level msg args h (st_entries st)\<rparr>)"

definition to_stderr :: "string \<Rightarrow> 'v start \<Rightarrow> 'v start" where
  "to_stderr msg st = st\<lparr>st_stderr := st_stderr st @ [msg]\<rparr>"

text \<open>\<open>if err != nil\<close> with a message that shows the error.\<close>

definition report_err :: "(string \<Rightarrow> 'v start \<Rightarrow> 'v start) \<Rightarrow> 'v start_env \<Rightarrow> go_err option \<times> fs \<Rightarrow> 'v start \<Rightarrow> 'v start" where
  "report_err f E r st = (case r of
     (None, fs) \<Rightarrow> st\<lparr>st_fs := fs\<rparr> | (Some e, fs) \<Rightarrow> f (se_error_text E e) (st\<lparr>st_fs := fs\<rparr>))"

section \<open>The steps of init\<close>

definition addon_folder :: "string \<Rightarrow> string \<Rightarrow> string \<Rightarrow> string" where
  "addon_folder armaDir modulePath addon =
     (if path_Dir modulePath = armaDir then path_Join [armaDir, ''@'' @ addon] else path_Dir modulePath)"

definition make_addon_folder :: "'v start_env \<Rightarrow> string \<Rightarrow> 'v start \<Rightarrow> 'v start" where
  "make_addon_folder E folder st =
     (if Stat (se_os E) (st_fs st) folder = IsNotExist
      then report_err (\<lambda>e. to_stderr (''Failed to create addon folder: '' @ e)) E (Mkdir (se_os E) folder (st_fs st)) st
      else st)"

definition open_init_log :: "'v start_env \<Rightarrow> string \<Rightarrow> 'v start \<Rightarrow> io_writer \<times> 'v start" where
  "open_init_log E path st =
     (let r = Create (se_os E) path (st_fs st)
      in (OSFile (if fst r = None then Some path else None),
          report_err (\<lambda>e. to_stderr (''Failed to create init log file: '' @ e)) E r st))"

definition setup_logging :: "'v start_env \<Rightarrow> io_writer \<Rightarrow> bool \<Rightarrow> 'v start \<Rightarrow> 'v start" where
  "setup_logging E file provider st =
     (let (m, s) = Setup (se_log E) (Some file) (vp_GetString (se_viper E) ''logLevel'' (st_viper st)) provider
         (st_slog st) (st_entries st)
      in st\<lparr>st_slog := m, st_entries := s\<rparr>)"

definition load_config :: "'v start_env \<Rightarrow> string \<Rightarrow> 'v start \<Rightarrow> 'v start" where
  "load_config E addonFolder st = (case Load (se_viper E) addonFolder (st_viper st) of
     (Some err, v) \<Rightarrow> say E LevelWarn ''Failed to load config, using defaults!'' [AString ''error'', AString (se_error_text E err)]
       (st\<lparr>st_viper := v\<rparr>)
   | (None, v) \<Rightarrow> say E LevelInfo ''Loaded config'' [] (st\<lparr>st_viper := v\<rparr>))"

definition make_logs_dir :: "'v start_env \<Rightarrow> string \<Rightarrow> 'v start \<Rightarrow> 'v start" where
  "make_logs_dir E dir st =
     (if Stat (se_os E) (st_fs st) dir = IsNotExist
      then report_err (\<lambda>e. say E LevelWarn ''Failed to create logs directory'' [AString ''error'', AString e]) E
        (Mkdir (se_os E) dir (st_fs st)) st
      else st)"

definition rotate_log :: "'v start_env \<Rightarrow> string \<Rightarrow> 'v start \<Rightarrow> 'v start" where
  "rotate_log E path st =
     (if Stat (se_os E) (st_fs st) path = Exists
      then report_err (\<lambda>e. say E LevelWarn ''Failed to rotate old log file'' [AString ''error'', AString e]) E
        (Rename (se_os E) path (path @ ''.old'') (st_fs st)) st
      else st)"

definition open_log :: "'v start_env \<Rightarrow> string \<Rightarrow> 'v start \<Rightarrow> io_writer \<times> 'v start" where
  "open_log E path st =
     (let r = OpenAppend (se_os E) path (st_fs st)
      in (OSFile (if fst r = None then Some path else None),
          say E LevelInfo ''Begin logging in logs directory'' [AString ''path'', AString path]
            (report_err (\<lambda>e. say E LevelError ''Failed to create/open log file!''
               [AString ''error'', AString e, AString ''path'', AString path]) E r st)))"

definition start_otel :: "'v start_env \<Rightarrow> string \<Rightarrow> io_writer \<Rightarrow> 'v start \<Rightarrow> otel_provider option \<times> 'v start" where
  "start_otel E path file st =
     (let cfg = GetOTelConfig (se_viper E) (st_viper st)
      in if \<not> ot_Enabled cfg then (None, st)
         else case otel_New (se_otel E) \<lparr>oc_Enabled = ot_Enabled cfg, oc_ServiceName = ot_ServiceName cfg,
              oc_BatchTimeout = ot_BatchTimeout cfg, oc_LogWriter = Some file, oc_Endpoint = ot_Endpoint cfg,
              oc_Insecure = ot_Insecure cfg\<rparr> of
           Inl err \<Rightarrow> (None, say E LevelError ''Failed to initialize OTel provider'' [AString ''error'', AString (se_error_text E err)] st)
         | Inr p \<Rightarrow> (Some p, say E LevelInfo ''OTel provider initialized''
             ([AString ''file'', AString path] @ (if ot_Endpoint cfg \<noteq> [] then [AString ''endpoint'', AString (ot_Endpoint cfg)] else [])) st))"

text \<open>The commands that are there from the start; only creating the dispatcher's metrics can fail.\<close>

definition setupA3Interface :: "'v start_env \<Rightarrow> ext_env \<Rightarrow> 'v start \<Rightarrow> (go_err + ext dispatcher) \<times> 'v start" where
  "setupA3Interface E X st = (case dispatcher_New (os_metrics (se_os E)) (new_ext X) of
     Inl err \<Rightarrow> (Inl (Errorf ''failed to create early dispatcher: %w'' [ArgErr err]), st)
   | Inr earlyDispatcher \<Rightarrow> (Inr (registerLifecycleHandlers X earlyDispatcher),
       say E LevelInfo ''Early dispatcher initialized with lifecycle handlers'' [] st))"

definition hostCoreReserve :: nat where "hostCoreReserve = 2"

definition minCoresBeforeReserve :: nat where "minCoresBeforeReserve = hostCoreReserve + 3"

definition reserve_cores :: "nat \<Rightarrow> nat" where
  "reserve_cores current = (if current \<ge> minCoresBeforeReserve then current - hostCoreReserve else current)"

definition set_procs :: "'v start_env \<Rightarrow> 'v start \<Rightarrow> nat \<times> 'v start" where
  "set_procs E st =
     (let S = se_os E; n = os_GOMAXPROCS S;
          st = fold (\<lambda>m. say E LevelInfo (''automaxprocs: '' @ m) []) (os_maxprocs_says S) st;
          st = (case os_maxprocs S of None \<Rightarrow> st | Some e \<Rightarrow> say E LevelWarn
             ''automaxprocs failed, falling back to default GOMAXPROCS'' [AString ''error'', AString (se_error_text E e)] st);
          st = (if n \<ge> minCoresBeforeReserve then say E LevelInfo ''reserved CPU cores for host''
             [AString ''gomaxprocs'', AInt (int (reserve_cores n)), AString ''reserved'', AInt (int hostCoreReserve),
              AString ''previous'', AInt (int n)] st else st)
      in (reserve_cores n, st))"

definition env_of :: "'v start_env \<Rightarrow> string \<Rightarrow> string \<Rightarrow> 'v \<Rightarrow> ext_env" where
  "env_of E armaDir ocapLog v =
     (let V = se_viper E; B = se_vars E; cfg = GetStorageConfig V v in (se_base E)\<lparr>
        xe_BuildVersion := bv_Version B, xe_BuildCommit := bv_Commit B, xe_BuildDate := bv_Date B,
        xe_ArmaDir := armaDir, xe_ModulePath := os_module (se_os E), xe_OcapLogFilePath := ocapLog,
        xe_defaultTag := GetString V ''defaultTag'' v, xe_storage := \<lparr>sc_Type = cf_Type cfg, sc_Memory = cf_Memory cfg\<rparr>,
        xe_serverUrl := ap_ServerURL (GetAPIConfig V v)\<rparr>)"

text \<open>The left side: the error \<open>init\<close> panics with.\<close>

definition main_init :: "'v start_env \<Rightarrow> 'v start \<Rightarrow> (go_err + globals) \<times> 'v start" where
  "main_init E st = (case GetArmaDir (se_os E) of
     Inl err \<Rightarrow> (Inl err, st)
   | Inr armaDir \<Rightarrow>
       let S = se_os E; folder = addon_folder armaDir (os_module S) (bv_Addon (se_vars E));
           st = make_addon_folder E folder st;
           (initLog, st) = open_init_log E (path_Join [folder, ''init.log'']) st;
           st = st\<lparr>st_slog := NewSlogManager\<rparr>;
           st = setup_logging E initLog False st;
           st = load_config E folder st;
           logsDir = vp_GetString (se_viper E) ''logsDir'' (st_viper st);
           st = make_logs_dir E logsDir st;
           path = LogFilePath logsDir (bv_ExtensionName (se_vars E)) (os_stamp S);
           st = rotate_log E path st;
           (log, st) = open_log E path st;
           (otel, st) = start_otel E path log st;
           st = setup_logging E log (case otel of None \<Rightarrow> False | Some p \<Rightarrow> op_logProvider p \<noteq> None) st;
           st = say E LevelInfo ''Logging to file'' [AString ''path'', AString path] st;
           st = say E LevelInfo ''Setting up a3interface...'' [] st;
           (r, st) = setupA3Interface E (env_of E armaDir path (st_viper st)) st
       in (case r of
             Inl err \<Rightarrow> (Inl err, say E LevelError ''Failed to set up a3interfaces!'' [AString ''error'', AString (se_error_text E err)] st)
           | Inr d \<Rightarrow>
               let st = say E LevelInfo ''Set up a3interfaces'' [] st;
                   (procs, st) = set_procs E st;
                   st = say E LevelDebug ''Final GOMAXPROCS'' [AString ''gomaxprocs'', AInt (int procs),
                     AString ''numCPUs'', AInt (int (os_NumCPU S))] st
               in (Inr \<lparr>g_ArmaDir = armaDir, g_ModulePath = os_module S, g_AddonFolder = folder, g_InitLogFile = initLog,
                    g_OcapLogFilePath = path, g_OcapLogFile = log, g_OTelProvider = otel, g_GOMAXPROCS = procs,
                    g_system = d\<rparr>, st)))"

end
