(* ===== verification/Startup_Properties.thy ===== *)
theory Startup_Properties
  imports Startup Lifecycle_Properties
begin

text \<open>
  What holds of loading the library: which failures stop it, what becomes of the log of an earlier session, and that
  without a configuration file there is a recorder that works. At the end what the fan-out of log records promises.
\<close>

section \<open>What logging leaves alone\<close>

lemma say_frame [simp]:
  "st_fs (say E l m a st) = st_fs st" "st_viper (say E l m a st) = st_viper st" "st_slog (say E l m a st) = st_slog st"
  "st_stderr (say E l m a st) = st_stderr st"
  by (simp_all add: say_def split: option.splits)

lemma to_stderr_frame [simp]:
  "st_fs (to_stderr m st) = st_fs st" "st_viper (to_stderr m st) = st_viper st"
  by (simp_all add: to_stderr_def)

lemma report_err_fs:
  "(\<And>e st. st_fs (f e st) = st_fs st) \<Longrightarrow> st_fs (report_err f E r st) = snd r"
  by (simp add: report_err_def split: prod.splits option.splits)

lemma report_err_viper:
  "(\<And>e st. st_viper (f e st) = st_viper st) \<Longrightarrow> st_viper (report_err f E r st) = st_viper st"
  by (simp add: report_err_def split: prod.splits option.splits)

lemma setup_logging_frame [simp]:
  "st_fs (setup_logging E w p st) = st_fs st" "st_viper (setup_logging E w p st) = st_viper st"
  by (simp_all add: setup_logging_def split: prod.splits)

lemma load_config_frame [simp]:
  "st_fs (load_config E dir st) = st_fs st"
  "st_viper (load_config E dir st) = snd (Load (se_viper E) dir (st_viper st))"
  by (simp_all add: load_config_def split: prod.splits option.splits)

lemma start_otel_frame [simp]:
  "st_fs (snd (start_otel E path w st)) = st_fs st" "st_viper (snd (start_otel E path w st)) = st_viper st"
  by (simp_all add: start_otel_def Let_def split: sum.splits)

lemma setupA3Interface_frame [simp]:
  "st_fs (snd (setupA3Interface E X st)) = st_fs st" "st_viper (snd (setupA3Interface E X st)) = st_viper st"
  by (simp_all add: setupA3Interface_def split: sum.splits)

lemma fold_say_frame [simp]:
  "st_fs (fold (\<lambda>m. say E l (f m) a) ms st) = st_fs st" "st_viper (fold (\<lambda>m. say E l (f m) a) ms st) = st_viper st"
  by (induction ms arbitrary: st) simp_all

lemma set_procs_frame [simp]:
  "st_fs (snd (set_procs E st)) = st_fs st" "st_viper (snd (set_procs E st)) = st_viper st"
  "fst (set_procs E st) = reserve_cores (os_GOMAXPROCS (se_os E))"
  by (simp_all add: set_procs_def Let_def split: option.splits)

lemma paths_frame [simp]:
  "st_viper (make_addon_folder E folder st) = st_viper st" "st_viper (snd (open_init_log E p st)) = st_viper st"
  "st_viper (make_logs_dir E dir st) = st_viper st" "st_viper (rotate_log E p st) = st_viper st"
  "st_viper (snd (open_log E p st)) = st_viper st"
  by (simp_all add: make_addon_folder_def open_init_log_def make_logs_dir_def rotate_log_def open_log_def Let_def report_err_viper)

lemma paths_fs:
  "st_fs (make_addon_folder E folder st) =
     (if Stat (se_os E) (st_fs st) folder = IsNotExist then snd (Mkdir (se_os E) folder (st_fs st)) else st_fs st)"
  "st_fs (snd (open_init_log E p st)) = snd (Create (se_os E) p (st_fs st))"
  "st_fs (make_logs_dir E dir st) =
     (if Stat (se_os E) (st_fs st) dir = IsNotExist then snd (Mkdir (se_os E) dir (st_fs st)) else st_fs st)"
  "st_fs (rotate_log E p st) =
     (if Stat (se_os E) (st_fs st) p = Exists then snd (Rename (se_os E) p (p @ ''.old'') (st_fs st)) else st_fs st)"
  "st_fs (snd (open_log E p st)) = snd (OpenAppend (se_os E) p (st_fs st))"
  by (simp_all add: make_addon_folder_def open_init_log_def make_logs_dir_def rotate_log_def open_log_def Let_def report_err_fs)

section \<open>Loading\<close>

lemmas main_init_splits = sum.splits prod.splits

text \<open>The configuration that \<open>init\<close> works with, and the path of the log.\<close>

definition loaded_config :: "'v start_env \<Rightarrow> string \<Rightarrow> 'v start \<Rightarrow> 'v" where
  "loaded_config E armaDir st =
     snd (Load (se_viper E) (addon_folder armaDir (os_module (se_os E)) (bv_Addon (se_vars E))) (st_viper st))"

definition log_path :: "'v start_env \<Rightarrow> string \<Rightarrow> 'v start \<Rightarrow> string" where
  "log_path E armaDir st = LogFilePath (vp_GetString (se_viper E) ''logsDir'' (loaded_config E armaDir st))
     (bv_ExtensionName (se_vars E)) (os_stamp (se_os E))"

lemma main_init_loads:
  assumes "os_getwd (se_os E) = Inr armaDir" "os_metrics (se_os E) = willing_meter"
  shows "\<exists>g st'. main_init E st = (Inr g, st') \<and> g_ArmaDir g = armaDir \<and>
    g_OcapLogFilePath g = log_path E armaDir st \<and>
    g_GOMAXPROCS g = reserve_cores (os_GOMAXPROCS (se_os E)) \<and>
    g_system g = new_system (env_of E armaDir (log_path E armaDir st) (loaded_config E armaDir st))"
  using assms
  by (simp add: main_init_def GetArmaDir_def Let_def case_prod_beta setupA3Interface_def new_system_def log_path_def loaded_config_def)

definition init_log_path :: "'v start_env \<Rightarrow> string \<Rightarrow> string" where
  "init_log_path E armaDir = path_Join [addon_folder armaDir (os_module (se_os E)) (bv_Addon (se_vars E)), ''init.log'']"

definition before_rotation :: "'v start_env \<Rightarrow> string \<Rightarrow> 'v start \<Rightarrow> 'v start" where
  "before_rotation E armaDir st =
     (let folder = addon_folder armaDir (os_module (se_os E)) (bv_Addon (se_vars E));
          (w, st) = open_init_log E (init_log_path E armaDir) (make_addon_folder E folder st);
          st = load_config E folder (setup_logging E w False (st\<lparr>st_slog := NewSlogManager\<rparr>))
      in make_logs_dir E (vp_GetString (se_viper E) ''logsDir'' (st_viper st)) st)"

lemma main_init_fs:
  assumes "os_getwd (se_os E) = Inr armaDir"
  shows "st_fs (snd (main_init E st)) =
    snd (OpenAppend (se_os E) (log_path E armaDir st) (st_fs (rotate_log E (log_path E armaDir st) (before_rotation E armaDir st))))"
  using assms
  by (simp add: main_init_def GetArmaDir_def Let_def case_prod_beta log_path_def loaded_config_def before_rotation_def
      init_log_path_def paths_fs split: sum.splits)

lemma nodes_stay:
  "fs q = Some n \<Longrightarrow> snd (Mkdir S p fs) q = Some n"
  "fs q = Some n \<Longrightarrow> q \<noteq> p \<Longrightarrow> snd (Create S p fs) q = Some n"
  "fs q = Some n \<Longrightarrow> snd (OpenAppend S p fs) q = Some n"
  by (auto simp: Mkdir_def Create_def OpenAppend_def split: option.splits)

lemma before_rotation_keeps:
  assumes "st_fs st q = Some n" "q \<noteq> init_log_path E armaDir"
  shows "st_fs (before_rotation E armaDir st) q = Some n"
  using assms by (simp add: before_rotation_def Let_def case_prod_beta paths_fs nodes_stay)

lemma rotation_keeps:
  assumes "fs p = Some n"
  shows "snd (Rename S p (p @ ''.old'') fs) p = Some n \<or> snd (Rename S p (p @ ''.old'') fs) (p @ ''.old'') = Some n"
  using assms by (simp add: Rename_def split: option.splits)

text \<open>At least one processor is left, three where two are kept back for the game.\<close>

lemma reserve_cores_bounds:
  "reserve_cores n \<le> n" "0 < n \<Longrightarrow> 0 < reserve_cores n" "reserve_cores n < n \<Longrightarrow> 3 \<le> reserve_cores n"
  "m \<le> n \<Longrightarrow> m \<noteq> 4 \<Longrightarrow> reserve_cores m \<le> reserve_cores n"
  by (auto simp: reserve_cores_def minCoresBeforeReserve_def hostCoreReserve_def)

text \<open>
  The log of an earlier session is not lost: what was at the path of the log before \<open>init\<close> is afterwards there or
  under the name with .old, whatever fails, also if \<open>init\<close> panics.
\<close>

theorem old_log_kept:
  assumes "os_getwd (se_os E) = Inr armaDir" "st_fs st (log_path E armaDir st) = Some n"
    "log_path E armaDir st \<noteq> init_log_path E armaDir"
  shows "st_fs (snd (main_init E st)) (log_path E armaDir st) = Some n \<or>
    st_fs (snd (main_init E st)) (log_path E armaDir st @ ''.old'') = Some n"
proof -
  have "st_fs (before_rotation E armaDir st) (log_path E armaDir st) = Some n"
    using before_rotation_keeps assms(2, 3) .
  then show ?thesis
    using rotation_keeps [of _ "log_path E armaDir st" n "se_os E"] nodes_stay(3)
    by (simp add: main_init_fs [OF assms(1)] paths_fs) blast
qed

section \<open>An example\<close>

text \<open>A viper that keeps defaults in a list and finds no file; a machine on which every operation on files fails.\<close>

definition bare_string :: "string \<Rightarrow> (string \<times> any) list \<Rightarrow> string" where
  "bare_string k v = (case map_of v k of Some (AString s) \<Rightarrow> s | _ \<Rightarrow> [])"

definition bare_bool :: "string \<Rightarrow> (string \<times> any) list \<Rightarrow> bool" where
  "bare_bool k v = (case map_of v k of Some (ABool b) \<Rightarrow> b | _ \<Rightarrow> False)"

definition bare_viper :: "(string \<times> any) list viper" where
  "bare_viper = \<lparr>vp_SetDefault = \<lambda>k x v. (k, x) # v, vp_SetConfigName = \<lambda>_ v. v, vp_AddConfigPath = \<lambda>_ v. v,
     vp_SetConfigType = \<lambda>_ v. v, vp_ReadInConfig = \<lambda>v. (Some (Errorf ''not found'' []), v),
     vp_GetString = bare_string, vp_GetInt = \<lambda>k v. 0, vp_GetBool = bare_bool,
     vp_storage = \<lambda>v c. (None, c\<lparr>cf_Type := bare_string ''storage.type'' v, cf_Memory := \<lparr>mc_OutputDir =
       bare_string ''storage.memory.outputDir'' v, mc_CompressOutput = bare_bool ''storage.memory.compressOutput'' v\<rparr>\<rparr>),
     vp_otel = \<lambda>v c. (None, c), vp_api = \<lambda>v c. (None, c)\<rparr>"

definition broken_machine :: os_env where
  "broken_machine = (let broken = (\<lambda>_. Some (Errorf ''input/output error'' [])) in
     \<lparr>os_getwd = Inr ''/arma'', os_module = ''/arma/ocap.so'', os_stat = \<lambda>_. None, os_mkdir = broken, os_create = broken,
      os_rename = broken, os_open = broken, os_stamp = ''20240101_200000'', os_metrics = willing_meter, os_maxprocs = None,
      os_maxprocs_says = [], os_GOMAXPROCS = 8, os_NumCPU = 8\<rparr>)"

definition quiet_log :: log_env where
  "quiet_log = \<lparr>le_now = \<lambda>_. ZeroTime, le_RFC3339 = \<lambda>_. [], le_write = \<lambda>_ _. None, le_otel_enabled = \<lambda>_. True,
     le_otel_emit = \<lambda>_ _ _. Some (Errorf ''no exporter'' []), le_otel_flush = None\<rparr>"

definition bare_env :: "(string \<times> any) list start_env" where
  "bare_env = \<lparr>se_os = broken_machine, se_viper = bare_viper, se_log = quiet_log, se_otel = \<lparr>oe_resource = None,
     oe_file = None, oe_otlp = None, oe_flush = None, oe_shutdown = None\<rparr>, se_error_text = \<lambda>_. ''error'',
     se_vars = \<lparr>bv_Version = ''dev'', bv_Commit = ''unknown'', bv_Date = ''unknown'', bv_Addon = ''ocap'',
       bv_ExtensionName = ''ocap_recorder''\<rparr>, se_base = lone_env\<rparr>"

definition bare_start :: "(string \<times> any) list start" where
  "bare_start = \<lparr>st_fs = \<lambda>_. None, st_entries = [], st_stderr = [], st_viper = [], st_slog = NewSlogManager\<rparr>"

lemma map_of_rev_distinct: "distinct (map fst ds) \<Longrightarrow> map_of (rev ds) = map_of ds"
proof (induction ds)
  case (Cons d ds)
  then have "fst d \<notin> dom (map_of (rev ds))" by (simp add: dom_map_of_conv_image_fst)
  with Cons show ?case by (cases d) (auto simp: map_add_def fun_eq_iff domIff split: option.splits)
qed simp

lemma bare_defaults:
  assumes "distinct (map fst ds)"
  shows "map_of (set_defaults bare_viper ds []) = map_of ds"
proof -
  have "set_defaults bare_viper ds v = rev ds @ v" for v
    by (induction ds arbitrary: v) (auto simp: set_defaults_def bare_viper_def)
  then show ?thesis using assms by (simp add: map_of_rev_distinct)
qed

lemma bare_viper_simps:
  "locate bare_viper dir v = v" "vp_ReadInConfig bare_viper v = (Some (Errorf ''not found'' []), v)"
  "vp_GetString bare_viper = bare_string" "vp_GetBool bare_viper = bare_bool"
  "fst (vp_storage bare_viper v c) = None" "cf_Type (snd (vp_storage bare_viper v c)) = bare_string ''storage.type'' v"
  "cf_Memory (snd (vp_storage bare_viper v c)) = \<lparr>mc_OutputDir = bare_string ''storage.memory.outputDir'' v,
     mc_CompressOutput = bare_bool ''storage.memory.compressOutput'' v\<rparr>"
  by (simp_all add: locate_def bare_viper_def)

lemma bare_viper_laws: "viper_laws bare_viper []"
  unfolding viper_laws_def bare_viper_simps
  by (auto simp del: map_of_eq_Some_iff simp: bare_string_def bare_bool_def bare_defaults)

section \<open>Properties\<close>



text \<open>
  C27. A log file that can be written gets every message whose level is at least the configured one, whatever
  OpenTelemetry does with it, and no other: after \<open>Setup\<close> a message written with \<open>WriteLog\<close> is a line of the file
  with its function's name, exactly if its level is high enough.
\<close>

theorem log_file_is_complete:
  assumes "\<forall>s. le_write E (OSFile (Some p)) s = None" "Setup E (Some (OSFile (Some p))) level provider m s0 = (m', s1)"
  shows "if parseLevel level \<le> parseLevel lvl
    then Line (OSFile (Some p)) (line_of E [] \<lparr>lr_Time = le_now E s, lr_Level = parseLevel lvl, lr_Message = data,
      lr_Attrs = [(''function'', VAny (AString f))]\<rparr>) \<in> set (WriteLog E f data lvl m' s)
    else \<forall>w l. Line w l \<in> set (WriteLog E f data lvl m' s) \<longrightarrow> Line w l \<in> set s"
proof -
  let ?hs = "TextHandler (OSFile (Some p)) (parseLevel level) [] # (if provider then [OTelHandler []] else [])"
  have "sm_logger m' = Some (MultiHandler ?hs)"
    using assms(2) by (auto simp: Setup_def Let_def NewMultiHandler_def)
  moreover have "leaves (MultiHandler ?hs) = ?hs" by simp
  ultimately have w: "WriteLog E f data lvl m' s = fold (offer E \<lparr>lr_Time = le_now E s, lr_Level = parseLevel lvl,
      lr_Message = data, lr_Attrs = [(''function'', VAny (AString f))]\<rparr>) ?hs s"
    by (simp only: WriteLog_def option.case log_at_leaves args_to_attrs.simps)
  show ?thesis
  proof (cases "parseLevel level \<le> parseLevel lvl")
    case True
    have "Line (OSFile (Some p)) (line_of E [] r) \<in> set (fold (offer E r) ?hs s)" if "lr_Level r = parseLevel lvl" for r
      by (rule working_file_reached [where lvl = "parseLevel level"]) (use that True assms(1) in simp_all)
    with True show ?thesis unfolding w by (simp only: if_True log_record.select_convs)
  next
    case False
    then show ?thesis unfolding w by (auto simp: offer_def split: option.splits)
  qed
qed

theorem log_file_is_complete_witness:
  "\<exists>l. Line (OSFile (Some ''ocap.log'')) l \<in> set (WriteLog quiet_log ''writeQueue'' ''Error creating rows'' ''ERROR''
     (fst (Setup quiet_log (Some (OSFile (Some ''ocap.log''))) ''info'' True NewSlogManager [])) [])"
proof -
  have "parseLevel ''info'' \<le> parseLevel ''ERROR''" by code_simp
  then show ?thesis
    using log_file_is_complete [of quiet_log "''ocap.log''" "''info''" True NewSlogManager "[]" _ _ "''ERROR''" "[]"
        "''Error creating rows''" "''writeQueue''", OF _ prod.collapse [symmetric]]
    by (auto simp: quiet_log_def)
qed

end
