(* ===== verification/Json_Facts.thy ===== *)
theory Json_Facts
  imports Json_Text
begin

text \<open>
  What encoding/json writes it reads back: every text of \<open>Json_Text\<close> is read by the parser of \<open>GoJson\<close>, whatever
  follows it, as the tree of its value. \<open>parses_as\<close> says so of one text, and arrays and objects are put together
  from it.
\<close>

section \<open>Strings\<close>

text \<open>What becomes of a string: bytes that are no UTF-8 are replaced.\<close>

function utf8_clean :: "string \<Rightarrow> string" where
  "utf8_clean s =
     (if s = [] then []
      else let n = utf8_len s in
        if n = 0 then rune_error @ utf8_clean (tl s) else take n s @ utf8_clean (drop n s))"
  by pat_completeness auto
termination
  by (relation "measure length") auto

declare utf8_clean.simps [simp del]

definition valid_utf8 :: "string \<Rightarrow> bool" where
  "valid_utf8 s \<longleftrightarrow> utf8_clean s = s"

lemma utf8_len_le: "utf8_len s \<le> length s"
  by (cases s) (auto simp: utf8_len_def Let_def)

lemma utf8_len_ascii: "s \<noteq> [] \<Longrightarrow> byte (hd s) < 128 \<Longrightarrow> utf8_len s = 1"
  by (cases s) (auto simp: utf8_len_def)

lemma utf8_len_cases:
  assumes "s \<noteq> []"
  shows "byte (s ! 0) < 128 \<Longrightarrow> utf8_len s = 1"
    and "194 \<le> byte (s ! 0) \<Longrightarrow> byte (s ! 0) \<le> 223 \<Longrightarrow> utf8_len s = (if 2 \<le> length s \<and> is_cont (s ! 1) then 2 else 0)"
    and "224 \<le> byte (s ! 0) \<Longrightarrow> byte (s ! 0) \<le> 239 \<Longrightarrow> utf8_len s = (if 3 \<le> length s \<and> is_cont (s ! 2) \<and>
      (if byte (s ! 0) = 224 then between 160 191 (s ! 1)
       else if byte (s ! 0) = 237 then between 128 159 (s ! 1) else is_cont (s ! 1)) then 3 else 0)"
    and "240 \<le> byte (s ! 0) \<Longrightarrow> byte (s ! 0) \<le> 244 \<Longrightarrow> utf8_len s = (if 4 \<le> length s \<and> is_cont (s ! 2) \<and> is_cont (s ! 3) \<and>
      (if byte (s ! 0) = 240 then between 144 191 (s ! 1)
       else if byte (s ! 0) = 244 then between 128 143 (s ! 1) else is_cont (s ! 1)) then 4 else 0)"
    and "\<not> byte (s ! 0) < 128 \<Longrightarrow> \<not> (194 \<le> byte (s ! 0) \<and> byte (s ! 0) \<le> 223) \<Longrightarrow>
      \<not> (224 \<le> byte (s ! 0) \<and> byte (s ! 0) \<le> 239) \<Longrightarrow> \<not> (240 \<le> byte (s ! 0) \<and> byte (s ! 0) \<le> 244) \<Longrightarrow> utf8_len s = 0"
  using assms by (simp add: utf8_len_def Let_def, simp add: utf8_len_def Let_def, simp add: utf8_len_def Let_def,
      simp add: utf8_len_def Let_def, (auto simp: utf8_len_def)[1])

lemma utf8_len_prefix:
  assumes "utf8_len s = k" "0 < k"
  shows "utf8_len (take k s @ u) = k"
proof -
  have ne: "s \<noteq> []" "k \<le> length s" using assms utf8_len_le [of s] by auto
  let ?t = "take k s @ u"
  have t: "?t \<noteq> []" "?t ! i = s ! i" if "i < k" for i
    using that ne(2) assms(2) by (auto simp: nth_append)
  note s = utf8_len_cases [OF ne(1)] and t' = utf8_len_cases [OF t(1) [OF assms(2)], unfolded t(2) [OF assms(2)]]
  consider "byte (s ! 0) < 128" | "194 \<le> byte (s ! 0)" "byte (s ! 0) \<le> 223" | "224 \<le> byte (s ! 0)" "byte (s ! 0) \<le> 239"
    | "240 \<le> byte (s ! 0)" "byte (s ! 0) \<le> 244" using s(5) assms by linarith
  then show ?thesis
  proof cases
    case 1
    then show ?thesis using s(1) t'(1) assms by simp
  next
    case 2
    then have "k = 2" "is_cont (s ! 1)" "2 \<le> length s" using s(2) [OF 2] assms by (auto split: if_splits)
    then show ?thesis using t'(2) [OF 2] t(2) [of 1] by simp
  next
    case 3
    then have "k = 3" "3 \<le> length s" using s(3) [OF 3] assms by (auto split: if_splits)
    then show ?thesis using t'(3) [OF 3] s(3) [OF 3] t(2) [of 1] t(2) [of 2] assms(1) by (simp split: if_splits)
  next
    case 4
    then have "k = 4" "4 \<le> length s" using s(4) [OF 4] assms by (auto split: if_splits)
    then show ?thesis using t'(4) [OF 4] s(4) [OF 4] t(2) [of 1] t(2) [of 2] t(2) [of 3] assms(1) by (simp split: if_splits)
  qed
qed

lemma ascii_valid: "\<forall>c \<in> set s. byte c < 128 \<Longrightarrow> utf8_clean s = s"
proof (induction s)
  case (Cons c s)
  then show ?case by (subst utf8_clean.simps) (simp add: utf8_len_ascii)
qed (simp add: utf8_clean.simps)

lemma hex_digit_val:
  assumes "i < 16"
  shows "hex_val (''0123456789abcdef'' ! i) = Some (int i)"
proof -
  have "\<forall>i \<in> set [0 ..< 16]. hex_val (''0123456789abcdef'' ! i) = Some (int i)" by code_simp
  with assms show ?thesis by simp
qed

lemma hex_number_4:
  assumes "a < 16" "b < 16" "c < 16" "d < 16"
  shows "hex_number (map (\<lambda>i. ''0123456789abcdef'' ! i) [a, b, c, d]) 0 = Some (int (((a * 16 + b) * 16 + c) * 16 + d))"
  using assms by (simp only: list.map hex_number.simps hex_digit_val option.case) simp

lemma getu4_hex: "n < 65536 \<Longrightarrow> getu4 (hex_digits 4 n @ r) = Some (int n)"
proof -
  assume n: "n < 65536"
  have r: "rev [0 ..< 4] = [3, 2, 1, 0 :: nat]" by (simp add: upt_rec)
  have h: "hex_digits 4 n = map (\<lambda>i. ''0123456789abcdef'' ! i) [n div 4096 mod 16, n div 256 mod 16, n div 16 mod 16, n mod 16]"
    unfolding hex_digits_def r by simp
  have "((n div 4096 mod 16 * 16 + n div 256 mod 16) * 16 + n div 16 mod 16) * 16 + n mod 16 = n"
  proof -
    have d: "n div 256 = n div 16 div 16" "n div 4096 = n div 16 div 16 div 16" by (simp_all flip: div_mult2_eq)
    have "n div 16 div 16 div 16 < 16" using n by (simp add: d flip: d)
    then show ?thesis unfolding d
      using div_mult_mod_eq [of n 16] div_mult_mod_eq [of "n div 16" 16] div_mult_mod_eq [of "n div 16 div 16" 16] by simp
  qed
  then have "hex_number (hex_digits 4 n) 0 = Some (int n)"
    unfolding h by (subst hex_number_4) (simp_all only: mod_less_divisor zero_less_numeral)
  moreover have "length (hex_digits 4 n) = 4" by (simp add: hex_digits_def)
  ultimately show ?thesis by (simp add: getu4_def)
qed

text \<open>A character below 128 is written as itself or as an escape, and read back.\<close>

lemma json_chars_plain:
  "32 \<le> byte c \<Longrightarrow> byte c < 128 \<Longrightarrow> c \<noteq> dquote \<Longrightarrow> c \<noteq> CHR 0x5C \<Longrightarrow>
     json_chars (c # r) = map_option (\<lambda>(a, r). (c # a, r)) (json_chars r)"
  by (subst json_chars.simps) (simp add: utf8_len_ascii)

lemma json_chars_simple:
  "simple_escape e = Some c \<Longrightarrow> json_chars (CHR 0x5C # e # r) = map_option (\<lambda>(a, r). (c # a, r)) (json_chars r)"
  by (subst json_chars.simps) simp

lemma json_chars_unicode:
  "unicode_escape r = Some (u, n) \<Longrightarrow> json_chars (CHR 0x5C # CHR ''u'' # r) = map_option (\<lambda>(a, r). (u @ a, r)) (json_chars (drop n r))"
  by (subst json_chars.simps) (simp add: simple_escape_def)

lemma unicode_escape_small:
  "n < 128 \<Longrightarrow> unicode_escape (hex_digits 4 n @ r) = Some ([char_of n], 4)"
  by (simp add: unicode_escape_def getu4_hex utf8_encode_def)

lemma json_chars_escaped:
  assumes "byte c < 128"
  shows "json_chars (json_escaped c @ r) = map_option (\<lambda>(a, r). (c # a, r)) (json_chars r)"
proof (cases "map_of escaped c")
  case (Some s)
  then have "(c, s) \<in> set escaped" by (rule map_of_SomeD)
  moreover have "list_all (\<lambda>(c, s). length s = 2 \<and> hd s = CHR 0x5C \<and> simple_escape (s ! 1) = Some c) escaped"
    by code_simp
  ultimately have "length s = 2" "hd s = CHR 0x5C" "simple_escape (s ! 1) = Some c" by (auto simp: list_all_iff)
  then have "\<exists>e. s = [CHR 0x5C, e] \<and> simple_escape e = Some c"
    by (cases s; cases "tl s") auto
  then show ?thesis using Some json_chars_simple by (auto simp: json_escaped_def)
next
  case None
  show ?thesis
  proof (cases "byte c < 32 \<or> c \<in> {CHR ''<'', CHR ''>'', CHR ''&''}")
    case True
    then have "json_escaped c = CHR 0x5C # CHR ''u'' # hex_digits 4 (byte c)" using None by (simp add: json_escaped_def)
    moreover have "length (hex_digits 4 (byte c)) = 4" by (simp add: hex_digits_def)
    ultimately show ?thesis
      using json_chars_unicode [OF unicode_escape_small [OF assms]] by simp
  next
    case False
    moreover have "c \<noteq> dquote" "c \<noteq> CHR 0x5C" using None by (auto simp: escaped_def)
    ultimately show ?thesis using None assms json_chars_plain [of c r] by (simp add: json_escaped_def)
  qed
qed

lemma json_chars_ufffd:
  "json_chars (CHR 0x5C # ''ufffd'' @ r) = map_option (\<lambda>(a, r). (rune_error @ a, r)) (json_chars r)"
proof -
  have "getu4 (''fffd'' @ r) = Some 0xFFFD" by (simp add: getu4_def hex_val_def is_digit_def lower_byte_def)
  then have "unicode_escape (''fffd'' @ r) = Some (rune_error, 4)"
    by (simp add: unicode_escape_def utf8_encode_def rune_error_def char_of_def)
  from json_chars_unicode [OF this] show ?thesis by simp
qed

lemma json_chars_separator:
  assumes "s \<in> set line_separators"
  shows "json_chars (CHR 0x5C # ''u202'' @ hex_digits 1 (byte (last s) mod 16) @ r)
    = map_option (\<lambda>(a, r). (s @ a, r)) (json_chars r)"
proof -
  have g: "getu4 (''2028'' @ r) = Some 0x2028" "getu4 (''2029'' @ r) = Some 0x2029"
    by (simp_all add: getu4_def hex_val_def is_digit_def digit_val_def lower_byte_def)
  then have u: "unicode_escape (''2028'' @ r) = Some ([CHR 0xE2, CHR 0x80, CHR 0xA8], 4)"
    "unicode_escape (''2029'' @ r) = Some ([CHR 0xE2, CHR 0x80, CHR 0xA9], 4)"
    by (simp_all add: unicode_escape_def utf8_encode_def char_of_def)
  have h: "hex_digits (Suc 0) 8 = ''8''" "hex_digits (Suc 0) 9 = ''9''" by (simp_all add: hex_digits_def)
  show ?thesis
    using assms json_chars_unicode [OF u(1)] json_chars_unicode [OF u(2)]
    by (auto simp: line_separators_def h)
qed

lemma json_chars_long:
  assumes "utf8_len s = n" "0 < n" "\<not> byte (hd s) < 128"
  shows "json_chars (take n s @ r) = map_option (\<lambda>(a, r). (take n s @ a, r)) (json_chars r)"
proof -
  have ne: "s \<noteq> []" "n \<le> length s" using assms utf8_len_le [of s] by (auto simp: utf8_len_def)
  have h: "take n s @ r \<noteq> []" "hd (take n s @ r) = hd s" using ne assms(2) by (auto simp: hd_append)
  have "hd s \<noteq> dquote" "\<not> byte (hd s) < 32" "hd s \<noteq> CHR 0x5C" using assms(3) by auto
  then show ?thesis
    using h utf8_len_prefix [OF assms(1,2), of r] assms(2) ne
    by (subst json_chars.simps) (simp add: Let_def)
qed

text \<open>The characters of a string literal.\<close>

lemma json_chars_string: "json_chars (json_string s @ dquote # r) = Some (utf8_clean s, r)"
proof (induction s arbitrary: r rule: json_string.induct)
  case (1 s)
  show ?case
  proof (cases "s = []")
    case True
    then show ?thesis by (simp add: json_string.simps utf8_clean.simps json_chars.simps)
  next
    case False
    consider (a) "byte (hd s) < 128" | (i) "\<not> byte (hd s) < 128" "utf8_len s = 0"
      | (l) "\<not> byte (hd s) < 128" "0 < utf8_len s" "take (utf8_len s) s \<in> set line_separators"
      | (m) "\<not> byte (hd s) < 128" "0 < utf8_len s" "take (utf8_len s) s \<notin> set line_separators" by blast
    then show ?thesis
    proof cases
      case a
      then show ?thesis
        using False 1(1) [OF False a] json_chars_escaped [OF a] utf8_len_ascii [OF False a]
        by (subst json_string.simps, subst utf8_clean.simps) (cases s; simp)
    next
      case i
      then show ?thesis
        using False 1(2) [OF False i(1) refl i(2)] json_chars_ufffd
        by (subst json_string.simps, subst utf8_clean.simps) simp
    next
      case l
      then show ?thesis
        using False 1(3) [OF False l(1) refl _ l(3)] json_chars_separator [OF l(3)]
        by (subst json_string.simps, subst utf8_clean.simps) (simp add: Let_def)
    next
      case m
      then show ?thesis
        using False 1(4) [OF False m(1) refl _ m(3)] json_chars_long [OF refl m(2,1)]
        by (subst json_string.simps, subst utf8_clean.simps) (simp add: Let_def)
    qed
  qed
qed

section \<open>Numbers\<close>

text \<open>The parts of a number: digits before the point, after it, and of the exponent with its sign.\<close>

definition frac_part :: "string \<Rightarrow> string" where
  "frac_part fp = (if fp = [] then [] else CHR ''.'' # fp)"

definition exp_part :: "(bool \<times> string) option \<Rightarrow> string" where
  "exp_part x = (case x of None \<Rightarrow> [] | Some (neg, ds) \<Rightarrow> CHR ''e'' # (if neg then CHR ''-'' else CHR ''+'') # ds)"

definition number_text :: "string \<Rightarrow> string \<Rightarrow> (bool \<times> string) option \<Rightarrow> string" where
  "number_text ip fp x = ip @ frac_part fp @ exp_part x"

definition all_digits :: "string \<Rightarrow> bool" where
  "all_digits s \<longleftrightarrow> (\<forall>c \<in> set s. is_digit c)"

definition exp_ok :: "(bool \<times> string) option \<Rightarrow> bool" where
  "exp_ok x = (case x of None \<Rightarrow> True | Some (neg, ds) \<Rightarrow> ds \<noteq> [] \<and> all_digits ds)"

definition number_ok :: "string \<Rightarrow> string \<Rightarrow> (bool \<times> string) option \<Rightarrow> bool" where
  "number_ok ip fp x \<longleftrightarrow> ip \<noteq> [] \<and> all_digits ip \<and> (hd ip = CHR ''0'' \<longrightarrow> ip = ''0'') \<and> all_digits fp \<and> exp_ok x"

text \<open>What follows a value: nothing, or the punctuation of the array or object it is in.\<close>

definition delim :: "string \<Rightarrow> bool" where
  "delim r \<longleftrightarrow> r = [] \<or> hd r \<in> {CHR '','', CHR '']'', CHR ''}''}"

text \<open>A text that does not go on with digits, and one that does not go on with a fraction either.\<close>

definition ends_int :: "string \<Rightarrow> bool" where
  "ends_int r \<longleftrightarrow> r = [] \<or> \<not> is_digit (hd r)"

lemma all_digits_simps [simp]: "all_digits []" "all_digits (c # s) = (is_digit c \<and> all_digits s)"
  "all_digits (s @ t) = (all_digits s \<and> all_digits t)" "all_digits (replicate n CHR ''0'')"
  by (auto simp: all_digits_def is_digit_def)

lemma digits_end:
  assumes "all_digits ds" "ends_int r"
  shows "dropWhile is_digit (ds @ r) = r" "takeWhile is_digit (ds @ r) = ds"
proof -
  have "dropWhile is_digit r = r" "takeWhile is_digit r = []" using assms(2) by (cases r; simp add: ends_int_def)+
  then show "dropWhile is_digit (ds @ r) = r" "takeWhile is_digit (ds @ r) = ds"
    using assms(1) by (induction ds) simp_all
qed

lemma delim_ends: "delim r \<Longrightarrow> ends_int r" "delim r \<Longrightarrow> r \<noteq> [] \<Longrightarrow> hd r \<noteq> CHR ''.''"
  "delim r \<Longrightarrow> r \<noteq> [] \<Longrightarrow> lower_byte (hd r) \<noteq> CHR ''e''"
  by (auto simp: delim_def ends_int_def is_digit_def lower_byte_def)

lemma parts_end:
  assumes "delim r"
  shows "ends_int (exp_part x @ r)" "exp_part x @ r \<noteq> [] \<Longrightarrow> hd (exp_part x @ r) \<noteq> CHR ''.''"
    "ends_int (frac_part fp @ exp_part x @ r)"
  using delim_ends [OF assms] by (auto simp: exp_part_def frac_part_def ends_int_def is_digit_def split: option.split)

lemma scan_exp_text: "exp_ok x \<Longrightarrow> delim r \<Longrightarrow> scan_exp (exp_part x @ r) = Some r"
  using delim_ends [of r] digits_end [of _ r]
  by (auto simp: exp_ok_def exp_part_def scan_exp_def drop_sign_def digits_prefix_def Let_def lower_byte_def split: option.splits)

lemma scan_frac_text:
  "all_digits fp \<Longrightarrow> ends_int r \<Longrightarrow> (r \<noteq> [] \<Longrightarrow> hd r \<noteq> CHR ''.'') \<Longrightarrow> scan_frac (frac_part fp @ r) = Some r"
  using digits_end [of fp r] by (auto simp: scan_frac_def frac_part_def digits_prefix_def)

lemma scan_int_text:
  assumes "ip \<noteq> []" "all_digits ip" "hd ip = CHR ''0'' \<longrightarrow> ip = ''0''" "ends_int r"
  shows "scan_int (ip @ r) = Some r"
proof -
  have "is_digit (hd ip)" using assms(1,2) by (cases ip) auto
  then show ?thesis
    using digits_end [OF assms(2,4)] assms(1,3) by (auto simp: scan_int_def)
qed

lemma json_number_text:
  assumes "number_ok ip fp x" "delim r"
  shows "json_number (number_text ip fp x @ r) = Some (JNum (number_text ip fp x), r)"
    and "json_number (CHR ''-'' # number_text ip fp x @ r) = Some (JNum (CHR ''-'' # number_text ip fp x), r)"
proof -
  have ok: "ip \<noteq> []" "all_digits ip" "hd ip = CHR ''0'' \<longrightarrow> ip = ''0''" "all_digits fp" "exp_ok x"
    using assms(1) by (simp_all add: number_ok_def)
  note e = parts_end [OF assms(2)]
  have scan: "Option.bind (Option.bind (scan_int (number_text ip fp x @ r)) scan_frac) scan_exp = Some r"
    using scan_int_text [OF ok(1,2,3) e(3)] scan_frac_text [OF ok(4) e(1,2)] scan_exp_text [OF ok(5) assms(2)]
    by (simp add: number_text_def)
  have h: "hd (number_text ip fp x @ r) \<noteq> CHR ''-''"
    using ok(1,2) by (cases ip) (auto simp: number_text_def is_digit_def)
  show "json_number (number_text ip fp x @ r) = Some (JNum (number_text ip fp x), r)"
    using h scan by (simp add: json_number_def)
  show "json_number (CHR ''-'' # number_text ip fp x @ r) = Some (JNum (CHR ''-'' # number_text ip fp x), r)"
    using scan by (simp add: json_number_def Suc_diff_le)
qed

subsection \<open>The texts of integers and floats\<close>

lemma format_nonneg_all_digits [simp]: "0 \<le> n \<Longrightarrow> all_digits (format_nonneg n)"
  using format_nonneg_digits by (simp add: all_digits_def)

lemma format_nonneg_head: "0 < n \<Longrightarrow> hd (format_nonneg n) \<noteq> CHR ''0''"
proof (induction n rule: format_nonneg.induct)
  case (1 n)
  show ?case
  proof (cases "n < 10")
    case True
    have "digit_char n \<noteq> CHR ''0''"
      by (rule digit_cases [OF less_imp_le [OF "1.prems"] True]) (use "1.prems" in \<open>simp_all add: digit_char_def char_of_def\<close>)
    with True show ?thesis by (simp add: format_nonneg.simps [of n])
  next
    case False
    then show ?thesis using 1 by (simp add: format_nonneg.simps [of n])
  qed
qed

lemma format_nonneg_0: "format_nonneg 0 = ''0''"
  by (simp add: format_nonneg.simps digit_char_def char_of_def)

lemma int_number_ok: "0 \<le> n \<Longrightarrow> number_ok (format_nonneg n) [] None"
  using format_nonneg_head [of n] format_nonneg_0 by (cases "n = 0") (auto simp: number_ok_def exp_ok_def is_digit_def)

text \<open>A text of a number, perhaps with a sign.\<close>

definition is_number :: "string \<Rightarrow> bool" where
  "is_number t \<longleftrightarrow> (\<exists>ip fp x. number_ok ip fp x \<and> (t = number_text ip fp x \<or> t = CHR ''-'' # number_text ip fp x))"

lemma is_number_sign: "number_ok ip fp x \<Longrightarrow> is_number ((if neg then ''-'' else []) @ number_text ip fp x)"
  unfolding is_number_def by (cases neg) (simp, blast)+

lemma format_int_number: "is_number (format_int i)"
proof -
  have "format_int i = (if i < 0 then ''-'' else []) @ number_text (format_nonneg \<bar>i\<bar>) [] None"
    by (simp add: format_int_def number_text_def frac_part_def exp_part_def)
  then show ?thesis using is_number_sign [OF int_number_ok [of "\<bar>i\<bar>"]] by simp
qed

lemma ilog10_bounds:
  assumes "0 < q"
  shows "10 powi (ilog10 q) \<le> q" "q < 10 powi (ilog10 q + 1)"
  using log_bounds [OF ndigits.simps _ assms, of "ilog10 q"] by (simp_all add: ilog10_def)

lemma round_abs_0: "round_abs F False 0 = FNum 0"
  by (simp add: round_abs_def)

lemma round_half_even_near: "round_half_even x = \<lfloor>x\<rfloor> \<or> round_half_even x = \<lfloor>x\<rfloor> + 1"
proof -
  have "(if a then n else if b then n + 1 else if c then n else n + 1) = n \<or>
      (if a then n else if b then n + 1 else if c then n else n + 1) = n + 1" for a b c and n :: int by simp
  then show ?thesis unfolding round_half_even_def Let_def .
qed

lemma try_digits_near:
  assumes "try_digits F q e = Some d" "0 < q"
  shows "reads_back F q d e" "0 < d" "\<lfloor>q / 10 powi e\<rfloor> \<le> d" "d \<le> \<lfloor>q / 10 powi e\<rfloor> + 1"
proof -
  have f: "0 \<le> \<lfloor>q / 10 powi e\<rfloor>" using assms(2) by simp
  have r: "reads_back F q d e \<and> \<lfloor>q / 10 powi e\<rfloor> \<le> d \<and> d \<le> \<lfloor>q / 10 powi e\<rfloor> + 1"
    using assms(1) round_half_even_near [of "q / 10 powi e"]
    by (auto simp: try_digits_def Let_def split: if_splits)
  then show "reads_back F q d e" "\<lfloor>q / 10 powi e\<rfloor> \<le> d" "d \<le> \<lfloor>q / 10 powi e\<rfloor> + 1" by simp_all
  have "d \<noteq> 0" using r assms(2) by (auto simp: reads_back_def round_abs_0)
  then show "0 < d" using r f by linarith
qed

lemma shortest_range:
  assumes "shortest F q n e = (d, e')" "0 < q"
  shows "0 < d \<or> d = 0 \<and> e' = e - int n" "e - int n \<le> e'" "e' \<le> e"
    "of_int d * 10 powi e' \<le> q + 10 powi e'"
proof -
  have "(0 < d \<or> d = 0 \<and> e' = e - int n) \<and> e - int n \<le> e' \<and> e' \<le> e \<and> of_int d * 10 powi e' \<le> q + 10 powi e'"
    using assms(1)
  proof (induction n arbitrary: e)
    case 0
    have "of_int \<lfloor>q / 10 powi e\<rfloor> * 10 powi e \<le> q / 10 powi e * 10 powi e"
      by (intro mult_right_mono) simp_all
    then have "of_int \<lfloor>q / 10 powi e\<rfloor> * 10 powi e \<le> q" by simp
    then have "of_int \<lfloor>q / 10 powi e\<rfloor> * 10 powi e \<le> q + 10 powi e" by (rule add_increasing2 [rotated]) simp
    moreover have d: "d = \<lfloor>q / 10 powi e\<rfloor>" "e' = e" using 0 by auto
    moreover have "0 \<le> d" unfolding d using assms(2) by simp
    then have "0 < d \<or> d = 0" by linarith
    ultimately show ?case by simp
  next
    case (Suc n)
    show ?case
    proof (cases "try_digits F q e")
      case None
      with Suc show ?thesis by fastforce
    next
      case (Some d')
      have "of_int d' * 10 powi e \<le> (q / 10 powi e + 1) * 10 powi e"
        using try_digits_near(4) [OF Some assms(2)] by (intro mult_right_mono) (simp_all, linarith)
      then show ?thesis using Some Suc.prems try_digits_near(2) [OF Some assms(2)] by (auto simp: distrib_right)
    qed
  qed
  then show "0 < d \<or> d = 0 \<and> e' = e - int n" "e - int n \<le> e'" "e' \<le> e" "of_int d * 10 powi e' \<le> q + 10 powi e'"
    by blast+
qed

lemma strip_zeros_facts:
  "strip_zeros d e = (d', e') \<Longrightarrow> of_int d' * 10 powi e' = (of_int d * 10 powi e :: rat) \<and>
     (0 < d \<longrightarrow> 0 < d') \<and> (d = 0 \<longrightarrow> d' = 0 \<and> e' = e) \<and> (0 \<le> d \<longrightarrow> 0 \<le> d') \<and> e \<le> e'"
proof (induction d e arbitrary: d' e' rule: strip_zeros.induct)
  case (1 d e)
  show ?case
  proof (cases "0 < d \<and> d mod 10 = 0")
    case True
    then have dd: "d = 10 * (d div 10)" by presburger
    then have pos: "0 < d div 10" using True by linarith
    have "of_int (d div 10) * 10 powi (e + 1) = (of_int (10 * (d div 10)) * 10 powi e :: rat)"
      by (simp add: power_int_add)
    then show ?thesis using 1 True pos dd by (simp add: strip_zeros.simps [of d e])
  next
    case False
    then have "d' = d" "e' = e" using "1.prems" by (simp_all add: strip_zeros.simps [of d e] split: if_splits)
    then show ?thesis by simp
  qed
qed

lemma float_digits_range:
  assumes "float_digits F q = (d, e)" "0 < q"
  shows "0 < d \<or> d = 0 \<and> e < 0" "min (ilog10 q) (-1074) \<le> e" "of_int d * 10 powi e \<le> q + 10 powi (ilog10 q)"
proof -
  obtain d1 e1 where s: "shortest F q (nat (ilog10 q + 1074)) (ilog10 q) = (d1, e1)" "strip_zeros d1 e1 = (d, e)"
    using assms(1) by (auto simp: float_digits_def Let_def split: prod.splits)
  note r = shortest_range [OF s(1) assms(2)] and z = strip_zeros_facts [OF s(2)]
  show "0 < d \<or> d = 0 \<and> e < 0" using r(1) z by auto
  have "e1 \<le> e" using z by simp
  with r(2) show "min (ilog10 q) (-1074) \<le> e" by (auto split: if_splits)
  have "(10 :: rat) powi e1 \<le> 10 powi (ilog10 q)" using r(3) by (intro power_int_increasing) simp_all
  then show "of_int d * 10 powi e \<le> q + 10 powi (ilog10 q)" using r(4) z by simp
qed

text \<open>The parts of the text of a float.\<close>

lemma digits_val_zeros: "digits_val (replicate k CHR ''0'') n = n * 10 ^ k"
  by (induction k arbitrary: n) (simp_all add: digit_val_def)

lemma fixed_text_parts:
  assumes "0 < d \<or> d = 0 \<and> e < 0"
  obtains ip fp where "fixed_text d e = number_text ip fp None" "number_ok ip fp None"
    "of_int (digits_val (ip @ fp) 0) * 10 powi (- int (length fp)) = (of_int d * 10 powi e :: rat)"
proof -
  let ?ds = "format_nonneg d"
  define p where "p = int (length ?ds) + e"
  have d: "0 \<le> d" "all_digits ?ds" "digits_val ?ds 0 = d" using assms by (auto simp: digits_val_format_nonneg)
  have z: "is_digit CHR ''0''" by (simp add: is_digit_def)
  consider (a) "0 \<le> e" | (b) "e < 0" "p \<le> 0" | (c) "e < 0" "0 < p" by linarith
  then show thesis
  proof cases
    case a
    then have "hd (?ds @ replicate (nat e) CHR ''0'') \<noteq> CHR ''0''" using assms format_nonneg_head [of d] by simp
    then show thesis
      using a d that [of "?ds @ replicate (nat e) CHR ''0''" "[]"]
      by (simp add: fixed_text_def Let_def number_text_def frac_part_def exp_part_def number_ok_def exp_ok_def
          digits_val_append digits_val_zeros power_int_def)
  next
    case b
    then show thesis
      using d z that [of "''0''" "replicate (nat (- p)) CHR ''0'' @ ?ds"]
      by (simp add: fixed_text_def Let_def number_text_def frac_part_def exp_part_def number_ok_def exp_ok_def
          digit_val_def digits_val_append digits_val_zeros p_def)
  next
    case c
    have "d \<noteq> 0" using c format_nonneg_0 by (auto simp: p_def)
    then have "hd ?ds \<noteq> CHR ''0''" using assms format_nonneg_head by auto
    moreover have "all_digits (take (nat p) ?ds)" "all_digits (drop (nat p) ?ds)"
      using d(2) unfolding all_digits_def by (meson in_set_takeD in_set_dropD)+
    ultimately show thesis
      using c d that [of "take (nat p) ?ds" "drop (nat p) ?ds"]
      by (simp add: fixed_text_def Let_def number_text_def frac_part_def exp_part_def number_ok_def exp_ok_def
          hd_take p_def)
  qed
qed

lemma exp_text_parts:
  assumes "0 \<le> d"
  obtains ip fp x where "exp_text d e = number_text ip fp (Some (x < 0, format_nonneg \<bar>x\<bar>))"
    "number_ok ip fp (Some (x < 0, format_nonneg \<bar>x\<bar>))" "x = int (length (format_nonneg d)) + e - 1"
    "of_int (digits_val (ip @ fp) 0) * 10 powi (x - int (length fp)) = (of_int d * 10 powi e :: rat)"
proof -
  let ?ds = "format_nonneg d"
  define x where "x = int (length ?ds) + e - 1"
  obtain c cs where ds: "?ds = c # cs" by (cases ?ds) auto
  have d: "all_digits (c # cs)" "digits_val (c # cs) 0 = d"
    using assms format_nonneg_all_digits [OF assms] digits_val_format_nonneg [OF assms] by (simp_all add: ds)
  show thesis
    by (rule that [of "[c]" cs x])
      (use d in \<open>simp_all add: exp_text_def x_def ds Let_def number_text_def frac_part_def exp_part_def number_ok_def exp_ok_def\<close>)
qed

lemma abs_text_number: "0 \<le> q \<Longrightarrow> \<exists>ip fp x. number_ok ip fp x \<and> abs_text F q = number_text ip fp x"
proof (cases "q = 0")
  case True
  have "number_ok ''0'' [] None" by (simp add: number_ok_def exp_ok_def is_digit_def)
  with True show ?thesis by (intro exI [of _ "''0''"] exI [of _ "[]"] exI [of _ None])
    (simp add: abs_text_def number_text_def frac_part_def exp_part_def)
next
  case False
  assume "0 \<le> q"
  with False have q: "0 < q" by simp
  obtain d e where de: "float_digits F q = (d, e)" by (cases "float_digits F q")
  note r = float_digits_range(1) [OF de q]
  then have "0 \<le> d" by auto
  with False de fixed_text_parts [OF r] exp_text_parts [of d e] show ?thesis
    by (auto simp: abs_text_def) metis+
qed

lemma float_text_number: "is_number (float_text F x)"
  using abs_text_number [of "\<bar>rat_of x\<bar>" F] is_number_sign by (fastforce simp: float_text_def)

section \<open>Values\<close>

text \<open>
  \<open>parses_as t j k\<close>: whatever follows \<open>t\<close>, it is read as \<open>j\<close>, where there is room for \<open>k\<close> more levels of nesting
  and fuel enough.
\<close>

definition opens_value :: "string \<Rightarrow> bool" where
  "opens_value t \<longleftrightarrow> t \<noteq> [] \<and> (\<forall>r. skip_ws (hd t # r) = hd t # r) \<and> hd t \<noteq> CHR '']''"

definition parses_as :: "string \<Rightarrow> json \<Rightarrow> nat \<Rightarrow> bool" where
  "parses_as t j k \<longleftrightarrow> opens_value t \<and>
     (\<forall>f d r. delim r \<longrightarrow> d + k \<le> max_depth \<longrightarrow> 2 * length (t @ r) < f \<longrightarrow> json_value f d (t @ r) = Some (j, r))"

lemma parses_as_mono: "parses_as t j k \<Longrightarrow> k \<le> k' \<Longrightarrow> parses_as t j k'"
  by (auto simp: parses_as_def)

lemma skip_ws_append: "opens_value t \<Longrightarrow> skip_ws (t @ r) = t @ r"
  by (cases t) (auto simp: opens_value_def)

lemma skip_ws_delim [simp]: "delim r \<Longrightarrow> skip_ws r = r"
  by (cases r) (auto simp: delim_def skip_ws_def)

lemma skip_ws_punct [simp]:
  "skip_ws (CHR '']'' # r) = CHR '']'' # r" "skip_ws (CHR '','' # r) = CHR '','' # r"
  "skip_ws (CHR ''}'' # r) = CHR ''}'' # r" "skip_ws (CHR '':'' # r) = CHR '':'' # r"
  "skip_ws (dquote # r) = dquote # r"
  by (simp_all add: skip_ws_def)

lemma delim_punct [simp]: "delim (CHR '']'' # r)" "delim (CHR '','' # r)" "delim (CHR ''}'' # r)" "delim []"
  by (simp_all add: delim_def)

lemma parses_asI:
  assumes "opens_value t" "\<And>f d r. delim r \<Longrightarrow> d + k \<le> max_depth \<Longrightarrow> 2 * length (t @ r) \<le> f \<Longrightarrow> json_value (Suc f) d (t @ r) = Some (j, r)"
  shows "parses_as t j k"
  unfolding parses_as_def
proof (intro conjI allI impI)
  fix f d r
  assume "delim r" "d + k \<le> max_depth" "2 * length (t @ r) < f"
  then show "json_value f d (t @ r) = Some (j, r)" using assms(2) [of r d "f - 1"] by (cases f) auto
qed (rule assms(1))

lemma parses_string: "parses_as (json_key s) (JStr (utf8_clean s)) 0"
  by (rule parses_asI) (simp_all add: opens_value_def json_key_def json_chars_string skip_ws_def)

lemma parses_literals:
  "parses_as ''null'' JNull 0" "parses_as ''true'' (JBool True) 0" "parses_as ''false'' (JBool False) 0"
  by (rule parses_asI; simp add: opens_value_def skip_ws_def json_literal_def has_prefix_def)+

lemma number_head: "number_ok ip fp x \<Longrightarrow> is_digit (hd (number_text ip fp x)) \<and> number_text ip fp x \<noteq> []"
  by (cases ip) (auto simp: number_ok_def number_text_def)

lemma parses_number:
  assumes "is_number t"
  shows "parses_as t (JNum t) 0"
proof -
  obtain ip fp x where ok: "number_ok ip fp x" and t: "t = number_text ip fp x \<or> t = CHR ''-'' # number_text ip fp x"
    using assms by (auto simp: is_number_def)
  have h: "is_digit (hd t) \<or> hd t = CHR ''-''" "t \<noteq> []" using t number_head [OF ok] by auto
  then obtain c cs where c: "t = c # cs" "is_digit c \<or> c = CHR ''-''" by (cases t) auto
  then have ws: "skip_ws (t @ r) = t @ r" for r by (auto simp: skip_ws_def is_digit_def)
  show ?thesis
  proof (rule parses_asI)
    show "opens_value t" using c(2) by (auto simp: opens_value_def is_digit_def skip_ws_def c(1))
    fix f d r
    assume "delim r"
    then have "json_number (t @ r) = Some (JNum t, r)" using json_number_text [OF ok, of r] t by auto
    then have n: "json_number (c # cs @ r) = Some (JNum t, r)" by (simp add: c(1))
    have "c \<noteq> dquote" "c \<noteq> CHR ''[''" "c \<noteq> CHR ''{''" "c \<noteq> CHR ''t''" "c \<noteq> CHR ''f''" "c \<noteq> CHR ''n''"
      using c(2) by (auto simp: is_digit_def)
    then show "json_value (Suc f) d (t @ r) = Some (JNum t, r)"
      using ws [of r] n by (simp add: c(1))
  qed
qed

lemma elems_parse:
  assumes "list_all2 (\<lambda>t j. parses_as t j k) ts js" "ts \<noteq> []" "d + k \<le> max_depth" "2 * length (join '','' ts @ '']'' @ r) + 1 < f"
  shows "json_elems f d (join '','' ts @ CHR '']'' # r) = Some (js, r)"
  using assms
proof (induction ts arbitrary: js f)
  case (Cons t ts)
  obtain j js' where js: "js = j # js'" "parses_as t j k" "list_all2 (\<lambda>t j. parses_as t j k) ts js'"
    using Cons.prems(1) by (auto simp: list_all2_Cons1)
  obtain g where g: "f = Suc g" using Cons.prems(4) by (cases f) auto
  show ?case
  proof (cases "ts = []")
    case True
    have "json_value g d (t @ CHR '']'' # r) = Some (j, CHR '']'' # r)"
      using js(2) Cons.prems(3,4) g True unfolding parses_as_def by (auto simp: )
    then show ?thesis using js True g by simp
  next
    case False
    then obtain u us where ts: "ts = u # us" by (cases ts) auto
    have len: "length (join '','' (t # ts)) = length t + 1 + length (join '','' ts)" by (simp add: ts)
    have split: "join '','' (t # ts) @ CHR '']'' # r = t @ CHR '','' # (join '','' ts @ CHR '']'' # r)" by (simp add: ts)
    have "json_value g d (t @ CHR '','' # (join '','' ts @ CHR '']'' # r)) = Some (j, CHR '','' # (join '','' ts @ CHR '']'' # r))"
      using js(2) Cons.prems(3,4) g len unfolding parses_as_def by auto
    moreover have "json_elems g d (join '','' ts @ CHR '']'' # r) = Some (js', r)"
      using Cons.IH [OF js(3) False Cons.prems(3), of g] Cons.prems(4) g len by auto
    ultimately show ?thesis unfolding split g js(1) by simp
  qed
qed simp

lemma parses_array:
  assumes "list_all2 (\<lambda>t j. parses_as t j k) ts js"
  shows "parses_as (array_text ts) (JArr js) (Suc k)"
proof (rule parses_asI)
  show "opens_value (array_text ts)" by (simp add: opens_value_def array_text_def skip_ws_def)
  fix f d r
  assume r: "delim r" "d + Suc k \<le> max_depth" "2 * length (array_text ts @ r) \<le> f"
  have s: "skip_ws (array_text ts @ r) = CHR ''['' # join '','' ts @ CHR '']'' # r" by (simp add: array_text_def skip_ws_def)
  show "json_value (Suc f) d (array_text ts @ r) = Some (JArr js, r)"
  proof (cases ts)
    case Nil
    then show ?thesis using assms r(2) s by simp
  next
    case (Cons t ts')
    then have "opens_value t" using assms by (auto simp: list_all2_Cons1 parses_as_def)
    moreover obtain u where u: "join '','' ts = t @ u" by (cases ts') (auto simp: Cons)
    ultimately obtain c cs where c: "skip_ws (join '','' ts @ CHR '']'' # r) = c # cs" "c \<noteq> CHR '']''"
      using skip_ws_append [of t "u @ CHR '']'' # r"] by (cases t) (auto simp: opens_value_def)
    have "json_elems f (Suc d) (join '','' ts @ CHR '']'' # r) = Some (js, r)"
      using r(2,3) Cons by (intro elems_parse [OF assms]) (auto simp: array_text_def)
    then show ?thesis using s c r(2) by simp
  qed
qed

text \<open>The members of an object.\<close>

definition member_text :: "string \<times> string \<Rightarrow> string" where
  "member_text m = json_key (fst m) @ CHR '':'' # snd m"

lemma object_text_members: "object_text ms = ''{'' @ join '','' (map member_text ms) @ ''}''"
  by (simp add: object_text_def member_text_def [abs_def] case_prod_beta')

definition member_parses :: "nat \<Rightarrow> string \<times> string \<Rightarrow> string \<times> json \<Rightarrow> bool" where
  "member_parses k m n \<longleftrightarrow> fst n = utf8_clean (fst m) \<and> parses_as (snd m) (snd n) k"

lemma members_parse:
  assumes "list_all2 (member_parses k) ms ns" "ms \<noteq> []" "d + k \<le> max_depth"
    "2 * length (join '','' (map member_text ms) @ ''}'' @ r) + 1 < f"
  shows "json_members f d (join '','' (map member_text ms) @ CHR ''}'' # r) = Some (ns, r)"
  using assms
proof (induction ms arbitrary: ns f)
  case (Cons m ms)
  obtain key t where m: "m = (key, t)" by (cases m)
  obtain z ns' where z: "ns = z # ns'" "member_parses k (key, t) z" "list_all2 (member_parses k) ms ns'"
    using Cons.prems(1) by (auto simp: list_all2_Cons1 m)
  obtain j where ns: "ns = (utf8_clean key, j) # ns'" "parses_as t j k" "list_all2 (member_parses k) ms ns'"
    using z by (cases z) (auto simp: member_parses_def)
  obtain g where g: "f = Suc g" using Cons.prems(4) by (cases f) auto
  have mt: "member_text m = dquote # json_string key @ dquote # CHR '':'' # t"
    by (simp add: member_text_def m json_key_def)
  have val: "json_value g d (t @ r') = Some (j, r')" if "delim r'" "2 * length (t @ r') < g" for r'
    using ns(2) that Cons.prems(3) by (auto simp: parses_as_def)
  have chars: "json_chars (json_string key @ dquote # CHR '':'' # t @ r') = Some (utf8_clean key, CHR '':'' # t @ r')" for r'
    by (rule json_chars_string)
  show ?case
  proof (cases "ms = []")
    case True
    have "json_value g d (t @ CHR ''}'' # r) = Some (j, CHR ''}'' # r)"
      using Cons.prems(4) g by (intro val) (simp_all add: mt True)
    then show ?thesis using ns True g chars by (simp add: mt)
  next
    case False
    then obtain u us where ms: "ms = u # us" by (cases ms) auto
    let ?rest = "join '','' (map member_text ms) @ CHR ''}'' # r"
    have split: "join '','' (map member_text (m # ms)) @ CHR ''}'' # r = dquote # json_string key @ dquote # CHR '':'' # t @ CHR '','' # ?rest"
      by (simp add: ms mt)
    have len: "2 * length (dquote # json_string key @ dquote # CHR '':'' # t @ CHR '','' # ?rest) + 1 < f"
      using Cons.prems(4) unfolding split [symmetric] by simp
    have "json_value g d (t @ CHR '','' # ?rest) = Some (j, CHR '','' # ?rest)"
      using len g by (intro val) simp_all
    moreover have "json_members g d ?rest = Some (ns', r)"
      using Cons.IH [OF ns(3) False Cons.prems(3), of g] len g by simp
    ultimately show ?thesis unfolding split g ns(1) using chars by simp
  qed
qed simp

lemma parses_object:
  assumes "list_all2 (member_parses k) ms ns"
  shows "parses_as (object_text ms) (JObj ns) (Suc k)"
proof (rule parses_asI)
  show "opens_value (object_text ms)" by (simp add: opens_value_def object_text_def skip_ws_def)
  fix f d r
  assume r: "delim r" "d + Suc k \<le> max_depth" "2 * length (object_text ms @ r) \<le> f"
  have s: "skip_ws (object_text ms @ r) = CHR ''{'' # join '','' (map member_text ms) @ CHR ''}'' # r"
    by (simp add: object_text_members skip_ws_def)
  show "json_value (Suc f) d (object_text ms @ r) = Some (JObj ns, r)"
  proof (cases ms)
    case Nil
    then show ?thesis using assms r(2) s by simp
  next
    case (Cons m ms')
    obtain u where "join '','' (map member_text ms) = member_text m @ u" by (cases ms') (auto simp: Cons)
    then have c: "\<exists>cs. skip_ws (join '','' (map member_text ms) @ CHR ''}'' # r) = dquote # cs"
      by (simp add: member_text_def json_key_def)
    have "json_members f (Suc d) (join '','' (map member_text ms) @ CHR ''}'' # r) = Some (ns, r)"
      using r(2,3) Cons by (intro members_parse [OF assms]) (auto simp: object_text_members)
    then show ?thesis using s c r(2) by auto
  qed
qed

text \<open>A whole text.\<close>

lemma parses_whole: "parses_as t j k \<Longrightarrow> k \<le> max_depth \<Longrightarrow> json_parse t = Some j"
  unfolding parses_as_def json_parse_def by (drule conjunct2, drule spec [of _ "2 * length t + 2"], drule spec [of _ 0], drule spec [of _ "[]"]) simp

end
