(* ===== verification/Float_Text.thy ===== *)
theory Float_Text
  imports Json_Facts
begin

text \<open>
  The decimals of encoding/json are read back by \<open>ParseFloat\<close> as the float they were written for: float32 by
  its reader for 32 bits, float64 by the one for 64.
\<close>

section \<open>Reading the text of a number\<close>

definition exp_val :: "(bool \<times> string) option \<Rightarrow> int" where
  "exp_val x = (case x of None \<Rightarrow> 0 | Some (neg, ds) \<Rightarrow> if neg then - digits_val ds 0 else digits_val ds 0)"

definition number_val :: "string \<Rightarrow> string \<Rightarrow> (bool \<times> string) option \<Rightarrow> rat" where
  "number_val ip fp x = of_int (digits_val (ip @ fp) 0) * 10 powi (exp_val x - int (length fp))"

definition short_exp :: "(bool \<times> string) option \<Rightarrow> bool" where
  "short_exp x = (case x of None \<Rightarrow> True | Some (neg, ds) \<Rightarrow> digits_val ds 0 < 100000)"

lemma digit_val_nonneg: "is_digit c \<Longrightarrow> 0 \<le> digit_val c"
  by (simp add: is_digit_def digit_val_def)

lemma digits_val_ge: "all_digits ds \<Longrightarrow> 0 \<le> n \<Longrightarrow> n \<le> digits_val ds n"
proof (induction ds arbitrary: n)
  case (Cons c ds)
  then have "10 * n + digit_val c \<le> digits_val ds (10 * n + digit_val c)" using digit_val_nonneg [of c] by (intro Cons.IH) auto
  then show ?case using Cons.prems digit_val_nonneg [of c] by simp
qed simp

lemma scan_exponent_digits:
  "all_digits ds \<Longrightarrow> 0 \<le> n \<Longrightarrow> digits_val ds n < 100000 \<Longrightarrow> scan_exponent ds n False = (digits_val ds n, False, [])"
proof (induction ds arbitrary: n)
  case (Cons c ds)
  have d: "is_digit c" "0 \<le> digit_val c" using Cons.prems digit_val_nonneg by auto
  have "10 * n + digit_val c \<le> digits_val ds (10 * n + digit_val c)"
    using Cons.prems d by (intro digits_val_ge) auto
  then have "n < 10000" using Cons.prems d by simp
  then show ?case using Cons d digit_not_punct [OF d(1)] by simp
qed simp

lemma scan_mantissa_frac:
  "all_digits ds \<Longrightarrow> saw_dot m \<Longrightarrow> scan_mantissa False (ds @ r) m =
     scan_mantissa False r (m\<lparr>mant := digits_val ds (mant m), frac := frac m + length ds, saw_digits := (saw_digits m \<or> ds \<noteq> [])\<rparr>)"
proof (induction ds arbitrary: m)
  case (Cons c ds)
  then have c: "is_digit c" by simp
  with Cons digit_not_punct [OF c] show ?case by (simp add: digit_of_def add_digit_def)
qed simp

lemma scan_mantissa_end: "scan_mantissa False (exp_part x) m = (m, exp_part x)"
  by (auto simp: exp_part_def digit_of_def is_digit_def split: option.split)

lemma scan_mantissa_number:
  assumes "number_ok ip fp x"
  shows "\<exists>m. scan_mantissa False (number_text ip fp x) mantissa0 = (m, exp_part x) \<and> mant m = digits_val (ip @ fp) 0 \<and>
    frac m = length fp \<and> saw_digits m \<and> \<not> underscores m"
proof -
  have ip: "\<forall>c \<in> set ip. is_digit c" "ip \<noteq> []" and fp: "all_digits fp" using assms by (auto simp: number_ok_def all_digits_def)
  let ?m = "mantissa0\<lparr>mant := digits_val ip 0, saw_digits := True\<rparr>"
  have 1: "scan_mantissa False (number_text ip fp x) mantissa0 = scan_mantissa False (frac_part fp @ exp_part x) ?m"
    using scan_mantissa_digits [OF ip, of mantissa0] by (simp add: number_text_def mantissa0_def)
  show ?thesis
  proof (cases "fp = []")
    case True
    with 1 show ?thesis by (simp add: frac_part_def scan_mantissa_end mantissa0_def)
  next
    case False
    then have "scan_mantissa False (frac_part fp @ exp_part x) ?m =
        scan_mantissa False (fp @ exp_part x) (?m\<lparr>saw_dot := True\<rparr>)"
      by (simp add: frac_part_def mantissa0_def)
    also have "\<dots> = (?m\<lparr>saw_dot := True, mant := digits_val fp (digits_val ip 0), frac := length fp, saw_digits := True\<rparr>, exp_part x)"
      using scan_mantissa_frac [OF fp, of "?m\<lparr>saw_dot := True\<rparr>"] by (simp add: scan_mantissa_end mantissa0_def)
    finally show ?thesis using 1 by (simp add: digits_val_append mantissa0_def)
  qed
qed

lemma number_text_chars: "number_ok ip fp x \<Longrightarrow> c \<in> set (number_text ip fp x) \<Longrightarrow> is_digit c \<or> c \<in> {CHR ''.'', CHR ''e'', CHR ''-'', CHR ''+''}"
  by (auto simp: number_ok_def number_text_def frac_part_def exp_part_def all_digits_def exp_ok_def split: option.splits if_splits)

lemma number_text_head:
  assumes "number_ok ip fp x"
  obtains c cs where "number_text ip fp x = c # cs" "is_digit c"
  using assms by (cases ip) (auto simp: number_ok_def number_text_def)

lemma number_text_plain:
  assumes "number_ok ip fp x"
  shows "\<not> (2 < length (number_text ip fp x) \<and> hd (number_text ip fp x) = CHR ''0'' \<and> lower_byte (number_text ip fp x ! 1) = CHR ''x'')"
proof -
  have "lower_byte c \<noteq> CHR ''x''" if "c \<in> set (number_text ip fp x)" for c
    using number_text_chars [OF assms that] digit_lower [of c] digit_not_punct [of c] by (auto simp: lower_byte_def)
  then show ?thesis by (metis One_nat_def Suc_lessD numeral_2_eq_2 nth_mem)
qed

definition signed :: "bool \<Rightarrow> string \<Rightarrow> string" where
  "signed neg t = (if neg then ''-'' else []) @ t"

lemma signed_number:
  assumes "number_ok ip fp x"
  shows "drop_sign (signed neg (number_text ip fp x)) = number_text ip fp x"
    "(signed neg (number_text ip fp x) \<noteq> [] \<and> hd (signed neg (number_text ip fp x)) = CHR ''-'') = neg"
    "special_float (signed neg (number_text ip fp x)) = None"
proof -
  obtain c cs where c: "number_text ip fp x = c # cs" "is_digit c" by (rule number_text_head [OF assms])
  then have "c \<noteq> CHR ''-''" "c \<noteq> CHR ''+''" "lower_byte c = c" using digit_not_punct digit_lower by auto
  moreover have "c \<noteq> CHR ''i''" "c \<noteq> CHR ''n''" using c(2) by (auto simp: is_digit_def)
  moreover have "lower_byte CHR ''-'' = CHR ''-''" by (simp add: lower_byte_def)
  ultimately show "drop_sign (signed neg (number_text ip fp x)) = number_text ip fp x"
    "(signed neg (number_text ip fp x) \<noteq> [] \<and> hd (signed neg (number_text ip fp x)) = CHR ''-'') = neg"
    "special_float (signed neg (number_text ip fp x)) = None"
    by (simp_all add: c(1) signed_def drop_sign_def special_float_def)
qed

lemma read_float_number:
  assumes "number_ok ip fp x" "short_exp x"
  shows "read_float (signed neg (number_text ip fp x)) = Some (neg, number_val ip fp x)"
proof -
  let ?t = "number_text ip fp x"
  obtain m where m: "scan_mantissa False ?t mantissa0 = (m, exp_part x)" "mant m = digits_val (ip @ fp) 0"
    "frac m = length fp" "saw_digits m" "\<not> underscores m" using scan_mantissa_number [OF assms(1)] by blast
  have hex: "(2 < length ?t \<and> hd ?t = CHR ''0'' \<and> lower_byte (?t ! 1) = CHR ''x'') = False"
    using number_text_plain [OF assms(1)] by blast
  note s = signed_number [OF assms(1), of neg]
  show ?thesis
  proof (cases x)
    case None
    then show ?thesis unfolding read_float_def Let_def s(1,2) hex if_False m(1)
      using m by (simp add: exp_part_def number_val_def exp_val_def)
  next
    case (Some nd)
    obtain n ds where nd: "nd = (n, ds)" by (cases nd)
    have d: "all_digits ds" "ds \<noteq> []" "digits_val ds 0 < 100000" using assms Some nd by (auto simp: number_ok_def exp_ok_def short_exp_def)
    then have h: "is_digit (hd ds)" by (cases ds) auto
    have "exponent_part (tl (exp_part x)) = Some (exp_val x, False, [])"
      using d h digit_not_punct [OF h] scan_exponent_digits [OF d(1) _ d(3)]
      by (simp add: exponent_part_def Some nd exp_part_def exp_val_def drop_sign_def)
    moreover have "exp_part x \<noteq> []" "lower_byte (hd (exp_part x)) = CHR ''e''"
      by (simp_all add: Some nd exp_part_def lower_byte_def)
    ultimately show ?thesis unfolding read_float_def Let_def s(1,2) hex if_False m(1)
      using m by (simp add: number_val_def)
  qed
qed

lemma parse_float_number:
  assumes "number_ok ip fp x" "short_exp x" "round_abs F neg (number_val ip fp x) = y" "finite_f64 y"
  shows "parse_float_fmt F (signed neg (number_text ip fp x)) = (y, None)"
  using read_float_number [OF assms(1,2)] signed_number(3) [OF assms(1)] assms(3,4)
  by (simp add: parse_float_fmt_def Let_def)

section \<open>The digits of a float\<close>

text \<open>A float of a format is the rounding of itself.\<close>

definition is_float :: "float_fmt \<Rightarrow> f64 \<Rightarrow> bool" where
  "is_float F x \<longleftrightarrow> round_abs F (neg_f64 x) \<bar>rat_of x\<bar> = x"

text \<open>The exponents of float64.\<close>

definition least_exp :: int where "least_exp = - 1074"

definition most_exp :: int where "most_exp = 1024"

definition double_or_less :: "float_fmt \<Rightarrow> bool" where
  "double_or_less F \<longleftrightarrow> least_exp \<le> emin F \<and> elim F \<le> most_exp"

lemma formats [simp]: "double_or_less binary64" "double_or_less binary32"
  by (simp_all add: double_or_less_def binary64_def binary32_def least_exp_def most_exp_def)

lemma powi_10_less: "(10 :: rat) powi m < 10 powi n \<Longrightarrow> m < n"
  using power_int_increasing [of n m "10 :: rat"] by (force simp: not_less [symmetric])

lemma power_2_10:
  assumes "l \<le> k" "l \<le> 0"
  shows "\<exists>j. of_int m * 2 powi k = (of_int j * 10 powi l :: rat)"
proof -
  have "(10 :: rat) powi l = (2 * 5) powi l" by simp
  also have "\<dots> = 2 powi l * 5 powi l" by (rule power_int_mult_distrib)
  finally have t: "(10 :: rat) powi l = 2 powi l * 5 powi l" .
  have k: "(2 :: rat) powi k = 2 powi (k - l) * 2 powi l" by (simp flip: power_int_add)
  have 5: "5 powi (- l) * 5 powi l = (1 :: rat)" by (simp flip: power_int_add)
  have "of_int (m * (2 ^ nat (k - l) * 5 ^ nat (- l))) * (10 :: rat) powi l =
      of_int m * 2 powi (k - l) * 2 powi l * (5 powi (- l) * 5 powi l)"
    unfolding t using assms by (simp add: power_int_def [of _ "k - l"] power_int_def [of _ "- l"])
  then have "of_int m * 2 powi k = of_int (m * (2 ^ nat (k - l) * 5 ^ nat (- l))) * (10 :: rat) powi l"
    by (simp only: 5 k mult_1_right mult.assoc)
  then show ?thesis by blast
qed

lemma rounded_multiple:
  assumes "double_or_less F" "round_abs F False q = FNum q" "0 < q"
  shows "\<exists>j. q = of_int j * 10 powi least_exp" "q < 10 powi most_exp"
proof -
  have r: "round_pos F q = q" "ilog2 q < elim F" using assms(2,3) by (auto simp: round_abs_def Let_def split: if_splits)
  define k where "k = max (emin F) (ilog2 q - prec F + 1)"
  have q: "q = of_int (round_half_even (q / 2 powi k)) * 2 powi k"
    using r(1) unfolding round_pos_def Let_def k_def by (rule sym)
  have "least_exp \<le> k" using assms(1) by (simp add: k_def double_or_less_def max.coboundedI1)
  from power_2_10 [OF this] q show "\<exists>j. q = of_int j * 10 powi least_exp" by (metis least_exp_def neg_le_0_iff_le zero_le_numeral)
  have "q < 2 powi (ilog2 q + 1)" by (rule ilog2_bounds [OF assms(3)])
  also have "\<dots> \<le> 2 powi most_exp" using r(2) assms(1) by (intro power_int_increasing) (simp_all add: double_or_less_def)
  also have "\<dots> \<le> 10 powi most_exp" by (rule power_int_mono) (simp_all add: most_exp_def)
  finally show "q < 10 powi most_exp" .
qed

lemma shortest_reads_back:
  assumes "round_abs F False q = FNum q" "0 < q" "q = of_int j * 10 powi least_exp"
  shows "shortest F q n e = (d, e') \<Longrightarrow> e - int n \<le> least_exp \<Longrightarrow> reads_back F q d e'"
proof (induction n arbitrary: e)
  case 0
  define k where "k = nat (least_exp - e)"
  have "q / 10 powi e = of_int j * (10 powi (least_exp - e))" by (simp add: assms(3) power_int_diff)
  also have "\<dots> = of_int (j * 10 ^ k)" using 0(2) by (simp add: power_int_def k_def)
  finally have i: "q / 10 powi e = of_int (j * 10 ^ k)" .
  then have "of_int \<lfloor>q / 10 powi e\<rfloor> * 10 powi e = q / 10 powi e * 10 powi e" by (simp only: floor_of_int)
  also have "\<dots> = q" by simp
  finally show ?case using 0(1) assms(1) by (auto simp: reads_back_def)
next
  case (Suc n)
  then show ?case using try_digits_near(1) [OF _ assms(2)] by (auto split: option.splits)
qed

lemma float_digits_read_back:
  assumes F: "double_or_less F" and q: "round_abs F False q = FNum q" "0 < q" and de: "float_digits F q = (d, e)"
  shows "round_abs F False (of_int d * 10 powi e) = FNum q" "0 < d" "least_exp \<le> e"
    "(of_int d * 10 powi e :: rat) < 10 powi (most_exp + 1)"
proof -
  obtain j where j: "q = of_int j * 10 powi least_exp" using rounded_multiple [OF F q] by blast
  have "(0 :: rat) < 10 powi least_exp" by simp
  with q(2) have "0 < j" unfolding j by (metis of_int_0_less_iff zero_less_mult_pos2)
  then have "10 powi least_exp \<le> q" unfolding j by simp
  also have "q < 10 powi (ilog10 q + 1)" by (rule ilog10_bounds [OF q(2)])
  finally have "least_exp < ilog10 q + 1" by (rule powi_10_less)
  then have low: "least_exp \<le> ilog10 q" by simp
  obtain d1 e1 where s: "shortest F q (nat (ilog10 q - least_exp)) (ilog10 q) = (d1, e1)" "strip_zeros d1 e1 = (d, e)"
    using de by (auto simp: float_digits_def Let_def least_exp_def split: prod.splits)
  have "reads_back F q d1 e1" using shortest_reads_back [OF q j s(1)] low by simp
  then show r: "round_abs F False (of_int d * 10 powi e) = FNum q"
    using strip_zeros_facts [OF s(2)] by (simp add: reads_back_def)
  have "d \<noteq> 0" using r q(2) by (auto simp: round_abs_0)
  then show "0 < d" using float_digits_range(1) [OF de q(2)] by auto
  show "least_exp \<le> e" using float_digits_range(2) [OF de q(2)] low by (simp add: least_exp_def)
  have "of_int d * 10 powi e \<le> q + 10 powi ilog10 q" by (rule float_digits_range(3) [OF de q(2)])
  also have "\<dots> \<le> q + q" using ilog10_bounds(1) [OF q(2)] by simp
  also have "\<dots> < 10 powi most_exp + 10 powi most_exp" using rounded_multiple(2) [OF F q] by (intro add_strict_mono)
  also have "\<dots> \<le> 10 * 10 powi most_exp" by simp
  also have "\<dots> = 10 powi (most_exp + 1)" by (simp add: power_int_add)
  finally show "(of_int d * 10 powi e :: rat) < 10 powi (most_exp + 1)" .
qed

lemma format_nonneg_length: "0 < n \<Longrightarrow> 10 ^ (length (format_nonneg n) - 1) \<le> n"
proof (induction n rule: format_nonneg.induct)
  case (1 n)
  show ?case
  proof (cases "n < 10")
    case True
    then show ?thesis using "1.prems" by (simp add: format_nonneg.simps [of n])
  next
    case False
    define k where "k = length (format_nonneg (n div 10)) - 1"
    have "10 ^ k \<le> n div 10" using 1 False unfolding k_def by simp
    then have "10 * 10 ^ k \<le> n" by linarith
    moreover have "length (format_nonneg n) - 1 = Suc k"
      using False "1.prems" by (cases "format_nonneg (n div 10)") (simp_all add: format_nonneg.simps [of n] k_def)
    ultimately show ?thesis by simp
  qed
qed

section \<open>Every float is read back\<close>

lemma round_abs_sign:
  "round_abs F False v = FNum q \<Longrightarrow> round_abs F neg v = (if neg then if q = 0 then FNegZero else FNum (- q) else FNum q)"
  by (auto simp: round_abs_def Let_def split: if_splits)

lemma abs_text_reads_back:
  assumes F: "double_or_less F" and q: "round_abs F False q = FNum q" "0 \<le> q"
  obtains ip fp x where "abs_text F q = number_text ip fp x" "number_ok ip fp x" "short_exp x"
    "round_abs F False (number_val ip fp x) = FNum q"
proof (cases "q = 0")
  case True
  have "abs_text F q = number_text ''0'' [] None" by (simp add: True abs_text_def number_text_def frac_part_def exp_part_def)
  moreover have "number_val ''0'' [] None = 0" by (simp add: number_val_def digit_val_def)
  ultimately show thesis using that True by (simp add: number_ok_def exp_ok_def is_digit_def short_exp_def round_abs_0)
next
  case False
  then have q0: "0 < q" using q(2) by simp
  obtain d e where de: "float_digits F q = (d, e)" by (cases "float_digits F q")
  note r = float_digits_read_back [OF F q(1) q0 de]
  show thesis
  proof (cases "abs_text F q = fixed_text d e")
    case True
    obtain ip fp where "fixed_text d e = number_text ip fp None" "number_ok ip fp None"
      "of_int (digits_val (ip @ fp) 0) * 10 powi (- int (length fp)) = (of_int d * 10 powi e :: rat)"
      using r(2) by (rule fixed_text_parts [OF disjI1])
    then show thesis using that True r(1) by (simp add: number_val_def exp_val_def short_exp_def)
  next
    case False
    then have t: "abs_text F q = exp_text d e" using q0 de by (auto simp: abs_text_def split: if_splits)
    obtain ip fp x where p: "exp_text d e = number_text ip fp (Some (x < 0, format_nonneg \<bar>x\<bar>))"
      "number_ok ip fp (Some (x < 0, format_nonneg \<bar>x\<bar>))" "x = int (length (format_nonneg d)) + e - 1"
      "of_int (digits_val (ip @ fp) 0) * 10 powi (x - int (length fp)) = (of_int d * 10 powi e :: rat)"
      using r(2) exp_text_parts [of d e] by (metis less_imp_le)
    define k where "k = length (format_nonneg d) - 1"
    have x: "x = int k + e" using p(3) by (cases "format_nonneg d") (simp_all add: k_def)
    have "(10 :: rat) powi x = of_int (10 ^ k) * 10 powi e" by (simp add: x power_int_add)
    also have "\<dots> \<le> of_int d * 10 powi e"
      using format_nonneg_length [OF r(2)] by (intro mult_right_mono) (simp_all only: of_int_le_iff k_def, simp)
    also note r(4)
    finally have "x < most_exp + 1" by (rule powi_10_less)
    moreover have "least_exp \<le> x" using x r(3) by simp
    ultimately have "\<bar>x\<bar> < 100000" by (simp add: least_exp_def most_exp_def)
    then have "short_exp (Some (x < 0, format_nonneg \<bar>x\<bar>))" by (simp add: short_exp_def digits_val_format_nonneg)
    moreover have "number_val ip fp (Some (x < 0, format_nonneg \<bar>x\<bar>)) = of_int d * 10 powi e"
      using p(4) by (simp add: number_val_def exp_val_def digits_val_format_nonneg)
    ultimately show thesis using that [of ip fp "Some (x < 0, format_nonneg \<bar>x\<bar>)"] t p(1,2) r(1) by simp
  qed
qed

lemma float_text_reads_back:
  assumes F: "double_or_less F" and x: "is_float F x" "finite_f64 x"
  shows "parse_float_fmt F (float_text F x) = (x, None)"
proof -
  define q where "q = \<bar>rat_of x\<bar>"
  have y: "round_abs F (neg_f64 x) q = x" using x(1) by (simp add: is_float_def q_def)
  have xq: "x = (if neg_f64 x then if q = 0 then FNegZero else FNum (- q) else FNum q)"
    using x(2) by (cases x) (auto simp: finite_f64_def q_def)
  have "round_abs F False q = FNum q"
    using y xq by (auto simp: round_abs_def Let_def split: if_splits)
  then obtain ip fp e where n: "abs_text F q = number_text ip fp e" "number_ok ip fp e" "short_exp e"
    "round_abs F False (number_val ip fp e) = FNum q"
    using abs_text_reads_back [OF F, of q] by (auto simp: q_def)
  have "round_abs F (neg_f64 x) (number_val ip fp e) = x" using round_abs_sign [OF n(4)] xq by simp
  from parse_float_number [OF n(2,3) this x(2)] show ?thesis
    by (simp add: float_text_def signed_def n(1) flip: q_def)
qed

end
