(* ===== verification/Json_Tree.thy ===== *)
theory Json_Tree
  imports Float_Text Export_Stream
begin

text \<open>
  What a JSON text says of a value: \<open>json_tree\<close> is what the reader of \<open>GoJson\<close> makes of \<open>json_text\<close>. \<open>reads_as\<close>
  is the contract between both sides: integers, floats of either width, strings and containers come back as they were.
\<close>

section \<open>The tree of a value\<close>

fun json_tree :: "any \<Rightarrow> json" where
  "json_tree ANil = JNull"
| "json_tree (ABool b) = JBool b"
| "json_tree (AInt i) = JNum (format_int i)"
| "json_tree (AUint i) = JNum (format_int i)"
| "json_tree (AFloat x) = JNum (float_text binary64 x)"
| "json_tree (AFloat32 x) = JNum (float_text binary32 x)"
| "json_tree (AString s) = JStr (utf8_clean s)"
| "json_tree (ASlice xs) = JArr (map json_tree xs)"
| "json_tree (AMap m) = JObj (map (apfst utf8_clean) (sort_key fst (map (\<lambda>(k, x). (k, json_tree x)) m)))"

text \<open>How deep arrays and objects are nested.\<close>

fun any_depth :: "any \<Rightarrow> nat" where
  "any_depth (ASlice xs) = Suc (Max (insert 0 (set (map any_depth xs))))"
| "any_depth (AMap m) = Suc (Max (insert 0 (set (map (\<lambda>kx. any_depth (snd kx)) m))))"
| "any_depth _ = 0"

lemma sort_key_apsnd: "sort_key fst (map (\<lambda>(k, x). (k, f x)) m) = map (apsnd f) (sort_key fst m)"
proof -
  have ins: "insort_key fst (k, f x) (map (apsnd f) m) = map (apsnd f) (insort_key fst (k, x) m)" for k x m
    by (induction m) auto
  show ?thesis by (induction m) (auto simp: ins)
qed

lemma parses_text: "any_ok v \<Longrightarrow> parses_as (json_text v) (json_tree v) (any_depth v)"
proof (induction v rule: json_tree.induct)
  case (8 xs)
  let ?k = "Max (insert 0 (set (map any_depth xs)))"
  have "parses_as (json_text x) (json_tree x) ?k" if "x \<in> set xs" for x
    by (rule parses_as_mono [OF 8(1)]) (use that 8(2) in \<open>auto intro: Max_ge\<close>)
  then have "list_all2 (\<lambda>t j. parses_as t j ?k) (map json_text xs) (map json_tree xs)"
    by (simp add: list_all2_conv_all_nth)
  from parses_array [OF this] show ?case by simp
next
  case (9 m)
  let ?k = "Max (insert 0 (set (map (\<lambda>kx. any_depth (snd kx)) m)))"
  have d: "any_depth x \<le> ?k" if "(k, x) \<in> set m" for k x
    using that by (intro Max_ge) (auto intro: rev_image_eqI)
  have "parses_as (json_text x) (json_tree x) ?k" if "(k, x) \<in> set m" for k x
    by (rule parses_as_mono [OF 9(1) d]) (use that 9(2) in auto)
  then have "list_all2 (member_parses ?k) (map (apsnd json_text) (sort_key fst m))
      (map (apfst utf8_clean) (map (apsnd json_tree) (sort_key fst m)))"
    by (auto simp: list_all2_map1 list_all2_map2 member_parses_def intro!: list.rel_refl_strong)
  from parses_object [OF this] show ?case by (simp add: sort_key_apsnd)
qed (simp_all add: parses_literals parses_number format_int_number float_text_number parses_string)

section \<open>Every value comes back\<close>

text \<open>The values that Go's types hold: integers of 64 bits, floats of 64 and 32.\<close>

fun go_value :: "any \<Rightarrow> bool" where
  "go_value (AInt i) = (- (2 ^ 63) \<le> i \<and> i < 2 ^ 63)"
| "go_value (AUint i) = (0 \<le> i \<and> i < 2 ^ 64)"
| "go_value (AFloat x) = is_float binary64 x"
| "go_value (AFloat32 x) = is_float binary32 x"
| "go_value (ASlice xs) = (\<forall>x \<in> set xs. go_value x)"
| "go_value (AMap m) = (\<forall>kx \<in> set m. go_value (snd kx))"
| "go_value _ = True"

text \<open>
  A number is read by the function for its type. Strings and keys that are UTF-8 come back unchanged; in the others
  the stray bytes are replaced.
\<close>

fun reads_as :: "any \<Rightarrow> json \<Rightarrow> bool" where
  "reads_as ANil j = (j = JNull)"
| "reads_as (ABool b) j = (j = JBool b)"
| "reads_as (AInt i) j = (case j of JNum s \<Rightarrow> parse_int s = (i, None) | _ \<Rightarrow> False)"
| "reads_as (AUint i) j = (case j of JNum s \<Rightarrow> parse_uint s = (of_int i, None) | _ \<Rightarrow> False)"
| "reads_as (AFloat x) j = (case j of JNum s \<Rightarrow> parse_float64 s = (x, None) | _ \<Rightarrow> False)"
| "reads_as (AFloat32 x) j = (case j of JNum s \<Rightarrow> parse_float32 s = (x, None) | _ \<Rightarrow> False)"
| "reads_as (AString s) j = (j = JStr (utf8_clean s))"
| "reads_as (ASlice xs) j = (case j of JArr js \<Rightarrow> list_all2 reads_as xs js | _ \<Rightarrow> False)"
| "reads_as (AMap m) j = (case j of
     JObj ms \<Rightarrow> length ms = length m \<and> (\<forall>kx \<in> set m. \<exists>kj \<in> set ms. fst kj = utf8_clean (fst kx) \<and> reads_as (snd kx) (snd kj))
   | _ \<Rightarrow> False)"

lemma parse_formatted:
  "- (2 ^ 63) \<le> i \<Longrightarrow> i < 2 ^ 63 \<Longrightarrow> parse_int (format_int i) = (i, None)"
  "0 \<le> i \<Longrightarrow> i < 2 ^ 64 \<Longrightarrow> parse_uint (format_int i) = (of_int i, None)"
  using parse_int_raw_format [of i] parse_uint_raw_format [of i] by (simp_all add: parse_int_def parse_uint_def format_int_def)

lemma tree_reads_as: "any_ok v \<Longrightarrow> go_value v \<Longrightarrow> reads_as v (json_tree v)"
proof (induction v rule: json_tree.induct)
  case (8 xs)
  then show ?case by (auto simp: list_all2_map2 intro!: list.rel_refl_strong)
next
  case (9 m)
  show ?case
  proof (simp add: sort_key_apsnd, intro ballI)
    fix kx
    assume kx: "kx \<in> set m"
    obtain k x where x: "kx = (k, x)" by (rule prod.exhaust)
    then have "any_ok x" "go_value x" using 9(2,3) kx by force+
    then have "reads_as (snd kx) (json_tree (snd kx))" using 9(1) [OF kx x [symmetric]] x by simp
    with kx show "\<exists>kj \<in> set m. utf8_clean (fst kj) = utf8_clean (fst kx) \<and> reads_as (snd kx) (json_tree (snd kj))" by blast
  qed
qed (simp_all add: parse_formatted parse_float64_def parse_float32_def float_text_reads_back)

theorem text_reads_back:
  assumes "any_ok v" "go_value v" "any_depth v \<le> max_depth"
  shows "\<exists>j. json_parse (json_text v) = Some j \<and> reads_as v j"
  using parses_whole [OF parses_text [OF assms(1)] assms(3)] tree_reads_as [OF assms(1,2)] by blast

end
