(* ===== verification/Export_Json.thy ===== *)
theory Export_Json
  imports Export_Bytes_Facts Json_Tree
begin

text \<open>
  encoding/json on the values of an export: the structs of types.go field by field, with their tags, and the rows. What an
  export file says is a syntax tree, \<open>export_tree\<close>; the facts show that the file is read as that tree.
\<close>

section \<open>Structs\<close>

text \<open>The fields of a struct, in the order it has them; \<open>omitempty\<close> leaves an empty string out.\<close>

type_synonym fields = "(string \<times> any) list"

definition omitempty :: "string \<Rightarrow> string \<Rightarrow> fields" where
  "omitempty key s = (if s = [] then [] else [(key, AString s)])"

definition rows_value :: "any list list \<Rightarrow> any" where
  "rows_value rs = ASlice (map ASlice rs)"

definition time_fields :: "export_time \<Rightarrow> fields" where
  "time_fields t =
     [(''date'', AString (et_Date t)), (''frameNum'', AInt (et_FrameNum t)),
      (''systemTimeUTC'', AString (et_SystemTimeUTC t)), (''time'', AFloat32 (et_Time t)),
      (''timeMultiplier'', AFloat32 (et_TimeMultiplier t))]"

text \<open>A nil slice is \<open>null\<close>: the two of the zero entity.\<close>

definition entity_fields :: "bool \<Rightarrow> entity \<Rightarrow> fields" where
  "entity_fields zero e =
     [(''id'', AUint (uint (en_ID e))), (''name'', AString (en_Name e))] @ omitempty ''group'' (en_Group e) @
     [(''side'', AString (en_Side e)), (''isPlayer'', AInt (en_IsPlayer e)), (''type'', AString (en_Type e))] @
     omitempty ''role'' (en_Role e) @ omitempty ''class'' (en_Class e) @
     [(''startFrameNum'', AInt (en_StartFrameNum e)),
      (''positions'', if zero then ANil else rows_value (en_Positions e)),
      (''framesFired'', if zero then ANil else rows_value (en_FramesFired e))]"

definition struct_text :: "fields \<Rightarrow> string" where
  "struct_text fs = object_text (map (apsnd json_text) fs)"

fun value_text :: encoder where
  "value_text (VString s) = json_text (AString s)"
| "value_text (VInt i) = json_text (AInt i)"
| "value_text (VFloat32 x) = json_text (AFloat32 x)"
| "value_text (VTimes ts) = array_text (map (struct_text \<circ> time_fields) ts)"
| "value_text (VRows rs) = json_text (rows_value rs)"
| "value_text (VEntity e) = struct_text (entity_fields False e)"
| "value_text VZeroEntity = struct_text (entity_fields True zero_entity)"

section \<open>Files\<close>

text \<open>
  export.go of the memory backend: the file of an export, plain or compressed. \<open>gz_write\<close> is what gzip answers to
  bytes, given those it has; \<open>gz_file\<close> is what the file holds after it was closed. The errors of closing are ignored.
\<close>

record disk =
  dk_create :: "go_err option"
  dk_write :: sink

record gzip =
  gz_write :: sink
  gz_file :: "string \<Rightarrow> string"

definition write_plain_file :: "disk \<Rightarrow> mission_data \<Rightarrow> (unit outcome \<times> string) option" where
  "write_plain_file D data = (case dk_create D of
     Some err \<Rightarrow> Some (Err (Errorf ''failed to create file: %w'' [ArgErr err]), [])
   | None \<Rightarrow> map_option (\<lambda>(r, f). (r, bw_out f)) (StreamTo value_text (dk_write D) data))"

definition writeGzipJSON :: "disk \<Rightarrow> gzip \<Rightarrow> mission_data \<Rightarrow> (unit outcome \<times> string) option" where
  "writeGzipJSON D G data = (case dk_create D of
     Some err \<Rightarrow> Some (Err (Errorf ''failed to create file: %w'' [ArgErr err]), [])
   | None \<Rightarrow> map_option (\<lambda>(r, gzWriter). (r, gz_file G (bw_out gzWriter))) (StreamTo value_text (gz_write G) data))"

section \<open>What the texts say\<close>

definition struct_tree :: "fields \<Rightarrow> json" where
  "struct_tree fs = JObj (map (\<lambda>(k, x). (utf8_clean k, json_tree x)) fs)"

fun value_tree :: "field_value \<Rightarrow> json" where
  "value_tree (VString s) = json_tree (AString s)"
| "value_tree (VInt i) = json_tree (AInt i)"
| "value_tree (VFloat32 x) = json_tree (AFloat32 x)"
| "value_tree (VTimes ts) = JArr (map (struct_tree \<circ> time_fields) ts)"
| "value_tree (VRows rs) = json_tree (rows_value rs)"
| "value_tree (VEntity e) = struct_tree (entity_fields False e)"
| "value_tree VZeroEntity = struct_tree (entity_fields True zero_entity)"

definition export_tree :: "(nat \<Rightarrow> bool) \<Rightarrow> export \<Rightarrow> json" where
  "export_tree missing d = JObj
     [(''addonVersion'', value_tree (VString (ex_AddonVersion d))),
      (''extensionVersion'', value_tree (VString (ex_ExtensionVersion d))),
      (''extensionBuild'', value_tree (VString (ex_ExtensionBuild d))),
      (''missionName'', value_tree (VString (ex_MissionName d))),
      (''missionAuthor'', value_tree (VString (ex_MissionAuthor d))),
      (''worldName'', value_tree (VString (ex_WorldName d))),
      (''endFrame'', value_tree (VInt (ex_EndFrame d))),
      (''captureDelay'', value_tree (VFloat32 (ex_CaptureDelay d))),
      (''tags'', value_tree (VString (ex_Tags d))),
      (''times'', value_tree (VTimes (ex_Times d))),
      (''entities'', JArr (map (\<lambda>(i, e). value_tree (if missing i then VZeroEntity else VEntity e))
         (enumerate 0 (ex_Entities d)))),
      (''events'', value_tree (VRows (ex_Events d))),
      (''Markers'', value_tree (VRows (ex_Markers d)))]"

text \<open>The rows of a document, wherever they are.\<close>

definition export_rows :: "export \<Rightarrow> any list list" where
  "export_rows d = ex_Events d @ ex_Markers d @ concat (map (\<lambda>e. en_Positions e @ en_FramesFired e) (ex_Entities d))"

text \<open>How deep arrays and objects are nested.\<close>

definition rows_depth :: "any list list \<Rightarrow> nat" where
  "rows_depth rs = any_depth (rows_value rs)"

fun value_depth :: "field_value \<Rightarrow> nat" where
  "value_depth (VTimes ts) = 2"
| "value_depth (VRows rs) = rows_depth rs"
| "value_depth (VEntity e) = Suc (max (rows_depth (en_Positions e)) (rows_depth (en_FramesFired e)))"
| "value_depth VZeroEntity = 1"
| "value_depth _ = 0"

definition export_depth :: "export \<Rightarrow> nat" where
  "export_depth d = Suc (fold max (map value_depth [VTimes [], VRows (ex_Events d), VRows (ex_Markers d)])
     (Suc (fold max (map (value_depth \<circ> VEntity) (ex_Entities d)) 1)))"

section \<open>Reading the texts\<close>

lemma parses_struct:
  assumes "\<forall>kx \<in> set fs. any_ok (snd kx) \<and> any_depth (snd kx) \<le> n"
  shows "parses_as (struct_text fs) (struct_tree fs) (Suc n)"
proof -
  have "parses_as (json_text (snd kx)) (json_tree (snd kx)) n" if "kx \<in> set fs" for kx
    by (rule parses_as_mono [OF parses_text]) (use assms that in auto)
  then have "list_all2 (member_parses n) (map (apsnd json_text) fs) (map (\<lambda>(k, x). (utf8_clean k, json_tree x)) fs)"
    by (auto simp: list_all2_map1 list_all2_map2 member_parses_def intro!: list.rel_refl_strong)
  from parses_object [OF this] show ?thesis by (simp add: struct_text_def struct_tree_def)
qed

lemma parses_items:
  assumes "\<And>x. x \<in> set xs \<Longrightarrow> parses_as (f x) (g x) n"
  shows "parses_as (array_text (map f xs)) (JArr (map g xs)) (Suc n)"
  by (rule parses_array) (auto simp: list_all2_map1 list_all2_map2 assms intro!: list.rel_refl_strong)

lemma rows_ok_value: "rows_ok rs \<Longrightarrow> any_ok (rows_value rs)"
  by (simp add: rows_ok_def rows_value_def)

lemma rows_depth_value: "any_depth (rows_value rs) = rows_depth rs"
  by (simp add: rows_depth_def)

lemma parses_rows: "rows_ok rs \<Longrightarrow> parses_as (json_text (rows_value rs)) (json_tree (rows_value rs)) (rows_depth rs)"
  using parses_text [OF rows_ok_value] by (simp add: rows_depth_value)

lemma parses_value: "value_ok v \<Longrightarrow> parses_as (value_text v) (value_tree v) (value_depth v)"
proof (cases v)
  case (VTimes ts)
  assume "value_ok v"
  then have "parses_as ((struct_text \<circ> time_fields) t) ((struct_tree \<circ> time_fields) t) 1" if "t \<in> set ts" for t
    using that parses_struct [of "time_fields t" 0] by (simp add: VTimes time_ok_def time_fields_def)
  from parses_items [of ts "struct_text \<circ> time_fields" "struct_tree \<circ> time_fields", OF this]
  show ?thesis by (simp add: VTimes numeral_2_eq_2)
next
  case (VEntity e)
  assume "value_ok v"
  then show ?thesis
    using parses_struct [of "entity_fields False e" "max (rows_depth (en_Positions e)) (rows_depth (en_FramesFired e))"] rows_ok_value
    by (auto simp: VEntity entity_ok_def entity_fields_def omitempty_def rows_depth_value)
next
  case VZeroEntity
  then show ?thesis using parses_struct [of "entity_fields True zero_entity" 0]
    by (simp add: entity_fields_def omitempty_def)
qed (use parses_rows parses_text [of "AString _"] parses_text [of "AInt _"] parses_text [of "AFloat32 _"] in simp_all)

text \<open>A document.\<close>

lemma export_rows_read:
  assumes "export_ok d" "r \<in> set (export_rows d)" "v \<in> set r" "go_value v"
  shows "reads_as v (json_tree v)"
  using assms by (intro tree_reads_as) (auto simp: export_ok_def export_rows_def rows_ok_def entity_ok_def)

lemma fold_max_start: "(n :: nat) \<le> fold max ns n"
proof (induction ns arbitrary: n)
  case (Cons a ns)
  from Cons [of "max a n"] show ?case by simp
qed simp

lemma fold_max: "n \<le> fold max ns n" "k \<in> set ns \<Longrightarrow> k \<le> fold max ns (n :: nat)"
proof -
  show "k \<in> set ns \<Longrightarrow> k \<le> fold max ns n"
  proof (induction ns arbitrary: n)
    case (Cons a ns)
    then show ?case using fold_max_start [of "max a n" ns] by auto
  qed simp
qed (rule fold_max_start)

lemma field_names:
  "list_all (\<lambda>k. utf8_clean k = k) [''addonVersion'', ''extensionVersion'', ''extensionBuild'', ''missionName'',
     ''missionAuthor'', ''worldName'', ''endFrame'', ''captureDelay'', ''tags'', ''times'', ''entities'', ''events'',
     ''Markers'']"
  by (simp add: ascii_valid)

lemma parses_export:
  assumes "export_ok d"
  shows "parses_as (export_text value_text missing d) (export_tree missing d) (export_depth d)"
proof -
  define n where "n = fold max (map (value_depth \<circ> VEntity) (ex_Entities d)) 1"
  define k where "k = fold max (map value_depth [VTimes [], VRows (ex_Events d), VRows (ex_Markers d)]) (Suc n)"
  have k: "Suc n \<le> k" "2 \<le> k" "rows_depth (ex_Events d) \<le> k" "rows_depth (ex_Markers d) \<le> k"
    using fold_max by (auto simp: k_def)
  have ok: "finite_f64 (ex_CaptureDelay d)" "\<forall>t \<in> set (ex_Times d). time_ok t" "\<forall>e \<in> set (ex_Entities d). entity_ok e"
    "rows_ok (ex_Events d)" "rows_ok (ex_Markers d)" using assms by (simp_all add: export_ok_def)
  have val: "parses_as (value_text v) (value_tree v) k" if "value_ok v" "value_depth v \<le> k" for v
    using parses_as_mono [OF parses_value] that by blast
  have ent: "parses_as (entities_text value_text missing (ex_Entities d))
      (JArr (map (\<lambda>(i, e). value_tree (if missing i then VZeroEntity else VEntity e)) (enumerate 0 (ex_Entities d)))) k"
  proof (rule parses_as_mono [OF _ k(1)], unfold entities_text_def, rule parses_items)
    fix x
    assume in_set: "x \<in> set (enumerate 0 (ex_Entities d))"
    obtain i e where "x = (i, e)" by (rule prod.exhaust)
    with in_set have x: "x = (i, e)" "e \<in> set (ex_Entities d)" by (auto simp: enumerate_eq_zip dest: set_zip_rightD)
    have "1 \<le> n" "value_depth (VEntity e) \<le> n" using x(2) fold_max by (auto simp: n_def)
    then show "parses_as (case x of (i, e) \<Rightarrow> value_text (if missing i then VZeroEntity else VEntity e))
        (case x of (i, e) \<Rightarrow> value_tree (if missing i then VZeroEntity else VEntity e)) n"
      using x ok(3) parses_as_mono [OF parses_value [of "VEntity e"]] parses_as_mono [OF parses_value [of VZeroEntity]] by simp
  qed
  have "list_all2 (member_parses k) (export_fields value_text missing d)
      (case export_tree missing d of JObj ms \<Rightarrow> ms)"
    unfolding export_fields_def export_tree_def json.case member_parses_def
    using val k ok ent field_names by (simp add: list_all2_Cons member_parses_def del: value_text.simps value_tree.simps)
  from parses_object [OF this] show ?thesis
    by (simp add: export_text_def export_tree_def export_depth_def k_def n_def del: value_text.simps value_tree.simps)
qed

end
