(* ===== verification/Export_Json_Properties.thy ===== *)
theory Export_Json_Properties
  imports Export_Json Export_Bytes_Properties Memory_Properties
begin

text \<open>The property of what an exported file says.\<close>

lemma stream_entities_ok: "stream_entities data mf fl ids = Some (Ok es) \<Longrightarrow> \<forall>e \<in> set es. entity_ok e"
proof (induction ids arbitrary: es)
  case (Cons i ids)
  then show ?case by (auto simp: unsupported_def outcome_simps split: option.splits if_splits)
qed simp

lemma Stream_export_ok: "Stream data = Some (Ok doc) \<Longrightarrow> export_ok doc"
  by (auto simp: Stream_def export_ok_def unsupported_def Let_def dest: stream_entities_ok
      split: prod.splits option.splits outcome.splits if_splits)

text \<open>The bytes say the document; the values of its rows come back, each to the reader for its type.\<close>

definition says :: "json option \<Rightarrow> mission_data \<Rightarrow> export \<Rightarrow> bool" where
  "says j data doc \<longleftrightarrow>
     (export_depth doc \<le> max_depth \<longrightarrow> j = Some (export_tree (unfilled data) doc)) \<and>
     (\<forall>r \<in> set (export_rows doc). \<forall>v \<in> set r. go_value v \<longrightarrow> reads_as v (json_tree v))"

lemma streamed_reads_back:
  assumes "StreamTo value_text sink data = Some (Ok (), w)"
  shows "\<exists>doc. Stream data = Some (Ok doc) \<and> says (json_parse (bw_out w)) data doc"
proof -
  from assms obtain m wo r where *: "md_Mission data = Some m" "md_World data = Some wo" "Stream data = Some r"
    by (rule StreamTo_ok)
  from StreamTo_bytes [OF *(3,1,2), of value_text sink] assms obtain doc w' where d: "r = Ok doc"
    "StreamTo value_text sink data = result_of w'" "took (export_text value_text (unfilled data) doc) NewWriter w'"
    "bw_err w' = None \<longrightarrow> bw_buf w' = []" by auto
  then have "w' = w" "bw_err w = None" using assms by (auto simp: result_of_def split: option.splits)
  then have "bw_out w = export_text value_text (unfilled data) doc"
    using d by (simp add: took_def written_def NewWriter_def)
  moreover have "Stream data = Some (Ok doc)" "export_ok doc" using *(3) d(1) Stream_export_ok by auto
  ultimately show ?thesis using parses_whole [OF parses_export] export_rows_read by (auto simp: says_def)
qed

text \<open>
  C10. Whatever the disk does: when the file of an export was written without an error, it is JSON, a reader
  that allows 10,000 levels of nesting, as Go's does, reads it to the end, and what it reads is the document: thirteen members with the
  mission's data, one object per entity in the order of the IDs, and the rows with every string, number and list in its place. Whoever reads a number of a row
  as the type it had gets the same number. The same holds of a compressed file, if it has been closed without an error, which the code does not check.
\<close>

theorem exported_file_reads_back:
  assumes "\<forall>s. inflate (gz_file G s) = Some s"
  shows "(\<forall>bytes. write_plain_file D data = Some (Ok (), bytes) \<longrightarrow>
      (\<exists>doc. Stream data = Some (Ok doc) \<and> says (json_parse bytes) data doc)) \<and>
    (\<forall>bytes. writeGzipJSON D G data = Some (Ok (), bytes) \<longrightarrow>
      (\<exists>doc. Stream data = Some (Ok doc) \<and> says (Option.bind (inflate bytes) json_parse) data doc))"
proof (intro conjI allI impI)
  fix bytes
  assume "write_plain_file D data = Some (Ok (), bytes)"
  then obtain w where "StreamTo value_text (dk_write D) data = Some (Ok (), w)" "bytes = bw_out w"
    by (auto simp: write_plain_file_def split: option.splits)
  then show "\<exists>doc. Stream data = Some (Ok doc) \<and> says (json_parse bytes) data doc" using streamed_reads_back by blast
next
  fix bytes
  assume "writeGzipJSON D G data = Some (Ok (), bytes)"
  then obtain w where "StreamTo value_text (gz_write G) data = Some (Ok (), w)" "bytes = gz_file G (bw_out w)"
    by (auto simp: writeGzipJSON_def split: option.splits)
  then show "\<exists>doc. Stream data = Some (Ok doc) \<and> says (Option.bind (inflate bytes) json_parse) data doc"
    using streamed_reads_back assms by fastforce
qed

definition free_disk :: disk where
  "free_disk = \<lparr>dk_create = None, dk_write = (\<lambda>_ _. None)\<rparr>"

lemma recorded_streams:
  obtains w where "Stream (buildMissionDataUnlocked recorded) = Some (Ok recorded_doc)"
    "StreamTo value_text (\<lambda>_ _. None) (buildMissionDataUnlocked recorded) = Some (Ok (), w)" "export_depth recorded_doc \<le> max_depth"
proof -
  let ?data = "buildMissionDataUnlocked recorded"
  have s: "Stream ?data = Some (Ok recorded_doc)"
    using Stream_Build_aux [OF recorded_Build wf_export_data(1) [OF wf_recorded] recorded_shape] recorded_doc_ok
    by (simp add: Encode_def)
  then obtain m wo where mw: "md_Mission ?data = Some m" "md_World ?data = Some wo"
    by (auto simp: Stream_def Let_def split: prod.splits option.splits)
  obtain w where w: "StreamTo value_text (\<lambda>_ _. None) ?data = Some (Ok (), w)"
    using StreamTo_bytes [OF s mw, of value_text "\<lambda>_ _. None"] by (auto simp: result_of_def willing_def)
  have "export_depth recorded_doc \<le> max_depth"
    by (simp add: export_depth_def max_depth_def rows_depth_def rows_value_def recorded_doc_def recorded_entity_def
        zero_entity_def soldier_row_def pos3_list_def AFloats_def example_state_def origin_def)
  then show thesis by (rule that [OF s w])
qed

theorem exported_file_reads_back_witness:
  "\<exists>bytes. write_plain_file free_disk (buildMissionDataUnlocked recorded) = Some (Ok (), bytes) \<and>
     json_parse bytes = Some (export_tree (unfilled (buildMissionDataUnlocked recorded)) recorded_doc)"
proof -
  obtain w where s: "Stream (buildMissionDataUnlocked recorded) = Some (Ok recorded_doc)"
    and w: "StreamTo value_text (\<lambda>_ _. None) (buildMissionDataUnlocked recorded) = Some (Ok (), w)"
    and d: "export_depth recorded_doc \<le> max_depth" by (rule recorded_streams)
  have f: "write_plain_file free_disk (buildMissionDataUnlocked recorded) = Some (Ok (), bw_out w)"
    using w by (simp add: write_plain_file_def free_disk_def)
  have "\<forall>s. Some (gz_file \<lparr>gz_write = (\<lambda>_ _. None), gz_file = id\<rparr> s) = Some s" by simp
  from exported_file_reads_back [of Some, OF this] f s d show ?thesis by (fastforce simp: says_def)
qed

text \<open>
  A compressed file whose end could not be written counts as written: the error of closing it is not looked at. Nothing of
  this export can be read.
\<close>

theorem truncated_gzip_counts_as_written:
  "\<exists>G bytes. writeGzipJSON free_disk G (buildMissionDataUnlocked recorded) = Some (Ok (), bytes) \<and> bytes = []"
proof -
  obtain w where "StreamTo value_text (\<lambda>_ _. None) (buildMissionDataUnlocked recorded) = Some (Ok (), w)"
    using recorded_streams by blast
  then show ?thesis
    by (intro exI [of _ "\<lparr>gz_write = (\<lambda>_ _. None), gz_file = (\<lambda>_. [])\<rparr>"] exI [of _ "[]"]) (simp add: writeGzipJSON_def free_disk_def)
qed

end
