(* ===== verification/A3_Answers.thy ===== *)
theory A3_Answers
  imports A3_Interface Json_Tree
begin

text \<open>
  The answers of rvextension.go as JSON texts: what is given to \<open>formatDispatchResponse\<close> is what a reader of the
  answer gets.
\<close>

text \<open>A string that can stand between quotes as it is: \<open>formatDispatchResponse\<close> does not escape its strings.\<close>

definition plain_string :: "string \<Rightarrow> bool" where
  "plain_string s \<longleftrightarrow> (\<forall>c \<in> set s. 32 \<le> byte c \<and> byte c < 128 \<and> c \<noteq> dquote \<and> c \<noteq> CHR 0x5C)"

lemma json_chars_plain_string: "plain_string s \<Longrightarrow> json_chars (s @ dquote # r) = Some (s, r)"
  by (induction s) (simp_all add: plain_string_def json_chars.simps [of "dquote # r"] json_chars_plain)

lemma plain_string_clean: "plain_string s \<Longrightarrow> utf8_clean s = s"
  by (simp add: plain_string_def ascii_valid)

lemma parses_plain: "plain_string s \<Longrightarrow> parses_as (dquote # s @ [dquote]) (JStr s) 0"
  by (rule parses_asI) (simp_all add: opens_value_def json_chars_plain_string skip_ws_def)

lemma json_chars_ok: "json_chars (CHR ''o'' # CHR ''k'' # dquote # r) = Some (''ok'', r)"
  using json_chars_plain_string [of "''ok''" r] by (simp add: plain_string_def)

text \<open>An array of the word \<open>ok\<close> and a value, with the blank that the answers have between them.\<close>

definition ok_text :: "string \<Rightarrow> string" where
  "ok_text t = ''['' @ [dquote] @ ''ok'' @ [dquote] @ '', '' @ t @ '']''"

lemma ok_text_parses:
  assumes "parses_as t j k" "k < max_depth"
  shows "json_parse (ok_text t) = Some (JArr [JStr ''ok'', j])"
proof -
  define n where "n = 2 * length t + 15"
  have blank: "json_value f d (CHR 0x20 # s) = json_value f d s" for f d s by (cases f) (simp_all add: skip_ws_def)
  have len: "2 * length (ok_text t) + 2 = Suc (Suc (Suc n))" by (simp add: ok_text_def n_def)
  have ok: "json_value (Suc f) d (dquote # CHR ''o'' # CHR ''k'' # dquote # r) = Some (JStr ''ok'', r)" for f d r
    by (simp add: json_chars_ok)
  have val: "json_value n (Suc 0) (t @ '']'') = Some (j, '']'')"
    using assms by (simp add: parses_as_def n_def)
  show ?thesis
    unfolding json_parse_def len using assms(2) val
    by (simp add: ok_text_def skip_ws_def json_chars_ok blank)
qed

text \<open>
  C32. What a handler returned is what the game is told: the answer is a JSON array of \<open>ok\<close> and the value, and the value
  comes back as it was. Every integer of 64 bits, every float of either width, every list and map keeps its value; strings that need no
  escapes do. Nothing is said of the values that encoding/json refuses, which are answered with an error.
\<close>

theorem answers_read_back:
  assumes "any_ok v" "go_value v" "any_depth v < max_depth" "\<forall>s. v = AString s \<longrightarrow> plain_string s"
  shows "\<exists>j. json_parse (formatDispatchResponse T c v None) = Some (JArr (JStr ''ok'' # (if v = ANil then [] else [j]))) \<and>
    reads_as v j"
proof -
  note r = tree_reads_as [OF assms(1,2)] and p = parses_text [OF assms(1)]
  have "formatDispatchResponse T c v None = ok_text (json_text v) \<or> v = ANil \<or> (\<exists>s. v = AString s)"
    using assms(1) by (cases v) (simp_all add: formatDispatchResponse_def marshal_def ok_text_def)
  then consider (a) "formatDispatchResponse T c v None = ok_text (json_text v)" "v \<noteq> ANil" | (n) "v = ANil" | (s) s where "v = AString s"
    by blast
  then show ?thesis
  proof cases
    case a
    then show ?thesis using ok_text_parses [OF p assms(3)] r by auto
  next
    case n
    have "json_parse (''['' @ [dquote] @ ''ok'' @ [dquote] @ '']'') = Some (JArr [JStr ''ok''])" by code_simp
    with n show ?thesis by (simp add: formatDispatchResponse_def)
  next
    case s
    then have "plain_string s" using assms(4) by simp
    from ok_text_parses [OF parses_plain [OF this]] show ?thesis
      using s plain_string_clean [OF \<open>plain_string s\<close>] by (simp add: formatDispatchResponse_def ok_text_def max_depth_def)
  qed
qed

theorem answers_read_back_witness:
  "\<forall>T. \<exists>j. json_parse (formatDispatchResponse T ''X'' (AMap [(''frame'', AInt 12), (''at'', ASlice [AFloat (FNum (1 / 2)), AFloat32 FNegZero])]) None) =
      Some (JArr [JStr ''ok'', j]) \<and>
    reads_as (AMap [(''frame'', AInt 12), (''at'', ASlice [AFloat (FNum (1 / 2)), AFloat32 FNegZero])]) j"
proof
  fix T
  have "is_float binary64 (FNum (1 / 2))" "is_float binary32 FNegZero" by code_simp+
  then have "go_value (AMap [(''frame'', AInt 12), (''at'', ASlice [AFloat (FNum (1 / 2)), AFloat32 FNegZero])])" by simp
  from answers_read_back [OF _ this, of T "''X''"]
  show "\<exists>j. json_parse (formatDispatchResponse T ''X'' (AMap [(''frame'', AInt 12), (''at'', ASlice [AFloat (FNum (1 / 2)), AFloat32 FNegZero])]) None) =
      Some (JArr [JStr ''ok'', j]) \<and>
    reads_as (AMap [(''frame'', AInt 12), (''at'', ASlice [AFloat (FNum (1 / 2)), AFloat32 FNegZero])]) j"
    by (simp add: finite_f64_def max_depth_def)
qed

end
