(* ===== verification/Module_Path.thy ===== *)
theory Module_Path
  imports A3_Interface
begin

text \<open>
  modulepath.go of pkg/a3interface: the path of the library, asked of the loader of the operating system in C. The loaders
  are parameters. On Windows the buffer for the path is doubled until the path fits; its size is a DWORD, so doubling wraps
  around at 32 bits.
\<close>

type_synonym DWORD = "32 word"

section \<open>The loaders\<close>

text \<open>
  \<open>wl_realloc n size\<close>: the \<open>n\<close>-th call gives memory. \<open>GetModuleFileNameA\<close> answers a number, and writes a C string into
  the buffer.
\<close>

record windows_loader =
  wl_GetModuleHandleExA :: bool
  wl_realloc :: "nat \<Rightarrow> DWORD \<Rightarrow> bool"
  wl_GetModuleFileNameA :: "DWORD \<Rightarrow> DWORD \<times> string"

text \<open>\<open>ll_dladdr\<close> is \<open>None\<close> when the call fails; the name in its answer may be a null pointer.\<close>

record linux_loader =
  ll_dladdr :: "string option option"
  ll_strdup :: bool

datatype loader = Windows windows_loader | Linux linux_loader

section \<open>GetModulePath\<close>

definition MAX_PATH :: DWORD where "MAX_PATH = 260"

text \<open>The C functions return a string or a null pointer; the loop may not end.\<close>

partial_function (option) file_name_loop :: "windows_loader \<Rightarrow> nat \<Rightarrow> DWORD \<Rightarrow> string option option" where
  "file_name_loop W n sz =
     (if \<not> wl_realloc W n sz then Some None
      else case wl_GetModuleFileNameA W sz of (result, buffer) \<Rightarrow>
        if result = 0 then Some None
        else if result < sz then Some (Some buffer)
        else file_name_loop W (Suc n) (sz * 2))"

definition c_GetModulePath :: "loader \<Rightarrow> string option option" where
  "c_GetModulePath L = (case L of
     Windows W \<Rightarrow> if \<not> wl_GetModuleHandleExA W then Some None else file_name_loop W 0 MAX_PATH
   | Linux D \<Rightarrow> (case ll_dladdr D of
       Some (Some dli_fname) \<Rightarrow> Some (if ll_strdup D then Some dli_fname else None)
     | _ \<Rightarrow> Some None))"

text \<open>\<open>C.GoString\<close> of a null pointer is the empty string.\<close>

definition GetModulePath :: "loader \<Rightarrow> string option" where
  "GetModulePath L = map_option (\<lambda>modPath. case modPath of None \<Rightarrow> [] | Some s \<Rightarrow> c_string s) (c_GetModulePath L)"

section \<open>It returns\<close>

text \<open>
  What the documentation of \<open>GetModuleFileNameA\<close> says: the length of the path if it fits with its zero byte, and otherwise
  the size of the buffer, with the path cut off.
\<close>

definition names :: "windows_loader \<Rightarrow> string \<Rightarrow> bool" where
  "names W path \<longleftrightarrow> (\<forall>size. wl_GetModuleFileNameA W size =
     (if length path < unat size then (of_nat (length path), path) else (size, take (unat size) path)))"

lemma doubled: "Suc k \<le> m \<Longrightarrow> MAX_PATH * 2 ^ (m - Suc k) * 2 = MAX_PATH * 2 ^ (m - k)"
proof -
  assume "Suc k \<le> m"
  then have "m - k = Suc (m - Suc k)" by simp
  then show ?thesis by (simp only: power_Suc) simp
qed

text \<open>After 30 doublings the size is 0, and with a buffer of size 0 the answer is 0.\<close>

lemma file_name_loop_returns:
  assumes "names W path"
  shows "k \<le> 30 \<Longrightarrow> file_name_loop W n (MAX_PATH * 2 ^ (30 - k)) \<in> {Some None, Some (Some path)}"
proof (induction k arbitrary: n)
  case 0
  have "MAX_PATH * 2 ^ 30 = 0" by (simp add: MAX_PATH_def)
  then show ?case using assms by (subst file_name_loop.simps) (simp add: names_def)
next
  case (Suc k)
  let ?size = "MAX_PATH * 2 ^ (30 - Suc k)"
  have "?size * 2 = MAX_PATH * 2 ^ (30 - k)"
    by (rule doubled [OF Suc.prems])
  then have "file_name_loop W (Suc n) (?size * 2) \<in> {Some None, Some (Some path)}" using Suc by simp
  then show ?case using assms by (subst file_name_loop.simps) (simp add: names_def split: prod.split)
qed

lemma file_name_loop_finds:
  assumes "names W path" "path \<noteq> []" "\<forall>n size. wl_realloc W n size" "length path < 260 * 2 ^ 23"
  shows "k \<le> 23 \<Longrightarrow> file_name_loop W n (MAX_PATH * 2 ^ (23 - k)) = Some (Some path)"
proof (induction k arbitrary: n)
  case 0
  have u: "unat (MAX_PATH * 2 ^ 23) = 260 * 2 ^ 23" by (simp add: MAX_PATH_def)
  have l: "unat (of_nat (length path) :: DWORD) = length path" using assms(4) by (simp add: unat_of_nat)
  then have "(of_nat (length path) :: DWORD) < MAX_PATH * 2 ^ 23" using assms(4) u by (simp only: word_less_nat_alt)
  moreover have "(of_nat (length path) :: DWORD) \<noteq> 0" using l assms(2) by (metis length_0_conv unat_0)
  ultimately show ?case using assms u by (subst file_name_loop.simps) (simp add: names_def)
next
  case (Suc k)
  let ?size = "MAX_PATH * 2 ^ (23 - Suc k)"
  have d: "?size * 2 = MAX_PATH * 2 ^ (23 - k)"
    by (rule doubled [OF Suc.prems])
  have rest: "file_name_loop W (Suc n) (?size * 2) = Some (Some path)" using Suc d by simp
  have "(260 :: nat) * 2 ^ (23 - Suc k) \<le> 260 * 2 ^ 23" by (intro mult_le_mono2 power_increasing) simp_all
  then have "260 * 2 ^ (23 - Suc k) < (2 :: nat) ^ 32" by (rule le_less_trans) simp
  moreover have "?size = of_nat (260 * 2 ^ (23 - Suc k))" by (simp add: MAX_PATH_def)
  ultimately have u: "unat ?size = 260 * 2 ^ (23 - Suc k)" by (simp only: unat_of_nat mod_less len_num0 len_num1 len_bit0 len_bit1) simp
  then have s0: "?size \<noteq> 0" by (metis mult_eq_0_iff power_not_zero unat_0 zero_neq_numeral)
  show ?case
  proof (cases "length path < unat ?size")
    case True
    then have l: "unat (of_nat (length path) :: DWORD) = length path" using assms(4) by (simp add: unat_of_nat)
    then have "(of_nat (length path) :: DWORD) < ?size" using True by (simp only: word_less_nat_alt)
    moreover have "(of_nat (length path) :: DWORD) \<noteq> 0" using l assms(2) by (metis length_0_conv unat_0)
    ultimately show ?thesis using assms True by (subst file_name_loop.simps) (simp add: names_def)
  next
    case False
    then show ?thesis using assms s0 rest by (subst file_name_loop.simps) (simp add: names_def)
  qed
qed

text \<open>
  C39. Asking Windows for the path of the library always returns, although the size of the buffer wraps around, with the path
  or with the empty string; with memory enough it is the path, however long, up to two billion bytes. On Linux
  it is the path too.
\<close>

theorem module_path_returns:
  assumes "CHR 0x00 \<notin> set path"
  shows "(names W path \<longrightarrow> GetModulePath (Windows W) \<in> {Some [], Some path}) \<and>
    (names W path \<and> wl_GetModuleHandleExA W \<and> (\<forall>n size. wl_realloc W n size) \<and> length path < 260 * 2 ^ 23 \<longrightarrow>
       GetModulePath (Windows W) = Some path) \<and>
    (ll_dladdr D = Some (Some path) \<and> ll_strdup D \<longrightarrow> GetModulePath (Linux D) = Some path)"
proof -
  have c: "c_string path = path" using assms by (auto simp: c_string_def takeWhile_eq_all_conv)
  have start: "MAX_PATH = MAX_PATH * 2 ^ (30 - 30)" "MAX_PATH = MAX_PATH * 2 ^ (23 - 23)" by simp_all
  have "GetModulePath (Windows W) \<in> {Some [], Some path}" if "names W path"
    using file_name_loop_returns [OF that, of 30 0] c by (auto simp: GetModulePath_def c_GetModulePath_def)
  moreover have "GetModulePath (Windows W) = Some path"
    if "names W path" "wl_GetModuleHandleExA W" "\<forall>n size. wl_realloc W n size" "length path < 260 * 2 ^ 23"
  proof (cases "path = []")
    case True
    have "file_name_loop W 0 MAX_PATH = Some None"
      using that True by (subst file_name_loop.simps) (simp add: names_def MAX_PATH_def)
    then show ?thesis using that True by (simp add: GetModulePath_def c_GetModulePath_def)
  next
    case False
    from file_name_loop_finds [OF that(1) False that(3,4), of 23 0] show ?thesis
      using that c by (simp add: GetModulePath_def c_GetModulePath_def)
  qed
  ultimately show ?thesis using c by (auto simp: GetModulePath_def c_GetModulePath_def)
qed

definition example_loader :: "string \<Rightarrow> windows_loader" where
  "example_loader path = \<lparr>wl_GetModuleHandleExA = True, wl_realloc = (\<lambda>_ _. True),
     wl_GetModuleFileNameA = (\<lambda>size. if length path < unat size then (of_nat (length path), path) else (size, take (unat size) path))\<rparr>"

theorem module_path_returns_witness:
  "GetModulePath (Windows (example_loader (replicate 300 CHR ''p''))) = Some (replicate 300 CHR ''p'') \<and>
   GetModulePath (Linux \<lparr>ll_dladdr = Some (Some ''/ocap.so''), ll_strdup = True\<rparr>) = Some ''/ocap.so''"
proof -
  have "names (example_loader p) p" for p by (simp add: names_def example_loader_def)
  moreover have "wl_GetModuleHandleExA (example_loader p)" "wl_realloc (example_loader p) n size" for p n size
    by (simp_all add: example_loader_def)
  ultimately show ?thesis
    using module_path_returns [of "replicate 300 CHR ''p''" "example_loader (replicate 300 CHR ''p'')"]
      module_path_returns [of "''/ocap.so''" "example_loader []" "\<lparr>ll_dladdr = Some (Some ''/ocap.so''), ll_strdup = True\<rparr>"]
    by simp
qed

end
