(* ===== verification/Spec2Isabelle.thy ===== *)
theory Spec2Isabelle
  imports Export_Properties Memory_Properties Parser_Properties Dispatcher_Properties Worker_Properties
    A3_Properties Lifecycle_Properties Websocket_Properties Postgres_Properties
    Export_Bytes_Properties Document_Types
    Upload_Properties Sqlite_Dump Schema
    Startup_Properties Export_Json_Properties A3_Answers Module_Path
begin

text \<open>
  The OCAP recorder extension, a Go library that ArmA 3 loads. The game calls it with a command and
  strings for everything that happens in a mission; the extension parses the strings, records what
  they say in a storage backend, and at the end writes the recording as one JSON document that
  a player of the OCAP web frontend replays.

  The parts, in the direction of the data, and the theories that model them:

  \<^item> internal/util/util.go, internal/geo/geo.go and polyline.go: \<open>Util\<close>, \<open>Geo\<close>. Quotes, weapon
    arrays, coordinates.
  \<^item> internal/parser: \<open>Parser_Base\<close> (parser.go, types.go), \<open>Parser_Entities\<close> (parse_soldier.go,
    parse_vehicle.go, parse_marker.go, parse_placed.go, parse_chat.go, parse_ace3.go,
    parse_focus.go), \<open>Parser_Events\<close> (parse_events.go), \<open>Parser_Mission\<close> (parse_mission.go).
    One function per parser, from the list of arguments to an \<open>outcome\<close>: a value, an error of the
    code, or a panic. Every parser of the package is modelled. \<open>Parser_Entities_Facts\<close> has the
    texts the game sends and what reading them back needs.
  \<^item> pkg/core: \<open>Core_Types\<close>, one record per struct, with Go's integer widths.
  \<^item> internal/dispatcher/dispatcher.go: \<open>Dispatcher\<close>. A registration builds a value of \<open>wrapped\<close> for
    the closures of the code; channels are allocated in \<open>d_bufs\<close>. Callers and the goroutines of
    the buffers interleave as the steps of \<open>dstep\<close>; \<open>druns\<close> are the runs. \<open>Dispatcher_Facts\<close>
    has the invariant of every run and its accounts.
  \<^item> internal/worker: \<open>Worker\<close>, the 24 handlers of dispatch.go and their registration, over any backend.
    \<open>Worker_Facts\<close> states what a backend promises as the locale \<open>backend_contract\<close>, interprets it on
    the memory backend, and relates the caches to the backend.
  \<^item> internal/cache, internal/queue: \<open>Cache\<close>, \<open>Queue\<close>.
  \<^item> internal/storage/storage.go: \<open>Storage\<close>, the interface as the data type of its calls.
  \<^item> internal/storage/memory/memory.go and export.go: \<open>Memory\<close>. Marker records are shared by two maps, so
    they live in a store of their own, \<open>b_heap\<close>. \<open>Memory_Facts\<close> has the locale \<open>record_store\<close>
    that soldiers, vehicles and placed objects share, and the invariant of all operations.
  \<^item> internal/storage/memory/export/v1: \<open>Export_Types\<close> (types.go), \<open>Export_Build\<close> (builder.go),
    \<open>Export_Stream\<close> (stream.go), \<open>Export_Facts\<close>. \<open>Build\<close> makes the document in memory, \<open>Stream\<close>
    writes the same document while it makes it.
  \<^item> stream.go once more, as the bytes it writes through bufio to a disk that may fail: \<open>Export_Bytes\<close>,
    \<open>Export_Bytes_Facts\<close>, over any encoder of single values. \<open>Export_Json\<close> has the one of encoding/json with the
    struct tags of types.go, and what a reader of the file gets.
  \<^item> pkg/a3interface (rvextension.go, extensioncallback.go, defs.go): \<open>A3_Interface\<close>, \<open>A3_Answers\<close>. The exported functions
    the game calls, from C strings to the bytes of the answer, and the callbacks into the game. \<open>Module_Path\<close>
    (modulepath.go): the C code that asks Windows or Linux for the path of the library.
  \<^item> cmd/ocap_recorder: \<open>Mission_Save\<close> (mission_save.go) and \<open>Lifecycle\<close> (main.go, storage.go): the commands
    that start and save a mission and set the storage up, over the dispatcher. The goroutines they start
    run interleaved with the dispatcher's as the steps \<open>sys_step\<close>, the save worker as \<open>sstep\<close> over any
    backend. \<open>Lifecycle_Facts\<close> has the invariant of the whole system, which the locale \<open>view_relation\<close>
    of \<open>Worker_Facts\<close> carries over from the workers.
  \<^item> internal/storage/websocket and pkg/streaming: \<open>Websocket_Connection\<close> (connection.go), the goroutines of
    the connection as the steps \<open>cstep\<close>; \<open>Websocket_Backend\<close> (websocket.go, messages.go);
    \<open>Websocket_Facts\<close>.
  \<^item> internal/model and internal/model/convert: \<open>DB_Rows\<close>, the rows and the conversions to them.
  \<^item> internal/storage/postgres and internal/storage/sqlite: \<open>Postgres\<close>, the backend and its writer, which
    interleave as the steps \<open>pstep\<close>; \<open>Postgres_Facts\<close>; the dumps of SQLite in \<open>Sqlite_Dump\<close>; the tables of
    the schema in \<open>Schema\<close>.
  \<^item> internal/api/client.go: \<open>Upload\<close>, the form byte for byte as the goroutine writes it into its pipe.
  \<^item> internal/logging and internal/otel: \<open>Logging\<close>, handlers as trees with destinations that may fail; what a
    handler promises is the locale \<open>slog_handler\<close>. internal/config: \<open>Config\<close>, over any viper.
  \<^item> \<open>init\<close> of cmd/ocap_recorder/main.go and filesystem.go of pkg/a3interface: \<open>Startup\<close>, over an operating
    system whose every call may fail. The system it makes is the one \<open>Lifecycle\<close> starts with.

  Below them: \<open>Prelude\<close> (integers, errors, outcomes, Go's maps as association lists), \<open>GoStrings\<close>
  (strings and strconv on integers and booleans), \<open>GoFloat\<close> and \<open>GoParseFloat\<close> (IEEE 754 numbers and
  strconv.ParseFloat), \<open>GoValues\<close> (values of type any, time), \<open>GoJson\<close> (encoding/json's decoding), \<open>Json_Text\<close>
  (its encoding), \<open>Json_Facts\<close>, \<open>Float_Text\<close> and \<open>Json_Tree\<close> (the one undoes the other).
  \<open>Examples\<close> and the theories named \<open>_Properties\<close> hold the properties, each applied to a concrete
  input by the theorem that follows it.

  Conventions. A string is the list of its bytes. A Go map is an association list without
  duplicate keys, in the order Go happens to visit it; properties of exports say that this order
  does not matter. An int is kept below its bounds by explicit conversions; uint16, uint64 and uint
  are words. A float64 is a finite rational, signed zeros included as one zero unless the sign is
  read, an infinity or NaN; a float32 is a float64 rounded to binary32. What Go leaves to the
  processor, converting a float out of range to an integer, is the parameter \<open>platform\<close>. The
  clock and the failures of the file system are parameters too. A loop that need not end
  is a \<open>partial_function\<close> whose value is \<open>None\<close> when it does not return; that exports return is a
  property of its own. The recursion of the JSON decoder has fuel \<open>2 * length s + 2\<close>: every nested
  value consumes a byte and each byte costs at most two calls.

  What the groups of lemmas show. Parser: the messages of the game are read back as the values
  they stand for, and which inputs panic. Dispatcher: nothing is lost, duplicated or reordered,
  channels are bounded, gates hold, open channels drain. Memory: an invariant of all operations;
  states reach exactly their entity; the end of a mission writes the document and clears. Export:
  \<open>Stream\<close> refines \<open>Build\<close>, positions are dense, events in order, the export returns; and where the
  code does not do this. Worker: caches and backend agree in every interleaving.
  From one end to the other: \<open>tell_soldier\<close>, \<open>tell_vehicle\<close> and \<open>tell_marker\<close> (\<open>Recording\<close>,
  \<open>Recording_Markers\<close>) say what messages mean; every run of the dispatcher with the worker's handlers
  refines them (the locale \<open>command_simulation\<close> of \<open>Dispatcher_Simulation\<close>), and the document shows it.
  Lifecycle: the system as loaded keeps caches and backend in agreement and saves one mission at a time,
  every save is reported once; and what a mission that starts during a save does. Game interface: answers
  stay in their buffer, panics are answered, callbacks are read back. Websocket: every message has one
  fate, the order of one write loop, bounded reconnecting; two write loops can overlap. Database: every
  row has one fate, kinds keep their order, a cycle empties the queues; a refused row blocks its kind.
  Bytes: a file written without an error is the whole document, one with an error its beginning.
  A JSON reader reads the whole document back from it, and from an answer to the game the value that a handler returned, every
  number with its value. The columns of its rows have their types (\<open>Document_Types\<close>). Upload: success means the whole file was sent.
  Loading (\<open>Startup_Properties\<close>): the library loads whatever files, configuration and OpenTelemetry do, and then
  records to memory with its defaults; an older log is kept; a log file that works gets every message of its level.

  Not modelled:
  \<^item> The text log/slog makes of a record, and OpenTelemetry behind its provider. The dispatcher's log entries and
    those of \<open>init\<close> are modelled, what parsers, handlers and backends log is not.
  \<^item> viper: what it reads of a configuration file is a parameter, with \<open>viper_laws\<close> for the defaults. Paths are cleaned
    as on Linux, not as on Windows.
  \<^item> The HTTP client and the network under internal/api: what they take and answer is \<open>upload_env\<close>. In a save's
    step whether the upload fails is a parameter.
  \<^item> gorm, SQL and the data source name of a connection: what the database answers is
    \<open>db_env\<close> and \<open>db_answer\<close>. The tables are the rows as given to gorm; what gorm's tags make of them, such
    as defaults for zero values, is not modelled. That a failed batch has given no IDs is assumed.
  \<^item> The gorilla websocket library: a connection takes or refuses a message. URLs are not parsed.
  \<^item> gzip, and the bytes of a websocket message.
  \<^item> Durations: a timer may fire at any time.
\<close>

end
